(* ===== verification/Prelude.thy ===== *)
theory Prelude
  imports Main "HOL-Library.Monad_Syntax" "HOL-Library.Word"
begin

text \<open>
  What every component shares: the collections the proofs draw their simplification rules from, the
  two's-complement arithmetic of Go's \<open>int\<close> and \<open>int64\<close> (both 64 bits wide on the
  platforms the service is built for), and a few facts on lists and options.

  Machine integers are kept as \<open>int\<close> inside the range of their type, and every operation that can
  leave that range is followed by \<open>wrap64\<close>, the reduction a 64-bit register performs; bit
  operations are done on \<open>64 word\<close> and read back with \<open>sint\<close>, which \<open>wrap64_sint\<close> shows to be
  the same reduction.
\<close>

named_theorems step_simps \<open>what a database call does, by the state of the connection\<close>
named_theorems frame_simps \<open>parts of the state an operation leaves alone\<close>
named_theorems keeps_inv \<open>preservation of the invariants by statements and handlers\<close>

section \<open>Signed 64-bit integers\<close>

abbreviation max64 :: int where "max64 \<equiv> 9223372036854775807"
abbreviation min64 :: int where "min64 \<equiv> - 9223372036854775808"

definition in64 :: "int \<Rightarrow> bool" where
  "in64 i \<longleftrightarrow> min64 \<le> i \<and> i \<le> max64"

definition wrap64 :: "int \<Rightarrow> int" where
  "wrap64 i = (i + 9223372036854775808) mod 18446744073709551616 - 9223372036854775808"

lemma in64_wrap64 [simp, intro]: "in64 (wrap64 i)"
proof -
  have "0 \<le> (i + 9223372036854775808) mod 18446744073709551616"
    and "(i + 9223372036854775808) mod 18446744073709551616 < 18446744073709551616"
    by simp_all
  then show ?thesis unfolding wrap64_def in64_def by linarith
qed

lemma wrap64_id: "in64 i \<Longrightarrow> wrap64 i = i"
proof -
  assume "in64 i"
  then have "(i + 9223372036854775808) mod 18446744073709551616 = i + 9223372036854775808"
    by (intro mod_pos_pos_trivial) (auto simp: in64_def)
  then show ?thesis by (simp add: wrap64_def)
qed

lemma wrap64_wrap64 [simp]: "wrap64 (wrap64 i) = wrap64 i"
  by (simp add: wrap64_id)

lemma wrap64_cong: "i mod 18446744073709551616 = j mod 18446744073709551616 \<Longrightarrow> wrap64 i = wrap64 j"
  unfolding wrap64_def by (simp add: mod_add_cong)

lemma wrap64_mod: "wrap64 i mod 18446744073709551616 = i mod 18446744073709551616"
  by (simp add: wrap64_def mod_diff_left_eq)

lemma wrap64_add_left [simp]: "wrap64 (wrap64 a + b) = wrap64 (a + b)"
  by (rule wrap64_cong) (metis mod_add_left_eq wrap64_mod)

lemma wrap64_add_right [simp]: "wrap64 (a + wrap64 b) = wrap64 (a + b)"
  by (metis add.commute wrap64_add_left)

lemma wrap64_sint: "wrap64 i = sint (word_of_int i :: 64 word)"
  by (simp add: wrap64_def int_word_sint)

section \<open>Lists and options\<close>

lemma bind_Some_iff: "(Option.bind x f = Some y) \<longleftrightarrow> (\<exists>z. x = Some z \<and> f z = Some y)"
  by (cases x) auto

lemma map_of_filter_fst: "map_of (filter (\<lambda>p. Q (fst p)) xs) k = (if Q k then map_of xs k else None)"
  by (induction xs) auto

lemma length_filter_partition:
  "length xs = length (filter P xs) + length (filter (\<lambda>x. \<not> P x) xs)"
  by (induction xs) auto

lemma sorted_wrt_filter: "sorted_wrt R xs \<Longrightarrow> sorted_wrt R (filter P xs)"
  by (induction xs) auto

lemma concat_pages: "concat (map (\<lambda>i. take s (drop (i * s) xs)) [0..<k]) = take (k * s) xs"
proof (induction k)
  case (Suc k)
  have "Suc k * s = k * s + s" by simp
  then show ?case using Suc by (simp only: take_add) simp
qed simp

end
