(* ===== verification/Go_Text.thy ===== *)
theory Go_Text
  imports Prelude "HOL-Library.Char_ord"
begin

text \<open>
  The functions of Go's \<open>strings\<close>, \<open>strconv\<close>, \<open>utf8\<close> and \<open>regexp\<close> packages that the service
  calls. A Go string is a list of bytes, here \<open>string\<close>, and \<open>length\<close> counts bytes as \<open>len\<close> does.
  Case mapping of text outside ASCII depends on Go's Unicode tables, which are data this
  development does not contain: \<open>to_upper\<close> and \<open>to_lower\<close> take the mapping of such text as
  an argument and use it only where a byte is not ASCII.
\<close>

section \<open>Bytes and ASCII\<close>

abbreviation byte :: "char \<Rightarrow> nat" where "byte c \<equiv> of_char c"

definition is_digit :: "char \<Rightarrow> bool" where
  "is_digit c \<longleftrightarrow> 48 \<le> byte c \<and> byte c \<le> 57"

definition is_word_char :: "char \<Rightarrow> bool" where
  "is_word_char c \<longleftrightarrow> is_digit c \<or> (65 \<le> byte c \<and> byte c \<le> 90) \<or> (97 \<le> byte c \<and> byte c \<le> 122)
     \<or> byte c = 95"

definition is_ascii :: "string \<Rightarrow> bool" where
  "is_ascii s \<longleftrightarrow> list_all (\<lambda>c. byte c < 128) s"

definition upper_char :: "char \<Rightarrow> char" where
  "upper_char c = (if 97 \<le> byte c \<and> byte c \<le> 122 then char_of (byte c - 32) else c)"

definition lower_char :: "char \<Rightarrow> char" where
  "lower_char c = (if 65 \<le> byte c \<and> byte c \<le> 90 then char_of (byte c + 32) else c)"

definition to_upper :: "(string \<Rightarrow> string) \<Rightarrow> string \<Rightarrow> string" where
  "to_upper uni s = (if is_ascii s then map upper_char s else uni s)"

definition to_lower :: "(string \<Rightarrow> string) \<Rightarrow> string \<Rightarrow> string" where
  "to_lower uni s = (if is_ascii s then map lower_char s else uni s)"

section \<open>Searching and splitting\<close>

text \<open>\<open>strings.Index\<close>, with \<open>None\<close> for -1; \<open>Contains\<close>, \<open>HasPrefix\<close>, \<open>HasSuffix\<close>, \<open>TrimPrefix\<close>.\<close>

fun str_index :: "string \<Rightarrow> string \<Rightarrow> nat option" where
  "str_index [] p = (if p = [] then Some 0 else None)"
| "str_index (c # s) p =
     (if take (length p) (c # s) = p then Some 0 else map_option Suc (str_index s p))"

definition contains :: "string \<Rightarrow> string \<Rightarrow> bool" where
  "contains s p \<longleftrightarrow> str_index s p \<noteq> None"

definition has_prefix :: "string \<Rightarrow> string \<Rightarrow> bool" where
  "has_prefix s p \<longleftrightarrow> take (length p) s = p"

definition has_suffix :: "string \<Rightarrow> string \<Rightarrow> bool" where
  "has_suffix s p \<longleftrightarrow> has_prefix (rev s) (rev p)"

definition trim_prefix :: "string \<Rightarrow> string \<Rightarrow> string" where
  "trim_prefix s p = (if has_prefix s p then drop (length p) s else s)"

lemma has_prefix_iff: "has_prefix s p \<longleftrightarrow> (\<exists>r. s = p @ r)"
  unfolding has_prefix_def by (metis append_eq_conv_conj append_take_drop_id)

lemma has_suffix_iff: "has_suffix s p \<longleftrightarrow> (\<exists>r. s = r @ p)"
  unfolding has_suffix_def has_prefix_iff by (metis rev_append rev_rev_ident)

lemma str_index_Some: "str_index s p = Some n \<Longrightarrow> n \<le> length s \<and> has_prefix (drop n s) p"
  by (induction s p arbitrary: n rule: str_index.induct)
     (auto simp: has_prefix_def split: if_splits)

lemma str_index_None: "str_index s p = None \<Longrightarrow> \<not> has_prefix (drop n s) p"
proof (induction s p arbitrary: n rule: str_index.induct)
  case (1 p)
  then show ?case by (auto simp: has_prefix_def split: if_splits)
next
  case (2 c s p)
  then show ?case by (cases n) (auto simp: has_prefix_def split: if_splits)
qed

lemma contains_iff: "contains s p \<longleftrightarrow> (\<exists>a b. s = a @ p @ b)"
proof
  assume "contains s p"
  then obtain n where "str_index s p = Some n" by (auto simp: contains_def)
  then obtain r where "drop n s = p @ r"
    using str_index_Some has_prefix_iff by blast
  then have "s = take n s @ p @ r" by (metis append_take_drop_id)
  then show "\<exists>a b. s = a @ p @ b" by blast
next
  assume "\<exists>a b. s = a @ p @ b"
  then obtain a b where "s = a @ p @ b" by blast
  then have "has_prefix (drop (length a) s) p" by (auto simp: has_prefix_iff)
  then show "contains s p" using str_index_None by (fastforce simp: contains_def)
qed

lemma contains_append: "contains t p \<Longrightarrow> contains (s @ t) p"
  by (metis contains_iff append.assoc)

text \<open>\<open>strings.Split\<close> with a separator of one byte.\<close>

fun split_on :: "char \<Rightarrow> string \<Rightarrow> string list" where
  "split_on d [] = [[]]"
| "split_on d (c # s) =
     (if c = d then [] # split_on d s
      else (case split_on d s of [] \<Rightarrow> [[c]] | p # ps \<Rightarrow> (c # p) # ps))"

text \<open>\<open>strings.Join\<close>.\<close>

fun join :: "string \<Rightarrow> string list \<Rightarrow> string" where
  "join sep [] = []"
| "join sep [s] = s"
| "join sep (s # t # ss) = s @ sep @ join sep (t # ss)"

lemma split_on_nonempty [simp]: "split_on d s \<noteq> []"
  by (cases s) (auto split: list.splits)

lemma join_split_on: "join [d] (split_on d s) = s"
proof (induction s)
  case Nil
  then show ?case by simp
next
  case (Cons c s)
  obtain p ps where sp: "split_on d s = p # ps" by (cases "split_on d s") auto
  with Cons show ?case by (cases ps) auto
qed

section \<open>UTF-8\<close>

text \<open>
  \<open>rune_size s\<close> is the number of bytes \<open>utf8.DecodeRune\<close> consumes at the front of \<open>s\<close> for a
  valid encoding, and 0 where the bytes are not one (Go then consumes one byte and yields U+FFFD).
\<close>

definition cont_byte :: "char \<Rightarrow> bool" where
  "cont_byte c \<longleftrightarrow> 128 \<le> byte c \<and> byte c \<le> 191"

definition between :: "nat \<Rightarrow> nat \<Rightarrow> char \<Rightarrow> bool" where
  "between lo hi c \<longleftrightarrow> lo \<le> byte c \<and> byte c \<le> hi"

definition rune_size :: "string \<Rightarrow> nat" where
  "rune_size s = (case s of [] \<Rightarrow> 0 | a # t \<Rightarrow>
     if byte a < 128 then 1
     else if between 194 223 a then (case t of b # _ \<Rightarrow> if cont_byte b then 2 else 0 | _ \<Rightarrow> 0)
     else if between 224 239 a then
       (case t of b # c # _ \<Rightarrow>
          if between (if byte a = 224 then 160 else 128) (if byte a = 237 then 159 else 191) b
             \<and> cont_byte c then 3 else 0
        | _ \<Rightarrow> 0)
     else if between 240 244 a then
       (case t of b # c # d # _ \<Rightarrow>
          if between (if byte a = 240 then 144 else 128) (if byte a = 244 then 143 else 191) b
             \<and> cont_byte c \<and> cont_byte d then 4 else 0
        | _ \<Rightarrow> 0)
     else 0)"

text \<open>The runes of a string, each as its own bytes; an invalid byte stands alone.\<close>

function runes :: "string \<Rightarrow> string list" where
  "runes [] = []"
| "runes (c # s) = (let n = max 1 (rune_size (c # s)) in take n (c # s) # runes (drop n (c # s)))"
  by pat_completeness auto
termination
  by (relation "measure length") (auto simp: Let_def max_def)

definition rune_count :: "string \<Rightarrow> nat" where
  "rune_count s = length (runes s)"

lemma concat_runes [simp]: "concat (runes s) = s"
proof (induction s rule: runes.induct)
  case 1
  then show ?case by simp
next
  case (2 c s)
  let ?n = "max 1 (rune_size (c # s))"
  have "concat (runes (drop ?n (c # s))) = drop ?n (c # s)" using 2 by simp
  then show ?case by (simp add: Let_def del: runes.simps take_Cons' drop_Cons' add: runes.simps(2))
qed

lemma runes_ascii: "is_ascii s \<Longrightarrow> runes s = map (\<lambda>c. [c]) s"
  by (induction s) (auto simp: is_ascii_def rune_size_def)

lemma rune_count_ascii: "is_ascii s \<Longrightarrow> rune_count s = length s"
  by (simp add: rune_count_def runes_ascii)

text \<open>Encoding a code point, and replacing each invalid byte by U+FFFD, as \<open>encoding/json\<close> does.\<close>

definition replacement :: string where
  "replacement = [CHR 0xEF, CHR 0xBF, CHR 0xBD]"

definition encode_rune :: "nat \<Rightarrow> string" where
  "encode_rune n =
     (if n < 128 then [char_of n]
      else if n < 2048 then [char_of (192 + n div 64), char_of (128 + n mod 64)]
      else if 55296 \<le> n \<and> n \<le> 57343 then replacement
      else if n < 65536 then
        [char_of (224 + n div 4096), char_of (128 + n div 64 mod 64), char_of (128 + n mod 64)]
      else if n < 1114112 then
        [char_of (240 + n div 262144), char_of (128 + n div 4096 mod 64),
         char_of (128 + n div 64 mod 64), char_of (128 + n mod 64)]
      else replacement)"

text \<open>\<open>strings.TrimSpace\<close>: the white space runes of Unicode, by their UTF-8 bytes.\<close>

definition is_space_rune :: "string \<Rightarrow> bool" where
  "is_space_rune r \<longleftrightarrow> (case map byte r of
       [a] \<Rightarrow> (9 \<le> a \<and> a \<le> 13) \<or> a = 32
     | [a, b] \<Rightarrow> a = 194 \<and> (b = 133 \<or> b = 160)
     | [a, b, c] \<Rightarrow> (a = 225 \<and> b = 154 \<and> c = 128)
         \<or> (a = 226 \<and> b = 128 \<and> ((128 \<le> c \<and> c \<le> 138) \<or> c = 168 \<or> c = 169 \<or> c = 175))
         \<or> (a = 226 \<and> b = 129 \<and> c = 159)
         \<or> (a = 227 \<and> b = 128 \<and> c = 128)
     | _ \<Rightarrow> False)"

definition trim_space :: "string \<Rightarrow> string" where
  "trim_space s = concat (rev (dropWhile is_space_rune (rev (dropWhile is_space_rune (runes s)))))"

section \<open>Decimal integers\<close>

text \<open>\<open>strconv.ParseInt(s, 10, 64)\<close>, \<open>None\<close> for an error of syntax or of range.\<close>

fun digits_value :: "string \<Rightarrow> int \<Rightarrow> int option" where
  "digits_value [] acc = Some acc"
| "digits_value (c # s) acc =
     (if is_digit c then digits_value s (10 * acc + (int (byte c) - 48)) else None)"

definition parse_int :: "string \<Rightarrow> int option" where
  "parse_int s =
     (let (neg, ds) = (case s of [] \<Rightarrow> (False, s)
         | c # t \<Rightarrow> if c = CHR ''-'' then (True, t) else if c = CHR ''+'' then (False, t) else (False, s))
      in if ds = [] then None
         else case digits_value ds 0 of None \<Rightarrow> None
           | Some n \<Rightarrow> if in64 (if neg then - n else n) then Some (if neg then - n else n) else None)"

lemma parse_int_in64: "parse_int s = Some i \<Longrightarrow> in64 i"
  by (auto simp: parse_int_def Let_def split: list.splits if_splits option.splits)

text \<open>\<open>fmt.Sprintf\<close> with the verb \<open>%d\<close>.\<close>

fun show_nat :: "nat \<Rightarrow> string" where
  "show_nat n = (if n < 10 then [char_of (48 + n)] else show_nat (n div 10) @ [char_of (48 + n mod 10)])"

declare show_nat.simps [simp del]

definition show_int :: "int \<Rightarrow> string" where
  "show_int i = (if i < 0 then CHR ''-'' # show_nat (nat (- i)) else show_nat (nat i))"

lemma digits_value_append:
  "digits_value (s @ t) acc = Option.bind (digits_value s acc) (digits_value t)"
  by (induction s acc rule: digits_value.induct) auto

lemma digit_char: "d < 10 \<Longrightarrow> is_digit (char_of (48 + d)) \<and> byte (char_of (48 + d)) = 48 + d"
  by (auto simp: is_digit_def)

lemma digits_value_show_nat: "digits_value (show_nat n) 0 = Some (int n)"
proof (induction n rule: show_nat.induct)
  case (1 n)
  show ?case
  proof (cases "n < 10")
    case True
    then show ?thesis using digit_char [of n] by (simp add: show_nat.simps [of n])
  next
    case False
    have m: "n mod 10 < 10" by simp
    have "digits_value (show_nat n) 0 = Some (10 * int (n div 10) + int (n mod 10))"
      using False 1 digit_char [OF m] by (simp add: show_nat.simps [of n] digits_value_append)
    then show ?thesis by (simp add: zdiv_int zmod_int)
  qed
qed

lemma show_nat_nonempty [simp]: "show_nat n \<noteq> []"
  by (simp add: show_nat.simps [of n])

lemma show_nat_digits: "c \<in> set (show_nat n) \<Longrightarrow> is_digit c"
proof (induction n rule: show_nat.induct)
  case (1 n)
  then show ?case
    using digit_char [of n] digit_char [of "n mod 10"]
    by (auto simp: show_nat.simps [of n] split: if_splits)
qed

lemma parse_int_show_int: "in64 i \<Longrightarrow> parse_int (show_int i) = Some i"
proof -
  assume i: "in64 i"
  have hd: "hd (show_nat m) \<noteq> CHR ''-'' \<and> hd (show_nat m) \<noteq> CHR ''+''" for m
    using show_nat_digits [of "hd (show_nat m)" m] by (auto simp: is_digit_def)
  obtain c t where ct: "show_nat (nat i) = c # t" by (cases "show_nat (nat i)") auto
  show ?thesis
  proof (cases "i < 0")
    case True
    then show ?thesis using i digits_value_show_nat [of "nat (- i)"]
      by (simp add: show_int_def parse_int_def)
  next
    case False
    then show ?thesis using i ct hd [of "nat i"] digits_value_show_nat [of "nat i"]
      by (simp add: show_int_def parse_int_def)
  qed
qed

end
