(* ===== verification/Json_Values.thy ===== *)
theory Json_Values
  imports Go_Text
begin

text \<open>
  The part of Go's \<open>encoding/json\<close> the service uses. A JSON text is represented by its lexical
  tree: numbers and string literals keep the characters they are written with (a string literal
  without its quotes, escapes not yet resolved), objects keep the order and the repetitions of
  their members. What the tree leaves out is the white space between tokens, which
  \<open>json.Marshal\<close> of a \<open>json.RawMessage\<close> drops too; a text that is not JSON has no tree.
\<close>

datatype json =
    JNull
  | JBool bool
  | JNum string
  | JStr string
  | JArr "json list"
  | JObj "(string \<times> json) list"

section \<open>String literals\<close>

definition hex_value :: "char \<Rightarrow> nat option" where
  "hex_value c = (if is_digit c then Some (byte c - 48)
     else if 97 \<le> byte c \<and> byte c \<le> 102 then Some (byte c - 87)
     else if 65 \<le> byte c \<and> byte c \<le> 70 then Some (byte c - 55) else None)"

definition getu4 :: "string \<Rightarrow> nat option" where
  "getu4 s = (case s of b # u # h1 # h2 # h3 # h4 # _ \<Rightarrow>
       if b = CHR 0x5C \<and> u = CHR ''u'' then
         (case (hex_value h1, hex_value h2, hex_value h3, hex_value h4) of
            (Some w, Some x, Some y, Some z) \<Rightarrow> Some (4096 * w + 256 * x + 16 * y + z)
          | _ \<Rightarrow> None)
       else None
     | _ \<Rightarrow> None)"

definition is_surrogate :: "nat \<Rightarrow> bool" where
  "is_surrogate n \<longleftrightarrow> 55296 \<le> n \<and> n \<le> 57343"

definition utf16_pair :: "nat \<Rightarrow> nat \<Rightarrow> nat option" where
  "utf16_pair a b = (if 55296 \<le> a \<and> a \<le> 56319 \<and> 56320 \<le> b \<and> b \<le> 57343
     then Some (65536 + (a - 55296) * 1024 + (b - 56320)) else None)"

definition simple_escape :: "char \<Rightarrow> char option" where
  "simple_escape e =
     (if e = CHR 0x22 \<or> e = CHR 0x5C \<or> e = CHR ''/'' \<or> e = CHR 0x27 then Some e
      else if e = CHR ''b'' then Some (CHR 0x08) else if e = CHR ''f'' then Some (CHR 0x0C)
      else if e = CHR ''n'' then Some (CHR 0x0A) else if e = CHR ''r'' then Some (CHR 0x0D)
      else if e = CHR ''t'' then Some (CHR 0x09) else None)"

text \<open>
  \<open>unquote\<close> resolves the escapes of a literal and replaces bytes that are not UTF-8. The scanner
  admits no other escapes than those here, so the branches that stop are not reached on a literal.
\<close>

function unquote :: "string \<Rightarrow> string" where
  "unquote [] = []"
| "unquote (c # s) =
     (if c = CHR 0x5C then
        (case s of [] \<Rightarrow> []
         | e # t \<Rightarrow>
            if e = CHR ''u'' then
              (case getu4 (c # s) of
                 None \<Rightarrow> []
               | Some r \<Rightarrow>
                   if is_surrogate r then
                     (case Option.bind (getu4 (drop 5 s)) (utf16_pair r) of
                        Some p \<Rightarrow> encode_rune p @ unquote (drop 11 s)
                      | None \<Rightarrow> replacement @ unquote (drop 5 s))
                   else encode_rune r @ unquote (drop 5 s))
            else (case simple_escape e of Some x \<Rightarrow> x # unquote t | None \<Rightarrow> []))
      else if rune_size (c # s) = 0 then replacement @ unquote s
      else take (rune_size (c # s)) (c # s) @ unquote (drop (rune_size (c # s)) (c # s)))"
  by pat_completeness auto
termination
  by (relation "measure length") auto

lemma unquote_plain:
  "is_ascii s \<Longrightarrow> CHR 0x5C \<notin> set s \<Longrightarrow> unquote s = s"
  by (induction s) (auto simp: is_ascii_def rune_size_def)

section \<open>Writing\<close>

text \<open>
  \<open>json.Marshal\<close> of a list of \<open>json.RawMessage\<close>: the compact text of each, with \<open><\<close>, \<open>>\<close>, \<open>&\<close>,
  U+2028 and U+2029 escaped.
\<close>

fun html_escape :: "string \<Rightarrow> string" where
  "html_escape [] = []"
| "html_escape (c # s) =
     (if c = CHR ''<'' then CHR 0x5C # ''u003c'' @ html_escape s
      else if c = CHR ''>'' then CHR 0x5C # ''u003e'' @ html_escape s
      else if c = CHR ''&'' then CHR 0x5C # ''u0026'' @ html_escape s
      else if take 3 (c # s) = [CHR 0xE2, CHR 0x80, CHR 0xA8] then CHR 0x5C # ''u2028'' @ html_escape (drop 2 s)
      else if take 3 (c # s) = [CHR 0xE2, CHR 0x80, CHR 0xA9] then CHR 0x5C # ''u2029'' @ html_escape (drop 2 s)
      else c # html_escape s)"

definition quoted :: "string \<Rightarrow> string" where
  "quoted raw = CHR 0x22 # html_escape raw @ [CHR 0x22]"

fun json_text :: "json \<Rightarrow> string" where
  "json_text JNull = ''null''"
| "json_text (JBool b) = (if b then ''true'' else ''false'')"
| "json_text (JNum n) = n"
| "json_text (JStr raw) = quoted raw"
| "json_text (JArr xs) = ''['' @ join '','' (map json_text xs) @ '']''"
| "json_text (JObj ms) =
     ''{'' @ join '','' (map (\<lambda>m. quoted (fst m) @ '':'' @ json_text (snd m)) ms) @ ''}''"

definition marshal_raw :: "json list \<Rightarrow> string option" where
  "marshal_raw xs = Some (json_text (JArr xs))"

section \<open>Reading into a struct\<close>

text \<open>
  Each decoder takes the destination's present value and the JSON value: \<open>null\<close> leaves a plain
  destination as it is and clears a pointer, a value of the wrong kind is an error (\<open>None\<close>).
  Decoding into a struct visits the members in order; a member goes to the field of exactly that
  name, else to the first field whose name agrees up to case (the two letters outside ASCII that
  fold to ASCII ones are long s and the Kelvin sign), else nowhere.
\<close>

definition dec_string :: "string \<Rightarrow> json \<Rightarrow> string option" where
  "dec_string old v = (case v of JNull \<Rightarrow> Some old | JStr raw \<Rightarrow> Some (unquote raw) | _ \<Rightarrow> None)"

definition dec_string_ptr :: "json \<Rightarrow> string option option" where
  "dec_string_ptr v = (case v of JNull \<Rightarrow> Some None | JStr raw \<Rightarrow> Some (Some (unquote raw)) | _ \<Rightarrow> None)"

definition dec_int_ptr :: "json \<Rightarrow> int option option" where
  "dec_int_ptr v = (case v of JNull \<Rightarrow> Some None
     | JNum n \<Rightarrow> (case parse_int n of Some i \<Rightarrow> Some (Some i) | None \<Rightarrow> None) | _ \<Rightarrow> None)"

definition dec_bool_ptr :: "json \<Rightarrow> bool option option" where
  "dec_bool_ptr v = (case v of JNull \<Rightarrow> Some None | JBool b \<Rightarrow> Some (Some b) | _ \<Rightarrow> None)"

lemma dec_int_ptr_in64: "dec_int_ptr v = Some (Some i) \<Longrightarrow> in64 i"
  by (auto simp: dec_int_ptr_def parse_int_in64 split: json.splits option.splits)

fun fold_key :: "string \<Rightarrow> string" where
  "fold_key [] = []"
| "fold_key (c # s) =
     (if take 2 (c # s) = [CHR 0xC5, CHR 0xBF] then CHR ''S'' # fold_key (drop 1 s)
      else if take 3 (c # s) = [CHR 0xE2, CHR 0x84, CHR 0xAA] then CHR ''K'' # fold_key (drop 2 s)
      else upper_char c # fold_key s)"

definition struct_field :: "string list \<Rightarrow> string \<Rightarrow> string option" where
  "struct_field names key =
     (if key \<in> set names then Some key else find (\<lambda>n. fold_key n = fold_key key) names)"

fun decode_members ::
  "string list \<Rightarrow> (string \<Rightarrow> json \<Rightarrow> 'r \<Rightarrow> 'r option) \<Rightarrow> 'r \<Rightarrow> (string \<times> json) list \<Rightarrow> 'r option" where
  "decode_members names put r [] = Some r"
| "decode_members names put r ((raw, v) # ms) =
     (case struct_field names (unquote raw) of
        None \<Rightarrow> decode_members names put r ms
      | Some f \<Rightarrow> (case put f v r of None \<Rightarrow> None | Some r' \<Rightarrow> decode_members names put r' ms))"

definition decode_struct ::
  "string list \<Rightarrow> (string \<Rightarrow> json \<Rightarrow> 'r \<Rightarrow> 'r option) \<Rightarrow> 'r \<Rightarrow> json \<Rightarrow> 'r option" where
  "decode_struct names put r v =
     (case v of JNull \<Rightarrow> Some r | JObj ms \<Rightarrow> decode_members names put r ms | _ \<Rightarrow> None)"

lemma decode_members_invariant:
  assumes keep: "\<forall>f v r r'. P r \<longrightarrow> put f v r = Some r' \<longrightarrow> P r'"
  shows "P r \<Longrightarrow> decode_members names put r ms = Some r' \<Longrightarrow> P r'"
proof (induction ms arbitrary: r)
  case Nil
  then show ?case by simp
next
  case (Cons m ms)
  obtain raw v where m: "m = (raw, v)" by (cases m) auto
  show ?case
  proof (cases "struct_field names (unquote raw)")
    case None
    then show ?thesis using Cons m by simp
  next
    case (Some f)
    then obtain r1 where r1: "put f v r = Some r1" "decode_members names put r1 ms = Some r'"
      using Cons.prems(2) m by (auto split: option.splits)
    then have "P r1" using keep Cons.prems(1) by blast
    then show ?thesis using r1(2) by (rule Cons.IH)
  qed
qed

lemma decode_struct_invariant:
  assumes keep: "\<forall>f v r r'. P r \<longrightarrow> put f v r = Some r' \<longrightarrow> P r'"
    and r: "P r" and dec: "decode_struct names put r v = Some r'"
  shows "P r'"
proof (cases "v = JNull")
  case True
  then show ?thesis using r dec by (simp add: decode_struct_def)
next
  case False
  then obtain ms where "decode_members names put r ms = Some r'"
    using dec by (auto simp: decode_struct_def split: json.splits)
  then show ?thesis by (rule decode_members_invariant [OF keep r])
qed

end
