(* ===== verification/Validation.thy ===== *)
theory Validation
  imports Go_Text
begin

text \<open>
  The contract of the struct validator (\<open>github.com/go-playground/validator\<close>), which
  \<open>internal/dto/dto.go\<close> calls as \<open>validate.Struct(x)\<close>. The package is not part of the
  repository, so the service's model takes it as a parameter: a function from what the validator
  sees of a struct (for each field its name, the tags of its \<open>validate\<close> annotation and its value)
  to the errors it reports, as pairs of field name and tag. The locale \<open>struct_validator\<close> holds the
  documented laws the service relies on. \<open>reference_validate\<close> is one function with those laws.
\<close>

datatype vtag = Required | OneOf "string list" | Email | OmitEmpty | LenIs nat | MinIs nat

datatype vval = VStr string | VInt int | VBool bool | VPtr "vval option" | VSlice "nat option"

type_synonym vfield = "string \<times> vtag list \<times> vval"
type_synonym validator = "vfield list \<Rightarrow> (string \<times> string) list"

fun tag_name :: "vtag \<Rightarrow> string" where
  "tag_name Required = ''required''"
| "tag_name (OneOf _) = ''oneof''"
| "tag_name Email = ''email''"
| "tag_name OmitEmpty = ''omitempty''"
| "tag_name (LenIs _) = ''len''"
| "tag_name (MinIs _) = ''min''"

text \<open>A pointer has a value when it is not nil, whatever it points to.\<close>

fun has_value :: "vval \<Rightarrow> bool" where
  "has_value (VStr s) = (s \<noteq> [])"
| "has_value (VInt i) = (i \<noteq> 0)"
| "has_value (VBool b) = b"
| "has_value (VPtr p) = (p \<noteq> None)"
| "has_value (VSlice l) = (l \<noteq> None)"

text \<open>Tags whose meaning needs no rule of the package.\<close>

fun plainly_holds :: "vtag \<Rightarrow> vval \<Rightarrow> bool" where
  "plainly_holds Required v = has_value v"
| "plainly_holds (OneOf xs) (VStr s) = (s \<in> set xs)"
| "plainly_holds (MinIs n) (VSlice (Some k)) = (n \<le> k)"
| "plainly_holds _ _ = False"

locale struct_validator =
  fixes validate :: validator
  assumes reports_declared:
      "(f, t) \<in> set (validate fs) \<Longrightarrow> \<exists>ts v. (f, ts, v) \<in> set fs \<and> t \<in> tag_name ` set ts"
    and required_present:
      "validate fs = [] \<Longrightarrow> (f, Required # ts, v) \<in> set fs \<Longrightarrow> has_value v"
    and oneof_member:
      "validate fs = [] \<Longrightarrow> (f, [Required, OneOf xs], VStr s) \<in> set fs \<Longrightarrow> s \<in> set xs"
    and min_length:
      "validate fs = [] \<Longrightarrow> (f, [Required, MinIs n], VSlice (Some k)) \<in> set fs \<Longrightarrow> n \<le> k"
    and nothing_to_report:
      "(\<And>f ts v t. (f, ts, v) \<in> set fs \<Longrightarrow> t \<in> set ts \<Longrightarrow> plainly_holds t v) \<Longrightarrow> validate fs = []"
begin

lemma required_ptr: "validate fs = [] \<Longrightarrow> (f, Required # ts, VPtr p) \<in> set fs \<Longrightarrow> p \<noteq> None"
  using required_present by fastforce

lemma required_str: "validate fs = [] \<Longrightarrow> (f, Required # ts, VStr s) \<in> set fs \<Longrightarrow> s \<noteq> []"
  using required_present by fastforce

lemma required_min_slice:
  "validate fs = [] \<Longrightarrow> (f, [Required, MinIs n], VSlice l) \<in> set fs \<Longrightarrow> \<exists>k. l = Some k \<and> n \<le> k"
  using required_present min_length by (cases l) fastforce+

end

section \<open>A validator with these laws\<close>

fun tag_holds :: "(string \<Rightarrow> bool) \<Rightarrow> vtag \<Rightarrow> vval \<Rightarrow> bool" where
  "tag_holds email t (VPtr (Some v)) = tag_holds email t v"
| "tag_holds email (OneOf xs) (VStr s) = (s \<in> set xs)"
| "tag_holds email Email (VStr s) = email s"
| "tag_holds email (LenIs n) (VStr s) = (rune_count s = n)"
| "tag_holds email (MinIs n) (VStr s) = (n \<le> rune_count s)"
| "tag_holds email (MinIs n) (VSlice (Some k)) = (n \<le> k)"
| "tag_holds email _ _ = False"

fun first_failing :: "(string \<Rightarrow> bool) \<Rightarrow> vtag list \<Rightarrow> vval \<Rightarrow> vtag option" where
  "first_failing email [] v = None"
| "first_failing email (OmitEmpty # ts) v = (if has_value v then first_failing email ts v else None)"
| "first_failing email (Required # ts) v =
     (if has_value v then first_failing email ts v else Some Required)"
| "first_failing email (t # ts) v = (if tag_holds email t v then first_failing email ts v else Some t)"

fun reference_validate :: "(string \<Rightarrow> bool) \<Rightarrow> validator" where
  "reference_validate email [] = []"
| "reference_validate email ((f, ts, v) # fs) =
     (case first_failing email ts v of
        None \<Rightarrow> reference_validate email fs
      | Some t \<Rightarrow> (f, tag_name t) # reference_validate email fs)"

lemma first_failing_Cons:
  "first_failing email (u # ts) v = Some t \<Longrightarrow> t = u \<or> first_failing email ts v = Some t"
  by (cases u) (simp_all split: if_split_asm)

lemma first_failing_in: "first_failing email ts v = Some t \<Longrightarrow> t \<in> set ts"
proof (induction ts)
  case Nil
  then show ?case by simp
next
  case (Cons u ts)
  then show ?case using first_failing_Cons [of email u ts v t] by auto
qed

lemma reference_reports:
  "(f, t) \<in> set (reference_validate email fs) \<Longrightarrow> \<exists>ts v. (f, ts, v) \<in> set fs \<and> t \<in> tag_name ` set ts"
proof (induction fs)
  case Nil
  then show ?case by simp
next
  case (Cons x fs)
  obtain g us w where x: "x = (g, us, w)" by (cases x) auto
  show ?case
  proof (cases "(f, t) \<in> set (reference_validate email fs)")
    case True
    then show ?thesis using Cons.IH by fastforce
  next
    case False
    then obtain u where "first_failing email us w = Some u" "f = g" "t = tag_name u"
      using Cons.prems x by (auto split: option.splits)
    then show ?thesis using first_failing_in [of email us w u] x by auto
  qed
qed

lemma reference_clean:
  "reference_validate email fs = [] \<Longrightarrow> (f, ts, v) \<in> set fs \<Longrightarrow> first_failing email ts v = None"
proof (induction fs)
  case Nil
  then show ?case by simp
next
  case (Cons x fs)
  then show ?case by (cases x) (auto split: option.splits)
qed

lemma plainly_passes: "\<forall>t \<in> set ts. plainly_holds t v \<Longrightarrow> first_failing email ts v = None"
proof (induction ts)
  case (Cons t ts)
  then show ?case by (cases "(t, v)" rule: plainly_holds.cases) auto
qed simp

lemma reference_passes:
  "\<forall>(f, ts, v) \<in> set fs. \<forall>t \<in> set ts. plainly_holds t v \<Longrightarrow> reference_validate email fs = []"
  by (induction fs) (auto simp: plainly_passes)

interpretation reference: struct_validator "reference_validate email" for email
proof
  fix fs f t
  assume "(f, t) \<in> set (reference_validate email fs)"
  then show "\<exists>ts v. (f, ts, v) \<in> set fs \<and> t \<in> tag_name ` set ts" by (rule reference_reports)
next
  fix fs f ts v
  assume "reference_validate email fs = []" and "(f, Required # ts, v) \<in> set fs"
  then have "first_failing email (Required # ts) v = None" by (rule reference_clean)
  then show "has_value v" by (simp split: if_split_asm)
next
  fix fs f xs s
  assume "reference_validate email fs = []" and "(f, [Required, OneOf xs], VStr s) \<in> set fs"
  then have "first_failing email [Required, OneOf xs] (VStr s) = None" by (rule reference_clean)
  then show "s \<in> set xs" by (simp split: if_split_asm)
next
  fix fs f n k
  assume "reference_validate email fs = []" and "(f, [Required, MinIs n], VSlice (Some k)) \<in> set fs"
  then have "first_failing email [Required, MinIs n] (VSlice (Some k)) = None" by (rule reference_clean)
  then show "n \<le> k" by (simp split: if_split_asm)
next
  fix fs :: "vfield list"
  assume "\<And>f ts v t. (f, ts, v) \<in> set fs \<Longrightarrow> t \<in> set ts \<Longrightarrow> plainly_holds t v"
  then show "reference_validate email fs = []" by (intro reference_passes) blast
qed

end
