(* ===== verification/App_Errors.thy ===== *)
theory App_Errors
  imports Validation "HOL-Library.AList"
begin

text \<open>
  \<open>internal/errors/errors.go\<close>: the error value every handler answers with, its constructors, and
  the two functions that turn a database error and a validation error into one. A Go \<open>error\<close> is the
  datatype \<open>go_error\<close>: an \<open>AppError\<close>, \<open>sql.ErrNoRows\<close>, or any other error by the text its
  \<open>Error()\<close> method returns. The map of field errors is an association list with distinct keys.
\<close>

record app_error =
  ae_status :: int
  ae_message :: string
  ae_errors :: "(string \<times> string) list"

datatype go_error = App app_error | No_Rows | Other string

fun error_text :: "go_error \<Rightarrow> string" where
  "error_text (App a) = ae_message a"
| "error_text No_Rows = ''sql: no rows in result set''"
| "error_text (Other s) = s"

section \<open>Constructors\<close>

definition new_unauthorized_error :: app_error where
  "new_unauthorized_error = \<lparr>ae_status = 401, ae_message = ''Access Denied'', ae_errors = []\<rparr>"

definition new_validation_error :: "(string \<times> string) list \<Rightarrow> app_error" where
  "new_validation_error es = \<lparr>ae_status = 400, ae_message = ''Validation failed'', ae_errors = es\<rparr>"

definition new_conflict_error :: "string \<Rightarrow> app_error" where
  "new_conflict_error msg = \<lparr>ae_status = 409, ae_message = msg, ae_errors = []\<rparr>"

definition new_bad_request_error :: "string \<Rightarrow> app_error" where
  "new_bad_request_error msg = \<lparr>ae_status = 400, ae_message = msg, ae_errors = []\<rparr>"

definition new_not_found_error :: "string \<Rightarrow> app_error" where
  "new_not_found_error msg = \<lparr>ae_status = 404, ae_message = msg, ae_errors = []\<rparr>"

definition new_internal_error :: "go_error \<Rightarrow> app_error" where
  "new_internal_error err = \<lparr>ae_status = 500, ae_message = ''Internal Server Error'', ae_errors = []\<rparr>"

section \<open>Database errors\<close>

text \<open>
  \<open>sqliteUniqueRegex.FindStringSubmatch\<close>: the leftmost match of
  \<open>UNIQUE constraint failed: \w+\.(\w+)\<close>. A word run is followed by a dot, which is not a word
  character, so the greedy runs never give characters back and the match is read off in one pass.
\<close>

definition unique_literal :: string where
  "unique_literal = ''UNIQUE constraint failed: ''"

definition unique_here :: "string \<Rightarrow> string option" where
  "unique_here s =
     (if has_prefix s unique_literal then
        (let r = drop (length unique_literal) s;
             table = takeWhile is_word_char r
         in if table = [] then None
            else (case dropWhile is_word_char r of
                    [] \<Rightarrow> None
                  | d # rest \<Rightarrow>
                      if d = CHR ''.'' \<and> takeWhile is_word_char rest \<noteq> []
                      then Some (takeWhile is_word_char rest) else None))
      else None)"

fun sqlite_unique_regex :: "string \<Rightarrow> string option" where
  "sqlite_unique_regex [] = None"
| "sqlite_unique_regex (c # s) =
     (case unique_here (c # s) of Some f \<Rightarrow> Some f | None \<Rightarrow> sqlite_unique_regex s)"

definition duplicate_entry :: "string \<Rightarrow> app_error" where
  "duplicate_entry field =
     new_conflict_error (''Duplicate entry: field '' @ [CHR 39] @ field @ [CHR 39] @ '' already exists'')"

definition handle_db_error :: "(string \<Rightarrow> string) \<Rightarrow> go_error option \<Rightarrow> app_error" where
  "handle_db_error uni err = (case err of
      None \<Rightarrow> \<lparr>ae_status = 0, ae_message = [], ae_errors = []\<rparr>
    | Some e \<Rightarrow>
       (let msg = error_text e in
        if contains msg ''UNIQUE constraint failed'' then
          (case sqlite_unique_regex msg of
             Some field \<Rightarrow> duplicate_entry (to_upper uni field)
           | None \<Rightarrow>
              (case str_index msg ''UNIQUE constraint failed:'' of
                 Some idx \<Rightarrow>
                   (let sub = drop idx msg;
                        dots = split_on (CHR ''.'') sub;
                        colons = split_on (CHR '':'') sub
                    in if 1 < length dots then duplicate_entry (to_upper uni (trim_space (last dots)))
                       else if 1 < length colons then duplicate_entry (to_upper uni (trim_space (colons ! 1)))
                       else new_conflict_error ''Duplicate entry: unique constraint violated'')
               | None \<Rightarrow> new_conflict_error ''Duplicate entry: unique constraint violated''))
        else \<lparr>ae_status = 500, ae_message = msg, ae_errors = []\<rparr>))"

section \<open>Validation errors\<close>

datatype validation_result = Validation_Errors "(string \<times> string) list" | Other_Validation string

definition field_tag :: "string \<Rightarrow> string" where
  "field_tag field =
     (if field = ''FirstName'' then ''first_name''
      else if field = ''LastName'' then ''last_name''
      else if field = ''DefaultCurrency'' then ''default_currency''
      else if field = ''OrderNumber'' then ''order_number''
      else if field = ''CustomerID'' then ''customer_id''
      else if field = ''ProductID'' then ''product_id''
      else if field = ''UnitPrice'' then ''unit_price''
      else if field = ''WeightGrams'' then ''weight_grams''
      else map lower_char field)"

definition failed_on :: "string \<Rightarrow> string" where
  "failed_on t = ''Field validation failed on the '' @ [CHR 39] @ t @ [CHR 39] @ '' tag''"

definition parse_validation_error :: "validation_result \<Rightarrow> app_error" where
  "parse_validation_error r = new_validation_error (case r of
      Validation_Errors es \<Rightarrow>
        fold (\<lambda>(field, t) m. AList.update (field_tag field) (failed_on t) m) es []
    | Other_Validation txt \<Rightarrow> [(''error'', txt)])"

section \<open>What they answer\<close>

lemmas app_error_defs = new_unauthorized_error_def new_validation_error_def new_conflict_error_def
  new_bad_request_error_def new_not_found_error_def new_internal_error_def

lemma status_simps [simp]:
  "ae_status (new_validation_error es) = 400" "ae_message (new_validation_error es) = ''Validation failed''"
  "ae_status (new_conflict_error m) = 409" "ae_message (new_conflict_error m) = m"
  "ae_status (new_bad_request_error m) = 400" "ae_message (new_bad_request_error m) = m"
  "ae_status (new_not_found_error m) = 404" "ae_message (new_not_found_error m) = m"
  "ae_status (new_internal_error e) = 500" "ae_message (new_internal_error e) = ''Internal Server Error''"
  "ae_status (duplicate_entry f) = 409"
  "ae_status (parse_validation_error r) = 400"
  "ae_message (parse_validation_error r) = ''Validation failed''"
  by (simp_all add: app_error_defs duplicate_entry_def parse_validation_error_def)

lemma handle_db_error_status:
  "ae_status (handle_db_error uni (Some e)) =
     (if contains (error_text e) ''UNIQUE constraint failed'' then 409 else 500)"
  by (simp add: handle_db_error_def Let_def split: option.splits)

lemma unique_here_skip: "c \<noteq> CHR ''U'' \<Longrightarrow> unique_here (c # s) = None"
  by (simp add: unique_here_def unique_literal_def has_prefix_def)

lemma sqlite_unique_regex_skip:
  "CHR ''U'' \<notin> set pre \<Longrightarrow> sqlite_unique_regex (pre @ s) = sqlite_unique_regex s"
  by (induction pre) (auto simp: unique_here_skip)

lemma takeWhile_word: "list_all P t \<Longrightarrow> \<not> P d \<Longrightarrow> takeWhile P (t @ d # r) = t \<and> dropWhile P (t @ d # r) = d # r"
  by (induction t) auto

lemma takeWhile_word_end:
  "list_all P t \<Longrightarrow> post = [] \<or> \<not> P (hd post) \<Longrightarrow> takeWhile P (t @ post) = t"
  by (induction t) (auto, cases post, auto)

lemma not_word_dot: "\<not> is_word_char (CHR ''.'')"
  by (simp add: is_word_char_def is_digit_def)

lemma sqlite_unique_regex_match:
  assumes "list_all is_word_char t" "t \<noteq> []" "list_all is_word_char c" "c \<noteq> []"
    and "post = [] \<or> \<not> is_word_char (hd post)"
  shows "sqlite_unique_regex (unique_literal @ t @ CHR ''.'' # c @ post) = Some c"
proof -
  have "unique_here (unique_literal @ t @ CHR ''.'' # c @ post) = Some c"
    using assms takeWhile_word [OF assms(1) not_word_dot, of "c @ post"] takeWhile_word_end [OF assms(3,5)]
    by (simp add: unique_here_def has_prefix_def Let_def)
  then show ?thesis by (simp add: unique_literal_def)
qed

text \<open>The keys of the error map are distinct, one per field name that failed.\<close>

lemma parse_validation_error_keys:
  "distinct (map fst (ae_errors (parse_validation_error r)))"
proof -
  have "distinct (map fst m) \<Longrightarrow>
    distinct (map fst (fold (\<lambda>(field, t) m. AList.update (field_tag field) (failed_on t) m) es m))" for es m
    by (induction es arbitrary: m) (auto simp: distinct_update)
  then show ?thesis
    by (simp add: parse_validation_error_def new_validation_error_def split: validation_result.splits)
qed

end
