(* ===== verification/Dto_Types.thy ===== *)
theory Dto_Types
  imports Json_Values App_Errors
begin

text \<open>
  \<open>internal/dto/dto.go\<close>: the request types, as records in the order of their Go fields (a pointer is
  an option), how a JSON value is decoded into each (\<open>put_x\<close> is one member, \<open>decode_x\<close> the whole
  value, from the zero struct), and \<open>x_fields\<close>, what the validator sees of each: the fields that
  carry a \<open>validate\<close> annotation, with its tags in order.
\<close>

definition validate_struct :: "validator \<Rightarrow> vfield list \<Rightarrow> validation_result option" where
  "validate_struct V fs = (case V fs of [] \<Rightarrow> None | e # es \<Rightarrow> Some (Validation_Errors (e # es)))"

lemma validate_struct_None [simp]: "validate_struct V fs = None \<longleftrightarrow> V fs = []"
  by (simp add: validate_struct_def split: list.splits)

lemma validate_struct_valid [simp]: "V fs = [] \<Longrightarrow> validate_struct V fs = None"
  by simp

abbreviation opt_str :: "string option \<Rightarrow> vval" where "opt_str p \<equiv> VPtr (map_option VStr p)"
abbreviation opt_int :: "int option \<Rightarrow> vval" where "opt_int p \<equiv> VPtr (map_option VInt p)"

section \<open>SyncRequest\<close>

record sync_request =
  sr_model :: string
  sr_data :: "json list option"

definition zero_sync_request :: sync_request where
  "zero_sync_request = \<lparr>sr_model = [], sr_data = None\<rparr>"

definition put_sync_request :: "string \<Rightarrow> json \<Rightarrow> sync_request \<Rightarrow> sync_request option" where
  "put_sync_request f v r =
     (if f = ''model'' then map_option (\<lambda>x. r\<lparr>sr_model := x\<rparr>) (dec_string (sr_model r) v)
      else if f = ''data'' then
        (case v of JNull \<Rightarrow> Some (r\<lparr>sr_data := None\<rparr>) | JArr xs \<Rightarrow> Some (r\<lparr>sr_data := Some xs\<rparr>) | _ \<Rightarrow> None)
      else None)"

definition decode_sync_request :: "json \<Rightarrow> sync_request option" where
  "decode_sync_request v = decode_struct [''model'', ''data''] put_sync_request zero_sync_request v"

definition sync_request_fields :: "sync_request \<Rightarrow> vfield list" where
  "sync_request_fields r =
     [(''Model'', [Required, OneOf [''customers'', ''products'', ''orders'', ''employees'']], VStr (sr_model r)),
      (''Data'', [Required, MinIs 1], VSlice (map_option length (sr_data r)))]"

section \<open>CustomerDto\<close>

record customer_dto =
  cu_id :: "int option"
  cu_email :: "string"
  cu_first_name :: "string"
  cu_last_name :: "string"
  cu_default_currency :: "string option"

definition zero_customer :: customer_dto where
  "zero_customer = \<lparr>cu_id = None, cu_email = [], cu_first_name = [], cu_last_name = [], cu_default_currency = None\<rparr>"

definition customer_names :: "string list" where
  "customer_names = [''id'', ''email'', ''first_name'', ''last_name'', ''default_currency'']"

definition put_customer :: "string \<Rightarrow> json \<Rightarrow> customer_dto \<Rightarrow> customer_dto option" where
  "put_customer f v d =
     (if f = ''id'' then map_option (\<lambda>x. d\<lparr>cu_id := x\<rparr>) (dec_int_ptr v)
      else if f = ''email'' then map_option (\<lambda>x. d\<lparr>cu_email := x\<rparr>) (dec_string (cu_email d) v)
      else if f = ''first_name'' then map_option (\<lambda>x. d\<lparr>cu_first_name := x\<rparr>) (dec_string (cu_first_name d) v)
      else if f = ''last_name'' then map_option (\<lambda>x. d\<lparr>cu_last_name := x\<rparr>) (dec_string (cu_last_name d) v)
      else if f = ''default_currency'' then map_option (\<lambda>x. d\<lparr>cu_default_currency := x\<rparr>) (dec_string_ptr v)
      else None)"

definition decode_customer :: "json \<Rightarrow> customer_dto option" where
  "decode_customer v = decode_struct customer_names put_customer zero_customer v"

definition customer_fields :: "customer_dto \<Rightarrow> vfield list" where
  "customer_fields d =
     [(''Email'', [Required, Email], VStr (cu_email d)),
      (''FirstName'', [Required], VStr (cu_first_name d)),
      (''LastName'', [Required], VStr (cu_last_name d)),
      (''DefaultCurrency'', [OmitEmpty, LenIs 3], opt_str (cu_default_currency d))]"

section \<open>ProductDto\<close>

record product_dto =
  pr_id :: "int option"
  pr_name :: "string"
  pr_description :: "string option"
  pr_price :: "int option"
  pr_currency :: "string option"
  pr_active :: "bool option"
  pr_weight_grams :: "int option"

definition zero_product :: product_dto where
  "zero_product = \<lparr>pr_id = None, pr_name = [], pr_description = None, pr_price = None, pr_currency = None, pr_active = None, pr_weight_grams = None\<rparr>"

definition product_names :: "string list" where
  "product_names = [''id'', ''name'', ''description'', ''price'', ''currency'', ''active'', ''weight_grams'']"

definition put_product :: "string \<Rightarrow> json \<Rightarrow> product_dto \<Rightarrow> product_dto option" where
  "put_product f v d =
     (if f = ''id'' then map_option (\<lambda>x. d\<lparr>pr_id := x\<rparr>) (dec_int_ptr v)
      else if f = ''name'' then map_option (\<lambda>x. d\<lparr>pr_name := x\<rparr>) (dec_string (pr_name d) v)
      else if f = ''description'' then map_option (\<lambda>x. d\<lparr>pr_description := x\<rparr>) (dec_string_ptr v)
      else if f = ''price'' then map_option (\<lambda>x. d\<lparr>pr_price := x\<rparr>) (dec_int_ptr v)
      else if f = ''currency'' then map_option (\<lambda>x. d\<lparr>pr_currency := x\<rparr>) (dec_string_ptr v)
      else if f = ''active'' then map_option (\<lambda>x. d\<lparr>pr_active := x\<rparr>) (dec_bool_ptr v)
      else if f = ''weight_grams'' then map_option (\<lambda>x. d\<lparr>pr_weight_grams := x\<rparr>) (dec_int_ptr v)
      else None)"

definition decode_product :: "json \<Rightarrow> product_dto option" where
  "decode_product v = decode_struct product_names put_product zero_product v"

definition product_fields :: "product_dto \<Rightarrow> vfield list" where
  "product_fields d =
     [(''Name'', [Required], VStr (pr_name d)),
      (''Price'', [Required], opt_int (pr_price d)),
      (''Currency'', [OmitEmpty, LenIs 3], opt_str (pr_currency d))]"

section \<open>OrderDto and OrderItemDto\<close>

record order_item_dto =
  oi_id :: "int option"
  oi_product_id :: "int option"
  oi_qty :: "int option"
  oi_unit_price :: "int option"

definition zero_order_item :: order_item_dto where
  "zero_order_item = \<lparr>oi_id = None, oi_product_id = None, oi_qty = None, oi_unit_price = None\<rparr>"

definition order_item_names :: "string list" where
  "order_item_names = [''id'', ''product_id'', ''qty'', ''unit_price'']"

definition put_order_item :: "string \<Rightarrow> json \<Rightarrow> order_item_dto \<Rightarrow> order_item_dto option" where
  "put_order_item f v d =
     (if f = ''id'' then map_option (\<lambda>x. d\<lparr>oi_id := x\<rparr>) (dec_int_ptr v)
      else if f = ''product_id'' then map_option (\<lambda>x. d\<lparr>oi_product_id := x\<rparr>) (dec_int_ptr v)
      else if f = ''qty'' then map_option (\<lambda>x. d\<lparr>oi_qty := x\<rparr>) (dec_int_ptr v)
      else if f = ''unit_price'' then map_option (\<lambda>x. d\<lparr>oi_unit_price := x\<rparr>) (dec_int_ptr v)
      else None)"

definition decode_order_item :: "json \<Rightarrow> order_item_dto option" where
  "decode_order_item v = decode_struct order_item_names put_order_item zero_order_item v"

definition order_item_fields :: "order_item_dto \<Rightarrow> vfield list" where
  "order_item_fields d =
     [(''ProductID'', [Required], opt_int (oi_product_id d)),
      (''Qty'', [Required], opt_int (oi_qty d)),
      (''UnitPrice'', [Required], opt_int (oi_unit_price d))]"

text \<open>
  A slice is decoded element by element into the slots it already has: a member \<open>items\<close> that is
  repeated decodes its elements over those of the member before.
\<close>

fun decode_order_items :: "order_item_dto list \<Rightarrow> json list \<Rightarrow> order_item_dto list option" where
  "decode_order_items olds [] = Some []"
| "decode_order_items olds (v # vs) =
     (case decode_struct order_item_names put_order_item
             (case olds of [] \<Rightarrow> zero_order_item | d # _ \<Rightarrow> d) v of
        None \<Rightarrow> None
      | Some d \<Rightarrow> map_option ((#) d) (decode_order_items (tl olds) vs))"

record order_dto =
  or_id :: "int option"
  or_order_number :: string
  or_customer_id :: "int option"
  or_status :: string
  or_currency :: "string option"
  or_amount :: "int option"
  or_items :: "order_item_dto list option"

definition zero_order :: order_dto where
  "zero_order = \<lparr>or_id = None, or_order_number = [], or_customer_id = None, or_status = [],
     or_currency = None, or_amount = None, or_items = None\<rparr>"

definition order_names :: "string list" where
  "order_names = [''id'', ''order_number'', ''customer_id'', ''status'', ''currency'', ''amount'', ''items'']"

definition put_order :: "string \<Rightarrow> json \<Rightarrow> order_dto \<Rightarrow> order_dto option" where
  "put_order f v d =
     (if f = ''id'' then map_option (\<lambda>x. d\<lparr>or_id := x\<rparr>) (dec_int_ptr v)
      else if f = ''order_number'' then map_option (\<lambda>x. d\<lparr>or_order_number := x\<rparr>) (dec_string (or_order_number d) v)
      else if f = ''customer_id'' then map_option (\<lambda>x. d\<lparr>or_customer_id := x\<rparr>) (dec_int_ptr v)
      else if f = ''status'' then map_option (\<lambda>x. d\<lparr>or_status := x\<rparr>) (dec_string (or_status d) v)
      else if f = ''currency'' then map_option (\<lambda>x. d\<lparr>or_currency := x\<rparr>) (dec_string_ptr v)
      else if f = ''amount'' then map_option (\<lambda>x. d\<lparr>or_amount := x\<rparr>) (dec_int_ptr v)
      else if f = ''items'' then
        (case v of
           JNull \<Rightarrow> Some (d\<lparr>or_items := None\<rparr>)
         | JArr vs \<Rightarrow> map_option (\<lambda>xs. d\<lparr>or_items := Some xs\<rparr>)
             (decode_order_items (case or_items d of None \<Rightarrow> [] | Some xs \<Rightarrow> xs) vs)
         | _ \<Rightarrow> None)
      else None)"

definition decode_order :: "json \<Rightarrow> order_dto option" where
  "decode_order v = decode_struct order_names put_order zero_order v"

definition order_fields :: "order_dto \<Rightarrow> vfield list" where
  "order_fields d =
     [(''OrderNumber'', [Required], VStr (or_order_number d)),
      (''CustomerID'', [Required], opt_int (or_customer_id d)),
      (''Status'', [Required, OneOf [''pending'', ''paid'', ''shipped'', ''completed'', ''cancelled'', ''refunded'']],
        VStr (or_status d)),
      (''Currency'', [OmitEmpty, LenIs 3], opt_str (or_currency d))]"

section \<open>EmployeeDto\<close>

record employee_dto =
  em_id :: "string"
  em_employee_id :: "string"
  em_first_name :: "string"
  em_middle_name :: "string option"
  em_last_name :: "string"
  em_gender :: "string option"
  em_email :: "string"
  em_phone_number :: "string option"
  em_date_of_birth :: "string option"
  em_nationality :: "string option"
  em_job_level :: "string option"
  em_department :: "string option"
  em_location :: "string option"
  em_bank_account_number :: "string option"
  em_company :: "string option"
  em_job_title :: "string option"
  em_cost_center :: "string option"
  em_start_date :: "string option"
  em_employee_status :: "string option"
  em_manager_id :: "string option"
  em_manager_email :: "string option"
  em_last_modified_on :: "string option"
  em_last_modified :: "int option"

definition zero_employee :: employee_dto where
  "zero_employee = \<lparr>em_id = [], em_employee_id = [], em_first_name = [], em_middle_name = None, em_last_name = [], em_gender = None, em_email = [], em_phone_number = None, em_date_of_birth = None, em_nationality = None, em_job_level = None, em_department = None, em_location = None, em_bank_account_number = None, em_company = None, em_job_title = None, em_cost_center = None, em_start_date = None, em_employee_status = None, em_manager_id = None, em_manager_email = None, em_last_modified_on = None, em_last_modified = None\<rparr>"

definition employee_names :: "string list" where
  "employee_names = [''id'', ''employeeId'', ''firstName'', ''middleName'', ''lastName'', ''gender'', ''email'', ''phoneNumber'', ''dateOfBirth'', ''nationality'', ''jobLevel'', ''department'', ''location'', ''bankAccountNumber'', ''company'', ''jobTitle'', ''costCenter'', ''startDate'', ''employeeStatus'', ''managerId'', ''managerEmail'', ''lastModifiedOn'', ''lastModified'']"

definition put_employee :: "string \<Rightarrow> json \<Rightarrow> employee_dto \<Rightarrow> employee_dto option" where
  "put_employee f v d =
     (if f = ''id'' then map_option (\<lambda>x. d\<lparr>em_id := x\<rparr>) (dec_string (em_id d) v)
      else if f = ''employeeId'' then map_option (\<lambda>x. d\<lparr>em_employee_id := x\<rparr>) (dec_string (em_employee_id d) v)
      else if f = ''firstName'' then map_option (\<lambda>x. d\<lparr>em_first_name := x\<rparr>) (dec_string (em_first_name d) v)
      else if f = ''middleName'' then map_option (\<lambda>x. d\<lparr>em_middle_name := x\<rparr>) (dec_string_ptr v)
      else if f = ''lastName'' then map_option (\<lambda>x. d\<lparr>em_last_name := x\<rparr>) (dec_string (em_last_name d) v)
      else if f = ''gender'' then map_option (\<lambda>x. d\<lparr>em_gender := x\<rparr>) (dec_string_ptr v)
      else if f = ''email'' then map_option (\<lambda>x. d\<lparr>em_email := x\<rparr>) (dec_string (em_email d) v)
      else if f = ''phoneNumber'' then map_option (\<lambda>x. d\<lparr>em_phone_number := x\<rparr>) (dec_string_ptr v)
      else if f = ''dateOfBirth'' then map_option (\<lambda>x. d\<lparr>em_date_of_birth := x\<rparr>) (dec_string_ptr v)
      else if f = ''nationality'' then map_option (\<lambda>x. d\<lparr>em_nationality := x\<rparr>) (dec_string_ptr v)
      else if f = ''jobLevel'' then map_option (\<lambda>x. d\<lparr>em_job_level := x\<rparr>) (dec_string_ptr v)
      else if f = ''department'' then map_option (\<lambda>x. d\<lparr>em_department := x\<rparr>) (dec_string_ptr v)
      else if f = ''location'' then map_option (\<lambda>x. d\<lparr>em_location := x\<rparr>) (dec_string_ptr v)
      else if f = ''bankAccountNumber'' then map_option (\<lambda>x. d\<lparr>em_bank_account_number := x\<rparr>) (dec_string_ptr v)
      else if f = ''company'' then map_option (\<lambda>x. d\<lparr>em_company := x\<rparr>) (dec_string_ptr v)
      else if f = ''jobTitle'' then map_option (\<lambda>x. d\<lparr>em_job_title := x\<rparr>) (dec_string_ptr v)
      else if f = ''costCenter'' then map_option (\<lambda>x. d\<lparr>em_cost_center := x\<rparr>) (dec_string_ptr v)
      else if f = ''startDate'' then map_option (\<lambda>x. d\<lparr>em_start_date := x\<rparr>) (dec_string_ptr v)
      else if f = ''employeeStatus'' then map_option (\<lambda>x. d\<lparr>em_employee_status := x\<rparr>) (dec_string_ptr v)
      else if f = ''managerId'' then map_option (\<lambda>x. d\<lparr>em_manager_id := x\<rparr>) (dec_string_ptr v)
      else if f = ''managerEmail'' then map_option (\<lambda>x. d\<lparr>em_manager_email := x\<rparr>) (dec_string_ptr v)
      else if f = ''lastModifiedOn'' then map_option (\<lambda>x. d\<lparr>em_last_modified_on := x\<rparr>) (dec_string_ptr v)
      else if f = ''lastModified'' then map_option (\<lambda>x. d\<lparr>em_last_modified := x\<rparr>) (dec_int_ptr v)
      else None)"

definition decode_employee :: "json \<Rightarrow> employee_dto option" where
  "decode_employee v = decode_struct employee_names put_employee zero_employee v"

definition employee_fields :: "employee_dto \<Rightarrow> vfield list" where
  "employee_fields d =
     [(''ID'', [Required], VStr (em_id d)),
      (''EmployeeID'', [Required], VStr (em_employee_id d)),
      (''FirstName'', [Required], VStr (em_first_name d)),
      (''LastName'', [Required], VStr (em_last_name d)),
      (''Email'', [Required, Email], VStr (em_email d)),
      (''ManagerEmail'', [OmitEmpty, Email], opt_str (em_manager_email d))]"

section \<open>Decoded integers fit in 64 bits\<close>

fun opt64 :: "int option \<Rightarrow> bool" where
  "opt64 None = True"
| "opt64 (Some i) = in64 i"

definition item64 :: "order_item_dto \<Rightarrow> bool" where
  "item64 d \<longleftrightarrow> opt64 (oi_id d) \<and> opt64 (oi_product_id d) \<and> opt64 (oi_qty d) \<and> opt64 (oi_unit_price d)"

definition order64 :: "order_dto \<Rightarrow> bool" where
  "order64 d \<longleftrightarrow> opt64 (or_id d) \<and> opt64 (or_customer_id d) \<and> opt64 (or_amount d)
     \<and> (case or_items d of None \<Rightarrow> True | Some xs \<Rightarrow> list_all item64 xs)"

lemma dec_int_ptr_opt64: "dec_int_ptr v = Some p \<Longrightarrow> opt64 p"
  by (cases p) (auto dest: dec_int_ptr_in64)

lemma put_order_item_64: "item64 d \<Longrightarrow> put_order_item f v d = Some d' \<Longrightarrow> item64 d'"
  by (auto simp: put_order_item_def item64_def dest: dec_int_ptr_opt64 split: if_split_asm)

lemma zero_order_item_64 [simp]: "item64 zero_order_item"
  by (simp add: item64_def zero_order_item_def)

lemma decode_order_items_64:
  "list_all item64 olds \<Longrightarrow> decode_order_items olds vs = Some ds \<Longrightarrow> list_all item64 ds"
proof (induction olds vs arbitrary: ds rule: decode_order_items.induct)
  case (1 olds)
  then show ?case by simp
next
  case (2 olds v vs)
  let ?d0 = "case olds of [] \<Rightarrow> zero_order_item | d # _ \<Rightarrow> d"
  have d0: "item64 ?d0" using "2.prems"(1) by (cases olds) auto
  obtain d where d: "decode_struct order_item_names put_order_item ?d0 v = Some d"
    using "2.prems"(2) by (auto split: option.splits)
  then obtain ds' where ds': "decode_order_items (tl olds) vs = Some ds'" "ds = d # ds'"
    using "2.prems"(2) by auto
  have "item64 d"
    by (rule decode_struct_invariant [where P = item64, OF _ d0 d]) (blast intro: put_order_item_64)
  moreover have "list_all item64 (tl olds)" using "2.prems"(1) by (cases olds) auto
  ultimately show ?case using "2.IH" [OF d] ds' by simp
qed

lemma put_order_items_64:
  assumes "order64 d" "put_order ''items'' v d = Some d'"
  shows "order64 d'"
proof (cases v)
  case (JArr vs)
  let ?olds = "case or_items d of None \<Rightarrow> [] | Some xs \<Rightarrow> xs"
  have "list_all item64 ?olds" using assms(1) by (cases "or_items d") (auto simp: order64_def)
  moreover obtain xs where "decode_order_items ?olds vs = Some xs" "d' = d\<lparr>or_items := Some xs\<rparr>"
    using assms(2) JArr by (auto simp: put_order_def)
  ultimately show ?thesis
    using assms(1) decode_order_items_64 [of ?olds vs xs] by (simp add: order64_def)
qed (use assms in \<open>auto simp: put_order_def order64_def\<close>)

lemma put_order_64: "order64 d \<Longrightarrow> put_order f v d = Some d' \<Longrightarrow> order64 d'"
proof (cases "f = ''items''")
  case True
  then show "order64 d \<Longrightarrow> put_order f v d = Some d' \<Longrightarrow> order64 d'"
    using put_order_items_64 by simp
next
  case False
  then show "order64 d \<Longrightarrow> put_order f v d = Some d' \<Longrightarrow> order64 d'"
    by (auto simp: put_order_def order64_def dest: dec_int_ptr_opt64 split: if_split_asm)
qed

lemma decode_order_64:
  assumes "decode_order v = Some d"
  shows "order64 d"
proof -
  have keep: "\<forall>f v r r'. order64 r \<longrightarrow> put_order f v r = Some r' \<longrightarrow> order64 r'"
    using put_order_64 by blast
  have zero: "order64 zero_order" by (simp add: order64_def zero_order_def)
  show ?thesis
    by (rule decode_struct_invariant [OF keep zero assms [unfolded decode_order_def]])
qed

lemma decode_customer_id64: "decode_customer v = Some d \<Longrightarrow> opt64 (cu_id d)"
proof -
  assume dec: "decode_customer v = Some d"
  have "cu_id r' = cu_id r \<or> dec_int_ptr v = Some (cu_id r')" if "put_customer f v r = Some r'" for f v r r'
    using that by (auto simp: put_customer_def split: if_split_asm)
  then have keep: "\<forall>f v r r'. opt64 (cu_id r) \<longrightarrow> put_customer f v r = Some r' \<longrightarrow> opt64 (cu_id r')"
    by (metis dec_int_ptr_opt64)
  have zero: "opt64 (cu_id zero_customer)" by (simp add: zero_customer_def)
  show ?thesis by (rule decode_struct_invariant [OF keep zero dec [unfolded decode_customer_def]])
qed

lemma decode_product_id64: "decode_product v = Some d \<Longrightarrow> opt64 (pr_id d)"
proof -
  assume dec: "decode_product v = Some d"
  have "pr_id r' = pr_id r \<or> dec_int_ptr v = Some (pr_id r')" if "put_product f v r = Some r'" for f v r r'
    using that by (auto simp: put_product_def split: if_split_asm)
  then have keep: "\<forall>f v r r'. opt64 (pr_id r) \<longrightarrow> put_product f v r = Some r' \<longrightarrow> opt64 (pr_id r')"
    by (metis dec_int_ptr_opt64)
  have zero: "opt64 (pr_id zero_product)" by (simp add: zero_product_def)
  show ?thesis by (rule decode_struct_invariant [OF keep zero dec [unfolded decode_product_def]])
qed

end
