(* ===== verification/Row_Store.thy ===== *)
theory Row_Store
  imports Prelude
begin

text \<open>
  A table of the SQLite database as the rowid-ordered list of its rows, with the largest rowid its
  AUTOINCREMENT counter has seen. The locale \<open>keyed_rows\<close> is the interface the SQL statements use
  (lookup by rowid, write a row, delete a row), \<open>unique_rows\<close> adds a UNIQUE column; both are
  interpreted on the list representation below.
\<close>

record 'r table =
  rows :: "(int \<times> 'r) list"
  seq :: int

section \<open>Interfaces\<close>

locale keyed_rows =
  fixes empty :: "'t"
    and look :: "int \<Rightarrow> 't \<Rightarrow> 'r option"
    and put :: "int \<Rightarrow> 'r \<Rightarrow> 't \<Rightarrow> 't"
    and del :: "(int \<Rightarrow> 'r \<Rightarrow> bool) \<Rightarrow> 't \<Rightarrow> 't"
    and wf :: "'t \<Rightarrow> bool"
  assumes look_empty: "look k empty = None"
    and look_put: "wf t \<Longrightarrow> look j (put k r t) = (if j = k then Some r else look j t)"
    and look_del: "wf t \<Longrightarrow> look j (del P t) =
          (case look j t of None \<Rightarrow> None | Some r \<Rightarrow> if P j r then None else Some r)"
    and wf_empty: "wf empty"
    and wf_put: "wf t \<Longrightarrow> wf (put k r t)"
    and wf_del: "wf t \<Longrightarrow> wf (del P t)"
begin

lemma look_put_same: "wf t \<Longrightarrow> look k (put k r t) = Some r"
  by (simp add: look_put)

lemma look_put_other: "wf t \<Longrightarrow> j \<noteq> k \<Longrightarrow> look j (put k r t) = look j t"
  by (simp add: look_put)

lemma put_keeps_key: "wf t \<Longrightarrow> look j t \<noteq> None \<Longrightarrow> look j (put k r t) \<noteq> None"
  by (simp add: look_put)

lemma put_then_del:
  "wf t \<Longrightarrow> look k t = None \<Longrightarrow> (\<And>j s. look j t = Some s \<Longrightarrow> \<not> P j s) \<Longrightarrow> P k r \<Longrightarrow>
     look j (del P (put k r t)) = look j t"
  by (auto simp: look_put look_del wf_put split: option.splits)

lemma put_all:
  "wf t \<Longrightarrow> (\<And>j s. look j t = Some s \<Longrightarrow> Q j s) \<Longrightarrow> Q k r \<Longrightarrow> look j (put k r t) = Some s \<Longrightarrow> Q j s"
  by (auto simp: look_put split: if_splits)

lemma del_all:
  "wf t \<Longrightarrow> (\<And>j s. look j t = Some s \<Longrightarrow> Q j s) \<Longrightarrow> look j (del P t) = Some s \<Longrightarrow> Q j s"
  by (auto simp: look_del split: option.splits if_splits)

end

locale unique_rows = keyed_rows empty look put del wf
  for empty :: "'t" and look :: "int \<Rightarrow> 't \<Rightarrow> 'r option" and put del wf +
  fixes col :: "'r \<Rightarrow> 'c"
begin

definition unique :: "'t \<Rightarrow> bool" where
  "unique t \<longleftrightarrow> (\<forall>j k r s. look j t = Some r \<and> look k t = Some s \<and> col r = col s \<longrightarrow> j = k)"

lemma unique_empty: "unique empty"
  by (simp add: unique_def look_empty)

lemma unique_put:
  assumes "wf t" "unique t" and others: "\<forall>j s. look j t = Some s \<longrightarrow> j \<noteq> k \<longrightarrow> col s \<noteq> col r"
  shows "unique (put k r t)"
  unfolding unique_def
proof (intro allI impI)
  fix i j p q
  assume eq: "look i (put k r t) = Some p \<and> look j (put k r t) = Some q \<and> col p = col q"
  show "i = j"
  proof (cases "i = k \<or> j = k")
    case True
    with eq others show ?thesis by (auto simp: look_put [OF assms(1)] split: if_splits)
  next
    case False
    with eq assms(2) show ?thesis by (auto simp: look_put [OF assms(1)] unique_def)
  qed
qed

lemma unique_del: "wf t \<Longrightarrow> unique t \<Longrightarrow> unique (del P t)"
  unfolding unique_def by (auto simp: look_del split: option.splits if_splits)

end

section \<open>The list representation\<close>

definition empty_table :: "'r table" where
  "empty_table = \<lparr>rows = [], seq = 0\<rparr>"

definition tlookup :: "int \<Rightarrow> 'r table \<Rightarrow> 'r option" where
  "tlookup k t = map_of (rows t) k"

fun put_row :: "int \<Rightarrow> 'r \<Rightarrow> (int \<times> 'r) list \<Rightarrow> (int \<times> 'r) list" where
  "put_row k r [] = [(k, r)]"
| "put_row k r ((j, s) # xs) =
     (if k < j then (k, r) # (j, s) # xs else if k = j then (k, r) # xs else (j, s) # put_row k r xs)"

definition tput :: "int \<Rightarrow> 'r \<Rightarrow> 'r table \<Rightarrow> 'r table" where
  "tput k r t = t\<lparr>rows := put_row k r (rows t)\<rparr>"

definition tdelete :: "(int \<Rightarrow> 'r \<Rightarrow> bool) \<Rightarrow> 'r table \<Rightarrow> 'r table" where
  "tdelete P t = t\<lparr>rows := filter (\<lambda>(k, r). \<not> P k r) (rows t)\<rparr>"

definition ordered :: "'r table \<Rightarrow> bool" where
  "ordered t \<longleftrightarrow> sorted_wrt (<) (map fst (rows t))"

text \<open>The rowid of an INSERT that names none, and the insertion that also moves the counter.\<close>

definition top_rowid :: "'r table \<Rightarrow> int" where
  "top_rowid t = fold max (map fst (rows t)) (seq t)"

definition new_rowid :: "'r table \<Rightarrow> int option" where
  "new_rowid t = (if top_rowid t = max64 then None else Some (top_rowid t + 1))"

definition auto_put :: "int \<Rightarrow> 'r \<Rightarrow> 'r table \<Rightarrow> 'r table" where
  "auto_put k r t = (tput k r t)\<lparr>seq := max (seq t) k\<rparr>"

text \<open>Whether a row other than \<open>k\<close> has the value \<open>v\<close> in a column.\<close>

definition taken :: "('r \<Rightarrow> 'c) \<Rightarrow> 'c \<Rightarrow> int \<Rightarrow> 'r table \<Rightarrow> bool" where
  "taken col v k t \<longleftrightarrow> list_ex (\<lambda>(j, r). j \<noteq> k \<and> col r = v) (rows t)"

section \<open>The representation meets the interfaces\<close>

lemma set_put_row_keys: "fst ` set (put_row k r xs) = insert k (fst ` set xs)"
  by (induction k r xs rule: put_row.induct) auto

lemma sorted_put_row:
  "sorted_wrt (<) (map fst xs) \<Longrightarrow> sorted_wrt (<) (map fst (put_row k r xs))"
proof (induction k r xs rule: put_row.induct)
  case (1 k r)
  then show ?case by simp
next
  case (2 k r j s xs)
  have keys: "set (map fst (put_row k r xs)) = insert k (set (map fst xs))"
    using set_put_row_keys [of k r xs] by simp
  show ?case
  proof (cases "k < j \<or> k = j")
    case True
    then show ?thesis using 2 by auto
  next
    case False
    then show ?thesis using 2 keys by auto
  qed
qed

lemma map_of_put_row:
  "sorted_wrt (<) (map fst xs) \<Longrightarrow> map_of (put_row k r xs) = (map_of xs)(k \<mapsto> r)"
  by (induction k r xs rule: put_row.induct) (auto simp: fun_eq_iff)

lemma map_of_filter_rows:
  fixes xs :: "(int \<times> 'r) list"
  shows "sorted_wrt (<) (map fst xs) \<Longrightarrow> map_of (filter (\<lambda>(k, r). \<not> P k r) xs) j =
     (case map_of xs j of None \<Rightarrow> None | Some r \<Rightarrow> if P j r then None else Some r)"
proof (induction xs)
  case Nil
  then show ?case by simp
next
  case (Cons x xs)
  obtain k r where x: "x = (k, r)" by (cases x) auto
  have "\<forall>y \<in> set xs. k < fst y" using Cons.prems x by simp
  then have "k \<notin> fst ` set xs" by fastforce
  then have "map_of xs k = None" by (simp add: map_of_eq_None_iff)
  with Cons x show ?case by auto
qed

lemma ordered_put [intro]: "ordered t \<Longrightarrow> ordered (tput k r t)"
  by (simp add: ordered_def tput_def sorted_put_row)

lemma ordered_auto_put [intro]: "ordered t \<Longrightarrow> ordered (auto_put k r t)"
  by (simp add: ordered_def auto_put_def tput_def sorted_put_row)

lemma ordered_delete [intro]: "ordered t \<Longrightarrow> ordered (tdelete P t)"
  unfolding ordered_def tdelete_def by (auto simp: sorted_wrt_map intro: sorted_wrt_filter)

lemma tlookup_put: "ordered t \<Longrightarrow> tlookup j (tput k r t) = (if j = k then Some r else tlookup j t)"
  by (simp add: ordered_def tlookup_def tput_def map_of_put_row)

lemma tlookup_auto_put:
  "ordered t \<Longrightarrow> tlookup j (auto_put k r t) = (if j = k then Some r else tlookup j t)"
  by (simp add: ordered_def tlookup_def auto_put_def tput_def map_of_put_row)

lemma tlookup_delete:
  "ordered t \<Longrightarrow> tlookup j (tdelete P t) =
     (case tlookup j t of None \<Rightarrow> None | Some r \<Rightarrow> if P j r then None else Some r)"
  by (simp add: ordered_def tlookup_def tdelete_def map_of_filter_rows)

lemma tlookup_empty [simp]: "tlookup k empty_table = None"
  and ordered_empty [simp]: "ordered empty_table"
  by (simp_all add: tlookup_def ordered_def empty_table_def)

interpretation plain: keyed_rows empty_table tlookup tput tdelete ordered
  by unfold_locales (auto simp: tlookup_put tlookup_delete)

interpretation auto: keyed_rows empty_table tlookup auto_put tdelete ordered
  by unfold_locales (auto simp: tlookup_auto_put tlookup_delete)

lemma ordered_distinct: "ordered t \<Longrightarrow> distinct (map fst (rows t))"
  by (simp add: ordered_def strict_sorted_iff)

lemma tlookup_iff: "ordered t \<Longrightarrow> tlookup k t = Some r \<longleftrightarrow> (k, r) \<in> set (rows t)"
  by (simp add: tlookup_def map_of_eq_Some_iff ordered_distinct)

lemma not_taken_iff:
  "ordered t \<Longrightarrow> (\<not> taken col v k t) \<longleftrightarrow> (\<forall>j r. tlookup j t = Some r \<longrightarrow> j \<noteq> k \<longrightarrow> col r \<noteq> v)"
  by (auto simp: taken_def tlookup_iff list_ex_iff)

lemma fold_max_ge: "(m::int) \<le> fold max ks m \<and> (\<forall>k \<in> set ks. k \<le> fold max ks m)"
proof (induction ks arbitrary: m)
  case Nil
  then show ?case by simp
next
  case (Cons k ks)
  have "max k m \<le> fold max ks (max k m) \<and> (\<forall>j \<in> set ks. j \<le> fold max ks (max k m))"
    by (rule Cons.IH)
  moreover have "k \<le> max k m" "m \<le> max k m" by simp_all
  ultimately show ?case by (auto simp del: max.bounded_iff intro: order_trans)
qed

lemma fold_max_le: "(\<forall>k \<in> set ks. k \<le> b) \<Longrightarrow> (m::int) \<le> b \<Longrightarrow> fold max ks m \<le> b"
  by (induction ks arbitrary: m) auto

lemma new_rowid_fresh:
  assumes "ordered t" "new_rowid t = Some k"
  shows "tlookup k t = None" and "seq t < k"
    and "\<And>j r. tlookup j t = Some r \<Longrightarrow> j < k"
proof -
  have k: "k = top_rowid t + 1" using assms(2) by (simp add: new_rowid_def split: if_splits)
  show "seq t < k" using fold_max_ge [of "seq t" "map fst (rows t)"] k by (simp add: top_rowid_def)
  show less: "j < k" if "tlookup j t = Some r" for j r
  proof -
    have "j \<in> set (map fst (rows t))" using that assms(1) by (force simp: tlookup_iff)
    then have "j \<le> top_rowid t" unfolding top_rowid_def using fold_max_ge by blast
    with k show ?thesis by simp
  qed
  show "tlookup k t = None" using less by (cases "tlookup k t") auto
qed

lemma put_row_last: "(\<forall>x \<in> set xs. fst x < k) \<Longrightarrow> put_row k r xs = xs @ [(k, r)]"
  by (induction xs) auto

lemma auto_put_new:
  assumes "ordered t" "new_rowid t = Some k"
  shows "rows (auto_put k r t) = rows t @ [(k, r)]"
  using new_rowid_fresh(3) [OF assms] assms(1)
  by (fastforce simp: auto_put_def tput_def tlookup_iff intro!: put_row_last)

text \<open>Two tables that differ at one rowid at most.\<close>

definition only_at :: "int \<Rightarrow> 'r table \<Rightarrow> 'r table \<Rightarrow> bool" where
  "only_at k t t' \<longleftrightarrow> (\<forall>j. j \<noteq> k \<longrightarrow> tlookup j t' = tlookup j t)"

lemma only_at_auto_put [simp]: "ordered t \<Longrightarrow> only_at k t (auto_put k r t)"
  by (simp add: only_at_def auto.look_put)

lemma only_at_put [simp]: "ordered t \<Longrightarrow> only_at k t (tput k r t)"
  by (simp add: only_at_def plain.look_put)

lemma only_at_delete [simp]: "ordered t \<Longrightarrow> only_at k t (tdelete (\<lambda>j s. j = k) t)"
  by (simp add: only_at_def plain.look_del split: option.split)

section \<open>A counted table\<close>

text \<open>
  The rowids and the counter of an AUTOINCREMENT table: ordered, in 64 bits, and no rowid above the
  counter, so that no rowid is handed out twice.
\<close>

definition counted :: "'r table \<Rightarrow> bool" where
  "counted t \<longleftrightarrow> ordered t \<and> 0 \<le> seq t \<and> seq t \<le> max64
     \<and> (\<forall>k r. tlookup k t = Some r \<longrightarrow> in64 k \<and> k \<le> seq t)"

lemma countedI:
  "ordered t \<Longrightarrow> 0 \<le> seq t \<Longrightarrow> seq t \<le> max64 \<Longrightarrow>
     (\<And>k r. tlookup k t = Some r \<Longrightarrow> in64 k \<and> k \<le> seq t) \<Longrightarrow> counted t"
  by (simp add: counted_def)

lemma countedD: "counted t \<Longrightarrow> tlookup k t = Some r \<Longrightarrow> in64 k \<and> k \<le> seq t"
  by (simp add: counted_def)

lemma counted_seq: "counted t \<Longrightarrow> 0 \<le> seq t \<and> seq t \<le> max64"
  by (simp add: counted_def)

lemma counted_ordered [simp]: "counted t \<Longrightarrow> ordered t"
  by (simp add: counted_def)

lemma counted_empty [simp]: "counted empty_table"
  by (rule countedI) (simp_all, simp_all add: empty_table_def)

lemma counted_auto_put:
  assumes t: "counted t" and k: "in64 k"
  shows "counted (auto_put k r t)"
proof (rule countedI)
  have q: "seq (auto_put k r t) = max (seq t) k" by (simp add: auto_put_def)
  show "ordered (auto_put k r t)" using t by auto
  show "0 \<le> seq (auto_put k r t)" "seq (auto_put k r t) \<le> max64"
    using counted_seq [OF t] k by (auto simp: q in64_def)
  fix j s
  assume "tlookup j (auto_put k r t) = Some s"
  then have "j = k \<or> tlookup j t = Some s" using t by (auto simp: tlookup_auto_put split: if_splits)
  then show "in64 j \<and> j \<le> seq (auto_put k r t)"
    using countedD [OF t] k unfolding q by force
qed

lemma counted_delete:
  assumes t: "counted t"
  shows "counted (tdelete P t)"
proof (rule countedI)
  have q: "seq (tdelete P t) = seq t" by (simp add: tdelete_def)
  show "ordered (tdelete P t)" using t by auto
  show "0 \<le> seq (tdelete P t)" "seq (tdelete P t) \<le> max64" using counted_seq [OF t] by (simp_all add: q)
  fix j s
  assume "tlookup j (tdelete P t) = Some s"
  then have "tlookup j t = Some s" using t by (auto simp: tlookup_delete split: option.splits if_splits)
  then show "in64 j \<and> j \<le> seq (tdelete P t)" using countedD [OF t] q by simp
qed

lemma counted_top:
  assumes t: "counted t"
  shows "top_rowid t = seq t"
proof -
  have "k \<le> seq t" if "k \<in> set (map fst (rows t))" for k
  proof -
    obtain r where "(k, r) \<in> set (rows t)" using \<open>k \<in> set (map fst (rows t))\<close> by auto
    then have "tlookup k t = Some r" using t by (simp add: tlookup_iff)
    then show ?thesis using countedD [OF t] by blast
  qed
  then have "fold max (map fst (rows t)) (seq t) \<le> seq t" by (intro fold_max_le) auto
  then show ?thesis
    using fold_max_ge [of "seq t" "map fst (rows t)"] by (simp add: top_rowid_def)
qed

lemma new_rowid_in64: "counted t \<Longrightarrow> new_rowid t = Some k \<Longrightarrow> in64 k \<and> 0 < k"
  using counted_top [of t] by (auto simp: new_rowid_def counted_def in64_def split: if_splits)

end
