(* ===== verification/Schema_Sql.thy ===== *)
theory Schema_Sql
  imports Row_Store
begin

text \<open>
  The six tables of \<open>internal/db/migrations/001_init.sql\<close> and the SQL statements of the service, one
  definition per statement text, in the order of the source files. A statement maps the time it
  runs at, the state of the \<open>foreign_keys\<close> pragma and the database to the constraint it violates
  or to its result and the new database; a statement that fails changes nothing. UNIQUE, FOREIGN
  KEY and AUTOINCREMENT are those of the schema; the NOT NULL columns only ever receive values,
  which the types here say. Column types do not convert: a text bound to a DATETIME column is kept
  as it was bound.
\<close>

section \<open>Rows and tables\<close>

record customer_row =
  c_email :: string
  c_first_name :: string
  c_last_name :: string
  c_default_currency :: string
  c_created_at :: string
  c_updated_at :: string

record product_row =
  p_name :: string
  p_description :: "string option"
  p_price :: int
  p_currency :: string
  p_active :: int
  p_weight_grams :: "int option"
  p_created_at :: string
  p_updated_at :: string

record order_row =
  o_order_number :: string
  o_customer_id :: int
  o_status :: string
  o_currency :: string
  o_amount :: int
  o_placed_at :: string
  o_updated_at :: string

record item_row =
  i_order_id :: int
  i_product_id :: int
  i_qty :: int
  i_unit_price :: int

record employee_row =
  e_employee_id :: string
  e_first_name :: string
  e_middle_name :: "string option"
  e_last_name :: string
  e_gender :: "string option"
  e_email :: string
  e_phone_number :: "string option"
  e_date_of_birth :: "string option"
  e_nationality :: "string option"
  e_job_level :: "string option"
  e_department :: "string option"
  e_location :: "string option"
  e_bank_account_number :: "string option"
  e_company :: "string option"
  e_job_title :: "string option"
  e_cost_center :: "string option"
  e_start_date :: "string option"
  e_employee_status :: "string option"
  e_manager_id :: "string option"
  e_manager_email :: "string option"
  e_last_modified_on :: "string option"
  e_last_modified :: "int option"

record history_row =
  h_payload :: string
  h_status :: string
  h_failure_reason :: "string option"
  h_retries :: int
  h_created_at :: string
  h_updated_at :: string

record database =
  customers :: "customer_row table"
  products :: "product_row table"
  orders :: "order_row table"
  order_items :: "item_row table"
  employees :: "employee_row table"
  sync_history :: "history_row table"

definition empty_database :: database where
  "empty_database = \<lparr>customers = empty_table, products = empty_table, orders = empty_table,
     order_items = empty_table, employees = empty_table, sync_history = empty_table\<rparr>"

record stmt_ctx =
  now :: string
  fk_on :: bool

record exec_result =
  er_last_id :: int
  er_affected :: int

datatype sql_error = Unique string string | Foreign_Key | Full

type_synonym stmt = "stmt_ctx \<Rightarrow> database \<Rightarrow> sql_error + (exec_result \<times> database)"

abbreviation finished :: "int \<Rightarrow> int \<Rightarrow> database \<Rightarrow> sql_error + (exec_result \<times> database)" where
  "finished k n db \<equiv> Inr (\<lparr>er_last_id = k, er_affected = n\<rparr>, db)"

section \<open>customers\<close>

definition customer_upsert :: "int \<Rightarrow> string \<Rightarrow> string \<Rightarrow> string \<Rightarrow> string \<Rightarrow> stmt" where
  "customer_upsert k em fn ln cur c db =
     (if taken c_email em k (customers db) then Inl (Unique ''customers'' ''email'')
      else let row = (case tlookup k (customers db) of
             Some old \<Rightarrow> old\<lparr>c_email := em, c_first_name := fn, c_last_name := ln,
               c_default_currency := cur, c_updated_at := now c\<rparr>
           | None \<Rightarrow> \<lparr>c_email = em, c_first_name = fn, c_last_name = ln, c_default_currency = cur,
               c_created_at = now c, c_updated_at = now c\<rparr>)
        in finished k 1 (db\<lparr>customers := auto_put k row (customers db)\<rparr>))"

definition customer_insert :: "string \<Rightarrow> string \<Rightarrow> string \<Rightarrow> string \<Rightarrow> stmt" where
  "customer_insert em fn ln cur c db =
     (case new_rowid (customers db) of
        None \<Rightarrow> Inl Full
      | Some k \<Rightarrow>
          if taken c_email em k (customers db) then Inl (Unique ''customers'' ''email'')
          else finished k 1 (db\<lparr>customers := auto_put k
            \<lparr>c_email = em, c_first_name = fn, c_last_name = ln, c_default_currency = cur,
             c_created_at = now c, c_updated_at = now c\<rparr> (customers db)\<rparr>))"

section \<open>products\<close>

definition product_upsert ::
  "int \<Rightarrow> string \<Rightarrow> string option \<Rightarrow> int \<Rightarrow> string \<Rightarrow> int \<Rightarrow> int option \<Rightarrow> stmt" where
  "product_upsert k nm ds pr cur act wg c db =
     (if taken p_name nm k (products db) then Inl (Unique ''products'' ''name'')
      else let row = (case tlookup k (products db) of
             Some old \<Rightarrow> old\<lparr>p_name := nm, p_description := ds, p_price := pr, p_currency := cur,
               p_active := act, p_weight_grams := wg, p_updated_at := now c\<rparr>
           | None \<Rightarrow> \<lparr>p_name = nm, p_description = ds, p_price = pr, p_currency = cur, p_active = act,
               p_weight_grams = wg, p_created_at = now c, p_updated_at = now c\<rparr>)
        in finished k 1 (db\<lparr>products := auto_put k row (products db)\<rparr>))"

definition product_insert ::
  "string \<Rightarrow> string option \<Rightarrow> int \<Rightarrow> string \<Rightarrow> int \<Rightarrow> int option \<Rightarrow> stmt" where
  "product_insert nm ds pr cur act wg c db =
     (case new_rowid (products db) of
        None \<Rightarrow> Inl Full
      | Some k \<Rightarrow>
          if taken p_name nm k (products db) then Inl (Unique ''products'' ''name'')
          else finished k 1 (db\<lparr>products := auto_put k
            \<lparr>p_name = nm, p_description = ds, p_price = pr, p_currency = cur, p_active = act,
             p_weight_grams = wg, p_created_at = now c, p_updated_at = now c\<rparr> (products db)\<rparr>))"

section \<open>orders and order_items\<close>

text \<open>A UNIQUE violation is raised by the row, a missing parent row at the end of the statement.\<close>

definition order_upsert :: "int \<Rightarrow> string \<Rightarrow> int \<Rightarrow> string \<Rightarrow> string \<Rightarrow> int \<Rightarrow> stmt" where
  "order_upsert k num cust st cur amt c db =
     (if taken o_order_number num k (orders db) then Inl (Unique ''orders'' ''order_number'')
      else if fk_on c \<and> tlookup cust (customers db) = None then Inl Foreign_Key
      else let row = (case tlookup k (orders db) of
             Some old \<Rightarrow> old\<lparr>o_order_number := num, o_customer_id := cust, o_status := st,
               o_currency := cur, o_amount := amt, o_updated_at := now c\<rparr>
           | None \<Rightarrow> \<lparr>o_order_number = num, o_customer_id = cust, o_status = st, o_currency = cur,
               o_amount = amt, o_placed_at = now c, o_updated_at = now c\<rparr>)
        in finished k 1 (db\<lparr>orders := auto_put k row (orders db)\<rparr>))"

definition order_insert :: "string \<Rightarrow> int \<Rightarrow> string \<Rightarrow> string \<Rightarrow> int \<Rightarrow> stmt" where
  "order_insert num cust st cur amt c db =
     (case new_rowid (orders db) of
        None \<Rightarrow> Inl Full
      | Some k \<Rightarrow>
          if taken o_order_number num k (orders db) then Inl (Unique ''orders'' ''order_number'')
          else if fk_on c \<and> tlookup cust (customers db) = None then Inl Foreign_Key
          else finished k 1 (db\<lparr>orders := auto_put k
            \<lparr>o_order_number = num, o_customer_id = cust, o_status = st, o_currency = cur,
             o_amount = amt, o_placed_at = now c, o_updated_at = now c\<rparr> (orders db)\<rparr>))"

definition order_items_delete :: "int \<Rightarrow> stmt" where
  "order_items_delete ord c db =
     finished 0 (int (length (filter (\<lambda>(k, r). i_order_id r = ord) (rows (order_items db)))))
       (db\<lparr>order_items := tdelete (\<lambda>k r. i_order_id r = ord) (order_items db)\<rparr>)"

definition order_item_insert :: "int \<Rightarrow> int \<Rightarrow> int \<Rightarrow> int \<Rightarrow> stmt" where
  "order_item_insert ord pid q up c db =
     (case new_rowid (order_items db) of
        None \<Rightarrow> Inl Full
      | Some k \<Rightarrow>
          if fk_on c \<and> (tlookup ord (orders db) = None \<or> tlookup pid (products db) = None)
          then Inl Foreign_Key
          else finished k 1 (db\<lparr>order_items := auto_put k
            \<lparr>i_order_id = ord, i_product_id = pid, i_qty = q, i_unit_price = up\<rparr> (order_items db)\<rparr>))"

section \<open>employees\<close>

text \<open>The upsert assigns every column but the key, so it writes the given row either way.\<close>

definition employee_upsert :: "int \<Rightarrow> employee_row \<Rightarrow> stmt" where
  "employee_upsert k row c db =
     (if taken e_email (e_email row) k (employees db) then Inl (Unique ''employees'' ''email'')
      else finished k 1 (db\<lparr>employees := tput k row (employees db)\<rparr>))"

definition employee_insert :: "int \<Rightarrow> employee_row \<Rightarrow> stmt" where
  "employee_insert k row c db =
     (if tlookup k (employees db) \<noteq> None then Inl (Unique ''employees'' ''id'')
      else if taken e_email (e_email row) k (employees db) then Inl (Unique ''employees'' ''email'')
      else finished k 1 (db\<lparr>employees := tput k row (employees db)\<rparr>))"

section \<open>sync_history\<close>

definition history_insert :: "string \<Rightarrow> stmt" where
  "history_insert payload c db =
     (case new_rowid (sync_history db) of
        None \<Rightarrow> Inl Full
      | Some k \<Rightarrow> finished k 1 (db\<lparr>sync_history := auto_put k
          \<lparr>h_payload = payload, h_status = ''PENDING_RETRY'', h_failure_reason = None, h_retries = 0,
           h_created_at = now c, h_updated_at = now c\<rparr> (sync_history db)\<rparr>))"

definition history_update :: "int \<Rightarrow> (history_row \<Rightarrow> history_row) \<Rightarrow> database \<Rightarrow> sql_error + (exec_result \<times> database)" where
  "history_update k f db =
     (case tlookup k (sync_history db) of
        None \<Rightarrow> finished 0 0 db
      | Some r \<Rightarrow> finished 0 1 (db\<lparr>sync_history := tput k (f r) (sync_history db)\<rparr>))"

definition history_mark_failed :: "string \<Rightarrow> int \<Rightarrow> stmt" where
  "history_mark_failed reason k c db = history_update k
     (\<lambda>r. r\<lparr>h_status := ''FAILED'', h_failure_reason := Some reason, h_updated_at := now c\<rparr>) db"

definition history_mark_successful :: "int \<Rightarrow> stmt" where
  "history_mark_successful k c db = history_update k
     (\<lambda>r. r\<lparr>h_status := ''SUCCESSFUL'', h_updated_at := now c\<rparr>) db"

definition history_mark_retry :: "int \<Rightarrow> stmt" where
  "history_mark_retry k c db = history_update k
     (\<lambda>r. r\<lparr>h_status := ''PENDING_RETRY'', h_failure_reason := None, h_updated_at := now c\<rparr>) db"

definition history_delete :: "int \<Rightarrow> stmt" where
  "history_delete k c db =
     (case tlookup k (sync_history db) of
        None \<Rightarrow> finished 0 0 db
      | Some r \<Rightarrow> finished 0 1 (db\<lparr>sync_history := tdelete (\<lambda>j s. j = k) (sync_history db)\<rparr>))"

section \<open>The health check's statements\<close>

definition health_insert :: "string \<Rightarrow> stmt" where
  "health_insert em = customer_insert em ''Health'' ''Check'' ''USD''"

definition health_delete :: "string \<Rightarrow> stmt" where
  "health_delete em c db =
     (if fk_on c \<and> list_ex (\<lambda>(j, r). c_email r = em
           \<and> list_ex (\<lambda>(i, q). o_customer_id q = j) (rows (orders db))) (rows (customers db))
      then Inl Foreign_Key
      else finished 0 (int (length (filter (\<lambda>(k, r). c_email r = em) (rows (customers db)))))
        (db\<lparr>customers := tdelete (\<lambda>k r. c_email r = em) (customers db)\<rparr>))"

section \<open>The GraphQL resolvers' statements\<close>

definition employee_create ::
  "int \<Rightarrow> string \<Rightarrow> string \<Rightarrow> string option \<Rightarrow> string \<Rightarrow> string \<Rightarrow> string option \<Rightarrow> string option \<Rightarrow> stmt" where
  "employee_create k eid fn mn ln em co jt =
     employee_insert k
       \<lparr>e_employee_id = eid, e_first_name = fn, e_middle_name = mn, e_last_name = ln, e_gender = None, e_email = em, e_phone_number = None, e_date_of_birth = None, e_nationality = None, e_job_level = None, e_department = None, e_location = None, e_bank_account_number = None, e_company = co, e_job_title = jt, e_cost_center = None, e_start_date = None, e_employee_status = None, e_manager_id = None, e_manager_email = None, e_last_modified_on = None, e_last_modified = None\<rparr>"

definition employee_update ::
  "string \<Rightarrow> string \<Rightarrow> string \<Rightarrow> string option \<Rightarrow> string option \<Rightarrow> string option \<Rightarrow> int \<Rightarrow> stmt" where
  "employee_update fn ln em mn co jt k c db =
     (case tlookup k (employees db) of
        None \<Rightarrow> finished 0 0 db
      | Some r \<Rightarrow>
          if taken e_email em k (employees db) then Inl (Unique ''employees'' ''email'')
          else finished 0 1 (db\<lparr>employees := tput k
            (r\<lparr>e_first_name := fn, e_last_name := ln, e_email := em, e_middle_name := mn,
               e_company := co, e_job_title := jt\<rparr>) (employees db)\<rparr>))"

definition employee_delete :: "int \<Rightarrow> stmt" where
  "employee_delete k c db =
     (case tlookup k (employees db) of
        None \<Rightarrow> finished 0 0 db
      | Some r \<Rightarrow> finished 0 1 (db\<lparr>employees := tdelete (\<lambda>j s. j = k) (employees db)\<rparr>))"

section \<open>Integrity of the database\<close>

interpretation customer_email: unique_rows empty_table tlookup auto_put tdelete ordered c_email
  by unfold_locales

interpretation product_name: unique_rows empty_table tlookup auto_put tdelete ordered p_name
  by unfold_locales

interpretation order_number: unique_rows empty_table tlookup auto_put tdelete ordered o_order_number
  by unfold_locales

interpretation employee_email: unique_rows empty_table tlookup tput tdelete ordered e_email
  by unfold_locales

definition orders_refer :: "database \<Rightarrow> bool" where
  "orders_refer db \<longleftrightarrow>
     (\<forall>k r. tlookup k (orders db) = Some r \<longrightarrow> tlookup (o_customer_id r) (customers db) \<noteq> None)"

definition items_refer :: "database \<Rightarrow> bool" where
  "items_refer db \<longleftrightarrow> (\<forall>k r. tlookup k (order_items db) = Some r \<longrightarrow>
     tlookup (i_order_id r) (orders db) \<noteq> None \<and> tlookup (i_product_id r) (products db) \<noteq> None)"

definition integrity :: "database \<Rightarrow> bool" where
  "integrity db \<longleftrightarrow>
     counted (customers db) \<and> counted (products db) \<and> counted (orders db) \<and>
     counted (order_items db) \<and> counted (sync_history db) \<and> ordered (employees db) \<and>
     customer_email.unique (customers db) \<and> product_name.unique (products db) \<and>
     order_number.unique (orders db) \<and> employee_email.unique (employees db) \<and>
     orders_refer db \<and> items_refer db"

text \<open>
  A statement keeps a property of the database, which may depend on whether foreign keys are
  enforced. \<open>enforced\<close> is integrity wherever they are.
\<close>

definition stmt_keeps :: "(bool \<Rightarrow> database \<Rightarrow> bool) \<Rightarrow> stmt \<Rightarrow> bool" where
  "stmt_keeps P s \<longleftrightarrow>
     (\<forall>c db r db'. P (fk_on c) db \<longrightarrow> s c db = Inr (r, db') \<longrightarrow> P (fk_on c) db')"

definition enforced :: "bool \<Rightarrow> database \<Rightarrow> bool" where
  "enforced fk db \<longleftrightarrow> (fk \<longrightarrow> integrity db)"

lemma stmt_keepsI:
  "(\<And>c db r db'. P (fk_on c) db \<Longrightarrow> s c db = Inr (r, db') \<Longrightarrow> P (fk_on c) db') \<Longrightarrow> stmt_keeps P s"
  by (auto simp: stmt_keeps_def)

lemma stmt_keepsD: "stmt_keeps P s \<Longrightarrow> P (fk_on c) db \<Longrightarrow> s c db = Inr (r, db') \<Longrightarrow> P (fk_on c) db'"
  by (auto simp: stmt_keeps_def)

lemma enforcedI:
  "(\<And>c db r db'. fk_on c \<Longrightarrow> integrity db \<Longrightarrow> s c db = Inr (r, db') \<Longrightarrow> integrity db') \<Longrightarrow>
     stmt_keeps enforced s"
  by (auto simp: stmt_keeps_def enforced_def)

lemma integrity_empty: "integrity empty_database"
  by (simp add: integrity_def empty_database_def orders_refer_def items_refer_def
      customer_email.unique_empty product_name.unique_empty order_number.unique_empty
      employee_email.unique_empty)

end
