(* ===== verification/Environment.thy ===== *)
theory Environment
  imports Dto_Types Schema_Sql
begin

text \<open>
  What the service takes from outside the repository, gathered in one record that every operation
  receives. Nothing is assumed of these functions here; a property that relies on one names what
  it relies on.

  \<^item> \<open>uni_upper\<close>, \<open>uni_lower\<close>: Go's case mapping of text that is not ASCII.
  \<^item> \<open>validate\<close>: the struct validator.
  \<^item> \<open>fault n\<close>: whether the \<open>n\<close>-th database call fails for a reason that is not in the data (I/O,
    a cancelled request context, a file that is busy before a transaction begins), and with which text. The
    file belongs to this process; that another one keeps it busy at a commit, which would leave the
    transaction open on the pool's connection, is not modelled.
  \<^item> \<open>commit_kept n\<close>: whether a commit that fails has nevertheless taken effect.
  \<^item> \<open>rows_cut n\<close>: the number of rows after which an iteration started by call \<open>n\<close> breaks off.
  \<^item> \<open>result_err n\<close>: an error of \<open>LastInsertId\<close> or \<open>RowsAffected\<close> on the result of call \<open>n\<close>.
  \<^item> \<open>clock n\<close>: the text of \<open>CURRENT_TIMESTAMP\<close> at call \<open>n\<close>; \<open>elapsed n\<close>: the seconds a request has
    run when it has made \<open>n\<close> calls; \<open>time_text n\<close>: the wall clock as RFC 3339.
  \<^item> \<open>fmt_ts\<close>: SQLite's \<open>strftime('%Y-%m-%dT%H:%M:%fZ', t)\<close>, \<open>None\<close> for NULL.
  \<^item> \<open>dt_text\<close>: what scanning a DATETIME column into a string yields for the text stored in it.
  \<^item> \<open>render\<close>: the text of the driver's error for a constraint violation.
  \<^item> \<open>new_uuid n\<close>: the 16 bytes of the UUID drawn when \<open>n\<close> calls have been made, \<open>uuid_text\<close> its
    canonical text.
\<close>

record env =
  uni_upper :: "string \<Rightarrow> string"
  uni_lower :: "string \<Rightarrow> string"
  validate :: validator
  fault :: "nat \<Rightarrow> string option"
  commit_kept :: "nat \<Rightarrow> bool"
  rows_cut :: "nat \<Rightarrow> nat option"
  result_err :: "nat \<Rightarrow> string option"
  clock :: "nat \<Rightarrow> string"
  elapsed :: "nat \<Rightarrow> nat"
  time_text :: "nat \<Rightarrow> string"
  fmt_ts :: "string \<Rightarrow> string option"
  dt_text :: "string \<Rightarrow> string"
  render :: "sql_error \<Rightarrow> string"
  new_uuid :: "nat \<Rightarrow> 8 word list"
  uuid_text :: "8 word list \<Rightarrow> string"

section \<open>Documented behaviour, by name\<close>

text \<open>The driver's calls all succeed.\<close>

definition no_faults :: "env \<Rightarrow> bool" where
  "no_faults E \<longleftrightarrow> fault E = (\<lambda>n. None) \<and> result_err E = (\<lambda>n. None) \<and> rows_cut E = (\<lambda>n. None)"

text \<open>A failed commit has not taken effect.\<close>

definition commits_clean :: "env \<Rightarrow> bool" where
  "commits_clean E \<longleftrightarrow> (\<forall>n. \<not> commit_kept E n)"

text \<open>SQLite names table and column of a violated UNIQUE constraint, within the driver's framing.\<close>

definition names_unique :: "env \<Rightarrow> bool" where
  "names_unique E \<longleftrightarrow> (\<exists>pre post. CHR ''U'' \<notin> set pre \<and> (post = [] \<or> \<not> is_word_char (hd post)) \<and>
     (\<forall>t c. render E (Unique t c) = pre @ unique_literal @ t @ CHR ''.'' # c @ post))"

text \<open>A random (version 4) UUID has the version in the high half of its seventh byte.\<close>

definition uuid_v4 :: "8 word list \<Rightarrow> bool" where
  "uuid_v4 u \<longleftrightarrow> length u = 16 \<and> drop_bit 4 (u ! 6) = 4"

text \<open>
  The environment the witnesses run in: no faults, a fixed clock, the driver's error texts as
  \<open>modernc.org/sqlite\<close> writes them, and a fixed version 4 UUID.
\<close>

definition sqlite_text :: "sql_error \<Rightarrow> string" where
  "sqlite_text e = (case e of
      Unique t c \<Rightarrow> ''constraint failed: '' @ unique_literal @ t @ CHR ''.'' # c @ '' (2067)''
    | Foreign_Key \<Rightarrow> ''constraint failed: FOREIGN KEY constraint failed (787)''
    | Full \<Rightarrow> ''database or disk is full (13)'')"

definition has_at :: "string \<Rightarrow> bool" where
  "has_at s \<longleftrightarrow> CHR ''@'' \<in> set s"

definition calm :: env where
  "calm = \<lparr>uni_upper = (\<lambda>s. s), uni_lower = (\<lambda>s. s), validate = reference_validate has_at,
     fault = (\<lambda>n. None), commit_kept = (\<lambda>n. False), rows_cut = (\<lambda>n. None), result_err = (\<lambda>n. None),
     clock = (\<lambda>n. ''2026-06-03 07:46:58''), elapsed = (\<lambda>n. n), time_text = (\<lambda>n. ''2026-06-03T07:46:58Z''),
     fmt_ts = (\<lambda>t. Some (take 10 t @ ''T'' @ drop 11 t @ ''.000Z'')), dt_text = (\<lambda>s. s),
     render = sqlite_text, new_uuid = (\<lambda>n. [1, 2, 3, 4, 5, 6, 0x47, 8, 0x89, 10, 11, 12, 13, 14, 15, 16]),
     uuid_text = (\<lambda>u. ''01020304-0506-4708-890a-0b0c0d0e0f10'')\<rparr>"

lemma calm_simps [simp]:
  "fault calm n = None" "rows_cut calm n = None" "result_err calm n = None" "commit_kept calm n = False"
  "validate calm = reference_validate has_at" "render calm = sqlite_text"
  "clock calm n = ''2026-06-03 07:46:58''" "uni_upper calm s = s" "uni_lower calm s = s"
  by (simp_all add: calm_def)

lemma calm_no_faults: "no_faults calm" and calm_commits_clean: "commits_clean calm"
  by (simp_all add: no_faults_def commits_clean_def calm_def)

lemma calm_names_unique: "names_unique calm"
  unfolding names_unique_def
  by (rule exI [of _ "''constraint failed: ''"], rule exI [of _ "'' (2067)''"])
     (simp add: sqlite_text_def is_word_char_def is_digit_def)

lemma calm_uuid_v4: "uuid_v4 (new_uuid calm n)"
  by (simp add: uuid_v4_def calm_def)

lemma calm_validator: "struct_validator (validate calm)"
  by (simp add: reference.struct_validator_axioms)

section \<open>What a UNIQUE violation is answered with\<close>

lemma handle_db_error_unique:
  assumes E: "names_unique E"
    and names: "list_all is_word_char t" "t \<noteq> []" "list_all is_word_char c" "c \<noteq> []"
  shows "handle_db_error uni (Some (Other (render E (Unique t c)))) = duplicate_entry (to_upper uni c)"
proof -
  obtain pre post where pre: "CHR ''U'' \<notin> set pre" and post: "post = [] \<or> \<not> is_word_char (hd post)"
    and txt_eq: "render E (Unique t c) = pre @ unique_literal @ t @ CHR ''.'' # c @ post"
    using E by (auto simp: names_unique_def)
  have "contains (pre @ unique_literal @ t @ CHR ''.'' # c @ post) ''UNIQUE constraint failed''"
    unfolding contains_iff unique_literal_def
    by (rule exI [of _ pre], rule exI [of _ "'': '' @ t @ CHR ''.'' # c @ post"]) simp
  moreover have "sqlite_unique_regex (pre @ unique_literal @ t @ CHR ''.'' # c @ post) = Some c"
    by (simp only: sqlite_unique_regex_skip [OF pre] sqlite_unique_regex_match [OF names post])
  ultimately show ?thesis by (simp add: handle_db_error_def txt_eq)
qed

end
