(* ===== verification/Sql_Integrity.thy ===== *)
theory Sql_Integrity
  imports Schema_Sql
begin

text \<open>
  Every SQL statement of the service keeps the integrity of the database: distinct rowids in
  64 bits below their counters, distinct values in the UNIQUE columns, and no dangling FOREIGN KEY.
  The first lemmas say when writing one row keeps it; each statement then follows from its own
  guards.
\<close>

lemma integrityD:
  assumes "integrity db"
  shows "counted (customers db)" "counted (products db)" "counted (orders db)"
    "counted (order_items db)" "counted (sync_history db)" "ordered (employees db)"
  using assms by (simp_all add: integrity_def)

lemma integrity_uniqueD:
  assumes "integrity db"
  shows "customer_email.unique (customers db)" "product_name.unique (products db)"
    "order_number.unique (orders db)" "employee_email.unique (employees db)"
    "orders_refer db" "items_refer db"
  using assms by (simp_all add: integrity_def)

lemma put_customer:
  assumes db: "integrity db" and k: "in64 k" and free: "\<not> taken c_email (c_email r) k (customers db)"
  shows "integrity (db\<lparr>customers := auto_put k r (customers db)\<rparr>)"
proof -
  have "customer_email.unique (auto_put k r (customers db))"
    using free integrity_uniqueD(1) [OF db]
    by (intro customer_email.unique_put) (simp_all add: integrityD [OF db] not_taken_iff)
  moreover have "orders_refer (db\<lparr>customers := auto_put k r (customers db)\<rparr>)"
    using integrity_uniqueD(5) [OF db] by (auto simp: orders_refer_def tlookup_auto_put integrityD [OF db])
  moreover have "items_refer (db\<lparr>customers := auto_put k r (customers db)\<rparr>)"
    using integrity_uniqueD(6) [OF db] by (simp add: items_refer_def)
  moreover have "counted (auto_put k r (customers db))" by (rule counted_auto_put) (simp_all add: integrityD [OF db] k)
  ultimately show ?thesis using db by (simp add: integrity_def)
qed

lemma put_product:
  assumes db: "integrity db" and k: "in64 k" and free: "\<not> taken p_name (p_name r) k (products db)"
  shows "integrity (db\<lparr>products := auto_put k r (products db)\<rparr>)"
proof -
  have "product_name.unique (auto_put k r (products db))"
    using free integrity_uniqueD(2) [OF db]
    by (intro product_name.unique_put) (simp_all add: integrityD [OF db] not_taken_iff)
  moreover have "items_refer (db\<lparr>products := auto_put k r (products db)\<rparr>)"
    using integrity_uniqueD(6) [OF db] by (auto simp: items_refer_def tlookup_auto_put integrityD [OF db])
  moreover have "orders_refer (db\<lparr>products := auto_put k r (products db)\<rparr>)"
    using integrity_uniqueD(5) [OF db] by (simp add: orders_refer_def)
  moreover have "counted (auto_put k r (products db))" by (rule counted_auto_put) (simp_all add: integrityD [OF db] k)
  ultimately show ?thesis using db by (simp add: integrity_def)
qed

lemma put_order:
  assumes db: "integrity db" and k: "in64 k"
    and free: "\<not> taken o_order_number (o_order_number r) k (orders db)"
    and parent: "tlookup (o_customer_id r) (customers db) \<noteq> None"
  shows "integrity (db\<lparr>orders := auto_put k r (orders db)\<rparr>)"
proof -
  have "order_number.unique (auto_put k r (orders db))"
    using free integrity_uniqueD(3) [OF db]
    by (intro order_number.unique_put) (simp_all add: integrityD [OF db] not_taken_iff)
  moreover have "orders_refer (db\<lparr>orders := auto_put k r (orders db)\<rparr>)"
    using integrity_uniqueD(5) [OF db] parent by (auto simp: orders_refer_def tlookup_auto_put integrityD [OF db])
  moreover have "items_refer (db\<lparr>orders := auto_put k r (orders db)\<rparr>)"
    using integrity_uniqueD(6) [OF db] by (auto simp: items_refer_def tlookup_auto_put integrityD [OF db])
  moreover have "counted (auto_put k r (orders db))" by (rule counted_auto_put) (simp_all add: integrityD [OF db] k)
  ultimately show ?thesis using db by (simp add: integrity_def)
qed

lemma put_item:
  assumes db: "integrity db" and k: "in64 k"
    and parents: "tlookup (i_order_id r) (orders db) \<noteq> None" "tlookup (i_product_id r) (products db) \<noteq> None"
  shows "integrity (db\<lparr>order_items := auto_put k r (order_items db)\<rparr>)"
proof -
  have "items_refer (db\<lparr>order_items := auto_put k r (order_items db)\<rparr>)"
    using integrity_uniqueD(6) [OF db] parents by (auto simp: items_refer_def tlookup_auto_put integrityD [OF db])
  moreover have "orders_refer (db\<lparr>order_items := auto_put k r (order_items db)\<rparr>)"
    using integrity_uniqueD(5) [OF db] by (simp add: orders_refer_def)
  moreover have "counted (auto_put k r (order_items db))" by (rule counted_auto_put) (simp_all add: integrityD [OF db] k)
  ultimately show ?thesis using db by (simp add: integrity_def)
qed

lemma delete_items:
  assumes db: "integrity db"
  shows "integrity (db\<lparr>order_items := tdelete P (order_items db)\<rparr>)"
proof -
  have "items_refer (db\<lparr>order_items := tdelete P (order_items db)\<rparr>)"
    using integrity_uniqueD(6) [OF db]
    by (auto simp: items_refer_def tlookup_delete integrityD [OF db] split: option.splits if_split_asm)
  moreover have "orders_refer (db\<lparr>order_items := tdelete P (order_items db)\<rparr>)"
    using integrity_uniqueD(5) [OF db] by (simp add: orders_refer_def)
  moreover have "counted (tdelete P (order_items db))" by (rule counted_delete) (simp add: integrityD [OF db])
  ultimately show ?thesis using db by (simp add: integrity_def)
qed

lemma put_employee:
  assumes db: "integrity db" and free: "\<not> taken e_email (e_email r) k (employees db)"
  shows "integrity (db\<lparr>employees := tput k r (employees db)\<rparr>)"
proof -
  have "employee_email.unique (tput k r (employees db))"
    using free integrity_uniqueD(4) [OF db]
    by (intro employee_email.unique_put) (simp_all add: integrityD [OF db] not_taken_iff)
  moreover have "ordered (tput k r (employees db))" using integrityD [OF db] by auto
  ultimately show ?thesis using db by (simp add: integrity_def orders_refer_def items_refer_def)
qed

lemma put_history:
  assumes db: "integrity db" and t: "counted t"
  shows "integrity (db\<lparr>sync_history := t\<rparr>)"
  using db t by (simp add: integrity_def orders_refer_def items_refer_def)

lemma counted_update:
  assumes t: "counted t" and k: "tlookup k t = Some s"
  shows "counted (tput k r t)"
proof (rule countedI)
  have q: "seq (tput k r t) = seq t" by (simp add: tput_def)
  show "ordered (tput k r t)" using t by auto
  show "0 \<le> seq (tput k r t)" "seq (tput k r t) \<le> max64" using counted_seq [OF t] by (simp_all add: q)
  fix j p
  assume "tlookup j (tput k r t) = Some p"
  then have "\<exists>p. tlookup j t = Some p" using t k by (auto simp: tlookup_put split: if_split_asm)
  then show "in64 j \<and> j \<le> seq (tput k r t)" using countedD [OF t] q by auto
qed

section \<open>The statements\<close>

lemma keeps_customer_upsert [keeps_inv]:
  assumes "in64 k"
  shows "stmt_keeps enforced (customer_upsert k em fn ln cur)"
proof (rule enforcedI)
  fix c db r db'
  assume db: "integrity db" and run: "customer_upsert k em fn ln cur c db = Inr (r, db')"
  have free: "\<not> taken c_email em k (customers db)" using run by (auto simp: customer_upsert_def)
  show "integrity db'"
  proof (cases "tlookup k (customers db)")
    case None
    then show ?thesis using run free put_customer [OF db assms]
      by (auto simp: customer_upsert_def Let_def)
  next
    case (Some old)
    then show ?thesis using run free put_customer [OF db assms]
      by (auto simp: customer_upsert_def Let_def)
  qed
qed

lemma keeps_customer_insert [keeps_inv]: "stmt_keeps enforced (customer_insert em fn ln cur)"
proof (rule enforcedI)
  fix c db r db'
  assume db: "integrity db" and run: "customer_insert em fn ln cur c db = Inr (r, db')"
  then obtain k where "new_rowid (customers db) = Some k" by (auto simp: customer_insert_def split: option.splits)
  then show "integrity db'"
    using run put_customer [OF db, of k] new_rowid_in64 [of "customers db" k] integrityD [OF db]
    by (auto simp: customer_insert_def split: if_split_asm)
qed

lemma keeps_product_upsert [keeps_inv]:
  assumes "in64 k"
  shows "stmt_keeps enforced (product_upsert k nm ds pr cur act wg)"
proof (rule enforcedI)
  fix c db r db'
  assume db: "integrity db" and run: "product_upsert k nm ds pr cur act wg c db = Inr (r, db')"
  have free: "\<not> taken p_name nm k (products db)" using run by (auto simp: product_upsert_def)
  show "integrity db'"
  proof (cases "tlookup k (products db)")
    case None
    then show ?thesis using run free put_product [OF db assms]
      by (auto simp: product_upsert_def Let_def)
  next
    case (Some old)
    then show ?thesis using run free put_product [OF db assms]
      by (auto simp: product_upsert_def Let_def)
  qed
qed

lemma keeps_product_insert [keeps_inv]: "stmt_keeps enforced (product_insert nm ds pr cur act wg)"
proof (rule enforcedI)
  fix c db r db'
  assume db: "integrity db" and run: "product_insert nm ds pr cur act wg c db = Inr (r, db')"
  then obtain k where "new_rowid (products db) = Some k" by (auto simp: product_insert_def split: option.splits)
  then show "integrity db'"
    using run put_product [OF db, of k] new_rowid_in64 [of "products db" k] integrityD [OF db]
    by (auto simp: product_insert_def split: if_split_asm)
qed

lemma keeps_order_upsert [keeps_inv]:
  assumes "in64 k"
  shows "stmt_keeps enforced (order_upsert k num cust st cur amt)"
proof (rule enforcedI)
  fix c db r db'
  assume fk: "fk_on c" and db: "integrity db" and run: "order_upsert k num cust st cur amt c db = Inr (r, db')"
  have guards: "\<not> taken o_order_number num k (orders db)" "tlookup cust (customers db) \<noteq> None"
    using run fk by (auto simp: order_upsert_def split: if_split_asm)
  show "integrity db'"
  proof (cases "tlookup k (orders db)")
    case None
    then show ?thesis using run fk guards put_order [OF db assms]
      by (auto simp: order_upsert_def Let_def)
  next
    case (Some old)
    then show ?thesis using run fk guards put_order [OF db assms]
      by (auto simp: order_upsert_def Let_def)
  qed
qed

lemma keeps_order_insert [keeps_inv]: "stmt_keeps enforced (order_insert num cust st cur amt)"
proof (rule enforcedI)
  fix c db r db'
  assume fk: "fk_on c" and db: "integrity db" and run: "order_insert num cust st cur amt c db = Inr (r, db')"
  then obtain k where "new_rowid (orders db) = Some k" by (auto simp: order_insert_def split: option.splits)
  then show "integrity db'"
    using run fk put_order [OF db, of k] new_rowid_in64 [of "orders db" k] integrityD [OF db]
    by (auto simp: order_insert_def split: if_split_asm)
qed

lemma keeps_order_items_delete [keeps_inv]: "stmt_keeps enforced (order_items_delete ord)"
  by (rule enforcedI) (auto simp: order_items_delete_def intro: delete_items)

lemma keeps_order_item_insert [keeps_inv]: "stmt_keeps enforced (order_item_insert ord pid q up)"
proof (rule enforcedI)
  fix c db r db'
  assume fk: "fk_on c" and db: "integrity db" and run: "order_item_insert ord pid q up c db = Inr (r, db')"
  then obtain k where "new_rowid (order_items db) = Some k" by (auto simp: order_item_insert_def split: option.splits)
  then show "integrity db'"
    using run fk put_item [OF db, of k] new_rowid_in64 [of "order_items db" k] integrityD [OF db]
    by (auto simp: order_item_insert_def split: if_split_asm)
qed

lemma keeps_employee_upsert [keeps_inv]: "stmt_keeps enforced (employee_upsert k row)"
  by (rule enforcedI) (auto simp: employee_upsert_def intro: put_employee split: if_split_asm)

lemma keeps_employee_insert [keeps_inv]: "stmt_keeps enforced (employee_insert k row)"
  by (rule enforcedI) (auto simp: employee_insert_def intro: put_employee split: if_split_asm)

lemma keeps_employee_create [keeps_inv]: "stmt_keeps enforced (employee_create k eid fn mn ln em co jt)"
  unfolding employee_create_def by (rule keeps_employee_insert)

lemma keeps_employee_update [keeps_inv]: "stmt_keeps enforced (employee_update fn ln em mn co jt k)"
  by (rule enforcedI)
     (auto simp: employee_update_def intro: put_employee split: option.splits if_split_asm)

lemma keeps_employee_delete [keeps_inv]: "stmt_keeps enforced (employee_delete k)"
proof (rule enforcedI)
  fix c db r db'
  assume db: "integrity db" and run: "employee_delete k c db = Inr (r, db')"
  have "employee_email.unique (tdelete P (employees db))" for P
    using integrity_uniqueD(4) [OF db] by (intro employee_email.unique_del) (simp_all add: integrityD [OF db])
  moreover have "ordered (tdelete P (employees db))" for P using integrityD [OF db] by auto
  ultimately have "integrity (db\<lparr>employees := tdelete P (employees db)\<rparr>)" for P
    using db by (simp add: integrity_def orders_refer_def items_refer_def)
  then show "integrity db'" using run db by (auto simp: employee_delete_def split: option.splits)
qed

lemma keeps_history_insert [keeps_inv]: "stmt_keeps enforced (history_insert payload)"
proof (rule enforcedI)
  fix c db r db'
  assume db: "integrity db" and run: "history_insert payload c db = Inr (r, db')"
  then obtain k where "new_rowid (sync_history db) = Some k" by (auto simp: history_insert_def split: option.splits)
  then show "integrity db'"
    using run new_rowid_in64 [of "sync_history db" k] integrityD [OF db]
    by (auto simp: history_insert_def intro!: put_history [OF db] counted_auto_put)
qed

lemma history_update_integrity:
  "integrity db \<Longrightarrow> history_update k f db = Inr (r, db') \<Longrightarrow> integrity db'"
  by (auto simp: history_update_def intro!: put_history counted_update integrityD split: option.splits)

lemma keeps_history_marks [keeps_inv]:
  "stmt_keeps enforced (history_mark_failed reason k)"
  "stmt_keeps enforced (history_mark_successful k)"
  "stmt_keeps enforced (history_mark_retry k)"
  by (auto intro!: enforcedI intro: history_update_integrity
      simp: history_mark_failed_def history_mark_successful_def history_mark_retry_def)

lemma keeps_history_delete [keeps_inv]: "stmt_keeps enforced (history_delete k)"
  by (rule enforcedI)
     (auto simp: history_delete_def intro!: put_history counted_delete integrityD split: option.splits)

lemma keeps_health_insert [keeps_inv]: "stmt_keeps enforced (health_insert em)"
  unfolding health_insert_def by (rule keeps_customer_insert)

lemma keeps_health_delete [keeps_inv]: "stmt_keeps enforced (health_delete em)"
proof (rule enforcedI)
  fix c db r db'
  let ?P = "\<lambda>(k::int) r. c_email r = em"
  assume fk: "fk_on c" and db: "integrity db" and run: "health_delete em c db = Inr (r, db')"
  have db': "db' = db\<lparr>customers := tdelete ?P (customers db)\<rparr>"
    using run by (auto simp: health_delete_def split: if_split_asm)
  have child: "c_email p \<noteq> em" if "tlookup j (orders db) = Some q" "tlookup (o_customer_id q) (customers db) = Some p" for j q p
  proof
    assume "c_email p = em"
    moreover have "(o_customer_id q, p) \<in> set (rows (customers db))" "(j, q) \<in> set (rows (orders db))"
      using that integrityD [OF db] by (simp_all add: tlookup_iff)
    ultimately show False using run fk by (force simp: health_delete_def list_ex_iff split: if_split_asm)
  qed
  have "orders_refer db'"
    using integrity_uniqueD(5) [OF db] child
    by (fastforce simp: orders_refer_def db' tlookup_delete integrityD [OF db] split: option.splits)
  moreover have "customer_email.unique (customers db')"
    using integrity_uniqueD(1) [OF db] by (simp add: db' customer_email.unique_del integrityD [OF db])
  moreover have "items_refer db'" using integrity_uniqueD(6) [OF db] by (simp add: items_refer_def db')
  moreover have "counted (customers db')" by (simp add: db' counted_delete integrityD [OF db])
  ultimately show "integrity db'" using db by (simp add: integrity_def db')
qed

end
