(* ===== verification/Sql_Driver.thy ===== *)
theory Sql_Driver
  imports Environment Sql_Integrity
begin

text \<open>
  The connection pool of \<open>internal/db/db.go\<close> and the calls of \<open>database/sql\<close> the handlers make.
  \<open>SetMaxOpenConns(1)\<close> leaves one connection: it is idle, inside a transaction (which remembers the
  database to go back to), or held by the rows of a query that have not been closed. A call on the
  pool while the connection is taken waits for it; made by the request that holds the connection,
  it waits for ever. So every call here returns an option: \<open>None\<close> is a request that never comes
  back, by waiting for its own connection or by a panic.
\<close>

datatype conn = Idle | In_Tx database | In_Rows

record world =
  wdb :: database
  conn :: conn
  pragma_fk :: bool
  calls :: nat

type_synonym 'a answer = "go_error + 'a"

definition tick :: "'m world_scheme \<Rightarrow> 'm world_scheme" where
  "tick w = w\<lparr>calls := Suc (calls w)\<rparr>"

definition ctx_of :: "env \<Rightarrow> 'm world_scheme \<Rightarrow> stmt_ctx" where
  "ctx_of E w = \<lparr>now = clock E (calls w), fk_on = pragma_fk w\<rparr>"

section \<open>Statements\<close>

definition run_stmt :: "env \<Rightarrow> stmt \<Rightarrow> 'm world_scheme \<Rightarrow> exec_result answer \<times> 'm world_scheme" where
  "run_stmt E s w =
     (case fault E (calls w) of
        Some e \<Rightarrow> (Inl (Other e), tick w)
      | None \<Rightarrow>
         (case s (ctx_of E w) (wdb w) of
            Inl e \<Rightarrow> (Inl (Other (render E e)), tick w)
          | Inr (r, db) \<Rightarrow> (Inr r, (tick w)\<lparr>wdb := db\<rparr>)))"

definition db_exec :: "env \<Rightarrow> stmt \<Rightarrow> 'm world_scheme \<Rightarrow> (exec_result answer \<times> 'm world_scheme) option" where
  "db_exec E s w = (if conn w = Idle then Some (run_stmt E s w) else None)"

definition last_insert_id :: "env \<Rightarrow> 'm world_scheme \<Rightarrow> exec_result \<Rightarrow> int answer" where
  "last_insert_id E w r = (case result_err E (calls w) of Some e \<Rightarrow> Inl (Other e) | None \<Rightarrow> Inr (er_last_id r))"

definition rows_affected :: "env \<Rightarrow> 'm world_scheme \<Rightarrow> exec_result \<Rightarrow> int answer" where
  "rows_affected E w r = (case result_err E (calls w) of Some e \<Rightarrow> Inl (Other e) | None \<Rightarrow> Inr (er_affected r))"

section \<open>Queries\<close>

text \<open>
  \<open>QueryRow(...).Scan(...)\<close> takes the first row and gives the connection back. \<open>Query\<close> holds the
  connection until the rows are exhausted or closed; an iteration that breaks off looks to
  \<open>rows.Next()\<close> like one that has ended.
\<close>

definition query_row ::
  "env \<Rightarrow> (database \<Rightarrow> 'a option) \<Rightarrow> ('a \<Rightarrow> go_error + 'b) \<Rightarrow> 'm world_scheme \<Rightarrow> ('b answer \<times> 'm world_scheme) option" where
  "query_row E q scan w =
     (if conn w = Idle then
        Some (case fault E (calls w) of
            Some e \<Rightarrow> Inl (Other e)
          | None \<Rightarrow> (case q (wdb w) of None \<Rightarrow> Inl No_Rows | Some x \<Rightarrow> scan x), tick w)
      else None)"

definition db_query ::
  "env \<Rightarrow> (database \<Rightarrow> 'a list) \<Rightarrow> 'm world_scheme \<Rightarrow> ('a list answer \<times> 'm world_scheme) option" where
  "db_query E q w =
     (if conn w = Idle then
        Some (case fault E (calls w) of
            Some e \<Rightarrow> (Inl (Other e), tick w)
          | None \<Rightarrow> (Inr (case rows_cut E (calls w) of None \<Rightarrow> q (wdb w) | Some n \<Rightarrow> take n (q (wdb w))),
              (tick w)\<lparr>conn := In_Rows\<rparr>))
      else None)"

definition rows_close :: "'m world_scheme \<Rightarrow> 'm world_scheme" where
  "rows_close w = (if conn w = In_Rows then w\<lparr>conn := Idle\<rparr> else w)"

section \<open>Transactions\<close>

definition begin_tx :: "env \<Rightarrow> 'm world_scheme \<Rightarrow> (unit answer \<times> 'm world_scheme) option" where
  "begin_tx E w =
     (if conn w = Idle then
        Some (case fault E (calls w) of
            Some e \<Rightarrow> (Inl (Other e), tick w)
          | None \<Rightarrow> (Inr (), (tick w)\<lparr>conn := In_Tx (wdb w)\<rparr>))
      else None)"

definition tx_exec :: "env \<Rightarrow> stmt \<Rightarrow> 'm world_scheme \<Rightarrow> exec_result answer \<times> 'm world_scheme" where
  "tx_exec E s w = (case conn w of
      In_Tx base \<Rightarrow> run_stmt E s w
    | _ \<Rightarrow> (Inl (Other ''sql: transaction has already been committed or rolled back''), w))"

text \<open>Rolling back an open transaction restores the database; otherwise it only reports an error.\<close>

definition tx_rollback :: "'m world_scheme \<Rightarrow> 'm world_scheme" where
  "tx_rollback w = (case conn w of In_Tx base \<Rightarrow> w\<lparr>wdb := base, conn := Idle\<rparr> | _ \<Rightarrow> w)"

text \<open>
  A commit ends the transaction, whether it succeeds, fails, or fails although it has taken effect; a
  commit refused because another process holds the file (\<open>SQLITE_BUSY\<close>) would not, and is left out.
\<close>

definition tx_commit :: "env \<Rightarrow> 'm world_scheme \<Rightarrow> unit answer \<times> 'm world_scheme" where
  "tx_commit E w = (case conn w of
      In_Tx base \<Rightarrow>
        (case fault E (calls w) of
           None \<Rightarrow> (Inr (), (tick w)\<lparr>conn := Idle\<rparr>)
         | Some e \<Rightarrow> (Inl (Other e),
             (tick w)\<lparr>conn := Idle, wdb := (if commit_kept E (calls w) then wdb w else base)\<rparr>))
    | _ \<Rightarrow> (Inl (Other ''sql: transaction has already been committed or rolled back''), w))"

section \<open>Opening the database\<close>

text \<open>
  \<open>InitDB\<close>: \<open>open\<close> stands for \<open>sql.Open\<close>, which yields the database the path names (\<open>None\<close> for
  one without tables) or an error text. The pragma is set on the connection that is open now;
  \<open>SetConnMaxLifetime(time.Hour)\<close> makes the pool replace an idle connection that has lived for an
  hour by a fresh one, on which nothing sets it again. (A database in memory is gone with its
  connection: what follows a replacement is said of a database in a file.)
\<close>

definition db_path :: "string \<Rightarrow> string" where
  "db_path url = trim_prefix url ''sqlite:''"

definition init_db ::
  "(string \<Rightarrow> string + database option) \<Rightarrow> env \<Rightarrow> string \<Rightarrow> string + world" where
  "init_db open E url =
     (case open (db_path url) of
        Inl e \<Rightarrow> Inl (''failed to open database: '' @ e)
      | Inr stored \<Rightarrow>
         (case fault E 0 of Some e \<Rightarrow> Inl (''failed to enable foreign keys: '' @ e) | None \<Rightarrow>
         (case fault E 1 of Some e \<Rightarrow> Inl (''failed to set busy timeout: '' @ e) | None \<Rightarrow>
         (case fault E 2 of Some e \<Rightarrow> Inl (''failed to execute migrations: '' @ e) | None \<Rightarrow>
            Inr \<lparr>wdb = (case stored of None \<Rightarrow> empty_database | Some db \<Rightarrow> db), conn = Idle,
                 pragma_fk = True, calls = 3\<rparr>))))"

definition conn_recycled :: "'m world_scheme \<Rightarrow> 'm world_scheme" where
  "conn_recycled w = (if conn w = Idle then w\<lparr>pragma_fk := False\<rparr> else w)"

section \<open>What the calls leave alone\<close>

lemma tick_simps [simp]:
  "wdb (tick w) = wdb w" "conn (tick w) = conn w" "pragma_fk (tick w) = pragma_fk w"
  "calls (tick w) = Suc (calls w)" "world.more (tick w) = world.more w"
  by (simp_all add: tick_def)

lemma run_stmt_frame [simp]:
  "conn (snd (run_stmt E s w)) = conn w" "pragma_fk (snd (run_stmt E s w)) = pragma_fk w"
  "calls (snd (run_stmt E s w)) = Suc (calls w)" "world.more (snd (run_stmt E s w)) = world.more w"
  by (simp_all add: run_stmt_def split: option.splits sum.splits prod.splits)

lemma run_stmt_error: "fst (run_stmt E s w) = Inl e \<Longrightarrow> wdb (snd (run_stmt E s w)) = wdb w"
  by (auto simp: run_stmt_def split: option.splits sum.splits prod.splits)

lemma run_stmt_result: "fst (run_stmt E s w) = Inr r \<Longrightarrow> \<exists>db. s (ctx_of E w) (wdb w) = Inr (r, db)"
  by (auto simp: run_stmt_def split: option.splits sum.splits prod.splits)

lemma run_stmt_keeps:
  assumes "stmt_keeps P s" "P (pragma_fk w) (wdb w)"
  shows "P (pragma_fk w) (wdb (snd (run_stmt E s w)))"
proof (cases "\<exists>r db. s (ctx_of E w) (wdb w) = Inr (r, db)")
  case True
  then obtain r db where s: "s (ctx_of E w) (wdb w) = Inr (r, db)" by blast
  have "P (pragma_fk w) db" using stmt_keepsD [OF assms(1) _ s] assms(2) by (simp add: ctx_of_def)
  with s assms(2) show ?thesis by (simp add: run_stmt_def split: option.splits)
next
  case False
  then show ?thesis using assms(2) by (auto simp: run_stmt_def split: option.splits sum.splits)
qed

lemma rows_close_simps [simp]:
  "wdb (rows_close w) = wdb w" "pragma_fk (rows_close w) = pragma_fk w" "world.more (rows_close w) = world.more w"
  "calls (rows_close w) = calls w" "conn w \<in> {Idle, In_Rows} \<Longrightarrow> conn (rows_close w) = Idle"
  by (auto simp: rows_close_def)

lemma tx_rollback_idle [simp]: "conn w = Idle \<Longrightarrow> tx_rollback w = w"
  by (simp add: tx_rollback_def)

lemma tx_rollback_frame [simp]:
  "pragma_fk (tx_rollback w) = pragma_fk w" "world.more (tx_rollback w) = world.more w" "calls (tx_rollback w) = calls w"
  by (simp_all add: tx_rollback_def split: conn.splits)

end
