(* ===== verification/Http_Types.thy ===== *)
theory Http_Types
  imports App_Errors
begin

text \<open>
  The response types of \<open>internal/handlers\<close>: the Go structs that document each JSON answer, and
  \<open>body\<close>, what a handler passes to \<open>c.JSON\<close> beside the status code. \<open>Message\<close> is a \<open>gin.H\<close> with
  the status and a message only, \<open>Err\<close> an \<open>AppError\<close>.
\<close>

record sync_result =
  res_id :: int
  res_status :: string

record sync_history_row =
  hv_id :: int
  hv_payload :: string
  hv_status :: string
  hv_failure_reason :: "string option"
  hv_retries :: int
  hv_created_at :: string
  hv_updated_at :: string

record stats_data =
  st_successful :: int
  st_failed :: int
  st_pending_retry :: int
  st_invalid :: int
  st_total :: int

record sort_info =
  so_empty :: bool
  so_sorted :: bool
  so_unsorted :: bool

record pageable_info =
  pg_sort :: sort_info
  pg_offset :: int
  pg_page_number :: int
  pg_page_size :: int
  pg_paged :: bool
  pg_unpaged :: bool

record list_history_data =
  ld_content :: "sync_history_row list"
  ld_pageable :: pageable_info
  ld_total_elements :: int
  ld_total_pages :: int
  ld_size :: int
  ld_number :: int
  ld_number_of_elements :: int
  ld_first :: bool
  ld_last :: bool
  ld_empty :: bool

record health_check_data =
  hc_read :: bool
  hc_write :: bool
  hc_timestamp :: string

datatype body =
    Message string
  | Err app_error
  | Sync_Results string "sync_result list"
  | Stats string stats_data
  | History_List string list_history_data
  | History_Row string sync_history_row
  | Health string health_check_data

record response =
  code :: int
  body :: body

definition answer_error :: "app_error \<Rightarrow> response" where
  "answer_error e = \<lparr>code = ae_status e, body = Err e\<rparr>"

definition answer_message :: "int \<Rightarrow> string \<Rightarrow> response" where
  "answer_message st msg = \<lparr>code = st, body = Message msg\<rparr>"

lemma answer_simps [simp]:
  "code (answer_error e) = ae_status e" "body (answer_error e) = Err e"
  "code (answer_message st msg) = st" "body (answer_message st msg) = Message msg"
  by (simp_all add: answer_error_def answer_message_def)

end
