(* ===== verification/Sync_Items.thy ===== *)
theory Sync_Items
  imports Sql_Driver Http_Types
begin

text \<open>
  \<open>processItem\<close> of \<open>internal/handlers/sync.go\<close>: one item of a sync payload inside the transaction,
  for each of the four models. The result is an option because the code follows pointers
  (\<open>*dtoItem.Price\<close>, \<open>*it.Qty\<close>): \<open>None\<close> is the panic of following a nil one.
\<close>

unbundle bit_operations_syntax

definition malformed_item :: go_error where
  "malformed_item = App (new_bad_request_error ''Malformed item JSON'')"

definition default_to :: "string \<Rightarrow> string option \<Rightarrow> string" where
  "default_to s p = (case p of None \<Rightarrow> s | Some x \<Rightarrow> x)"

definition item_status :: "bool \<Rightarrow> string" where
  "item_status has_id = (if has_id then ''updated'' else ''created'')"

text \<open>The two ways a row is saved: with the id the client gave, or with the one the table assigns.\<close>

definition save_with :: "env \<Rightarrow> stmt \<Rightarrow> int \<Rightarrow> 'm world_scheme \<Rightarrow> int answer \<times> 'm world_scheme" where
  "save_with E s k w = (case tx_exec E s w of (Inl e, w') \<Rightarrow> (Inl e, w') | (Inr r, w') \<Rightarrow> (Inr k, w'))"

definition save_new :: "env \<Rightarrow> stmt \<Rightarrow> 'm world_scheme \<Rightarrow> int answer \<times> 'm world_scheme" where
  "save_new E s w = (case tx_exec E s w of (Inl e, w') \<Rightarrow> (Inl e, w') | (Inr r, w') \<Rightarrow> (last_insert_id E w' r, w'))"

definition report :: "string \<Rightarrow> int answer \<times> 'm world_scheme \<Rightarrow> sync_result answer \<times> 'm world_scheme" where
  "report status x = (case x of
      (Inl e, w) \<Rightarrow> (Inl e, w) | (Inr k, w) \<Rightarrow> (Inr \<lparr>res_id = k, res_status = status\<rparr>, w))"

section \<open>customers\<close>

definition process_customer :: "env \<Rightarrow> json \<Rightarrow> 'm world_scheme \<Rightarrow> (sync_result answer \<times> 'm world_scheme) option" where
  "process_customer E v w =
     (case decode_customer v of
        None \<Rightarrow> Some (Inl malformed_item, w)
      | Some d \<Rightarrow>
         (case validate_struct (validate E) (customer_fields d) of
            Some ve \<Rightarrow> Some (Inl (App (parse_validation_error ve)), w)
          | None \<Rightarrow>
             (let currency = default_to ''USD'' (cu_default_currency d) in
              Some (report (item_status (cu_id d \<noteq> None))
                (case cu_id d of
                   Some k \<Rightarrow> save_with E
                     (customer_upsert k (cu_email d) (cu_first_name d) (cu_last_name d) currency) k w
                 | None \<Rightarrow> save_new E
                     (customer_insert (cu_email d) (cu_first_name d) (cu_last_name d) currency) w)))))"

section \<open>products\<close>

definition active_value :: "bool option \<Rightarrow> int" where
  "active_value p = (case p of Some b \<Rightarrow> if \<not> b then 0 else 1 | None \<Rightarrow> 1)"

definition process_product :: "env \<Rightarrow> json \<Rightarrow> 'm world_scheme \<Rightarrow> (sync_result answer \<times> 'm world_scheme) option" where
  "process_product E v w =
     (case decode_product v of
        None \<Rightarrow> Some (Inl malformed_item, w)
      | Some d \<Rightarrow>
         (case validate_struct (validate E) (product_fields d) of
            Some ve \<Rightarrow> Some (Inl (App (parse_validation_error ve)), w)
          | None \<Rightarrow>
             (let active = active_value (pr_active d); currency = default_to ''USD'' (pr_currency d) in
              (case pr_price d of
                 None \<Rightarrow> None
               | Some price \<Rightarrow>
                  Some (report (item_status (pr_id d \<noteq> None))
                    (case pr_id d of
                       Some k \<Rightarrow> save_with E
                         (product_upsert k (pr_name d) (pr_description d) price currency active (pr_weight_grams d)) k w
                     | None \<Rightarrow> save_new E
                         (product_insert (pr_name d) (pr_description d) price currency active (pr_weight_grams d)) w))))))"

section \<open>orders\<close>

text \<open>
  \<open>sum += (*it.Qty) * (*it.UnitPrice)\<close> in Go's \<open>int\<close>: both the product and the sum wrap around.
  Each item is validated before its pointers are followed.
\<close>

fun order_sum :: "env \<Rightarrow> order_item_dto list \<Rightarrow> int \<Rightarrow> int answer option" where
  "order_sum E [] acc = Some (Inr acc)"
| "order_sum E (it # its) acc =
     (case validate_struct (validate E) (order_item_fields it) of
        Some ve \<Rightarrow> Some (Inl (App (parse_validation_error ve)))
      | None \<Rightarrow>
         (case (oi_qty it, oi_unit_price it) of
            (Some q, Some p) \<Rightarrow> order_sum E its (wrap64 (acc + wrap64 (q * p)))
          | _ \<Rightarrow> None))"

definition amount_mismatch :: "int \<Rightarrow> int \<Rightarrow> go_error" where
  "amount_mismatch calc amount = App (new_bad_request_error
     (''Order amount must equal the sum of item prices (qty * unit_price). Calculated='' @ show_int calc
        @ '' provided='' @ show_int amount))"

definition needs_amount :: go_error where
  "needs_amount = App (new_bad_request_error ''Order must include items or an amount'')"

definition order_amount :: "env \<Rightarrow> order_dto \<Rightarrow> int answer option" where
  "order_amount E d =
     (case or_items d of
        Some items \<Rightarrow>
          if items = [] then Some (Inl needs_amount)
          else (case order_sum E items 0 of
                  None \<Rightarrow> None
                | Some (Inl e) \<Rightarrow> Some (Inl e)
                | Some (Inr calc) \<Rightarrow>
                    (case or_amount d of
                       Some amount \<Rightarrow> if amount \<noteq> calc then Some (Inl (amount_mismatch calc amount)) else Some (Inr calc)
                     | None \<Rightarrow> Some (Inr calc)))
      | None \<Rightarrow> (case or_amount d of None \<Rightarrow> Some (Inl needs_amount) | Some amount \<Rightarrow> Some (Inr amount)))"

fun insert_items :: "env \<Rightarrow> int \<Rightarrow> order_item_dto list \<Rightarrow> 'm world_scheme \<Rightarrow> (unit answer \<times> 'm world_scheme) option" where
  "insert_items E ord [] w = Some (Inr (), w)"
| "insert_items E ord (it # its) w =
     (case (oi_product_id it, oi_qty it, oi_unit_price it) of
        (Some pid, Some q, Some p) \<Rightarrow>
          (case tx_exec E (order_item_insert ord pid q p) w of
             (Inl e, w') \<Rightarrow> Some (Inl e, w')
           | (Inr r, w') \<Rightarrow> insert_items E ord its w')
      | _ \<Rightarrow> None)"

definition replace_items :: "env \<Rightarrow> int \<Rightarrow> order_item_dto list option \<Rightarrow> 'm world_scheme \<Rightarrow> (unit answer \<times> 'm world_scheme) option" where
  "replace_items E ord items w =
     (case items of
        None \<Rightarrow> Some (Inr (), w)
      | Some its \<Rightarrow>
         (case tx_exec E (order_items_delete ord) w of
            (Inl e, w') \<Rightarrow> Some (Inl e, w')
          | (Inr r, w') \<Rightarrow> insert_items E ord its w'))"

definition save_order :: "env \<Rightarrow> order_dto \<Rightarrow> int \<Rightarrow> int \<Rightarrow> 'm world_scheme \<Rightarrow> int answer \<times> 'm world_scheme" where
  "save_order E d cust amount w =
     (let currency = default_to ''USD'' (or_currency d) in
      case or_id d of
        Some k \<Rightarrow> save_with E (order_upsert k (or_order_number d) cust (or_status d) currency amount) k w
      | None \<Rightarrow> save_new E (order_insert (or_order_number d) cust (or_status d) currency amount) w)"

definition process_order :: "env \<Rightarrow> json \<Rightarrow> 'm world_scheme \<Rightarrow> (sync_result answer \<times> 'm world_scheme) option" where
  "process_order E v w =
     (case decode_order v of
        None \<Rightarrow> Some (Inl malformed_item, w)
      | Some d \<Rightarrow>
         (case validate_struct (validate E) (order_fields d) of
            Some ve \<Rightarrow> Some (Inl (App (parse_validation_error ve)), w)
          | None \<Rightarrow>
             (case order_amount E d of
                None \<Rightarrow> None
              | Some (Inl e) \<Rightarrow> Some (Inl e, w)
              | Some (Inr amount) \<Rightarrow>
                 (case or_customer_id d of
                    None \<Rightarrow> None
                  | Some cust \<Rightarrow>
                     (case save_order E d cust amount w of
                        (Inl e, w') \<Rightarrow> Some (Inl e, w')
                      | (Inr k, w') \<Rightarrow>
                         (case replace_items E k (or_items d) w' of
                            None \<Rightarrow> None
                          | Some (Inl e, w'') \<Rightarrow> Some (Inl e, w'')
                          | Some (Inr u, w'') \<Rightarrow>
                              Some (Inr \<lparr>res_id = k, res_status = item_status (or_id d \<noteq> None)\<rparr>, w'')))))))"

section \<open>employees\<close>

text \<open>
  An id for an employee whose own id is not a decimal number: the first eight bytes of a random
  UUID, big end first, in an \<open>int64\<close>, negated when negative.
\<close>

definition uuid_bits :: "8 word list \<Rightarrow> 64 word" where
  "uuid_bits u = foldl (\<lambda>r b. push_bit 8 r OR ucast b) 0 (take 8 u)"

definition rand_id :: "8 word list \<Rightarrow> int" where
  "rand_id u = (let r = uuid_bits u in sint (if sint r < 0 then - r else r))"

definition employee_of :: "employee_dto \<Rightarrow> employee_row" where
  "employee_of d =
    \<lparr>e_employee_id = em_employee_id d, e_first_name = em_first_name d, e_middle_name = em_middle_name d,
     e_last_name = em_last_name d, e_gender = em_gender d, e_email = em_email d,
     e_phone_number = em_phone_number d, e_date_of_birth = em_date_of_birth d, e_nationality = em_nationality d,
     e_job_level = em_job_level d, e_department = em_department d, e_location = em_location d,
     e_bank_account_number = em_bank_account_number d, e_company = em_company d, e_job_title = em_job_title d,
     e_cost_center = em_cost_center d, e_start_date = em_start_date d, e_employee_status = em_employee_status d,
     e_manager_id = em_manager_id d, e_manager_email = em_manager_email d, e_last_modified_on = em_last_modified_on d,
     e_last_modified = em_last_modified d\<rparr>"

definition process_employee :: "env \<Rightarrow> json \<Rightarrow> 'm world_scheme \<Rightarrow> (sync_result answer \<times> 'm world_scheme) option" where
  "process_employee E v w =
     (case decode_employee v of
        None \<Rightarrow> Some (Inl malformed_item, w)
      | Some d \<Rightarrow>
         (case validate_struct (validate E) (employee_fields d) of
            Some ve \<Rightarrow> Some (Inl (App (parse_validation_error ve)), w)
          | None \<Rightarrow>
             Some (report (item_status (parse_int (em_id d) \<noteq> None))
               (case parse_int (em_id d) of
                  Some k \<Rightarrow> save_with E (employee_upsert k (employee_of d)) k w
                | None \<Rightarrow>
                   (let k = rand_id (new_uuid E (calls w)) in
                    save_with E (employee_insert k (employee_of d)) k w)))))"

section \<open>processItem and the loop over the payload\<close>

definition process_item ::
  "env \<Rightarrow> string \<Rightarrow> json \<Rightarrow> 'm world_scheme \<Rightarrow> (sync_result answer \<times> 'm world_scheme) option" where
  "process_item E model v w =
     (if model = ''customers'' then process_customer E v w
      else if model = ''products'' then process_product E v w
      else if model = ''orders'' then process_order E v w
      else if model = ''employees'' then process_employee E v w
      else Some (Inl (App (new_bad_request_error (''Invalid model: '' @ model))), w))"

fun process_items ::
  "env \<Rightarrow> string \<Rightarrow> json list \<Rightarrow> sync_result list \<Rightarrow> 'm world_scheme \<Rightarrow> (sync_result list answer \<times> 'm world_scheme) option" where
  "process_items E model [] results w = Some (Inr results, w)"
| "process_items E model (v # vs) results w =
     (case process_item E model v w of
        None \<Rightarrow> None
      | Some (Inl e, w') \<Rightarrow> Some (Inl e, w')
      | Some (Inr r, w') \<Rightarrow> process_items E model vs (results @ [r]) w')"

section \<open>What a statement of the transaction may change\<close>

text \<open>
  \<open>tx_step P w w'\<close>: from \<open>w\<close> to \<open>w'\<close> the connection, the pragma and everything outside the database
  stay as they are, and \<open>P\<close> of the database is kept.
\<close>

definition tx_step :: "(bool \<Rightarrow> database \<Rightarrow> bool) \<Rightarrow> 'm world_scheme \<Rightarrow> 'm world_scheme \<Rightarrow> bool" where
  "tx_step P w w' \<longleftrightarrow> conn w' = conn w \<and> pragma_fk w' = pragma_fk w \<and> world.more w' = world.more w
     \<and> (P (pragma_fk w) (wdb w) \<longrightarrow> P (pragma_fk w) (wdb w'))"

lemma tx_step_refl [simp]: "tx_step P w w"
  by (simp add: tx_step_def)

lemma tx_step_trans: "tx_step P u v \<Longrightarrow> tx_step P v w \<Longrightarrow> tx_step P u w"
  by (simp add: tx_step_def)

lemma tx_step_exec:
  assumes "stmt_keeps P s" "tx_exec E s w = (r, w')"
  shows "tx_step P w w'"
proof -
  have w': "w' = w \<or> w' = snd (run_stmt E s w)"
    using assms(2) by (auto simp: tx_exec_def split: conn.splits)
  then show ?thesis using run_stmt_keeps [OF assms(1), of w E] by (auto simp: tx_step_def)
qed

lemma tx_step_save_with: "stmt_keeps P s \<Longrightarrow> save_with E s k w = (r, w') \<Longrightarrow> tx_step P w w'"
  by (auto simp: save_with_def split: prod.splits sum.splits intro: tx_step_exec)

lemma tx_step_save_new: "stmt_keeps P s \<Longrightarrow> save_new E s w = (r, w') \<Longrightarrow> tx_step P w w'"
  by (auto simp: save_new_def split: prod.splits sum.splits intro: tx_step_exec)

lemma tx_step_saved:
  "stmt_keeps P s \<Longrightarrow> tx_step P w (snd (save_with E s k w))"
  "stmt_keeps P s \<Longrightarrow> tx_step P w (snd (save_new E s w))"
  using tx_step_save_with [of P s E k w] tx_step_save_new [of P s E w] by (metis prod.collapse)+

lemma report_world: "report st x = (r, w') \<Longrightarrow> w' = snd x"
  by (auto simp: report_def split: prod.splits sum.splits)

end
