(* ===== verification/Sync_Items_Facts.thy ===== *)
theory Sync_Items_Facts
  imports Sync_Items
begin

text \<open>
  What \<open>processItem\<close> guarantees: which statements it runs (the locale \<open>tx_invariant\<close> collects them
  as its laws, so that a property every one of them keeps is kept by the loop), that it never
  follows a nil pointer when the validator keeps its contract, and the arithmetic of order amounts
  and of generated employee ids.
\<close>

section \<open>Invariants of the transaction\<close>

locale tx_invariant =
  fixes P :: "bool \<Rightarrow> database \<Rightarrow> bool"
  assumes customer_upsert: "in64 k \<Longrightarrow> stmt_keeps P (customer_upsert k em fn ln cur)"
    and customer_insert: "stmt_keeps P (customer_insert em fn ln cur)"
    and product_upsert: "in64 k \<Longrightarrow> stmt_keeps P (product_upsert k nm ds pr cur act wg)"
    and product_insert: "stmt_keeps P (product_insert nm ds pr cur act wg)"
    and order_upsert: "in64 k \<Longrightarrow> stmt_keeps P (order_upsert k num cust st cur amt)"
    and order_insert: "stmt_keeps P (order_insert num cust st cur amt)"
    and order_items_delete: "stmt_keeps P (order_items_delete ord)"
    and order_item_insert: "stmt_keeps P (order_item_insert ord pid q up)"
    and employee_upsert: "stmt_keeps P (employee_upsert k row)"
    and employee_insert: "stmt_keeps P (employee_insert k row)"
begin

lemma customer_step:
  assumes run: "process_customer E v w = Some (r, w')"
  shows "tx_step P w w'"
proof (cases "decode_customer v")
  case None
  then show ?thesis using run by (simp add: process_customer_def)
next
  case (Some d)
  show ?thesis
  proof (cases "validate_struct (validate E) (customer_fields d)")
    case valid: None
    show ?thesis
    proof (cases "cu_id d")
      case None
      then show ?thesis using run Some valid tx_step_saved [OF customer_insert]
        by (auto simp: process_customer_def Let_def dest!: report_world)
    next
      case id: (Some k)
      have "in64 k" using decode_customer_id64 [OF Some] id by simp
      then show ?thesis using run Some valid id tx_step_saved [OF customer_upsert, of k]
        by (auto simp: process_customer_def Let_def dest!: report_world)
    qed
  qed (use run Some in \<open>simp add: process_customer_def\<close>)
qed

lemma product_step:
  assumes run: "process_product E v w = Some (r, w')"
  shows "tx_step P w w'"
proof (cases "decode_product v")
  case None
  then show ?thesis using run by (simp add: process_product_def)
next
  case (Some d)
  show ?thesis
  proof (cases "validate_struct (validate E) (product_fields d)")
    case valid: None
    obtain price where price: "pr_price d = Some price"
      using run Some valid by (auto simp: process_product_def Let_def split: option.splits)
    show ?thesis
    proof (cases "pr_id d")
      case None
      then show ?thesis using run Some valid price tx_step_saved [OF product_insert]
        by (auto simp: process_product_def Let_def dest!: report_world)
    next
      case id: (Some k)
      have "in64 k" using decode_product_id64 [OF Some] id by simp
      then show ?thesis using run Some valid id price tx_step_saved [OF product_upsert, of k]
        by (auto simp: process_product_def Let_def dest!: report_world)
    qed
  qed (use run Some in \<open>simp add: process_product_def\<close>)
qed

lemma employee_step:
  assumes run: "process_employee E v w = Some (r, w')"
  shows "tx_step P w w'"
proof (cases "decode_employee v")
  case None
  then show ?thesis using run by (simp add: process_employee_def)
next
  case (Some d)
  show ?thesis
  proof (cases "validate_struct (validate E) (employee_fields d)")
    case valid: None
    show ?thesis
    proof (cases "parse_int (em_id d)")
      case None
      then show ?thesis using run Some valid tx_step_saved [OF employee_insert]
        by (auto simp: process_employee_def Let_def dest!: report_world)
    next
      case id: (Some k)
      then show ?thesis using run Some valid tx_step_saved [OF employee_upsert]
        by (auto simp: process_employee_def Let_def dest!: report_world)
    qed
  qed (use run Some in \<open>simp add: process_employee_def\<close>)
qed

lemma insert_items_step: "insert_items E ord its w = Some (r, w') \<Longrightarrow> tx_step P w w'"
proof (induction its arbitrary: w)
  case Nil
  then show ?case by simp
next
  case (Cons it its)
  then obtain pid q p where it: "oi_product_id it = Some pid" "oi_qty it = Some q" "oi_unit_price it = Some p"
    by (auto split: option.splits)
  obtain x w1 where x: "tx_exec E (order_item_insert ord pid q p) w = (x, w1)" by fastforce
  have step: "tx_step P w w1" by (rule tx_step_exec [OF order_item_insert x])
  show ?case
  proof (cases x)
    case (Inl e)
    then show ?thesis using Cons.prems it x step by simp
  next
    case (Inr y)
    then have "insert_items E ord its w1 = Some (r, w')" using Cons.prems it x by simp
    then show ?thesis using tx_step_trans [OF step Cons.IH] by simp
  qed
qed

lemma replace_items_step:
  assumes run: "replace_items E ord items w = Some (r, w')"
  shows "tx_step P w w'"
proof (cases items)
  case None
  then show ?thesis using run by (simp add: replace_items_def)
next
  case (Some its)
  obtain x w1 where x: "tx_exec E (order_items_delete ord) w = (x, w1)" by fastforce
  have step: "tx_step P w w1" by (rule tx_step_exec [OF order_items_delete x])
  then show ?thesis using run Some x tx_step_trans [OF step insert_items_step]
    by (cases x) (auto simp: replace_items_def)
qed

lemma save_order_step:
  assumes "order64 d" and run: "save_order E d cust amount w = (r, w')"
  shows "tx_step P w w'"
proof (cases "or_id d")
  case None
  then show ?thesis using run tx_step_save_new [OF order_insert] by (simp add: save_order_def Let_def)
next
  case (Some k)
  then have "in64 k" using assms(1) by (simp add: order64_def)
  then show ?thesis using run Some tx_step_save_with [OF order_upsert] by (simp add: save_order_def Let_def)
qed

lemma order_step:
  assumes run: "process_order E v w = Some (r, w')"
  shows "tx_step P w w'"
proof (cases "\<exists>d amount cust. decode_order v = Some d \<and> validate_struct (validate E) (order_fields d) = None
    \<and> order_amount E d = Some (Inr amount) \<and> or_customer_id d = Some cust")
  case False
  then have "w' = w" using run
    by (auto simp: process_order_def split: option.splits sum.splits)
  then show ?thesis by simp
next
  case True
  then obtain d amount cust where d: "decode_order v = Some d"
    and path: "validate_struct (validate E) (order_fields d) = None"
      "order_amount E d = Some (Inr amount)" "or_customer_id d = Some cust" by blast
  obtain x w1 where x: "save_order E d cust amount w = (x, w1)" by fastforce
  have step: "tx_step P w w1" by (rule save_order_step [OF decode_order_64 [OF d] x])
  show ?thesis
  proof (cases x)
    case (Inl e)
    then show ?thesis using run d path x step by (simp add: process_order_def)
  next
    case (Inr k)
    obtain y w2 where y: "replace_items E k (or_items d) w1 = Some (y, w2)"
      using run d path x Inr by (auto simp: process_order_def split: option.splits)
    then have "w2 = w'" using run d path x Inr by (cases y) (auto simp: process_order_def)
    then show ?thesis using tx_step_trans [OF step replace_items_step [OF y]] by simp
  qed
qed

lemma item_step: "process_item E model v w = Some (r, w') \<Longrightarrow> tx_step P w w'"
  unfolding process_item_def
  by (auto split: if_split_asm intro: customer_step product_step order_step employee_step)

lemma items_step: "process_items E model vs results w = Some (r, w') \<Longrightarrow> tx_step P w w'"
proof (induction vs arbitrary: results w)
  case Nil
  then show ?case by simp
next
  case (Cons v vs)
  then obtain x w1 where x: "process_item E model v w = Some (x, w1)" by (auto split: option.splits)
  have step: "tx_step P w w1" by (rule item_step [OF x])
  show ?case
  proof (cases x)
    case (Inl e)
    then show ?thesis using Cons.prems x step by simp
  next
    case (Inr y)
    then have "process_items E model vs (results @ [y]) w1 = Some (r, w')" using Cons.prems x by simp
    then show ?thesis using tx_step_trans [OF step Cons.IH] by simp
  qed
qed

end

interpretation sound: tx_invariant enforced
  by unfold_locales (simp_all add: keeps_inv)

interpretation history_untouched: tx_invariant "\<lambda>fk db. sync_history db = h" for h
  by unfold_locales
     (auto simp: stmt_keeps_def customer_upsert_def customer_insert_def product_upsert_def product_insert_def
       order_upsert_def order_insert_def order_items_delete_def order_item_insert_def employee_upsert_def
       employee_insert_def Let_def split: option.splits if_split_asm)

section \<open>No nil pointer is followed\<close>

lemma validate_structD: "validate_struct V fs = None \<Longrightarrow> V fs = []"
  by simp

lemma order_sum_valid:
  "order_sum E its acc = Some (Inr t) \<Longrightarrow> it \<in> set its \<Longrightarrow> validate E (order_item_fields it) = []"
proof (induction its arbitrary: acc)
  case Nil
  then show ?case by simp
next
  case (Cons x xs)
  then show ?case by (auto split: option.splits)
qed

lemma order_amount_valid:
  "order_amount E d = Some (Inr t) \<Longrightarrow> or_items d = Some its \<Longrightarrow> it \<in> set its \<Longrightarrow>
     validate E (order_item_fields it) = []"
  by (auto simp: order_amount_def dest: order_sum_valid split: if_split_asm option.splits sum.splits)

lemma item_pointers:
  assumes V: "struct_validator (validate E)" and ok: "validate E (order_item_fields it) = []"
  shows "\<exists>pid q p. oi_product_id it = Some pid \<and> oi_qty it = Some q \<and> oi_unit_price it = Some p"
  using struct_validator.required_ptr [OF V ok, of _ "[]"] by (auto simp: order_item_fields_def)

lemma order_sum_total:
  assumes V: "struct_validator (validate E)"
  shows "\<exists>r. order_sum E its acc = Some r"
proof (induction its arbitrary: acc)
  case Nil
  then show ?case by simp
next
  case (Cons it its)
  show ?case
  proof (cases "validate_struct (validate E) (order_item_fields it)")
    case None
    then have "validate E (order_item_fields it) = []" by simp
    then obtain pid q p where "oi_qty it = Some q" "oi_unit_price it = Some p"
      using item_pointers [OF V] by blast
    then show ?thesis using None Cons.IH by simp
  qed simp
qed

lemma order_amount_total:
  assumes V: "struct_validator (validate E)"
  shows "\<exists>r. order_amount E d = Some r"
  using order_sum_total [OF V, of "the (or_items d)" 0]
  by (auto simp: order_amount_def split: option.splits sum.splits)

lemma insert_items_total:
  fixes w :: "'m world_scheme"
  assumes "\<forall>it \<in> set its. \<exists>pid q p. oi_product_id it = Some pid \<and> oi_qty it = Some q \<and> oi_unit_price it = Some p"
  shows "\<exists>r. insert_items E ord its w = Some r"
  using assms
proof (induction its arbitrary: w)
  case Nil
  then show ?case by simp
next
  case (Cons it its)
  then obtain pid q p where it: "oi_product_id it = Some pid" "oi_qty it = Some q" "oi_unit_price it = Some p"
    by auto
  have IH: "\<exists>r. insert_items E ord its w1 = Some r" for w1 :: "'m world_scheme"
    by (rule Cons.IH) (use Cons.prems in simp)
  obtain x w1 where "tx_exec E (order_item_insert ord pid q p) w = (x, w1)" by fastforce
  then show ?case using IH [of w1] it by (cases x) auto
qed

lemma process_product_total:
  assumes V: "struct_validator (validate E)"
  shows "\<exists>r. process_product E v w = Some r"
proof (cases "\<exists>d. decode_product v = Some d \<and> validate E (product_fields d) = []")
  case True
  then obtain d where d: "decode_product v = Some d" "validate E (product_fields d) = []" by blast
  then have "pr_price d \<noteq> None"
    using struct_validator.required_ptr [OF V d(2), of "''Price''" "[]"] by (auto simp: product_fields_def)
  then show ?thesis using d by (auto simp: process_product_def Let_def)
next
  case False
  then show ?thesis by (auto simp: process_product_def split: option.splits)
qed

lemma process_order_total:
  fixes w :: "'m world_scheme"
  assumes V: "struct_validator (validate E)"
  shows "\<exists>r. process_order E v w = Some r"
proof (cases "\<exists>d. decode_order v = Some d \<and> validate E (order_fields d) = []")
  case False
  then show ?thesis by (auto simp: process_order_def split: option.splits)
next
  case True
  then obtain d where d: "decode_order v = Some d" "validate E (order_fields d) = []" by blast
  have "or_customer_id d \<noteq> None"
    using struct_validator.required_ptr [OF V d(2), of "''CustomerID''" "[]"] by (auto simp: order_fields_def)
  then obtain cust where cust: "or_customer_id d = Some cust" by blast
  obtain a where a: "order_amount E d = Some a" using order_amount_total [OF V] by blast
  show ?thesis
  proof (cases a)
    case (Inl e)
    then show ?thesis using d a by (simp add: process_order_def)
  next
    case (Inr amount)
    have "\<exists>r. replace_items E k (or_items d) w1 = Some r" for k and w1 :: "'m world_scheme"
    proof (cases "or_items d")
      case (Some its)
      have "\<forall>it \<in> set its. \<exists>pid q p. oi_product_id it = Some pid \<and> oi_qty it = Some q \<and> oi_unit_price it = Some p"
        using item_pointers [OF V order_amount_valid [OF a [unfolded Inr] Some]] by blast
      then have ins: "\<exists>r. insert_items E k its w2 = Some r" for w2 :: "'m world_scheme"
        by (rule insert_items_total)
      obtain x w2 where "tx_exec E (order_items_delete k) w1 = (x, w2)" by fastforce
      then show ?thesis using Some ins [of w2] by (cases x) (auto simp: replace_items_def)
    qed (simp add: replace_items_def)
    then have rep: "\<exists>y w2. replace_items E k (or_items d) w1 = Some (y, w2)" for k and w1 :: "'m world_scheme"
      by fast
    obtain x w1 where x: "save_order E d cust amount w = (x, w1)" by fastforce
    show ?thesis
    proof (cases x)
      case Inl: (Inl e)
      then show ?thesis using d cust a Inr x by (simp add: process_order_def)
    next
      case saved: (Inr k)
      obtain y w2 where "replace_items E k (or_items d) w1 = Some (y, w2)" using rep by blast
      then show ?thesis using d cust a Inr x saved by (cases y) (simp_all add: process_order_def)
    qed
  qed
qed

lemma process_item_total:
  assumes V: "struct_validator (validate E)"
  shows "\<exists>r. process_item E model v w = Some r"
proof -
  have "process_customer E v w \<noteq> None" "process_employee E v w \<noteq> None"
    by (simp_all add: process_customer_def process_employee_def Let_def split: option.splits)
  moreover have "process_product E v w \<noteq> None" "process_order E v w \<noteq> None"
    using process_product_total [OF V, of v w] process_order_total [OF V, of v w] by auto
  ultimately have "process_item E model v w \<noteq> None" by (simp add: process_item_def)
  then show ?thesis by simp
qed

lemma process_items_total:
  assumes V: "struct_validator (validate E)"
  shows "\<exists>r. process_items E model vs results w = Some r"
proof (induction vs arbitrary: results w)
  case Nil
  then show ?case by simp
next
  case (Cons v vs)
  obtain x w1 where "process_item E model v w = Some (x, w1)"
    using process_item_total [OF V, of model v w] by force
  then show ?case using Cons.IH by (auto split: sum.splits)
qed

section \<open>Order amounts\<close>

definition line_total :: "order_item_dto \<Rightarrow> int" where
  "line_total it = (case (oi_qty it, oi_unit_price it) of (Some q, Some p) \<Rightarrow> q * p | _ \<Rightarrow> 0)"

lemma order_sum_wraps:
  "order_sum E its acc = Some (Inr t) \<Longrightarrow> wrap64 acc = acc \<Longrightarrow> t = wrap64 (acc + sum_list (map line_total its))"
proof (induction its arbitrary: acc)
  case Nil
  then show ?case by simp
next
  case (Cons it its)
  then obtain q p where it: "oi_qty it = Some q" "oi_unit_price it = Some p"
    by (auto split: option.splits)
  with Cons.prems have "order_sum E its (wrap64 (acc + q * p)) = Some (Inr t)"
    by (auto split: option.splits)
  then have "t = wrap64 (wrap64 (acc + q * p) + sum_list (map line_total its))"
    by (rule Cons.IH) simp
  moreover have "line_total it = q * p" by (simp add: line_total_def it)
  ultimately show ?case by (simp add: add.assoc)
qed

section \<open>Generated employee ids\<close>

lemma uuid_bits_version:
  assumes "uuid_v4 u"
  shows "bit (uuid_bits u) 14"
proof -
  have len: "length u = 16" and v: "drop_bit 4 (u ! 6) = 4" using assms by (simp_all add: uuid_v4_def)
  then obtain b0 b1 b2 b3 b4 b5 b6 b7 rest where u: "u = b0 # b1 # b2 # b3 # b4 # b5 # b6 # b7 # rest"
    by (auto simp: length_Suc_conv eval_nat_numeral)
  have "bit (drop_bit 4 b6) 2" using v u by (simp add: bit_numeral_rec)
  then have "bit b6 6" by (simp add: bit_drop_bit_eq)
  then show ?thesis by (simp add: uuid_bits_def u bit_simps)
qed

lemma rand_id_positive:
  assumes "uuid_v4 u"
  shows "0 < rand_id u \<and> in64 (rand_id u)"
proof -
  let ?r = "uuid_bits u"
  have b: "bit ?r 14" by (rule uuid_bits_version [OF assms])
  have nz: "?r \<noteq> 0" using b by auto
  have nmin: "?r \<noteq> push_bit 63 1" using b by (auto simp: bit_simps)
  have range: "min64 \<le> sint ?r \<and> sint ?r \<le> max64"
    using sint_greater_eq [of ?r] sint_less [of ?r] by simp
  have rep: "?r = word_of_int (sint ?r)" by simp
  have not0: "sint ?r \<noteq> 0"
  proof
    assume "sint ?r = 0"
    then show False using rep nz by simp
  qed
  have notmin: "sint ?r \<noteq> min64"
  proof
    assume "sint ?r = min64"
    then have "?r = word_of_int min64" using rep by simp
    then show False using nmin by simp
  qed
  have "- ?r = word_of_int (- sint ?r)" by simp
  then have "sint (- ?r) = wrap64 (- sint ?r)" by (simp only: wrap64_sint)
  also have "\<dots> = - sint ?r" using range notmin by (intro wrap64_id) (auto simp: in64_def)
  finally have "sint (- ?r) = - sint ?r" .
  then show ?thesis using range not0 notmin by (auto simp: rand_id_def Let_def in64_def)
qed

end
