(* ===== verification/Sync_Handler.thy ===== *)
theory Sync_Handler
  imports Sync_Items_Facts
begin

text \<open>
  \<open>SyncHandler\<close> of \<open>internal/handlers/sync.go\<close> with \<open>createPendingHistory\<close>, \<open>markHistoryFailed\<close> and
  the counters of \<open>internal/metrics/metrics.go\<close>. The request body is the JSON value it holds,
  \<open>None\<close> when it holds none.
\<close>

section \<open>Metrics\<close>

record sync_world = world +
  sync_total :: "string \<times> string \<Rightarrow> nat"
  sync_errors :: "string \<times> string \<Rightarrow> nat"
  sync_duration :: "((string \<times> string) \<times> nat) list"

definition inc :: "('k \<Rightarrow> nat) \<Rightarrow> 'k \<Rightarrow> 'k \<Rightarrow> nat" where
  "inc f k = f(k := Suc (f k))"

definition count_failure :: "string \<Rightarrow> string \<Rightarrow> nat \<Rightarrow> sync_world \<Rightarrow> sync_world" where
  "count_failure cls model secs w =
     w\<lparr>sync_total := inc (sync_total w) (''error'', model),
       sync_errors := inc (sync_errors w) (cls, model),
       sync_duration := sync_duration w @ [((''error'', model), secs)]\<rparr>"

definition count_success :: "string \<Rightarrow> nat \<Rightarrow> sync_world \<Rightarrow> sync_world" where
  "count_success model secs w =
     w\<lparr>sync_total := inc (sync_total w) (''success'', model),
       sync_duration := sync_duration w @ [((''success'', model), secs)]\<rparr>"

section \<open>The history entry of a sync\<close>

definition create_pending_history :: "env \<Rightarrow> string \<Rightarrow> 'm world_scheme \<Rightarrow> (int answer \<times> 'm world_scheme) option" where
  "create_pending_history E payload w =
     (case db_exec E (history_insert payload) w of
        None \<Rightarrow> None
      | Some (Inl e, w') \<Rightarrow> Some (Inl e, w')
      | Some (Inr r, w') \<Rightarrow> Some (last_insert_id E w' r, w'))"

definition truncate_reason :: "string \<Rightarrow> string" where
  "truncate_reason reason = (if 255 < length reason then take 255 reason else reason)"

definition mark_history_failed :: "env \<Rightarrow> int \<Rightarrow> string \<Rightarrow> 'm world_scheme \<Rightarrow> 'm world_scheme option" where
  "mark_history_failed E k reason w =
     map_option snd (db_exec E (history_mark_failed (truncate_reason reason) k) w)"

definition mark_history_successful :: "env \<Rightarrow> int \<Rightarrow> 'm world_scheme \<Rightarrow> 'm world_scheme option" where
  "mark_history_successful E k w = map_option snd (db_exec E (history_mark_successful k) w)"

section \<open>The handler\<close>

definition as_app_error :: "env \<Rightarrow> go_error \<Rightarrow> app_error" where
  "as_app_error E e = (case e of App a \<Rightarrow> a | _ \<Rightarrow> handle_db_error (uni_upper E) (Some e))"

definition error_class :: "app_error \<Rightarrow> string" where
  "error_class a =
     (if ae_status a = 400 then
        (if ae_message a = ''Validation failed'' then ''ValidationException'' else ''ApiException'')
      else if ae_status a = 409 then ''DataIntegrityViolationException''
      else ''InternalServerError'')"

definition sync_failed ::
  "env \<Rightarrow> string \<Rightarrow> int \<Rightarrow> go_error \<Rightarrow> sync_world \<Rightarrow> (response \<times> sync_world) option" where
  "sync_failed E model hist err w =
     (let secs = elapsed E (calls w); appErr = as_app_error E err in
      do { w2 \<leftarrow> mark_history_failed E hist (ae_message appErr) (tx_rollback w);
           Some (answer_error appErr,
                 tx_rollback (count_failure (error_class appErr) model secs w2)) })"

definition sync_commit ::
  "env \<Rightarrow> string \<Rightarrow> int \<Rightarrow> sync_result list \<Rightarrow> sync_world \<Rightarrow> (response \<times> sync_world) option" where
  "sync_commit E model hist results w =
     (let secs = elapsed E (calls w) in
      case tx_commit E w of
        (Inl err, w1) \<Rightarrow>
          (let dbErr = handle_db_error (uni_upper E) (Some err) in
           do { w2 \<leftarrow> mark_history_failed E hist (ae_message dbErr) w1;
                Some (answer_error dbErr,
                      tx_rollback (count_failure ''SqliteException'' model secs w2)) })
      | (Inr u, w1) \<Rightarrow>
          do { w2 \<leftarrow> mark_history_successful E hist w1;
               Some (\<lparr>code = 200, body = Sync_Results ''Sync completed successfully'' results\<rparr>,
                     tx_rollback (count_success model secs w2)) })"

definition sync_transaction ::
  "env \<Rightarrow> string \<Rightarrow> json list \<Rightarrow> int \<Rightarrow> sync_world \<Rightarrow> (response \<times> sync_world) option" where
  "sync_transaction E model data hist w =
     do { (b, w1) \<leftarrow> begin_tx E w;
          case b of
            Inl err \<Rightarrow>
              do { w2 \<leftarrow> mark_history_failed E hist (ae_message (new_internal_error err)) w1;
                   Some (answer_error (new_internal_error err), w2) }
          | Inr u \<Rightarrow>
              do { (r, w2) \<leftarrow> process_items E model data [] w1;
                   case r of
                     Inl err \<Rightarrow> sync_failed E model hist err w2
                   | Inr results \<Rightarrow> sync_commit E model hist results w2 } }"

definition payload_text :: "json list \<Rightarrow> string" where
  "payload_text data = (case marshal_raw data of Some s \<Rightarrow> s | None \<Rightarrow> ''Error serializing payload'')"

definition sync_handler :: "env \<Rightarrow> json option \<Rightarrow> sync_world \<Rightarrow> (response \<times> sync_world) option" where
  "sync_handler E request w =
     (case Option.bind request decode_sync_request of
        None \<Rightarrow> Some (answer_message 400 ''Invalid JSON body'', w)
      | Some payload \<Rightarrow>
         (case validate_struct (validate E) (sync_request_fields payload) of
            Some ve \<Rightarrow> Some (answer_error (parse_validation_error ve), w)
          | None \<Rightarrow>
             (let data = (case sr_data payload of None \<Rightarrow> [] | Some xs \<Rightarrow> xs) in
              do { (h, w1) \<leftarrow> create_pending_history E (payload_text data) w;
                   case h of
                     Inl err \<Rightarrow> Some (answer_message 500 (error_text err), w1)
                   | Inr hist \<Rightarrow> sync_transaction E (sr_model payload) data hist w1 })))"

section \<open>The parts of a run\<close>

text \<open>The tables a sync writes to, apart from its own log.\<close>

definition same_targets :: "database \<Rightarrow> database \<Rightarrow> bool" where
  "same_targets a b \<longleftrightarrow> customers a = customers b \<and> products a = products b \<and> orders a = orders b
     \<and> order_items a = order_items b \<and> employees a = employees b"

lemma same_targets_refl [simp]: "same_targets a a"
  by (simp add: same_targets_def)

lemma same_targets_trans: "same_targets a b \<Longrightarrow> same_targets b c \<Longrightarrow> same_targets a c"
  by (simp add: same_targets_def)

lemma history_statements_same_targets:
  "history_insert p c db = Inr (r, db') \<Longrightarrow> same_targets db db'"
  "history_mark_failed s k c db = Inr (r, db') \<Longrightarrow> same_targets db db'"
  "history_mark_successful k c db = Inr (r, db') \<Longrightarrow> same_targets db db'"
  by (auto simp: history_insert_def history_mark_failed_def history_mark_successful_def history_update_def
      same_targets_def split: option.splits)

lemma run_same_targets:
  assumes "\<forall>c db r db'. s c db = Inr (r, db') \<longrightarrow> same_targets db db'"
  shows "same_targets (wdb w) (wdb (snd (run_stmt E s w)))"
  using assms by (auto simp: run_stmt_def split: option.splits sum.splits)

lemma history_runs_same_targets:
  "same_targets (wdb w) (wdb (snd (run_stmt E (history_insert p) w)))"
  "same_targets (wdb w) (wdb (snd (run_stmt E (history_mark_failed s k) w)))"
  "same_targets (wdb w) (wdb (snd (run_stmt E (history_mark_successful k) w)))"
  by (intro run_same_targets allI impI; erule history_statements_same_targets)+

lemma db_exec_Some: "conn w = Idle \<Longrightarrow> db_exec E s w = Some (run_stmt E s w)"
  by (simp add: db_exec_def)

lemma mark_failed_run:
  "conn w = Idle \<Longrightarrow> mark_history_failed E k reason w =
     Some (snd (run_stmt E (history_mark_failed (truncate_reason reason) k) w))"
  by (simp add: mark_history_failed_def db_exec_Some)

lemma mark_successful_run:
  "conn w = Idle \<Longrightarrow> mark_history_successful E k w = Some (snd (run_stmt E (history_mark_successful k) w))"
  by (simp add: mark_history_successful_def db_exec_Some)

lemma create_pending_run:
  "conn w = Idle \<Longrightarrow> create_pending_history E p w =
     Some (case fst (run_stmt E (history_insert p) w) of
             Inl e \<Rightarrow> Inl e
           | Inr r \<Rightarrow> last_insert_id E (snd (run_stmt E (history_insert p) w)) r,
           snd (run_stmt E (history_insert p) w))"
  by (cases "run_stmt E (history_insert p) w")
     (simp add: create_pending_history_def db_exec_Some split: sum.splits)

lemma count_simps [simp]:
  "wdb (count_failure cls m s w) = wdb w" "conn (count_failure cls m s w) = conn w"
  "pragma_fk (count_failure cls m s w) = pragma_fk w"
  "wdb (count_success m s w) = wdb w" "conn (count_success m s w) = conn w"
  "pragma_fk (count_success m s w) = pragma_fk w"
  by (simp_all add: count_failure_def count_success_def)

end
