(* ===== verification/Sample_Runs.thy ===== *)
theory Sample_Runs
  imports Sync_Handler
begin

text \<open>
  Concrete inputs for the witnesses: an empty database behind an idle connection, and sync requests
  as a client sends them.
\<close>

definition fresh_world :: sync_world where
  "fresh_world = \<lparr>wdb = empty_database, conn = Idle, pragma_fk = True, calls = 0,
     sync_total = (\<lambda>k. 0), sync_errors = (\<lambda>k. 0), sync_duration = []\<rparr>"

definition sync_json :: "string \<Rightarrow> json list \<Rightarrow> json option" where
  "sync_json model data = Some (JObj [(''model'', JStr model), (''data'', JArr data)])"

definition customer_json :: "string \<Rightarrow> json" where
  "customer_json email = JObj [(''email'', JStr email), (''first_name'', JStr ''Ada''), (''last_name'', JStr ''Byron'')]"

definition two_customers :: "json option" where
  "two_customers = sync_json ''customers'' [customer_json ''a@b.c'', customer_json ''d@e.f'']"

definition same_customer_twice :: "json option" where
  "same_customer_twice = sync_json ''customers'' [customer_json ''a@b.c'', customer_json ''a@b.c'']"

definition code_of :: "(response \<times> 'w) option \<Rightarrow> int option" where
  "code_of run = map_option (\<lambda>(resp, w). code resp) run"

lemma code_ofD: "code_of run = Some c \<Longrightarrow> \<exists>resp w'. run = Some (resp, w') \<and> code resp = c"
  by (auto simp: code_of_def)

lemma fresh_world_simps [simp]:
  "wdb fresh_world = empty_database" "conn fresh_world = Idle" "pragma_fk fresh_world"
  by (simp_all add: fresh_world_def)

lemma sample_200: "code_of (sync_handler calm two_customers fresh_world) = Some 200"
  by code_simp

lemma sample_409: "code_of (sync_handler calm same_customer_twice fresh_world) = Some 409"
  by code_simp

lemma sample_400: "code_of (sync_handler calm (sync_json ''suppliers'' [customer_json ''a@b.c'']) fresh_world) = Some 400"
  by code_simp

section \<open>A shop inside a transaction\<close>

definition shop_database :: database where
  "shop_database = empty_database\<lparr>
     customers := \<lparr>rows = [(1, \<lparr>c_email = ''a@b.c'', c_first_name = ''Ada'', c_last_name = ''Byron'',
       c_default_currency = ''USD'', c_created_at = ''2026-06-01'', c_updated_at = ''2026-06-01''\<rparr>)], seq = 1\<rparr>,
     products := \<lparr>rows = [(7, \<lparr>p_name = ''loom'', p_description = None, p_price = 250, p_currency = ''EUR'',
       p_active = 1, p_weight_grams = None, p_created_at = ''2026-06-01'', p_updated_at = ''2026-06-01''\<rparr>)], seq = 7\<rparr>\<rparr>"

definition shop_tx :: sync_world where
  "shop_tx = fresh_world\<lparr>wdb := shop_database, conn := In_Tx shop_database\<rparr>"

definition product_json :: json where
  "product_json = JObj [(''id'', JNum ''7''), (''name'', JStr ''jacquard loom''), (''price'', JNum ''300''), (''active'', JBool False)]"

definition order_json :: json where
  "order_json = JObj [(''order_number'', JStr ''A-1''), (''customer_id'', JNum ''1''), (''status'', JStr ''paid''),
     (''items'', JArr [JObj [(''product_id'', JNum ''7''), (''qty'', JNum ''2''), (''unit_price'', JNum ''250'')]])]"

definition employee_json :: "string \<Rightarrow> json" where
  "employee_json eid = JObj [(''id'', JStr eid), (''employeeId'', JStr ''E31''), (''firstName'', JStr ''Grace''),
     (''lastName'', JStr ''Hopper''), (''email'', JStr ''g@h.i'')]"

definition stored_as :: "('e + sync_result, 'w) prod option \<Rightarrow> sync_result option" where
  "stored_as run = (case run of Some (Inr res, w) \<Rightarrow> Some res | _ \<Rightarrow> None)"

lemma stored_asD: "stored_as run = Some res \<Longrightarrow> \<exists>w'. run = Some (Inr res, w')"
  by (auto simp: stored_as_def split: option.splits sum.splits prod.splits)

lemma shop_tx_simps [simp]: "wdb shop_tx = shop_database"
  by (simp add: shop_tx_def)

lemma shop_ordered:
  "ordered (customers shop_database)" "ordered (products shop_database)" "ordered (orders shop_database)"
  "ordered (order_items shop_database)" "ordered (employees shop_database)"
  by (simp_all add: shop_database_def empty_database_def ordered_def empty_table_def)

lemma sample_customer: "stored_as (process_customer calm (customer_json ''g@h.i'') shop_tx) = Some \<lparr>res_id = 2, res_status = ''created''\<rparr>"
  by code_simp

lemma sample_product: "stored_as (process_product calm product_json shop_tx) = Some \<lparr>res_id = 7, res_status = ''updated''\<rparr>"
  by code_simp

lemma sample_order: "stored_as (process_order calm order_json shop_tx) = Some \<lparr>res_id = 1, res_status = ''created''\<rparr>"
  by code_simp

lemma sample_employee: "stored_as (process_employee calm (employee_json ''31'') shop_tx) = Some \<lparr>res_id = 31, res_status = ''updated''\<rparr>"
  by code_simp

end
