(* ===== verification/Sync_Stored.thy ===== *)
theory Sync_Stored
  imports Sync_Items_Facts Sample_Runs
begin

text \<open>
  What a processed item leaves in the database, model by model: the row under the id the result
  reports, every other row as it was, and for an order its amount and its items.
\<close>

section \<open>Statements that succeed\<close>

lemma tx_exec_ok:
  "tx_exec E s w = (Inr r, w') \<Longrightarrow> s (ctx_of E w) (wdb w) = Inr (r, wdb w')"
  by (auto simp: tx_exec_def run_stmt_def split: conn.splits option.splits sum.splits prod.splits)

lemma save_with_ok:
  "save_with E s k w = (Inr j, w') \<Longrightarrow> j = k \<and> (\<exists>r. s (ctx_of E w) (wdb w) = Inr (r, wdb w'))"
  by (auto simp: save_with_def dest!: tx_exec_ok split: prod.splits sum.splits)

lemma save_new_ok:
  "save_new E s w = (Inr j, w') \<Longrightarrow> \<exists>r. s (ctx_of E w) (wdb w) = Inr (r, wdb w') \<and> er_last_id r = j"
  by (auto simp: save_new_def last_insert_id_def dest!: tx_exec_ok split: prod.splits sum.splits option.splits)

lemma report_ok:
  "report st x = (Inr res, w') \<Longrightarrow> x = (Inr (res_id res), w') \<and> res_status res = st"
  by (auto simp: report_def split: prod.splits sum.splits)

lemmas save_ok = save_with_ok save_new_ok

text \<open>
  The id an item is stored under: the client's own, reported as \<open>updated\<close>, or the table's next one,
  reported as \<open>created\<close>.
\<close>

definition stored_id :: "int option \<Rightarrow> 'r table \<Rightarrow> sync_result \<Rightarrow> bool" where
  "stored_id own t res \<longleftrightarrow> (case own of
      Some k \<Rightarrow> res = \<lparr>res_id = k, res_status = ''updated''\<rparr>
    | None \<Rightarrow> res_status res = ''created'' \<and> new_rowid t = Some (res_id res))"

section \<open>customers\<close>

definition customer_holds :: "customer_dto \<Rightarrow> customer_row \<Rightarrow> bool" where
  "customer_holds d r \<longleftrightarrow> c_email r = cu_email d \<and> c_first_name r = cu_first_name d \<and> c_last_name r = cu_last_name d
     \<and> c_default_currency r = default_to ''USD'' (cu_default_currency d)"

lemma customer_statements_ok:
  "ordered (customers db) \<Longrightarrow> customer_upsert k em fn ln cur c db = Inr (r, db') \<Longrightarrow>
     only_at k (customers db) (customers db') \<and> (\<exists>row. tlookup k (customers db') = Some row \<and> c_email row = em
       \<and> c_first_name row = fn \<and> c_last_name row = ln \<and> c_default_currency row = cur)"
  "ordered (customers db) \<Longrightarrow> customer_insert em fn ln cur c db = Inr (r, db') \<Longrightarrow>
     new_rowid (customers db) = Some (er_last_id r) \<and> only_at (er_last_id r) (customers db) (customers db')
     \<and> (\<exists>row. tlookup (er_last_id r) (customers db') = Some row \<and> c_email row = em
       \<and> c_first_name row = fn \<and> c_last_name row = ln \<and> c_default_currency row = cur)"
  by (auto simp: customer_upsert_def customer_insert_def Let_def auto.look_put split: option.splits if_split_asm)

text \<open>A customer item that is processed is in the table under the reported id with the values of
  the item, currency USD where it names none; no other row of the table differs. The id is the
  item's own, or the next rowid.\<close>

theorem customer_stored:
  assumes t: "ordered (customers (wdb w))" and run: "process_customer E v w = Some (Inr res, w')"
  shows "\<exists>d row. decode_customer v = Some d \<and> validate E (customer_fields d) = []
    \<and> stored_id (cu_id d) (customers (wdb w)) res
    \<and> tlookup (res_id res) (customers (wdb w')) = Some row \<and> customer_holds d row
    \<and> only_at (res_id res) (customers (wdb w)) (customers (wdb w'))"
proof -
  obtain d where d: "decode_customer v = Some d" "validate E (customer_fields d) = []"
    using run by (auto simp: process_customer_def split: option.splits)
  show ?thesis
  proof (cases "cu_id d")
    case None
    then show ?thesis using run d customer_statements_ok(2) [OF t]
      by (fastforce simp: process_customer_def Let_def stored_id_def item_status_def customer_holds_def
          dest!: report_ok save_ok)
  next
    case (Some k)
    then show ?thesis using run d customer_statements_ok(1) [OF t]
      by (fastforce simp: process_customer_def Let_def stored_id_def item_status_def customer_holds_def
          dest!: report_ok save_ok)
  qed
qed

theorem customer_stored_witness:
  "\<exists>w' row. process_customer calm (customer_json ''g@h.i'') shop_tx = Some (Inr \<lparr>res_id = 2, res_status = ''created''\<rparr>, w')
    \<and> tlookup 2 (customers (wdb w')) = Some row \<and> only_at 2 (customers shop_database) (customers (wdb w'))"
  using stored_asD [OF sample_customer] customer_stored [of shop_tx calm "customer_json ''g@h.i''"] shop_ordered
  by fastforce

section \<open>products\<close>

definition product_holds :: "product_dto \<Rightarrow> product_row \<Rightarrow> bool" where
  "product_holds d r \<longleftrightarrow> p_name r = pr_name d \<and> p_description r = pr_description d \<and> Some (p_price r) = pr_price d
     \<and> p_currency r = default_to ''USD'' (pr_currency d) \<and> p_active r = active_value (pr_active d)
     \<and> p_weight_grams r = pr_weight_grams d"

lemma product_statements_ok:
  "ordered (products db) \<Longrightarrow> product_upsert k nm ds pr cur act wg c db = Inr (r, db') \<Longrightarrow>
     only_at k (products db) (products db') \<and> (\<exists>row. tlookup k (products db') = Some row \<and> p_name row = nm
       \<and> p_description row = ds \<and> p_price row = pr \<and> p_currency row = cur \<and> p_active row = act \<and> p_weight_grams row = wg)"
  "ordered (products db) \<Longrightarrow> product_insert nm ds pr cur act wg c db = Inr (r, db') \<Longrightarrow>
     new_rowid (products db) = Some (er_last_id r) \<and> only_at (er_last_id r) (products db) (products db')
     \<and> (\<exists>row. tlookup (er_last_id r) (products db') = Some row \<and> p_name row = nm
       \<and> p_description row = ds \<and> p_price row = pr \<and> p_currency row = cur \<and> p_active row = act \<and> p_weight_grams row = wg)"
  by (auto simp: product_upsert_def product_insert_def Let_def auto.look_put split: option.splits if_split_asm)

text \<open>A product item that is processed is in the table under the reported id with the values of
  the item: active is 1 unless the item says false, the currency USD unless it names one.\<close>

theorem product_stored:
  assumes t: "ordered (products (wdb w))" and run: "process_product E v w = Some (Inr res, w')"
  shows "\<exists>d row. decode_product v = Some d \<and> validate E (product_fields d) = []
    \<and> stored_id (pr_id d) (products (wdb w)) res
    \<and> tlookup (res_id res) (products (wdb w')) = Some row \<and> product_holds d row
    \<and> only_at (res_id res) (products (wdb w)) (products (wdb w'))"
proof -
  obtain d price where d: "decode_product v = Some d" "validate E (product_fields d) = []" "pr_price d = Some price"
    using run by (auto simp: process_product_def Let_def split: option.splits)
  show ?thesis
  proof (cases "pr_id d")
    case None
    then show ?thesis using run d product_statements_ok(2) [OF t]
      by (fastforce simp: process_product_def Let_def stored_id_def item_status_def product_holds_def
          dest!: report_ok save_ok)
  next
    case (Some k)
    then show ?thesis using run d product_statements_ok(1) [OF t]
      by (fastforce simp: process_product_def Let_def stored_id_def item_status_def product_holds_def
          dest!: report_ok save_ok)
  qed
qed

theorem product_stored_witness:
  "\<exists>w' row. process_product calm product_json shop_tx = Some (Inr \<lparr>res_id = 7, res_status = ''updated''\<rparr>, w')
    \<and> tlookup 7 (products (wdb w')) = Some row \<and> only_at 7 (products shop_database) (products (wdb w'))"
  using stored_asD [OF sample_product] product_stored [of shop_tx calm product_json] shop_ordered
  by fastforce

section \<open>employees\<close>

lemma employee_statements_ok:
  "ordered (employees db) \<Longrightarrow> employee_upsert k row c db = Inr (r, db') \<Longrightarrow>
     tlookup k (employees db') = Some row \<and> only_at k (employees db) (employees db')"
  "ordered (employees db) \<Longrightarrow> employee_insert k row c db = Inr (r, db') \<Longrightarrow>
     tlookup k (employees db) = None \<and> tlookup k (employees db') = Some row \<and> only_at k (employees db) (employees db')"
  by (auto simp: employee_upsert_def employee_insert_def plain.look_put split: if_split_asm)

text \<open>C18: An employee item that is processed is in the table with all its columns, under its own id
  where that is a decimal number of 64 bits, reported as updated; otherwise under a positive random
  id no employee had, reported as created.\<close>

theorem employee_stored:
  assumes t: "ordered (employees (wdb w))" and uuid: "uuid_v4 (new_uuid E (calls w))"
    and run: "process_employee E v w = Some (Inr res, w')"
  shows "\<exists>d. decode_employee v = Some d \<and> tlookup (res_id res) (employees (wdb w')) = Some (employee_of d)
    \<and> only_at (res_id res) (employees (wdb w)) (employees (wdb w'))
    \<and> (case parse_int (em_id d) of
         Some k \<Rightarrow> res = \<lparr>res_id = k, res_status = ''updated''\<rparr>
       | None \<Rightarrow> res_status res = ''created'' \<and> 0 < res_id res \<and> in64 (res_id res)
           \<and> tlookup (res_id res) (employees (wdb w)) = None)"
proof -
  obtain d where d: "decode_employee v = Some d" "validate E (employee_fields d) = []"
    using run by (auto simp: process_employee_def split: option.splits)
  show ?thesis
  proof (cases "parse_int (em_id d)")
    case None
    then show ?thesis using run d employee_statements_ok(2) [OF t] rand_id_positive [OF uuid]
      by (fastforce simp: process_employee_def Let_def item_status_def dest!: report_ok save_ok)
  next
    case (Some k)
    then show ?thesis using run d employee_statements_ok(1) [OF t]
      by (fastforce simp: process_employee_def Let_def item_status_def dest!: report_ok save_ok)
  qed
qed

theorem employee_stored_witness:
  "\<exists>w' row. process_employee calm (employee_json ''31'') shop_tx = Some (Inr \<lparr>res_id = 31, res_status = ''updated''\<rparr>, w')
    \<and> tlookup 31 (employees (wdb w')) = Some row"
  using stored_asD [OF sample_employee] employee_stored [of shop_tx calm "employee_json ''31''"] shop_ordered calm_uuid_v4
  by fastforce

section \<open>Replays\<close>

lemma put_row_again: "sorted_wrt (<) (map fst xs) \<Longrightarrow> put_row k r (put_row k r xs) = put_row k r xs"
  by (induction k r xs rule: put_row.induct) auto

lemma tput_again: "ordered t \<Longrightarrow> tput k r (tput k r t) = tput k r t"
  by (simp add: ordered_def tput_def put_row_again)

lemma tput_not_taken:
  assumes t: "ordered t" and free: "\<not> taken col v k t"
  shows "\<not> taken col v k (tput k r t)"
  using free by (auto simp: not_taken_iff t ordered_put plain.look_put split: if_split_asm)

lemma employee_upsert_again:
  assumes t: "ordered (employees db)" and ok: "employee_upsert k row c db = Inr (r, db')"
  shows "employee_upsert k row c' db' = Inr (r, db')"
proof -
  have free: "\<not> taken e_email (e_email row) k (employees db)"
    and db': "db' = db\<lparr>employees := tput k row (employees db)\<rparr>" and r: "r = \<lparr>er_last_id = k, er_affected = 1\<rparr>"
    using ok by (auto simp: employee_upsert_def split: if_split_asm)
  show ?thesis using tput_not_taken [OF t free, of row] tput_again [OF t] by (simp add: employee_upsert_def db' r)
qed

text \<open>C19: Sending an employee with a decimal id again changes nothing: the second run reports the same
  result and leaves the database as the first one left it.\<close>

theorem employee_replay:
  assumes t: "ordered (employees (wdb w))" and d: "decode_employee v = Some d" "parse_int (em_id d) = Some k"
    and run: "process_employee E v w = Some (Inr res, w1)"
    and again: "fault E (calls w1) = None"
  shows "\<exists>w2. process_employee E v w1 = Some (Inr res, w2) \<and> wdb w2 = wdb w1"
proof -
  have ok: "validate E (employee_fields d) = []"
    using run d(1) by (auto simp: process_employee_def split: option.splits)
  have step: "process_employee E v u =
      Some (report ''updated'' (save_with E (employee_upsert k (employee_of d)) k u))" for u :: "'a world_scheme"
    using ok d by (simp add: process_employee_def item_status_def)
  obtain r where r: "tx_exec E (employee_upsert k (employee_of d)) w = (Inr r, w1)"
    and res: "res = \<lparr>res_id = k, res_status = ''updated''\<rparr>"
    using run step by (auto simp: report_def save_with_def split: prod.splits sum.splits)
  obtain base where base: "conn w1 = In_Tx base"
    using r by (auto simp: tx_exec_def run_stmt_def split: conn.splits option.splits sum.splits prod.splits)
  have "tx_exec E (employee_upsert k (employee_of d)) w1 = (Inr r, (tick w1)\<lparr>wdb := wdb w1\<rparr>)"
    using employee_upsert_again [OF t tx_exec_ok [OF r]] base again by (simp add: tx_exec_def run_stmt_def)
  then show ?thesis using step res by (simp add: report_def save_with_def)
qed

theorem employee_replay_witness:
  "\<exists>w1 w2. process_employee calm (employee_json ''31'') shop_tx = Some (Inr \<lparr>res_id = 31, res_status = ''updated''\<rparr>, w1)
    \<and> process_employee calm (employee_json ''31'') w1 = Some (Inr \<lparr>res_id = 31, res_status = ''updated''\<rparr>, w2)
    \<and> wdb w2 = wdb w1"
proof -
  have id: "map_option (\<lambda>d. parse_int (em_id d)) (decode_employee (employee_json ''31'')) = Some (Some 31)"
    by code_simp
  obtain w1 where run: "process_employee calm (employee_json ''31'') shop_tx = Some (Inr \<lparr>res_id = 31, res_status = ''updated''\<rparr>, w1)"
    using stored_asD [OF sample_employee] by blast
  have t: "ordered (employees (wdb shop_tx))" by (simp add: shop_ordered)
  show ?thesis using id employee_replay [OF t _ _ run] run by fastforce
qed

section \<open>orders\<close>

definition order_lines :: "int \<Rightarrow> database \<Rightarrow> (int \<times> int \<times> int) list" where
  "order_lines ord db = map (\<lambda>(k, i). (i_product_id i, i_qty i, i_unit_price i))
     (filter (\<lambda>(k, i). i_order_id i = ord) (rows (order_items db)))"

definition line_of :: "order_item_dto \<Rightarrow> int \<times> int \<times> int" where
  "line_of it = (the (oi_product_id it), the (oi_qty it), the (oi_unit_price it))"

lemma order_item_insert_ok:
  assumes t: "ordered (order_items db)" and s: "order_item_insert ord pid q up c db = Inr (r, db')"
  shows "order_lines o' db' = order_lines o' db @ (if o' = ord then [(pid, q, up)] else [])"
    and "orders db' = orders db" and "ordered (order_items db')"
  using s auto_put_new [OF t] t
  by (auto simp: order_item_insert_def order_lines_def split: option.splits if_split_asm)

lemma insert_items_ok:
  fixes w :: "'m world_scheme"
  assumes "ordered (order_items (wdb w))" "insert_items E ord its w = Some (Inr u, w')"
  shows "order_lines o' (wdb w') = order_lines o' (wdb w) @ (if o' = ord then map line_of its else [])
    \<and> orders (wdb w') = orders (wdb w)"
  using assms
proof (induction its arbitrary: w)
  case Nil
  then show ?case by simp
next
  case (Cons it its)
  then obtain pid q p where it: "oi_product_id it = Some pid" "oi_qty it = Some q" "oi_unit_price it = Some p"
    by (auto split: option.splits)
  obtain x w1 where x: "tx_exec E (order_item_insert ord pid q p) w = (x, w1)" by fastforce
  then obtain r where r: "x = Inr r" and run: "insert_items E ord its w1 = Some (Inr u, w')"
    using Cons.prems(2) it by (cases x) auto
  have "order_item_insert ord pid q p (ctx_of E w) (wdb w) = Inr (r, wdb w1)"
    using tx_exec_ok x r by blast
  note ok = order_item_insert_ok [OF Cons.prems(1) this]
  have "line_of it = (pid, q, p)" by (simp add: line_of_def it)
  then show ?case using Cons.IH [OF ok(3) run] ok(1,2) by simp
qed

lemma order_items_delete_ok:
  assumes "order_items_delete ord c db = Inr (r, db')" and "ordered (order_items db)"
  shows "order_lines o' db' = (if o' = ord then [] else order_lines o' db)"
    and "orders db' = orders db" and "ordered (order_items db')"
proof -
  have db': "db' = db\<lparr>order_items := tdelete (\<lambda>k r. i_order_id r = ord) (order_items db)\<rparr>"
    using assms(1) by (simp add: order_items_delete_def)
  show "orders db' = orders db" "ordered (order_items db')" using assms(2) by (auto simp: db')
  have "filter (\<lambda>(k, i). i_order_id i = o') (filter (\<lambda>(k, i). i_order_id i \<noteq> ord) xs) =
      (if o' = ord then [] else filter (\<lambda>(k, i). i_order_id i = o') xs)" for xs :: "(int \<times> item_row) list"
    by (induction xs) auto
  then show "order_lines o' db' = (if o' = ord then [] else order_lines o' db)"
    by (simp add: db' order_lines_def tdelete_def)
qed

lemma replace_items_ok:
  assumes t: "ordered (order_items (wdb w))" and run: "replace_items E ord items w = Some (Inr u, w')"
  shows "orders (wdb w') = orders (wdb w) \<and> order_lines o' (wdb w') =
    (case items of Some its \<Rightarrow> if o' = ord then map line_of its else order_lines o' (wdb w)
                 | None \<Rightarrow> order_lines o' (wdb w))"
proof (cases items)
  case None
  then show ?thesis using run by (simp add: replace_items_def)
next
  case (Some its)
  obtain x w1 where x: "tx_exec E (order_items_delete ord) w = (x, w1)" by fastforce
  then obtain r where r: "x = Inr r" and ins: "insert_items E ord its w1 = Some (Inr u, w')"
    using run Some by (cases x) (auto simp: replace_items_def)
  note del = order_items_delete_ok [OF tx_exec_ok [OF x [unfolded r]] t]
  show ?thesis using insert_items_ok [OF del(3) ins] del(1,2) Some by simp
qed

definition order_holds :: "order_dto \<Rightarrow> order_row \<Rightarrow> bool" where
  "order_holds d r \<longleftrightarrow> o_order_number r = or_order_number d \<and> Some (o_customer_id r) = or_customer_id d
     \<and> o_status r = or_status d \<and> o_currency r = default_to ''USD'' (or_currency d)"

lemma order_statements_ok:
  "ordered (orders db) \<Longrightarrow> order_upsert k num cust st cur amt c db = Inr (r, db') \<Longrightarrow>
     order_items db' = order_items db \<and> only_at k (orders db) (orders db')
     \<and> (\<exists>row. tlookup k (orders db') = Some row \<and> o_order_number row = num
       \<and> o_customer_id row = cust \<and> o_status row = st \<and> o_currency row = cur \<and> o_amount row = amt)"
  "ordered (orders db) \<Longrightarrow> order_insert num cust st cur amt c db = Inr (r, db') \<Longrightarrow>
     new_rowid (orders db) = Some (er_last_id r) \<and> order_items db' = order_items db
     \<and> only_at (er_last_id r) (orders db) (orders db')
     \<and> (\<exists>row. tlookup (er_last_id r) (orders db') = Some row \<and> o_order_number row = num
       \<and> o_customer_id row = cust \<and> o_status row = st \<and> o_currency row = cur \<and> o_amount row = amt)"
  by (auto simp: order_upsert_def order_insert_def Let_def auto.look_put split: option.splits if_split_asm)

lemma save_order_ok:
  assumes t: "ordered (orders (wdb w))" and run: "save_order E d cust amount w = (Inr k, w')"
  shows "order_items (wdb w') = order_items (wdb w) \<and> only_at k (orders (wdb w)) (orders (wdb w'))
    \<and> (case or_id d of Some j \<Rightarrow> j = k | None \<Rightarrow> new_rowid (orders (wdb w)) = Some k)
    \<and> (\<exists>row. tlookup k (orders (wdb w')) = Some row \<and> o_order_number row = or_order_number d
       \<and> o_customer_id row = cust \<and> o_status row = or_status d
       \<and> o_currency row = default_to ''USD'' (or_currency d) \<and> o_amount row = amount)"
proof (cases "or_id d")
  case None
  then show ?thesis using run order_statements_ok(2) [OF t]
    by (fastforce simp: save_order_def Let_def dest!: save_ok)
next
  case (Some j)
  then show ?thesis using run order_statements_ok(1) [OF t]
    by (fastforce simp: save_order_def Let_def dest!: save_ok)
qed

lemma order_amount_ok:
  assumes "order_amount E d = Some (Inr amount)"
  shows "case or_items d of
      Some its \<Rightarrow> its \<noteq> [] \<and> amount = wrap64 (sum_list (map line_total its)) \<and> or_amount d \<in> {None, Some amount}
    | None \<Rightarrow> or_amount d = Some amount"
proof (cases "or_items d")
  case None
  then show ?thesis using assms by (simp add: order_amount_def split: option.splits)
next
  case (Some its)
  then obtain calc where sum: "order_sum E its 0 = Some (Inr calc)" "amount = calc" and its: "its \<noteq> []"
    and given: "or_amount d \<in> {None, Some amount}"
    using assms by (auto simp: order_amount_def split: option.splits sum.splits if_split_asm)
  have "wrap64 0 = 0" by (simp add: wrap64_def)
  then have "calc = wrap64 (sum_list (map line_total its))" using order_sum_wraps [OF sum(1)] by simp
  then show ?thesis using Some sum(2) its given by simp
qed

text \<open>C17: An order item that is processed is in the table with the values of the item. Where it lists
  items, the amount is the sum of quantity times unit price in Go's 64-bit arithmetic and agrees
  with the amount the item names, and the order's lines are exactly the listed ones, in order;
  where it lists none, the amount is the one named and no line changes. Lines of other orders stay.\<close>

theorem order_stored:
  assumes t: "ordered (orders (wdb w))" "ordered (order_items (wdb w))"
    and run: "process_order E v w = Some (Inr res, w')"
  shows "\<exists>d row. decode_order v = Some d \<and> stored_id (or_id d) (orders (wdb w)) res
    \<and> tlookup (res_id res) (orders (wdb w')) = Some row \<and> order_holds d row
    \<and> only_at (res_id res) (orders (wdb w)) (orders (wdb w'))
    \<and> (case or_items d of
         Some its \<Rightarrow> o_amount row = wrap64 (sum_list (map line_total its)) \<and> or_amount d \<in> {None, Some (o_amount row)}
           \<and> order_lines (res_id res) (wdb w') = map line_of its
       | None \<Rightarrow> or_amount d = Some (o_amount row)
           \<and> order_lines (res_id res) (wdb w') = order_lines (res_id res) (wdb w))
    \<and> (\<forall>j. j \<noteq> res_id res \<longrightarrow> order_lines j (wdb w') = order_lines j (wdb w))"
proof -
  obtain d amount cust k w1 u where d: "decode_order v = Some d" "order_amount E d = Some (Inr amount)"
    "or_customer_id d = Some cust" and save: "save_order E d cust amount w = (Inr k, w1)"
    and rep: "replace_items E k (or_items d) w1 = Some (Inr u, w')"
    and res: "res = \<lparr>res_id = k, res_status = item_status (or_id d \<noteq> None)\<rparr>"
    using run by (auto simp: process_order_def split: option.splits sum.splits prod.splits)
  note saved = save_order_ok [OF t(1) save]
  then have items: "order_items (wdb w1) = order_items (wdb w)" by blast
  then have lines: "order_lines j (wdb w1) = order_lines j (wdb w)" for j by (simp add: order_lines_def)
  have rep': "orders (wdb w') = orders (wdb w1) \<and> order_lines j (wdb w') =
      (case or_items d of Some its \<Rightarrow> if j = k then map line_of its else order_lines j (wdb w)
        | None \<Rightarrow> order_lines j (wdb w))" for j
    using replace_items_ok [OF _ rep, of j] t(2) items lines by (cases "or_items d") simp_all
  have id: "stored_id (or_id d) (orders (wdb w)) res"
    using saved by (auto simp: stored_id_def res item_status_def split: option.splits)
  obtain row where row: "tlookup k (orders (wdb w')) = Some row" "order_holds d row" "o_amount row = amount"
    using saved rep' d(3) by (auto simp: order_holds_def)
  show ?thesis
    using d(1) id row saved rep' order_amount_ok [OF d(2)] by (fastforce simp: res split: option.splits)
qed

theorem order_stored_witness:
  "\<exists>w' row. process_order calm order_json shop_tx = Some (Inr \<lparr>res_id = 1, res_status = ''created''\<rparr>, w')
    \<and> tlookup 1 (orders (wdb w')) = Some row"
  using stored_asD [OF sample_order] order_stored [of shop_tx calm order_json] shop_ordered
  by fastforce

end
