(* ===== verification/Middleware.thy ===== *)
theory Middleware
  imports Environment
begin

text \<open>
  \<open>internal/middleware/middleware.go\<close> and \<open>internal/config/config.go\<close>. A header or an environment
  variable that is absent is the empty text, as \<open>GetHeader\<close> and \<open>os.Getenv\<close> return it; the body is
  the text that could be read of it.
\<close>

section \<open>Configuration\<close>

record config =
  cf_port :: int
  cf_auth_token :: string
  cf_database_url :: string

definition load_config :: "(string \<Rightarrow> string) \<Rightarrow> config" where
  "load_config getenv =
     (let portStr = (if getenv ''APP_PORT'' = [] then ''3000'' else getenv ''APP_PORT'');
          port = (case parse_int portStr of None \<Rightarrow> 3000 | Some n \<Rightarrow> n);
          authToken = (if getenv ''AUTHORIZATION_KEY'' = [] then ''your-secret-auth-key'' else getenv ''AUTHORIZATION_KEY'');
          dbURL = (if getenv ''DATABASE_URL'' = [] then ''sqlite::memory:?cache=shared'' else getenv ''DATABASE_URL'')
      in \<lparr>cf_port = port, cf_auth_token = authToken, cf_database_url = dbURL\<rparr>)"

lemma auth_token_set [simp]: "cf_auth_token (load_config getenv) \<noteq> []"
  by (simp add: load_config_def)

section \<open>Middleware\<close>

definition request_id :: "env \<Rightarrow> nat \<Rightarrow> string \<Rightarrow> string" where
  "request_id E n hdr = (if hdr = [] then uuid_text E (new_uuid E n) else hdr)"

definition token_fails :: "string \<Rightarrow> string \<Rightarrow> bool" where
  "token_fails authToken token \<longleftrightarrow> token = [] \<or> token \<noteq> authToken"

definition guarded_mutation :: "string \<Rightarrow> bool" where
  "guarded_mutation bodyStr \<longleftrightarrow>
     contains bodyStr ''createEmployee'' \<or> contains bodyStr ''mutation'' \<and> contains bodyStr ''create''"

text \<open>\<open>auth_passes\<close>: the request goes on to its handler; otherwise it is answered 401, Access Denied.\<close>

definition auth_passes :: "string \<Rightarrow> string \<Rightarrow> string \<Rightarrow> string \<Rightarrow> string \<Rightarrow> bool" where
  "auth_passes authToken method path token bodyStr =
     (if path = ''/api/v1/healthz'' \<or> path = ''/healthz'' then True
      else if path = ''/graphql'' \<or> has_suffix path ''/graphql'' then
        (if method = ''POST'' \<and> guarded_mutation bodyStr then \<not> token_fails authToken token else True)
      else if has_prefix path ''/api/v1/sync'' \<or> has_prefix path ''/api/v1/sync-history'' then
        \<not> token_fails authToken token
      else True)"

section \<open>Who passes\<close>

lemma token_holder_passes: "token \<noteq> [] \<Longrightarrow> auth_passes token m p token b"
  by (simp add: auth_passes_def token_fails_def)

text \<open>A POST to the GraphQL endpoint whose body holds the text \<open>createEmployee\<close> anywhere, at whatever
  path ending in \<open>/graphql\<close>, passes only with the service's token.\<close>

theorem create_employee_guarded:
  assumes "has_suffix p ''/graphql''" and "token_fails tok hdr"
  shows "\<not> auth_passes tok ''POST'' p hdr (pre @ ''createEmployee'' @ post)"
proof -
  have "contains (pre @ ''createEmployee'' @ post) ''createEmployee''" unfolding contains_iff by blast
  then have "guarded_mutation (pre @ ''createEmployee'' @ post)" by (simp add: guarded_mutation_def)
  moreover have "p \<noteq> ''/api/v1/healthz''" "p \<noteq> ''/healthz''"
    using assms(1) by (auto simp: has_suffix_def has_prefix_def)
  ultimately show ?thesis using assms by (simp add: auth_passes_def)
qed

theorem create_employee_guarded_witness:
  "\<not> auth_passes ''key'' ''POST'' ''/graphql'' ''guess'' (''{ query: mutation { '' @ ''createEmployee'' @ '' } }'')"
  by (rule create_employee_guarded) code_simp+

end
