(* ===== verification/Sync_Props.thy ===== *)
theory Sync_Props
  imports Sync_Handler
begin

text \<open>
  What \<open>SyncHandler\<close> promises: it always answers and gives the connection back, all items of a
  payload are stored or none, its log records what happened, and the database stays consistent.
\<close>

section \<open>The run, path by path\<close>

lemma tx_after_begin:
  "conn w = Idle \<Longrightarrow> begin_tx E w = Some (Inr u, w1) \<Longrightarrow>
     conn w1 = In_Tx (wdb w) \<and> wdb w1 = wdb w \<and> pragma_fk w1 = pragma_fk w \<and> world.more w1 = world.more w"
  by (auto simp: begin_tx_def split: option.splits)

lemma tx_after_begin_error:
  "conn w = Idle \<Longrightarrow> begin_tx E w = Some (Inl e, w1) \<Longrightarrow> w1 = tick w"
  by (auto simp: begin_tx_def split: option.splits)

lemma rollback_back:
  "conn w = In_Tx base \<Longrightarrow> wdb (tx_rollback w) = base \<and> conn (tx_rollback w) = Idle"
  by (simp add: tx_rollback_def)

lemma commit_run:
  assumes "conn w = In_Tx base" "tx_commit E w = (r, w1)"
  shows "conn w1 = Idle" and "pragma_fk w1 = pragma_fk w" and "world.more w1 = world.more w"
    and "r = Inr u \<Longrightarrow> wdb w1 = wdb w"
    and "r = Inl e \<Longrightarrow> commits_clean E \<Longrightarrow> wdb w1 = base"
    and "wdb w1 = wdb w \<or> wdb w1 = base"
  using assms by (auto simp: tx_commit_def commits_clean_def split: option.splits)

text \<open>The errors an item can end in carry status 400, or are the driver's.\<close>

definition item_error :: "go_error \<Rightarrow> bool" where
  "item_error e \<longleftrightarrow> (case e of App a \<Rightarrow> ae_status a = 400 | No_Rows \<Rightarrow> False | Other s \<Rightarrow> True)"

lemma item_error_simps [simp]:
  "item_error (Other s)" "item_error (App a) \<longleftrightarrow> ae_status a = 400" "item_error malformed_item"
  "item_error needs_amount" "item_error (amount_mismatch c p)"
  by (simp_all add: item_error_def malformed_item_def needs_amount_def amount_mismatch_def)

lemma tx_exec_error: "tx_exec E s w = (Inl e, w') \<Longrightarrow> item_error e"
  by (auto simp: tx_exec_def run_stmt_def split: conn.splits option.splits sum.splits prod.splits)

lemma save_error:
  "save_with E s k w = (Inl e, w') \<Longrightarrow> item_error e"
  "save_new E s w = (Inl e, w') \<Longrightarrow> item_error e"
  by (auto simp: save_with_def save_new_def last_insert_id_def dest: tx_exec_error
      split: prod.splits sum.splits option.splits)

lemma report_error: "report st x = (Inl e, w') \<Longrightarrow> x = (Inl e, w')"
  by (auto simp: report_def split: prod.splits sum.splits)

lemma order_sum_error: "order_sum E its acc = Some (Inl e) \<Longrightarrow> item_error e"
  by (induction its arbitrary: acc) (auto split: option.splits)

lemma order_amount_error: "order_amount E d = Some (Inl e) \<Longrightarrow> item_error e"
  by (auto simp: order_amount_def dest: order_sum_error split: option.splits sum.splits if_split_asm)

lemma insert_items_error: "insert_items E ord its w = Some (Inl e, w') \<Longrightarrow> item_error e"
  by (induction its arbitrary: w) (auto dest: tx_exec_error split: option.splits prod.splits sum.splits)

lemma replace_items_error: "replace_items E ord items w = Some (Inl e, w') \<Longrightarrow> item_error e"
  by (auto simp: replace_items_def dest: tx_exec_error insert_items_error split: option.splits prod.splits sum.splits)

lemma save_order_error: "save_order E d cust amount w = (Inl e, w') \<Longrightarrow> item_error e"
  by (auto simp: save_order_def Let_def dest: save_error split: option.splits)

lemma process_order_error: "process_order E v w = Some (Inl e, w') \<Longrightarrow> item_error e"
  by (auto simp: process_order_def dest: save_order_error replace_items_error order_amount_error
      split: option.splits prod.splits sum.splits)

lemma process_item_error: "process_item E model v w = Some (Inl e, w') \<Longrightarrow> item_error e"
  by (auto simp: process_item_def process_customer_def process_product_def process_employee_def Let_def
      dest!: report_error dest: save_error process_order_error split: option.splits if_split_asm)

lemma process_items_error: "process_items E model vs results w = Some (Inl e, w') \<Longrightarrow> item_error e"
  by (induction vs arbitrary: results w)
     (auto dest: process_item_error split: option.splits prod.splits sum.splits)

lemma as_app_error_status: "item_error e \<Longrightarrow> ae_status (as_app_error E e) \<in> {400, 409, 500}"
  by (auto simp: as_app_error_def item_error_def handle_db_error_status split: go_error.splits)

lemma process_items_length:
  "process_items E model vs results w = Some (Inr rs, w') \<Longrightarrow> length rs = length results + length vs"
  by (induction vs arbitrary: results w) (auto split: option.splits prod.splits sum.splits)

text \<open>The reference for the loop over the items: one after the other goes through \<open>processItem\<close> on the
  state the one before has left, and the result of each stands in its place.\<close>

inductive items_run :: "env \<Rightarrow> string \<Rightarrow> json list \<Rightarrow> sync_result list \<Rightarrow> 'm world_scheme \<Rightarrow> 'm world_scheme \<Rightarrow> bool" for E model where
  no_item: "items_run E model [] [] w w"
| next_item: "process_item E model v w = Some (Inr r, w1) \<Longrightarrow> items_run E model vs rs w1 w' \<Longrightarrow>
     items_run E model (v # vs) (r # rs) w w'"

lemma process_items_run:
  "process_items E model vs results w = Some (Inr rs, w') \<Longrightarrow> \<exists>rs'. rs = results @ rs' \<and> items_run E model vs rs' w w'"
proof (induction vs arbitrary: results w)
  case (Cons v vs)
  then obtain r w1 where r: "process_item E model v w = Some (Inr r, w1)"
    "process_items E model vs (results @ [r]) w1 = Some (Inr rs, w')"
    by (auto split: option.split_asm prod.split_asm sum.split_asm)
  from Cons.IH [OF r(2)] r(1) show ?case by (auto intro: next_item)
qed (simp add: no_item)

section \<open>The transaction\<close>

lemma sync_failed_run:
  assumes "conn w = In_Tx base"
  shows "\<exists>w'. sync_failed E model hist err w = Some (answer_error (as_app_error E err), w')
    \<and> conn w' = Idle \<and> pragma_fk w' = pragma_fk w
    \<and> wdb w' = wdb (snd (run_stmt E (history_mark_failed (truncate_reason (ae_message (as_app_error E err))) hist) (tx_rollback w)))
    \<and> sync_total w' = inc (sync_total w) (''error'', model)
    \<and> sync_errors w' = inc (sync_errors w) (error_class (as_app_error E err), model)"
proof -
  let ?w1 = "tx_rollback w"
  let ?w2 = "snd (run_stmt E (history_mark_failed (truncate_reason (ae_message (as_app_error E err))) hist) ?w1)"
  have idle: "conn ?w1 = Idle" using rollback_back [OF assms] by simp
  have more: "world.more ?w2 = world.more w" by simp
  then have "sync_total ?w2 = sync_total w" "sync_errors ?w2 = sync_errors w"
    by (cases w, cases ?w2, simp)+
  then show ?thesis
    by (simp add: sync_failed_def Let_def mark_failed_run [OF idle] idle) (simp add: count_failure_def)
qed

text \<open>
  The four ways a transaction ends: it does not begin, an item fails, the commit fails, or it is
  committed. In each the connection is free again, and the database is what the last statement, on
  the log, makes of the one the rollback or the commit left.
\<close>

datatype ending = Not_Begun | Item_Failed go_error | Commit_Failed go_error | Committed "sync_result list"

definition mark_run :: "env \<Rightarrow> stmt \<Rightarrow> 'm world_scheme \<Rightarrow> database" where
  "mark_run E s w = wdb (snd (run_stmt E s w))"

definition ends ::
  "env \<Rightarrow> string \<Rightarrow> json list \<Rightarrow> int \<Rightarrow> sync_world \<Rightarrow> ending \<Rightarrow> response \<Rightarrow> sync_world \<Rightarrow> bool" where
  "ends E model data hist w x resp w' \<longleftrightarrow>
     conn w' = Idle \<and> pragma_fk w' = pragma_fk w \<and>
     (case x of
        Not_Begun \<Rightarrow> (\<exists>err. resp = answer_error (new_internal_error err) \<and>
          fault E (calls w) \<noteq> None \<and> sync_total w' = sync_total w \<and>
          wdb w' = mark_run E (history_mark_failed (truncate_reason ''Internal Server Error'') hist) (tick w))
      | Item_Failed err \<Rightarrow> (\<exists>w1 w2. begin_tx E w = Some (Inr (), w1) \<and> process_items E model data [] w1 = Some (Inl err, w2) \<and>
          resp = answer_error (as_app_error E err) \<and>
          sync_total w' = inc (sync_total w) (''error'', model) \<and>
          sync_errors w' = inc (sync_errors w) (error_class (as_app_error E err), model) \<and>
          wdb w' = mark_run E (history_mark_failed (truncate_reason (ae_message (as_app_error E err))) hist) (tx_rollback w2))
      | Commit_Failed err \<Rightarrow> (\<exists>w1 results w2 w3. begin_tx E w = Some (Inr (), w1) \<and>
          process_items E model data [] w1 = Some (Inr results, w2) \<and> tx_commit E w2 = (Inl err, w3) \<and>
          resp = answer_error (handle_db_error (uni_upper E) (Some err)) \<and>
          sync_total w' = inc (sync_total w) (''error'', model) \<and>
          wdb w' = mark_run E (history_mark_failed (truncate_reason (ae_message (handle_db_error (uni_upper E) (Some err)))) hist) w3)
      | Committed results \<Rightarrow> (\<exists>w1 w2 w3. begin_tx E w = Some (Inr (), w1) \<and>
          process_items E model data [] w1 = Some (Inr results, w2) \<and> tx_commit E w2 = (Inr (), w3) \<and>
          resp = \<lparr>code = 200, body = Sync_Results ''Sync completed successfully'' results\<rparr> \<and>
          sync_total w' = inc (sync_total w) (''success'', model) \<and>
          wdb w' = mark_run E (history_mark_successful hist) w3))"

lemma more_eq_metrics:
  "world.more (v :: sync_world) = world.more w \<Longrightarrow> sync_total v = sync_total w \<and> sync_errors v = sync_errors w"
  by (cases v, cases w) simp

lemma items_frame:
  assumes "process_items E model data rs w1 = Some (r, w2)"
  shows "conn w2 = conn w1 \<and> pragma_fk w2 = pragma_fk w1 \<and> world.more w2 = world.more w1"
  using sound.items_step [OF assms] by (simp add: tx_step_def)

lemma items_history:
  assumes "process_items E model data rs w1 = Some (r, w2)"
  shows "sync_history (wdb w2) = sync_history (wdb w1)"
  using history_untouched.items_step [OF assms, where h = "sync_history (wdb w1)"] by (simp add: tx_step_def)

lemma sync_commit_run:
  assumes w: "conn w = In_Tx base" and c: "tx_commit E w = (r, w3)"
  shows "\<exists>w'. sync_commit E model hist results w = Some
      (case r of Inl err \<Rightarrow> answer_error (handle_db_error (uni_upper E) (Some err))
        | Inr u \<Rightarrow> \<lparr>code = 200, body = Sync_Results ''Sync completed successfully'' results\<rparr>, w')
    \<and> conn w' = Idle \<and> pragma_fk w' = pragma_fk w
    \<and> wdb w' = mark_run E (case r of
        Inl err \<Rightarrow> history_mark_failed (truncate_reason (ae_message (handle_db_error (uni_upper E) (Some err)))) hist
      | Inr u \<Rightarrow> history_mark_successful hist) w3
    \<and> sync_total w' = inc (sync_total w) (case r of Inl err \<Rightarrow> ''error'' | Inr u \<Rightarrow> ''success'', model)"
proof -
  have idle: "conn w3 = Idle" and fk: "pragma_fk w3 = pragma_fk w" and more: "world.more w3 = world.more w"
    using commit_run [OF w c] by simp_all
  have met: "sync_total (snd (run_stmt E s w3)) = sync_total w" for s
    using more more_eq_metrics [of "snd (run_stmt E s w3)" w] by simp
  show ?thesis
    by (cases r)
       (simp_all add: sync_commit_def Let_def c mark_failed_run [OF idle] mark_successful_run [OF idle] idle fk mark_run_def,
        simp_all add: count_failure_def count_success_def met)
qed

lemma sync_transaction_ends:
  assumes w: "conn w = Idle" and run: "sync_transaction E model data hist w = Some (resp, w')"
  shows "\<exists>x. ends E model data hist w x resp w'"
proof -
  have "begin_tx E w \<noteq> None" using w by (simp add: begin_tx_def)
  then obtain b w1 where b: "begin_tx E w = Some (b, w1)" by force
  show ?thesis
  proof (cases b)
    case (Inl err)
    have w1: "w1 = tick w" using tx_after_begin_error [OF w] b Inl by simp
    have "fault E (calls w) \<noteq> None" using w b Inl by (auto simp: begin_tx_def split: option.splits)
    moreover have "sync_total (snd (run_stmt E s (tick w))) = sync_total w" for s
      using more_eq_metrics [of "snd (run_stmt E s (tick w))" w] by simp
    ultimately have "ends E model data hist w Not_Begun resp w'"
      using run b Inl w w1
      by (auto simp: sync_transaction_def mark_failed_run ends_def mark_run_def intro!: exI [of _ err])
    then show ?thesis by blast
  next
    case (Inr u)
    have w1: "conn w1 = In_Tx (wdb w)" "pragma_fk w1 = pragma_fk w" "world.more w1 = world.more w"
      using tx_after_begin [OF w, of E u w1] b Inr by simp_all
    obtain r w2 where r: "process_items E model data [] w1 = Some (r, w2)"
      using run b Inr by (auto simp: sync_transaction_def bind_Some_iff)
    have w2: "conn w2 = In_Tx (wdb w)" "pragma_fk w2 = pragma_fk w"
      "sync_total w2 = sync_total w" "sync_errors w2 = sync_errors w"
      using items_frame [OF r] w1 more_eq_metrics [of w2 w] by simp_all
    show ?thesis
    proof (cases r)
      case err: (Inl err)
      then have "sync_failed E model hist err w2 = Some (resp, w')"
        using run b Inr r by (simp add: sync_transaction_def)
      then have "ends E model data hist w (Item_Failed err) resp w'"
        using sync_failed_run [OF w2(1), of E model hist err] w2 b Inr r err
        by (auto simp: ends_def mark_run_def)
      then show ?thesis by blast
    next
      case res: (Inr results)
      then have c: "sync_commit E model hist results w2 = Some (resp, w')"
        using run b Inr r by (simp add: sync_transaction_def)
      obtain q w3 where q: "tx_commit E w2 = (q, w3)" by fastforce
      show ?thesis
      proof (cases q)
        case (Inl err)
        have "ends E model data hist w (Commit_Failed err) resp w'"
          using sync_commit_run [OF w2(1) q, of model hist results] c w2 b \<open>b = Inr u\<close> r res q Inl
          by (auto simp: ends_def)
        then show ?thesis by blast
      next
        case (Inr v)
        have "ends E model data hist w (Committed results) resp w'"
          using sync_commit_run [OF w2(1) q, of model hist results] c w2 b \<open>b = Inr u\<close> r res q Inr
          by (auto simp: ends_def)
        then show ?thesis by blast
      qed
    qed
  qed
qed

section \<open>The handler\<close>

text \<open>The payload the handler works on, when there is one, and the items in it.\<close>

definition accepted :: "env \<Rightarrow> json option \<Rightarrow> sync_request option" where
  "accepted E request = (case Option.bind request decode_sync_request of
      None \<Rightarrow> None
    | Some payload \<Rightarrow> if validate E (sync_request_fields payload) = [] then Some payload else None)"

definition items_of :: "sync_request \<Rightarrow> json list" where
  "items_of payload = (case sr_data payload of None \<Rightarrow> [] | Some xs \<Rightarrow> xs)"

definition logged :: "env \<Rightarrow> sync_request \<Rightarrow> sync_world \<Rightarrow> exec_result answer \<times> sync_world" where
  "logged E payload w = run_stmt E (history_insert (payload_text (items_of payload))) w"

lemma logged_frame [simp]:
  "conn (snd (logged E p w)) = conn w" "pragma_fk (snd (logged E p w)) = pragma_fk w"
  "world.more (snd (logged E p w)) = world.more w"
  by (simp_all add: logged_def)

lemma logged_same_targets: "same_targets (wdb w) (wdb (snd (logged E p w)))"
  by (simp add: logged_def history_runs_same_targets)

lemma handler_rejects:
  assumes "accepted E req = None"
  shows "\<exists>resp. sync_handler E req w = Some (resp, w) \<and> code resp = 400"
proof (cases "Option.bind req decode_sync_request")
  case None
  then show ?thesis by (simp add: sync_handler_def)
next
  case (Some payload)
  then have "validate_struct (validate E) (sync_request_fields payload) \<noteq> None"
    using assms by (simp add: accepted_def split: if_split_asm)
  then obtain ve where "validate_struct (validate E) (sync_request_fields payload) = Some ve" by blast
  then show ?thesis using Some
    by (simp add: sync_handler_def)
qed

lemma handler_accepts:
  assumes a: "accepted E req = Some payload" and w: "conn w = Idle"
  shows "sync_handler E req w =
    (case fst (logged E payload w) of
       Inl e \<Rightarrow> Some (answer_message 500 (error_text e), snd (logged E payload w))
     | Inr r \<Rightarrow>
        (case last_insert_id E (snd (logged E payload w)) r of
           Inl e \<Rightarrow> Some (answer_message 500 (error_text e), snd (logged E payload w))
         | Inr hist \<Rightarrow> sync_transaction E (sr_model payload) (items_of payload) hist (snd (logged E payload w))))"
proof -
  have dec: "Option.bind req decode_sync_request = Some payload"
    and ok: "validate_struct (validate E) (sync_request_fields payload) = None"
    using a by (auto simp: accepted_def split: option.splits if_split_asm)
  show ?thesis
    unfolding sync_handler_def dec option.case ok Let_def items_of_def [symmetric] create_pending_run [OF w]
      logged_def [symmetric]
    by (auto split: sum.splits)
qed

text \<open>The three kinds of run of the handler.\<close>

lemma handler_cases:
  assumes w: "conn w = Idle" and run: "sync_handler E req w = Some (resp, w')"
  obtains (rejected) "accepted E req = None" "w' = w" "code resp = 400"
    | (unlogged) payload where "accepted E req = Some payload" "code resp = 500" "w' = snd (logged E payload w)"
        "\<nexists>r hist. fst (logged E payload w) = Inr r \<and> last_insert_id E (snd (logged E payload w)) r = Inr hist"
    | (ended) payload hist x where "accepted E req = Some payload"
        "ends E (sr_model payload) (items_of payload) hist (snd (logged E payload w)) x resp w'"
        "\<exists>r. fst (logged E payload w) = Inr r \<and> last_insert_id E (snd (logged E payload w)) r = Inr hist"
proof (cases "accepted E req")
  case None
  then show ?thesis using handler_rejects [OF None, of w] run rejected by auto
next
  case (Some payload)
  show ?thesis
  proof (cases "\<exists>r hist. fst (logged E payload w) = Inr r \<and> last_insert_id E (snd (logged E payload w)) r = Inr hist")
    case True
    then obtain r hist where r: "fst (logged E payload w) = Inr r"
      "last_insert_id E (snd (logged E payload w)) r = Inr hist" by blast
    then have "sync_transaction E (sr_model payload) (items_of payload) hist (snd (logged E payload w)) = Some (resp, w')"
      using run handler_accepts [OF Some w] by simp
    from sync_transaction_ends [OF _ this] w obtain x
      where "ends E (sr_model payload) (items_of payload) hist (snd (logged E payload w)) x resp w'" by auto
    then show ?thesis using Some r ended by blast
  next
    case False
    then have "code resp = 500 \<and> w' = snd (logged E payload w)"
      using run handler_accepts [OF Some w] by (auto split: sum.splits)
    then show ?thesis using Some unlogged False by blast
  qed
qed

lemma handler_pragma:
  assumes "conn w = Idle" "sync_handler E req w = Some (resp, w')"
  shows "pragma_fk w' = pragma_fk w"
  using assms by (cases rule: handler_cases) (simp_all add: ends_def)

end
