(* ===== verification/Sync_Correct.thy ===== *)
theory Sync_Correct
  imports Sync_Props Sample_Runs
begin

text \<open>
  The contract of \<open>POST /sync\<close>, over \<open>sync_handler\<close>: it always answers, stores all of a payload or
  nothing of it, keeps the database consistent, and its log and its counters record what happened.
\<close>

section \<open>Answering\<close>

lemma transaction_total:
  assumes V: "struct_validator (validate E)" and w: "conn w = Idle"
  shows "sync_transaction E model data hist w \<noteq> None"
proof -
  have "begin_tx E w \<noteq> None" using w by (simp add: begin_tx_def)
  then obtain b w1 where b: "begin_tx E w = Some (b, w1)" by force
  show ?thesis
  proof (cases b)
    case (Inl err)
    then have "conn w1 = Idle" using tx_after_begin_error [OF w, of E err w1] b w by simp
    then show ?thesis using b Inl by (simp add: sync_transaction_def mark_failed_run)
  next
    case (Inr u)
    obtain r w2 where r: "process_items E model data [] w1 = Some (r, w2)"
      using process_items_total [OF V] by force
    have w2: "conn w2 = In_Tx (wdb w)"
      using items_frame [OF r] tx_after_begin [OF w, of E u w1] b Inr by simp
    show ?thesis
    proof (cases r)
      case err: (Inl err)
      then show ?thesis using b Inr r sync_failed_run [OF w2, of E model hist err]
        by (auto simp: sync_transaction_def)
    next
      case res: (Inr results)
      obtain q w3 where "tx_commit E w2 = (q, w3)" by fastforce
      from sync_commit_run [OF w2 this] show ?thesis using b Inr r res
        by (fastforce simp: sync_transaction_def)
    qed
  qed
qed

lemma ends_code:
  assumes "ends E model data hist w x resp w'"
  shows "code resp \<in> {200, 400, 409, 500}" and "code resp = 200 \<longleftrightarrow> (\<exists>results. x = Committed results)"
proof -
  have "(case x of Committed results \<Rightarrow> code resp = 200 | _ \<Rightarrow> code resp \<in> {400, 409, 500})"
  proof (cases x)
    case Not_Begun
    then show ?thesis using assms by (auto simp: ends_def)
  next
    case (Item_Failed err)
    then obtain w1 and w2 :: sync_world where "process_items E model data [] w1 = Some (Inl err, w2)"
      and resp: "resp = answer_error (as_app_error E err)" using assms by (auto simp: ends_def)
    then show ?thesis using as_app_error_status [OF process_items_error] Item_Failed by simp
  next
    case (Commit_Failed err)
    then have "resp = answer_error (handle_db_error (uni_upper E) (Some err))" using assms by (auto simp: ends_def)
    then show ?thesis using Commit_Failed by (simp add: handle_db_error_status)
  next
    case (Committed results)
    then show ?thesis using assms by (auto simp: ends_def)
  qed
  then show "code resp \<in> {200, 400, 409, 500}" and "code resp = 200 \<longleftrightarrow> (\<exists>results. x = Committed results)"
    by (auto split: ending.splits)
qed

lemma sync_answers_idle:
  assumes "struct_validator (validate E)" and "conn w = Idle"
  shows "\<exists>resp w'. sync_handler E req w = Some (resp, w') \<and> conn w' = Idle
    \<and> code resp \<in> {200, 400, 409, 500}"
proof -
  have "sync_handler E req w \<noteq> None"
  proof (cases "accepted E req")
    case None
    then show ?thesis using handler_rejects [OF None, of w] by auto
  next
    case (Some p)
    show ?thesis using handler_accepts [OF Some assms(2)] transaction_total [OF assms(1)] assms(2)
      by (simp split: sum.splits)
  qed
  then obtain resp w' where run: "sync_handler E req w = Some (resp, w')" by force
  from assms(2) run have "conn w' = Idle \<and> code resp \<in> {200, 400, 409, 500}"
  proof (cases rule: handler_cases)
    case (ended payload hist x)
    then show ?thesis using ends_code(1) [OF ended(2)] by (auto simp: ends_def)
  qed (use assms in auto)
  then show ?thesis using run by blast
qed

text \<open>C1: Given a validator that keeps its contract, \<open>SyncHandler\<close> answers every request: it follows no
  nil pointer and never waits for the connection it holds, its status is one of 200, 400, 409 and
  500, and it gives the connection back.\<close>

theorem sync_always_answers:
  assumes "struct_validator (validate E)" and "conn w = Idle"
  shows "\<exists>resp w'. sync_handler E req w = Some (resp, w') \<and> conn w' = Idle
    \<and> code resp \<in> {200, 400, 409, 500}"
  using assms by (rule sync_answers_idle)

theorem sync_always_answers_witness:
  "\<exists>resp w'. sync_handler calm two_customers fresh_world = Some (resp, w') \<and> conn w' = Idle
    \<and> code resp \<in> {200, 400, 409, 500}"
  by (rule sync_always_answers [OF calm_validator]) simp

section \<open>All or nothing\<close>

lemma mark_run_targets:
  "same_targets (wdb w) (mark_run E (history_mark_failed s k) w)"
  "same_targets (wdb w) (mark_run E (history_mark_successful k) w)"
  by (simp_all add: mark_run_def history_runs_same_targets)

lemma ends_not_committed:
  assumes w: "conn w = Idle" and E: "commits_clean E"
    and x: "ends E model data hist w x resp w'" "\<forall>results. x \<noteq> Committed results"
  shows "same_targets (wdb w) (wdb w')"
proof (cases x)
  case Not_Begun
  then obtain s where "wdb w' = mark_run E (history_mark_failed s hist) (tick w)"
    using x by (auto simp: ends_def)
  then show ?thesis using mark_run_targets(1) [of "tick w"] by simp
next
  case (Item_Failed err)
  then obtain w1 w2 s where path: "begin_tx E w = Some (Inr (), w1)" "process_items E model data [] w1 = Some (Inl err, w2)"
    and w': "wdb w' = mark_run E (history_mark_failed s hist) (tx_rollback w2)" using x by (auto simp: ends_def)
  have "conn w2 = In_Tx (wdb w)" using items_frame [OF path(2)] tx_after_begin [OF w path(1)] by simp
  then show ?thesis using w' rollback_back mark_run_targets(1) by metis
next
  case (Commit_Failed err)
  then obtain w1 results w2 w3 s where path: "begin_tx E w = Some (Inr (), w1)"
    "process_items E model data [] w1 = Some (Inr results, w2)" "tx_commit E w2 = (Inl err, w3)"
    and w': "wdb w' = mark_run E (history_mark_failed s hist) w3" using x by (auto simp: ends_def)
  have "conn w2 = In_Tx (wdb w)" using items_frame [OF path(2)] tx_after_begin [OF w path(1)] by simp
  then have "wdb w3 = wdb w" using commit_run(5) path(3) E by blast
  then show ?thesis using w' mark_run_targets(1) by metis
qed (use x in auto)

text \<open>C2: Where a failed commit has no effect, a sync that is not answered with 200 leaves customers,
  products, orders, order items and employees exactly as they were, at whichever item or database
  call it failed.\<close>

theorem failed_sync_changes_nothing:
  assumes "commits_clean E" and "conn w = Idle"
    and "sync_handler E req w = Some (resp, w')" and "code resp \<noteq> 200"
  shows "same_targets (wdb w) (wdb w')"
  using assms(2,3)
proof (cases rule: handler_cases)
  case (ended payload hist x)
  have "same_targets (wdb (snd (logged E payload w))) (wdb w')"
    by (rule ends_not_committed [OF _ assms(1) ended(2)])
       (use assms ends_code(2) [OF ended(2)] in auto)
  then show ?thesis using logged_same_targets same_targets_trans by blast
qed (simp_all add: logged_same_targets)

theorem failed_sync_changes_nothing_witness:
  "\<exists>resp w'. sync_handler calm same_customer_twice fresh_world = Some (resp, w') \<and> code resp = 409
    \<and> same_targets empty_database (wdb w')"
  using code_ofD [OF sample_409] failed_sync_changes_nothing [OF calm_commits_clean, of fresh_world same_customer_twice]
  by fastforce

text \<open>C3: A sync answered with 200 has run \<open>processItem\<close> over every item of an accepted payload, in order
  and with no error, from the tables as they were; what is stored is what that run made of them, and
  the answer lists the results of the items, each in the place of its item.\<close>

theorem successful_sync_stores_all:
  assumes "conn w = Idle" and "sync_handler E req w = Some (resp, w')" and "code resp = 200"
  shows "\<exists>payload (w1 :: sync_world) (w2 :: sync_world) results. accepted E req = Some payload
    \<and> items_run E (sr_model payload) (items_of payload) results w1 w2
    \<and> same_targets (wdb w) (wdb w1) \<and> same_targets (wdb w2) (wdb w')
    \<and> body resp = Sync_Results ''Sync completed successfully'' results
    \<and> length results = length (items_of payload)"
  using assms(1,2)
proof (cases rule: handler_cases)
  case (ended payload hist x)
  let ?w0 = "snd (logged E payload w)"
  obtain results where "x = Committed results" using ends_code(2) [OF ended(2)] assms(3) by blast
  then obtain w1 w2 w3 where path: "begin_tx E ?w0 = Some (Inr (), w1)"
    "process_items E (sr_model payload) (items_of payload) [] w1 = Some (Inr results, w2)"
    "tx_commit E w2 = (Inr (), w3)" "wdb w' = mark_run E (history_mark_successful hist) w3"
    "resp = \<lparr>code = 200, body = Sync_Results ''Sync completed successfully'' results\<rparr>"
    using ended(2) by (auto simp: ends_def)
  have idle: "conn ?w0 = Idle" using assms(1) by simp
  have "same_targets (wdb w) (wdb w1)"
    using tx_after_begin [OF idle path(1)] logged_same_targets by metis
  moreover have "wdb w3 = wdb w2"
    using commit_run(4) [OF _ path(3)] items_frame [OF path(2)] tx_after_begin [OF idle path(1)] by simp
  then have "same_targets (wdb w2) (wdb w')" using path(4) mark_run_targets(2) by metis
  ultimately show ?thesis using ended(1) path(5) process_items_run [OF path(2)] process_items_length [OF path(2)]
    by (intro exI [of _ payload] exI [of _ w1] exI [of _ w2] exI [of _ results]) simp
qed (use assms in auto)

theorem successful_sync_stores_all_witness:
  "\<exists>resp w'. sync_handler calm two_customers fresh_world = Some (resp, w')
    \<and> (\<exists>results. body resp = Sync_Results ''Sync completed successfully'' results)"
  using code_ofD [OF sample_200] successful_sync_stores_all [of fresh_world calm two_customers] by fastforce

section \<open>The last statement\<close>

text \<open>
  Whatever way a transaction ends, the last statement marks the log entry by the answer; before it,
  the database has every property the statements of the transaction keep.
\<close>

definition final_mark :: "response \<Rightarrow> int \<Rightarrow> stmt" where
  "final_mark resp hist = (case body resp of
      Err a \<Rightarrow> history_mark_failed (truncate_reason (ae_message a)) hist
    | _ \<Rightarrow> history_mark_successful hist)"

lemma final_mark_simps [simp]:
  "final_mark (answer_error a) hist = history_mark_failed (truncate_reason (ae_message a)) hist"
  "final_mark \<lparr>code = c, body = Sync_Results m rs\<rparr> hist = history_mark_successful hist"
  by (simp_all add: final_mark_def)

context tx_invariant
begin

lemma ends_marked:
  assumes w: "conn w = Idle" and x: "ends E model data hist w x resp w'"
  shows "\<exists>v :: sync_world. wdb w' = mark_run E (final_mark resp hist) v \<and> pragma_fk v = pragma_fk w
    \<and> (P (pragma_fk w) (wdb w) \<longrightarrow> P (pragma_fk w) (wdb v))"
proof -
  have keep: "pragma_fk w2 = pragma_fk w \<and> conn w2 = In_Tx (wdb w)
      \<and> (P (pragma_fk w) (wdb w) \<longrightarrow> P (pragma_fk w) (wdb w2))"
    if "begin_tx E w = Some (Inr (), w1)" "process_items E model data [] w1 = Some (r, w2)"
    for w1 w2 :: sync_world and r
    using items_step [OF that(2)] tx_after_begin [OF w that(1)] by (simp add: tx_step_def)
  show ?thesis
  proof (cases x)
    case Not_Begun
    then show ?thesis using x by (intro exI [of _ "tick w"]) (auto simp: ends_def)
  next
    case (Item_Failed err)
    then obtain w1 w2 where path: "begin_tx E w = Some (Inr (), w1)" "process_items E model data [] w1 = Some (Inl err, w2)"
      and w': "wdb w' = mark_run E (final_mark resp hist) (tx_rollback w2)" using x by (auto simp: ends_def)
    show ?thesis using keep [OF path] w' rollback_back [of w2 "wdb w"] by (intro exI [of _ "tx_rollback w2"]) simp
  next
    case (Commit_Failed err)
    then obtain w1 results w2 w3 where path: "begin_tx E w = Some (Inr (), w1)"
      "process_items E model data [] w1 = Some (Inr results, w2)" "tx_commit E w2 = (Inl err, w3)"
      and w': "wdb w' = mark_run E (final_mark resp hist) w3" using x by (auto simp: ends_def)
    show ?thesis using keep [OF path(1,2)] w' commit_run(2,6) [OF _ path(3)] by (intro exI [of _ w3]) auto
  next
    case (Committed results)
    then obtain w1 w2 w3 where path: "begin_tx E w = Some (Inr (), w1)"
      "process_items E model data [] w1 = Some (Inr results, w2)" "tx_commit E w2 = (Inr (), w3)"
      and w': "wdb w' = mark_run E (final_mark resp hist) w3" using x by (auto simp: ends_def)
    show ?thesis using keep [OF path(1,2)] w' commit_run(2,6) [OF _ path(3)] by (intro exI [of _ w3]) auto
  qed
qed

end

section \<open>Consistency\<close>

text \<open>
  A property that the statements on the log keep as well is kept by the whole handler. A sync marks
  the entry it has inserted and no other: \<open>own\<close> holds of every rowid the log may give an entry while
  the property holds, and only marks of such entries have to keep it.
\<close>

locale sync_invariant = tx_invariant P for P +
  fixes own :: "int \<Rightarrow> bool"
  assumes history_insert: "stmt_keeps P (history_insert p)"
    and inserted_own: "P fk db \<Longrightarrow> new_rowid (sync_history db) = Some k \<Longrightarrow> own k"
    and history_mark_failed: "own k \<Longrightarrow> length reason \<le> 255 \<Longrightarrow> stmt_keeps P (history_mark_failed reason k)"
    and history_mark_successful: "own k \<Longrightarrow> stmt_keeps P (history_mark_successful k)"
begin

lemma logged_own:
  assumes "P (pragma_fk w) (wdb w)" and "fst (run_stmt E (history_insert p) w) = Inr r"
  shows "own (er_last_id r)"
proof -
  obtain db where "history_insert p (ctx_of E w) (wdb w) = Inr (r, db)" using run_stmt_result [OF assms(2)] by blast
  then have "new_rowid (sync_history (wdb w)) = Some (er_last_id r)" by (auto simp: history_insert_def split: option.split_asm)
  then show ?thesis by (rule inserted_own [OF assms(1)])
qed

lemma final_mark_keeps: "own hist \<Longrightarrow> stmt_keeps P (final_mark resp hist)"
proof -
  assume "own hist"
  moreover have "length (truncate_reason m) \<le> 255" for m by (simp add: truncate_reason_def)
  ultimately show ?thesis by (simp add: final_mark_def history_mark_failed history_mark_successful split: body.splits)
qed

lemma handler_keeps:
  assumes w: "conn w = Idle" and run: "sync_handler E req w = Some (resp, w')" and db: "P (pragma_fk w) (wdb w)"
  shows "P (pragma_fk w) (wdb w') \<and> pragma_fk w' = pragma_fk w"
proof -
  have log: "P (pragma_fk w) (wdb (snd (logged E p w)))" for p
    using run_stmt_keeps [of P "history_insert (payload_text (items_of p))" w E] db history_insert
    by (simp add: logged_def)
  from w run show ?thesis
  proof (cases rule: handler_cases)
    case (ended payload hist x)
    have idle: "conn (snd (logged E payload w)) = Idle" using w by simp
    obtain v :: sync_world where v: "wdb w' = mark_run E (final_mark resp hist) v" "pragma_fk v = pragma_fk w"
      "P (pragma_fk w) (wdb v)"
      using ends_marked [OF idle ended(2)] log by auto
    have "own hist" using ended(3) logged_own [OF db] by (auto simp: logged_def last_insert_id_def split: option.split_asm)
    then have "P (pragma_fk w) (wdb w')"
      unfolding v(1) mark_run_def using run_stmt_keeps [OF final_mark_keeps, of hist v] v(2,3) by simp
    then show ?thesis using ended(2) by (simp add: ends_def)
  qed (use db log in auto)
qed

end

interpretation sync_sound: sync_invariant enforced "\<lambda>k. True"
  by unfold_locales (simp_all add: keeps_inv)

text \<open>C4: With foreign keys on, every request leaves the database consistent: rowids ordered and
  counted, the UNIQUE columns without duplicates, every order with its customer, and every order
  item with its order and its product, whether the sync succeeded or failed.\<close>

theorem sync_keeps_integrity:
  assumes "conn w = Idle" and "pragma_fk w" and "integrity (wdb w)"
    and "sync_handler E req w = Some (resp, w')"
  shows "integrity (wdb w') \<and> pragma_fk w'"
  using sync_sound.handler_keeps [OF assms(1,4)] assms(2,3) by (simp add: enforced_def)

theorem sync_keeps_integrity_witness:
  "\<exists>resp w'. sync_handler calm two_customers fresh_world = Some (resp, w') \<and> integrity (wdb w')"
  using code_ofD [OF sample_200] sync_keeps_integrity [of fresh_world calm two_customers] integrity_empty by fastforce

section \<open>The log\<close>

lemma no_faults_simps:
  assumes "no_faults E"
  shows "fault E n = None" "result_err E n = None" "rows_cut E n = None"
  using assms by (simp_all add: no_faults_def)

lemma run_stmt_calm:
  "no_faults E \<Longrightarrow> run_stmt E s w = (case s (ctx_of E w) (wdb w) of
      Inl e \<Rightarrow> (Inl (Other (render E e)), tick w) | Inr (r, db) \<Rightarrow> (Inr r, (tick w)\<lparr>wdb := db\<rparr>))"
  by (simp add: run_stmt_def no_faults_simps)

lemma history_mark_run:
  assumes E: "no_faults E" and t: "ordered (sync_history (wdb w))"
    and row: "tlookup k (sync_history (wdb w)) = Some r"
  shows "tlookup j (sync_history (mark_run E (final_mark resp k) w)) =
    (if j = k then Some (case body resp of
        Err a \<Rightarrow> r\<lparr>h_status := ''FAILED'', h_failure_reason := Some (truncate_reason (ae_message a)),
                  h_updated_at := clock E (calls w)\<rparr>
      | _ \<Rightarrow> r\<lparr>h_status := ''SUCCESSFUL'', h_updated_at := clock E (calls w)\<rparr>)
     else tlookup j (sync_history (wdb w)))"
  using row plain.look_put [OF t]
  by (cases "body resp")
     (simp_all add: mark_run_def final_mark_def run_stmt_calm [OF E] history_mark_failed_def
       history_mark_successful_def history_update_def ctx_of_def)

text \<open>The log entry a request has when all is over, given the answer.\<close>

definition outcome_logged :: "response \<Rightarrow> history_row \<Rightarrow> bool" where
  "outcome_logged resp row \<longleftrightarrow> (case body resp of
      Err a \<Rightarrow> code resp \<noteq> 200 \<and> h_status row = ''FAILED'' \<and> h_failure_reason row = Some (truncate_reason (ae_message a))
    | Sync_Results m rs \<Rightarrow> code resp = 200 \<and> h_status row = ''SUCCESSFUL'' \<and> h_failure_reason row = None
    | _ \<Rightarrow> False)"

lemma ends_body:
  assumes x: "ends E model data hist w x resp w'"
  shows "case body resp of Err a \<Rightarrow> code resp \<noteq> 200 | Sync_Results m rs \<Rightarrow> code resp = 200 | _ \<Rightarrow> False"
  using x ends_code(2) [OF x] by (cases x) (auto simp: ends_def)

text \<open>C5: When the driver's calls succeed, an accepted request leaves exactly one new row in
  \<open>sync_history\<close>, under the next rowid: its payload, no retries, and status SUCCESSFUL for an answer
  200, else FAILED with the answered message cut to 255 bytes. Every other row is as it was.\<close>

theorem sync_logs_outcome:
  assumes E: "no_faults E" and w: "conn w = Idle" and a: "accepted E req = Some payload"
    and t: "ordered (sync_history (wdb w))" and k: "new_rowid (sync_history (wdb w)) = Some k"
    and run: "sync_handler E req w = Some (resp, w')"
  shows "\<exists>row. tlookup k (sync_history (wdb w')) = Some row \<and> h_payload row = payload_text (items_of payload)
    \<and> h_retries row = 0 \<and> outcome_logged resp row
    \<and> (\<forall>j. j \<noteq> k \<longrightarrow> tlookup j (sync_history (wdb w')) = tlookup j (sync_history (wdb w)))"
proof -
  let ?w0 = "snd (logged E payload w)" and ?log = "\<lambda>w. sync_history (wdb w)"
  let ?row = "\<lparr>h_payload = payload_text (items_of payload), h_status = ''PENDING_RETRY'', h_failure_reason = None,
    h_retries = 0, h_created_at = clock E (calls w), h_updated_at = clock E (calls w)\<rparr>"
  have log: "fst (logged E payload w) = Inr \<lparr>er_last_id = k, er_affected = 1\<rparr>" "?log ?w0 = auto_put k ?row (?log w)"
    using k by (simp_all add: logged_def run_stmt_calm [OF E] history_insert_def ctx_of_def)
  have idle: "conn ?w0 = Idle" using w by simp
  from w run show ?thesis
  proof (cases rule: handler_cases)
    case (unlogged p)
    then show ?thesis using a log by (simp add: last_insert_id_def no_faults_simps [OF E])
  next
    case (ended p hist x)
    have p: "p = payload" and hist: "hist = k" using ended a log
      by (auto simp: last_insert_id_def no_faults_simps [OF E])
    have e: "ends E (sr_model payload) (items_of payload) k ?w0 x resp w'" using ended(2) p hist by simp
    obtain v :: sync_world where v: "wdb w' = mark_run E (final_mark resp k) v" "?log v = ?log ?w0"
      using history_untouched.ends_marked [OF idle e, where h = "?log ?w0"] by auto
    have ord: "ordered (?log v)" and row: "tlookup k (?log v) = Some ?row"
      and other: "\<And>j. j \<noteq> k \<Longrightarrow> tlookup j (?log v) = tlookup j (?log w)"
      using t by (auto simp: v(2) log(2) auto.look_put)
    show ?thesis
      using ends_body [OF e] history_mark_run [OF E ord row, of _ resp] other
      by (auto simp: v(1) outcome_logged_def split: body.splits)
  qed (use a in simp)
qed

theorem sync_logs_outcome_witness:
  "\<exists>resp w' row. sync_handler calm same_customer_twice fresh_world = Some (resp, w')
    \<and> tlookup 1 (sync_history (wdb w')) = Some row \<and> h_status row = ''FAILED''"
proof -
  obtain payload where a: "accepted calm same_customer_twice = Some payload"
    using sample_409 handler_rejects [of calm same_customer_twice fresh_world]
    by (cases "accepted calm same_customer_twice") (auto simp: code_of_def)
  have k: "new_rowid (sync_history (wdb fresh_world)) = Some 1" by code_simp
  obtain resp w' where run: "sync_handler calm same_customer_twice fresh_world = Some (resp, w')" "code resp = 409"
    using code_ofD [OF sample_409] by blast
  have "ordered (sync_history (wdb fresh_world))" by (simp add: empty_database_def)
  from sync_logs_outcome [OF calm_no_faults _ a this k run(1)] run show ?thesis
    by (cases "body resp") (auto simp: outcome_logged_def)
qed

section \<open>The counters\<close>

text \<open>An answer 200 counts one success for the payload's model, a failed transaction one error;
  a request that is refused, or that gets neither a log entry nor a transaction, counts nothing. No
  other counter moves.\<close>

theorem sync_counts_outcome:
  assumes "conn w = Idle" and "sync_handler E req w = Some (resp, w')"
  shows "case accepted E req of
      None \<Rightarrow> code resp = 400 \<and> sync_total w' = sync_total w
    | Some payload \<Rightarrow>
        if code resp = 200 then sync_total w' = inc (sync_total w) (''success'', sr_model payload)
        else sync_total w' = inc (sync_total w) (''error'', sr_model payload)
           \<or> code resp = 500 \<and> sync_total w' = sync_total w"
  using assms
proof (cases rule: handler_cases)
  case (ended payload hist x)
  have "sync_total (snd (logged E payload w)) = sync_total w" using more_eq_metrics [of "snd (logged E payload w)" w] by simp
  then show ?thesis using ended(1,2) ends_code [OF ended(2)] by (cases x) (auto simp: ends_def)
next
  case (unlogged payload)
  then show ?thesis using more_eq_metrics [of "snd (logged E payload w)" w] by simp
qed simp

theorem sync_counts_outcome_witness:
  "\<exists>resp w'. sync_handler calm two_customers fresh_world = Some (resp, w')
    \<and> sync_total w' (''success'', ''customers'') = 1"
proof -
  obtain resp w' where run: "sync_handler calm two_customers fresh_world = Some (resp, w')" "code resp = 200"
    using code_ofD [OF sample_200] by blast
  have "map_option sr_model (accepted calm two_customers) = Some ''customers''" by code_simp
  then show ?thesis using sync_counts_outcome [OF _ run(1)] run by (auto simp: inc_def fresh_world_def)
qed

end
