(* ===== verification/Float_Pages.thy ===== *)
theory Float_Pages
  imports Prelude
begin

text \<open>
  \<open>int64(math.Ceil(float64(a) / float64(b)))\<close> of \<open>ListHistoryHandler\<close> for \<open>0 \<le> a\<close> and \<open>0 < b\<close>: the two
  conversions and the division each round to 53 bits, ties to even.
\<close>

definition round_even :: "int \<Rightarrow> int \<Rightarrow> int" where
  "round_even p q = (let d = p div q; r = p mod q in
     if 2 * r < q \<or> 2 * r = q \<and> even d then d else d + 1)"

text \<open>The bits a natural number is too long for 53 of them.\<close>

definition excess :: "int \<Rightarrow> int \<Rightarrow> nat" where
  "excess a b = (case find (\<lambda>t. a < 2 ^ (53 + t) * b) [0..<64] of None \<Rightarrow> 64 | Some t \<Rightarrow> t)"

definition float_of :: "int \<Rightarrow> int" where
  "float_of n = (let t = excess n 1 in round_even n (2 ^ t) * 2 ^ t)"

text \<open>The bits a quotient has to be shifted by to have 53.\<close>

definition shortage :: "int \<Rightarrow> int \<Rightarrow> nat" where
  "shortage a b = (case find (\<lambda>s. 2 ^ 52 * b \<le> a * 2 ^ s) [0..<128] of None \<Rightarrow> 128 | Some s \<Rightarrow> s)"

definition ceil_quotient :: "int \<Rightarrow> int \<Rightarrow> int" where
  "ceil_quotient a b =
     (if a = 0 then 0
      else if 2 ^ 53 * b \<le> a then (let t = excess a b in round_even a (b * 2 ^ t) * 2 ^ t)
      else (let s = shortage a b; m = round_even (a * 2 ^ s) b in - ((- m) div 2 ^ s)))"

definition total_pages :: "int \<Rightarrow> int \<Rightarrow> int" where
  "total_pages elems per_page = wrap64 (ceil_quotient (float_of elems) (float_of per_page))"

section \<open>Rounding\<close>

lemma division_parts:
  assumes "0 < (q::int)"
  obtains d r where "p div q = d" "p mod q = r" "p = d * q + r" "0 \<le> r" "r < q"
  using that [of "p div q" "p mod q"] assms by simp

lemma round_even_bounds:
  assumes "0 < q"
  shows "2 * p - q \<le> 2 * (round_even p q * q)" and "2 * (round_even p q * q) \<le> 2 * p + q"
proof -
  obtain d r where p: "p div q = d" "p mod q = r" "p = d * q + r" "0 \<le> r" "r < q"
    by (rule division_parts [OF assms])
  have "round_even p q = (if 2 * r < q \<or> 2 * r = q \<and> even d then d else d + 1)"
    by (simp add: round_even_def Let_def p(1,2))
  then have "round_even p q = d \<and> 2 * r \<le> q \<or> round_even p q = d + 1 \<and> q \<le> 2 * r"
    by (simp split: if_split_asm)
  then have "round_even p q * q = d * q \<and> 2 * r \<le> q \<or> round_even p q * q = d * q + q \<and> q \<le> 2 * r"
    by (metis distrib_right mult_1)
  then show "2 * p - q \<le> 2 * (round_even p q * q)" and "2 * (round_even p q * q) \<le> 2 * p + q"
    using p(3,4,5) by linarith+
qed

lemma round_even_le:
  assumes "0 < q" "p \<le> N * q"
  shows "round_even p q \<le> N"
proof (cases "p = N * q")
  case True
  then show ?thesis using assms(1) by (simp add: round_even_def)
next
  case False
  obtain d r where p: "p div q = d" "p = d * q + r" "0 \<le> r" by (rule division_parts [OF assms(1)])
  then have "d * q < N * q" using assms(2) False by linarith
  then have "d < N" using assms(1) by (simp add: mult_less_cancel_right_pos)
  then show ?thesis by (simp add: round_even_def Let_def p(1))
qed

lemma round_even_exact [simp]: "round_even n 1 = n"
  by (simp add: round_even_def)

lemma excess_small: "n < 2 ^ 53 \<Longrightarrow> excess n 1 = 0"
  by (simp add: excess_def upt_conv_Cons)

lemma float_of_small [simp]: "n < 2 ^ 53 \<Longrightarrow> float_of n = n"
  by (simp add: float_of_def excess_small)

lemma find_first:
  assumes "P (n::nat)" "n < m"
  shows "\<exists>t. find P [0..<m] = Some t \<and> P t \<and> (\<forall>i < t. \<not> P i) \<and> t \<le> n"
proof -
  obtain t where t: "find P [0..<m] = Some t" using assms by (cases "find P [0..<m]") (auto simp: find_None_iff)
  then obtain i where i: "i < m" "P i" "t = i" "\<forall>j < i. \<not> P j"
    by (auto simp: find_Some_iff)
  then have "t \<le> n" using assms(1) by (metis not_le)
  then show ?thesis using t i by blast
qed

lemma excess_first:
  assumes "2 ^ 53 \<le> n" "n \<le> max64"
  shows "\<exists>t. excess n 1 = Suc t \<and> 2 ^ (53 + t) \<le> n"
proof -
  have "n < 2 ^ (53 + 63) * 1" using assms(2) by simp
  then obtain t where t: "find (\<lambda>t. n < 2 ^ (53 + t) * 1) [0..<64] = Some t" "\<forall>i < t. \<not> n < 2 ^ (53 + i) * 1"
    using find_first [of "\<lambda>t. n < 2 ^ (53 + t) * 1" 63 64] by auto
  have "t \<noteq> 0"
  proof
    assume "t = 0"
    then have "n < 2 ^ 53" using t(1) by (auto simp: find_Some_iff)
    then show False using assms(1) by simp
  qed
  then obtain u where "t = Suc u" by (cases t) auto
  then show ?thesis using t by (auto simp: excess_def)
qed

lemma float_of_large:
  assumes "2 ^ 53 \<le> n" "n \<le> max64"
  shows "2 ^ 53 \<le> float_of n"
proof -
  obtain t where t: "excess n 1 = Suc t" "2 ^ (53 + t) \<le> n" using excess_first [OF assms] by blast
  let ?m = "round_even n (2 ^ Suc t)"
  have "2 * n - 2 ^ Suc t \<le> 2 * (?m * 2 ^ Suc t)" by (rule round_even_bounds) simp
  moreover have "(2 :: int) ^ (53 + Suc t) = 2 * 2 ^ (53 + t)" by (simp only: add_Suc_right power_Suc)
  ultimately have "2 ^ (53 + Suc t) - 2 ^ Suc t \<le> 2 * (?m * 2 ^ Suc t)" using t(2) by linarith
  then have "(2 ^ 53 - 1) * 2 ^ Suc t \<le> (2 * ?m) * (2 ^ Suc t :: int)" by (simp add: power_add algebra_simps)
  then have "2 ^ 53 - 1 \<le> 2 * ?m" by (rule mult_right_le_imp_le) simp
  then have m: "2 ^ 52 \<le> ?m" by simp
  have "(2 ^ 52 :: int) * 2 ^ 1 \<le> ?m * 2 ^ Suc t"
    by (rule mult_mono) (use m in \<open>auto simp: one_le_power\<close>)
  then show ?thesis by (simp add: float_of_def t(1))
qed

lemma float_of_bound:
  assumes "2 ^ 53 \<le> n" "n \<le> max64"
  shows "float_of n \<le> 2 ^ 64"
proof -
  obtain t where t: "excess n 1 = Suc t" "2 ^ (53 + t) \<le> n" using excess_first [OF assms] by blast
  have "2 * (round_even n (2 ^ Suc t) * 2 ^ Suc t) \<le> 2 * n + 2 ^ Suc t" by (rule round_even_bounds) simp
  moreover have "(2 :: int) ^ Suc t \<le> 2 ^ (53 + t)" by (rule power_increasing) simp_all
  moreover have "(2 :: int) ^ 64 = 18446744073709551616" by simp
  ultimately have "round_even n (2 ^ Suc t) * 2 ^ Suc t \<le> 2 ^ 64" using t(2) assms(2) by linarith
  then show ?thesis by (simp only: float_of_def t(1) Let_def)
qed

lemma shortage_first:
  assumes "0 < a" "0 < b" "b \<le> 2 ^ 64"
  shows "2 ^ 52 * b \<le> a * 2 ^ shortage a b"
proof -
  have "2 ^ 52 * b \<le> 2 ^ 52 * 2 ^ 64" using assms(3) by simp
  also have "\<dots> \<le> a * 2 ^ 116" using assms(1) by simp
  finally have "2 ^ 52 * b \<le> a * 2 ^ 116" .
  then show ?thesis using find_first [of "\<lambda>s. 2 ^ 52 * b \<le> a * 2 ^ s" 116 128] by (auto simp: shortage_def)
qed

text \<open>The rounded quotient of a number below \<open>2^53\<close> has the ceiling of the exact one.\<close>

lemma ceil_quotient_exact:
  assumes a: "0 \<le> a" "a < 2 ^ 53" and b: "0 < b" "b \<le> 2 ^ 64"
  shows "ceil_quotient a b = - ((- a) div b)"
proof (cases "a = 0")
  case True
  then show ?thesis by (simp add: ceil_quotient_def)
next
  case False
  then have pos: "0 < a" using a by simp
  define s where "s = shortage a b"
  define m where "m = round_even (a * 2 ^ s) b"
  define n where "n = - ((- a) div b)"
  have short: "2 ^ 52 * b \<le> a * 2 ^ s" unfolding s_def by (rule shortage_first [OF pos b])
  have nb: "a \<le> n * b" "(n - 1) * b < a"
  proof -
    obtain d r where d: "(- a) div b = d" "- a = d * b + r" "0 \<le> r" "r < b" by (rule division_parts [OF b(1)])
    have "n * b = - (d * b)" "(n - 1) * b = - (d * b) - b" by (simp_all add: n_def d(1) left_diff_distrib)
    then show "a \<le> n * b" "(n - 1) * b < a" using d(2,3,4) by linarith+
  qed
  have up: "m \<le> n * 2 ^ s"
    unfolding m_def by (rule round_even_le) (use b(1) nb(1) in \<open>auto simp: algebra_simps\<close>)
  have "a * 2 ^ s < 2 ^ 53 * 2 ^ s" using a(2) by simp
  moreover have "(2 ^ 53 :: int) * 2 ^ s = 2 ^ 52 * (2 * 2 ^ s)" by simp
  ultimately have "2 ^ 52 * b < 2 ^ 52 * (2 * 2 ^ s)" using short by linarith
  then have gap: "b < 2 * 2 ^ s" by (rule mult_left_less_imp_less) simp
  have "(n - 1) * b + 1 \<le> a" using nb(2) by simp
  then have "((n - 1) * b + 1) * 2 ^ s \<le> a * 2 ^ s" by (rule mult_right_mono) simp
  moreover have "2 * (a * 2 ^ s) - b \<le> 2 * (m * b)" unfolding m_def by (rule round_even_bounds) (rule b)
  ultimately have "2 * ((n - 1) * 2 ^ s) * b < 2 * m * b" using gap by (simp add: algebra_simps)
  then have low: "(n - 1) * 2 ^ s < m" using b(1) by (simp add: mult_less_cancel_right_pos)
  have "(- m) div 2 ^ s = - n"
    by (rule int_div_pos_eq [of _ _ _ "n * 2 ^ s - m"]) (use up low in \<open>simp_all add: algebra_simps\<close>)
  then have n: "- ((- m) div 2 ^ s) = n" by linarith
  have "2 ^ 53 \<le> 2 ^ 53 * b" using b(1) by simp
  then have "\<not> 2 ^ 53 * b \<le> a" using a(2) by linarith
  then have "ceil_quotient a b = - ((- m) div 2 ^ s)"
    by (simp only: ceil_quotient_def Let_def s_def [symmetric] m_def [symmetric] False if_False)
  then show ?thesis by (simp only: n n_def)
qed

text \<open>
  The page count is exact for any count that fits 53 bits and any page size of 64 bits, although
  the size itself may be rounded.
\<close>

lemma total_pages_exact:
  assumes n: "0 \<le> n" "n < 2 ^ 53" and s: "0 < s" "s \<le> max64"
  shows "total_pages n s = - ((- n) div s)"
proof -
  have in64: "wrap64 (- ((- n) div s)) = - ((- n) div s)"
  proof -
    obtain d r where d: "(- n) div s = d" "- n = d * s + r" "0 \<le> r" "r < s" by (rule division_parts [OF s(1)])
    have "d * s \<le> 0" using d n(1) by linarith
    then have "d \<le> 0" using s(1) by (simp add: mult_le_0_iff)
    moreover have "- n \<le> d"
    proof (rule ccontr)
      assume "\<not> - n \<le> d"
      then have "(d + 1) * s \<le> (d + 1) * 1" using n(1) s(1) by (intro mult_left_mono_neg) simp_all
      then have "d * s + s \<le> d + 1" by (simp add: distrib_right)
      then show False using d(2,3,4) \<open>\<not> - n \<le> d\<close> by linarith
    qed
    ultimately show ?thesis using n d(1) by (intro wrap64_id) (auto simp: in64_def)
  qed
  show ?thesis
  proof (cases "s < 2 ^ 53")
    case True
    then show ?thesis using n s ceil_quotient_exact [of n s] in64 by (simp add: total_pages_def)
  next
    case False
    have large: "2 ^ 53 \<le> float_of s" using float_of_large False s(2) by simp
    have one: "- ((- n) div m) = (if n = 0 then 0 else 1)" if "n < m" for m
    proof (cases "n = 0")
      case False
      have "(- n) div m = - 1" by (rule int_div_pos_eq [of _ _ _ "m - n"]) (use that n False in simp_all)
      then show ?thesis using False by simp
    qed simp
    have "ceil_quotient n (float_of s) = - ((- n) div float_of s)"
      by (rule ceil_quotient_exact) (use n large float_of_bound [of s] False s(2) in auto)
    then have "ceil_quotient n (float_of s) = - ((- n) div s)" using one [of s] one [of "float_of s"] n False large by simp
    then show ?thesis using n in64 by (simp add: total_pages_def)
  qed
qed

end
