(* ===== verification/History_Handlers.thy ===== *)
theory History_Handlers
  imports Sql_Driver Http_Types Float_Pages "HOL-Library.List_Lexorder" "HOL-Library.Char_ord"
begin

text \<open>
  \<open>internal/handlers/history.go\<close>: statistics, list, lookup, retry and deletion of sync histories.
  Query parameters are options (\<open>None\<close> is an absent one).
\<close>

section \<open>Scanning a row\<close>

definition null_text_error :: "nat \<Rightarrow> string \<Rightarrow> go_error" where
  "null_text_error i col = Other (''sql: Scan error on column index '' @ show_nat i @ '', name \"'' @ col
     @ ''\": converting NULL to string is unsupported'')"

definition history_scan :: "env \<Rightarrow> int \<times> history_row \<Rightarrow> sync_history_row answer" where
  "history_scan E x = (case x of (k, r) \<Rightarrow>
     (case fmt_ts E (h_created_at r) of
        None \<Rightarrow> Inl (null_text_error 5 ''created_at'')
      | Some created \<Rightarrow>
         (case fmt_ts E (h_updated_at r) of
            None \<Rightarrow> Inl (null_text_error 6 ''updated_at'')
          | Some updated \<Rightarrow> Inr \<lparr>hv_id = k, hv_payload = h_payload r, hv_status = h_status r,
              hv_failure_reason = h_failure_reason r, hv_retries = h_retries r,
              hv_created_at = created, hv_updated_at = updated\<rparr>)))"

fun scan_rows :: "('a \<Rightarrow> 'b answer) \<Rightarrow> 'a list \<Rightarrow> 'b list \<Rightarrow> 'b list answer" where
  "scan_rows f [] acc = Inr acc"
| "scan_rows f (x # xs) acc = (case f x of Inl e \<Rightarrow> Inl e | Inr y \<Rightarrow> scan_rows f xs (acc @ [y]))"

definition db_error :: "env \<Rightarrow> go_error \<Rightarrow> response" where
  "db_error E e = answer_error (handle_db_error (uni_upper E) (Some e))"

section \<open>Statistics\<close>

definition status_counts :: "database \<Rightarrow> (string \<times> int) list" where
  "status_counts db = (let ss = map (\<lambda>(k, r). h_status r) (rows (sync_history db)) in
     map (\<lambda>s. (s, int (count_list ss s))) (sort (remdups ss)))"

definition no_stats :: stats_data where
  "no_stats = \<lparr>st_successful = 0, st_failed = 0, st_pending_retry = 0, st_invalid = 0, st_total = 0\<rparr>"

fun stats_loop :: "env \<Rightarrow> (string \<times> int) list \<Rightarrow> stats_data \<Rightarrow> stats_data" where
  "stats_loop E [] d = d"
| "stats_loop E ((status, cnt) # xs) d =
     (let d = d\<lparr>st_total := wrap64 (st_total d + cnt)\<rparr>; up = to_upper (uni_upper E) status in
      stats_loop E xs
        (if up = ''SUCCESSFUL'' then d\<lparr>st_successful := cnt\<rparr>
         else if up = ''FAILED'' then d\<lparr>st_failed := cnt\<rparr>
         else if up = ''PENDING_RETRY'' then d\<lparr>st_pending_retry := cnt\<rparr>
         else if up = ''INVALID'' then d\<lparr>st_invalid := cnt\<rparr>
         else d))"

definition stats_handler :: "env \<Rightarrow> 'm world_scheme \<Rightarrow> (response \<times> 'm world_scheme) option" where
  "stats_handler E w =
     do { (q, w1) \<leftarrow> db_query E status_counts w;
          Some (case q of
              Inl e \<Rightarrow> (db_error E e, w1)
            | Inr counts \<Rightarrow>
                (\<lparr>code = 200, body = Stats ''Stats retrieved successfully'' (stats_loop E counts no_stats)\<rparr>,
                 rows_close w1)) }"

section \<open>Listing\<close>

definition positive_or :: "int \<Rightarrow> string \<Rightarrow> int" where
  "positive_or dflt s = (case parse_int s of None \<Rightarrow> dflt | Some n \<Rightarrow> if n < 1 then dflt else n)"

definition page_of :: "string option \<Rightarrow> int" where
  "page_of q = positive_or 1 (case q of None \<Rightarrow> ''1'' | Some s \<Rightarrow> s)"

definition size_of :: "string option \<Rightarrow> int" where
  "size_of q = positive_or 15 (case q of None \<Rightarrow> ''15'' | Some s \<Rightarrow> s)"

definition page_offset :: "int \<Rightarrow> int \<Rightarrow> int" where
  "page_offset page sz = wrap64 ((page - 1) * sz)"

text \<open>The rows a list is about: those of one status, or all; \<open>ORDER BY id DESC LIMIT ? OFFSET ?\<close>, a
  negative offset counting as none.\<close>

definition wanted :: "string option \<Rightarrow> database \<Rightarrow> (int \<times> history_row) list" where
  "wanted st db = filter (\<lambda>(k, r). case st of None \<Rightarrow> True | Some s \<Rightarrow> h_status r = s) (rows (sync_history db))"

definition history_count :: "string option \<Rightarrow> database \<Rightarrow> int" where
  "history_count st db = int (length (wanted st db))"

definition history_page :: "string option \<Rightarrow> int \<Rightarrow> int \<Rightarrow> database \<Rightarrow> (int \<times> history_row) list" where
  "history_page st lim off db = take (nat lim) (drop (nat off) (rev (wanted st db)))"

definition list_data :: "int \<Rightarrow> int \<Rightarrow> int \<Rightarrow> sync_history_row list \<Rightarrow> list_history_data" where
  "list_data page sz n content =
     (let safePage = page - 1; totalPages = total_pages n sz in
      \<lparr>ld_content = content,
       ld_pageable = \<lparr>pg_sort = \<lparr>so_empty = False, so_sorted = True, so_unsorted = False\<rparr>,
         pg_offset = page_offset page sz, pg_page_number = safePage, pg_page_size = sz, pg_paged = True, pg_unpaged = False\<rparr>,
       ld_total_elements = n, ld_total_pages = totalPages, ld_size = sz, ld_number = safePage,
       ld_number_of_elements = int (length content), ld_first = (safePage = 0),
       ld_last = (totalPages - 1 \<le> safePage \<or> totalPages = 0), ld_empty = (length content = 0)\<rparr>)"

definition status_filter :: "env \<Rightarrow> string option \<Rightarrow> string option" where
  "status_filter E q = (let s = (case q of None \<Rightarrow> [] | Some s \<Rightarrow> s) in
     if s \<noteq> [] then Some (to_upper (uni_upper E) s) else None)"

definition list_history_handler ::
  "env \<Rightarrow> string option \<Rightarrow> string option \<Rightarrow> string option \<Rightarrow> 'm world_scheme \<Rightarrow> (response \<times> 'm world_scheme) option" where
  "list_history_handler E pageq sizeq statusq w =
     (let page = page_of pageq; sz = size_of sizeq; st = status_filter E statusq in
      do { (c, w1) \<leftarrow> query_row E (\<lambda>db. Some (history_count st db)) Inr w;
           case c of
             Inl e \<Rightarrow> Some (db_error E e, w1)
           | Inr n \<Rightarrow>
               do { (q, w2) \<leftarrow> db_query E (history_page st sz (page_offset page sz)) w1;
                    Some (case q of
                        Inl e \<Rightarrow> (db_error E e, w2)
                      | Inr xs \<Rightarrow>
                          (case scan_rows (history_scan E) xs [] of
                             Inl e \<Rightarrow> (db_error E e, rows_close w2)
                           | Inr content \<Rightarrow>
                               (\<lparr>code = 200, body = History_List ''Sync histories retrieved successfully''
                                   (list_data page sz n content)\<rparr>, rows_close w2))) } })"

section \<open>One entry\<close>

definition invalid_id :: response where
  "invalid_id = answer_message 400 ''Invalid sync history ID''"

definition history_missing :: response where
  "history_missing = answer_error (new_not_found_error ''Sync history not found'')"

definition history_by_id :: "int \<Rightarrow> database \<Rightarrow> (int \<times> history_row) option" where
  "history_by_id k db = map_option (Pair k) (tlookup k (sync_history db))"

definition missing_or_error :: "env \<Rightarrow> go_error \<Rightarrow> response" where
  "missing_or_error E e = (if e = No_Rows then history_missing else db_error E e)"

definition get_history_handler :: "env \<Rightarrow> string \<Rightarrow> 'm world_scheme \<Rightarrow> (response \<times> 'm world_scheme) option" where
  "get_history_handler E idp w =
     (case parse_int idp of
        None \<Rightarrow> Some (invalid_id, w)
      | Some k \<Rightarrow>
          do { (q, w1) \<leftarrow> query_row E (history_by_id k) (history_scan E) w;
               Some (case q of
                   Inl e \<Rightarrow> (missing_or_error E e, w1)
                 | Inr r \<Rightarrow> (\<lparr>code = 200, body = History_Row ''Sync history retrieved successfully'' r\<rparr>, w1)) })"

definition retry_history_handler :: "env \<Rightarrow> string \<Rightarrow> 'm world_scheme \<Rightarrow> (response \<times> 'm world_scheme) option" where
  "retry_history_handler E idp w =
     (case parse_int idp of
        None \<Rightarrow> Some (invalid_id, w)
      | Some k \<Rightarrow>
          do { (q, w1) \<leftarrow> query_row E (history_by_id k) (\<lambda>(j, r). Inr (h_status r)) w;
               case q of
                 Inl e \<Rightarrow> Some (missing_or_error E e, w1)
               | Inr status \<Rightarrow>
                   if to_upper (uni_upper E) status \<noteq> ''FAILED''
                   then Some (answer_error (new_bad_request_error ''Only failed syncs can be retried''), w1)
                   else
                     do { (x, w2) \<leftarrow> db_exec E (history_mark_retry k) w1;
                          case x of
                            Inl e \<Rightarrow> Some (db_error E e, w2)
                          | Inr res \<Rightarrow>
                              do { (y, w3) \<leftarrow> query_row E (history_by_id k) (history_scan E) w2;
                                   Some (case y of
                                       Inl e \<Rightarrow> (db_error E e, w3)
                                     | Inr r \<Rightarrow> (\<lparr>code = 200, body = History_Row ''Sync history will be retried'' r\<rparr>, w3)) } } })"

definition delete_history_handler :: "env \<Rightarrow> string \<Rightarrow> 'm world_scheme \<Rightarrow> (response \<times> 'm world_scheme) option" where
  "delete_history_handler E idp w =
     (case parse_int idp of
        None \<Rightarrow> Some (invalid_id, w)
      | Some k \<Rightarrow>
          do { (x, w1) \<leftarrow> db_exec E (history_delete k) w;
               Some (case x of
                   Inl e \<Rightarrow> (db_error E e, w1)
                 | Inr res \<Rightarrow>
                     (case rows_affected E w1 res of
                        Inl e \<Rightarrow> (db_error E e, w1)
                      | Inr n \<Rightarrow>
                          if n = 0 then (history_missing, w1)
                          else (answer_message 204 ''Sync history deleted successfully'', w1))) })"

end
