(* ===== verification/History_Props.thy ===== *)
theory History_Props
  imports History_Handlers Sample_Runs
begin

text \<open>
  What the history endpoints promise: they always answer and give the connection back, the
  statistics and the page of a list are those of the table, and a retry or a deletion touches the
  one entry it names.
\<close>

section \<open>Answering\<close>

lemma query_row_Some:
  "conn w = Idle \<Longrightarrow> \<exists>r. query_row E q f w = Some (r, tick w)"
  by (simp add: query_row_def)

lemma db_query_cases:
  assumes "conn w = Idle"
  obtains (error) e where "db_query E q w = Some (Inl e, tick w)"
    | (rows) xs where "db_query E q w = Some (Inr xs, (tick w)\<lparr>conn := In_Rows\<rparr>)"
  using assms by (cases "fault E (calls w)") (auto simp: db_query_def)

lemma db_exec_run: "conn w = Idle \<Longrightarrow> \<exists>x w1. db_exec E s w = Some (x, w1) \<and> conn w1 = Idle"
  using run_stmt_frame(1) [of E s w] by (cases "run_stmt E s w") (simp add: db_exec_def)

definition answers :: "(response \<times> 'm world_scheme) option \<Rightarrow> bool" where
  "answers run \<longleftrightarrow> (\<exists>resp w'. run = Some (resp, w') \<and> conn w' = Idle)"

lemma answersI: "run = Some (resp, w') \<Longrightarrow> conn w' = Idle \<Longrightarrow> answers run"
  by (auto simp: answers_def)

lemma stats_answers:
  assumes w: "conn w = Idle" shows "answers (stats_handler E w)"
  by (rule db_query_cases [OF w, of E status_counts]) (simp_all add: stats_handler_def answers_def w)

lemma list_answers:
  assumes w: "conn w = Idle" shows "answers (list_history_handler E p s st w)"
proof -
  let ?st = "status_filter E st" and ?q = "history_page (status_filter E st) (size_of s) (page_offset (page_of p) (size_of s))"
  obtain c where c: "query_row E (\<lambda>db. Some (history_count ?st db)) Inr w = Some (c, tick w)"
    using query_row_Some [OF w] by blast
  show ?thesis
  proof (cases c)
    case (Inl e)
    then show ?thesis using c w by (simp add: list_history_handler_def Let_def answers_def)
  next
    case (Inr n)
    have "conn (tick w) = Idle" using w by simp
    then show ?thesis
    proof (cases rule: db_query_cases [of "tick w" E ?q])
      case (error e)
      then show ?thesis using c Inr w by (simp add: list_history_handler_def Let_def answers_def)
    next
      case (rows xs)
      then show ?thesis using c Inr
        by (cases "scan_rows (history_scan E) xs []") (simp_all add: list_history_handler_def Let_def answers_def)
    qed
  qed
qed

lemma get_answers:
  assumes w: "conn w = Idle" shows "answers (get_history_handler E i w)"
proof (cases "parse_int i")
  case (Some k)
  then show ?thesis using query_row_Some [OF w, of E "history_by_id k" "history_scan E"] w
    by (auto simp: get_history_handler_def answers_def split: sum.splits)
qed (simp add: get_history_handler_def answers_def w)

lemma delete_answers:
  assumes w: "conn w = Idle" shows "answers (delete_history_handler E i w)"
proof (cases "parse_int i")
  case (Some k)
  obtain x w1 where x: "db_exec E (history_delete k) w = Some (x, w1)" "conn w1 = Idle"
    using db_exec_run [OF w] by blast
  then show ?thesis using Some
    by (auto simp: delete_history_handler_def answers_def split: sum.splits)
qed (simp add: delete_history_handler_def answers_def w)

lemma retry_answers:
  assumes w: "conn w = Idle" shows "answers (retry_history_handler E i w)"
proof (cases "parse_int i")
  case (Some k)
  obtain q where q: "query_row E (history_by_id k) (\<lambda>(j, r). Inr (h_status r)) w = Some (q, tick w)"
    using query_row_Some [OF w] by blast
  have w1: "conn (tick w) = Idle" using w by simp
  obtain x w2 where x: "db_exec E (history_mark_retry k) (tick w) = Some (x, w2)" "conn w2 = Idle"
    using db_exec_run [OF w1] by blast
  obtain y where y: "query_row E (history_by_id k) (history_scan E) w2 = Some (y, tick w2)"
    using query_row_Some [OF x(2)] by blast
  show ?thesis using Some q w x y
    by (cases q; cases x; cases y) (simp_all add: retry_history_handler_def answers_def)
qed (simp add: retry_history_handler_def answers_def w)

text \<open>Every history endpoint answers and leaves the connection free, whatever the parameters, the
  rows and the driver do; no path keeps a result set open.\<close>

theorem history_endpoints_answer:
  assumes "conn w = Idle"
  shows "answers (stats_handler E w) \<and> answers (list_history_handler E p s st w)
    \<and> answers (get_history_handler E i w) \<and> answers (retry_history_handler E i w)
    \<and> answers (delete_history_handler E i w)"
  using assms by (simp add: stats_answers list_answers get_answers retry_answers delete_answers)

theorem history_endpoints_answer_witness:
  "answers (list_history_handler calm (Some ''2'') None (Some ''failed'') fresh_world)"
  using history_endpoints_answer [of fresh_world calm "Some ''2''" None "Some ''failed''"] by simp

section \<open>Statistics\<close>

definition known_statuses :: "string list" where
  "known_statuses = [''SUCCESSFUL'', ''FAILED'', ''PENDING_RETRY'']"

definition statuses :: "database \<Rightarrow> string list" where
  "statuses db = map (\<lambda>(k, r). h_status r) (rows (sync_history db))"

definition how_many :: "string \<Rightarrow> database \<Rightarrow> int" where
  "how_many s db = int (count_list (statuses db) s)"

lemma upper_known: "s \<in> set known_statuses \<Longrightarrow> to_upper uni s = s"
  by (auto simp: known_statuses_def to_upper_def is_ascii_def upper_char_def)

lemma stats_loop_known:
  assumes "distinct (map fst xs)" "fst ` set xs \<subseteq> set known_statuses" "wrap64 (st_total d) = st_total d"
  shows "stats_loop E xs d = \<lparr>
     st_successful = (case map_of xs ''SUCCESSFUL'' of None \<Rightarrow> st_successful d | Some n \<Rightarrow> n),
     st_failed = (case map_of xs ''FAILED'' of None \<Rightarrow> st_failed d | Some n \<Rightarrow> n),
     st_pending_retry = (case map_of xs ''PENDING_RETRY'' of None \<Rightarrow> st_pending_retry d | Some n \<Rightarrow> n),
     st_invalid = st_invalid d, st_total = wrap64 (st_total d + sum_list (map snd xs))\<rparr>"
  using assms
proof (induction xs arbitrary: d)
  case Nil
  then show ?case by simp
next
  case (Cons x xs)
  obtain s n where x: "x = (s, n)" by (cases x)
  have s: "s \<in> set known_statuses" "s \<notin> fst ` set xs" using Cons.prems x by auto
  then have none: "map_of xs s = None" by (simp add: map_of_eq_None_iff)
  have IH: "stats_loop E xs d' = \<lparr>
     st_successful = (case map_of xs ''SUCCESSFUL'' of None \<Rightarrow> st_successful d' | Some n \<Rightarrow> n),
     st_failed = (case map_of xs ''FAILED'' of None \<Rightarrow> st_failed d' | Some n \<Rightarrow> n),
     st_pending_retry = (case map_of xs ''PENDING_RETRY'' of None \<Rightarrow> st_pending_retry d' | Some n \<Rightarrow> n),
     st_invalid = st_invalid d', st_total = wrap64 (st_total d' + sum_list (map snd xs))\<rparr>"
    if "wrap64 (st_total d') = st_total d'" for d'
    using Cons.IH Cons.prems that by auto
  have up: "to_upper (uni_upper E) s = s" using s(1) by (rule upper_known)
  consider "s = ''SUCCESSFUL''" | "s = ''FAILED''" | "s = ''PENDING_RETRY''"
    using s(1) by (auto simp: known_statuses_def)
  then show ?case
    by cases (use none up in \<open>simp_all add: x Let_def IH add.assoc split: option.split\<close>)
qed

lemma sum_counts: "sum_list (map (\<lambda>s. int (count_list xs s)) (sort (remdups xs))) = int (length xs)"
proof -
  have "sum_list (map (\<lambda>s. int (count_list xs s)) (sort (remdups xs))) = sum (\<lambda>s. int (count_list xs s)) (set xs)"
    by (simp add: sum_list_distinct_conv_sum_set)
  also have "\<dots> = int (sum (count_list xs) (set xs))" by simp
  finally show ?thesis by (simp add: sum_count_set)
qed

lemma status_counts_facts:
  "distinct (map fst (status_counts db))" "fst ` set (status_counts db) = set (statuses db)"
  "map_of (status_counts db) s = (if s \<in> set (statuses db) then Some (how_many s db) else None)"
  "sum_list (map snd (status_counts db)) = int (length (rows (sync_history db)))"
proof -
  have eq: "status_counts db = map (\<lambda>s. (s, how_many s db)) (sort (remdups (statuses db)))"
    by (simp add: status_counts_def how_many_def statuses_def Let_def)
  show "distinct (map fst (status_counts db))" "fst ` set (status_counts db) = set (statuses db)"
    by (simp_all add: eq comp_def image_image)
  show "map_of (status_counts db) s = (if s \<in> set (statuses db) then Some (how_many s db) else None)"
    by (simp add: eq map_of_map_restrict restrict_map_def)
  show "sum_list (map snd (status_counts db)) = int (length (rows (sync_history db)))"
    using sum_counts [of "statuses db"] by (simp add: eq comp_def how_many_def) (simp add: statuses_def)
qed

lemma how_many_absent: "s \<notin> set (statuses db) \<Longrightarrow> how_many s db = 0"
  by (simp add: how_many_def count_list_0_iff)

lemma stats_of_table:
  assumes k: "set (statuses db) \<subseteq> set known_statuses" and len: "int (length (rows (sync_history db))) \<le> max64"
  shows "stats_loop E (status_counts db) no_stats = \<lparr>st_successful = how_many ''SUCCESSFUL'' db,
    st_failed = how_many ''FAILED'' db, st_pending_retry = how_many ''PENDING_RETRY'' db, st_invalid = 0,
    st_total = int (length (rows (sync_history db)))\<rparr>"
proof -
  have "wrap64 0 = 0" by (simp add: wrap64_def)
  moreover have "wrap64 (int (length (rows (sync_history db)))) = int (length (rows (sync_history db)))"
    using len by (intro wrap64_id) (simp add: in64_def)
  ultimately show ?thesis
    using stats_loop_known [of "status_counts db" no_stats E] k
    by (simp add: status_counts_facts no_stats_def how_many_absent)
qed

text \<open>When its query succeeds, \<open>GET /sync/stats\<close> answers 200 with the number of entries of each
  status, none invalid, and the number of all entries; the three numbers add up to it.\<close>

theorem stats_count_history:
  assumes "conn w = Idle" and "fault E (calls w) = None" and "rows_cut E (calls w) = None"
    and "set (statuses (wdb w)) \<subseteq> set known_statuses"
    and "int (length (rows (sync_history (wdb w)))) \<le> max64"
  shows "\<exists>w' d. stats_handler E w = Some (\<lparr>code = 200, body = Stats ''Stats retrieved successfully'' d\<rparr>, w')
    \<and> wdb w' = wdb w \<and> st_successful d = how_many ''SUCCESSFUL'' (wdb w) \<and> st_failed d = how_many ''FAILED'' (wdb w)
    \<and> st_pending_retry d = how_many ''PENDING_RETRY'' (wdb w) \<and> st_invalid d = 0
    \<and> st_total d = int (length (rows (sync_history (wdb w))))
    \<and> st_successful d + st_failed d + st_pending_retry d = st_total d"
proof -
  have "sum (\<lambda>s. int (count_list (statuses (wdb w)) s)) (set known_statuses) = int (length (statuses (wdb w)))"
    using sum_count_set [OF assms(4)] by (simp flip: of_nat_sum)
  then have "how_many ''SUCCESSFUL'' (wdb w) + how_many ''FAILED'' (wdb w) + how_many ''PENDING_RETRY'' (wdb w)
      = int (length (rows (sync_history (wdb w))))"
    by (simp add: known_statuses_def how_many_def statuses_def)
  then show ?thesis using assms(1,2,3) stats_of_table [OF assms(4,5), of E]
    by (simp add: stats_handler_def db_query_def)
qed

text \<open>A log with one entry of each status.\<close>

definition log_row :: "string \<Rightarrow> string option \<Rightarrow> history_row" where
  "log_row st reason = \<lparr>h_payload = ''[]'', h_status = st, h_failure_reason = reason, h_retries = 0,
     h_created_at = ''2026-06-03 07:46:58'', h_updated_at = ''2026-06-03 07:46:58''\<rparr>"

definition log_world :: sync_world where
  "log_world = fresh_world\<lparr>wdb := empty_database\<lparr>sync_history :=
     \<lparr>rows = [(1, log_row ''SUCCESSFUL'' None), (2, log_row ''FAILED'' (Some ''Malformed item JSON'')),
              (3, log_row ''PENDING_RETRY'' None)], seq = 3\<rparr>\<rparr>\<rparr>"

lemma log_world_simps [simp]: "conn log_world = Idle"
  "rows (sync_history (wdb log_world)) = [(1, log_row ''SUCCESSFUL'' None),
     (2, log_row ''FAILED'' (Some ''Malformed item JSON'')), (3, log_row ''PENDING_RETRY'' None)]"
  by (simp_all add: log_world_def)

theorem stats_count_history_witness:
  "\<exists>w' d. stats_handler calm log_world = Some (\<lparr>code = 200, body = Stats ''Stats retrieved successfully'' d\<rparr>, w')
    \<and> st_successful d = 1 \<and> st_total d = 3"
proof -
  have known: "set (statuses (wdb log_world)) \<subseteq> set known_statuses"
    by (simp add: statuses_def known_statuses_def log_row_def)
  have one: "how_many ''SUCCESSFUL'' (wdb log_world) = 1" by (simp add: how_many_def statuses_def log_row_def)
  show ?thesis using stats_count_history [OF _ _ _ known, of calm] one by fastforce
qed

section \<open>Pages\<close>

lemma scan_rows_ok:
  "(\<forall>x \<in> set xs. f x = Inr (g x)) \<Longrightarrow> scan_rows f xs acc = Inr (acc @ map g xs)"
  by (induction xs arbitrary: acc) auto

definition view_of :: "env \<Rightarrow> int \<times> history_row \<Rightarrow> sync_history_row" where
  "view_of E x = (case x of (k, r) \<Rightarrow> \<lparr>hv_id = k, hv_payload = h_payload r, hv_status = h_status r,
     hv_failure_reason = h_failure_reason r, hv_retries = h_retries r,
     hv_created_at = the (fmt_ts E (h_created_at r)), hv_updated_at = the (fmt_ts E (h_updated_at r))\<rparr>)"

definition dated :: "env \<Rightarrow> history_row \<Rightarrow> bool" where
  "dated E r \<longleftrightarrow> fmt_ts E (h_created_at r) \<noteq> None \<and> fmt_ts E (h_updated_at r) \<noteq> None"

lemma history_scan_dated: "dated E r \<Longrightarrow> history_scan E (k, r) = Inr (view_of E (k, r))"
  by (auto simp: history_scan_def dated_def view_of_def)

lemma page_rows: "x \<in> set (history_page st lim off db) \<Longrightarrow> x \<in> set (rows (sync_history db))"
  by (auto simp: history_page_def wanted_def dest!: in_set_takeD in_set_dropD)

lemma size_of_range: "0 < size_of q \<and> in64 (size_of q)"
proof (cases "parse_int (case q of None \<Rightarrow> ''15'' | Some s \<Rightarrow> s)")
  case None
  then show ?thesis by (simp add: size_of_def positive_or_def in64_def)
next
  case (Some n)
  then have "in64 n" by (rule parse_int_in64)
  then show ?thesis using Some by (simp add: size_of_def positive_or_def) (simp add: in64_def)
qed

text \<open>C21: When its queries succeed and the entries have readable times, \<open>GET /sync-history\<close> answers 200
  with the requested page, newest entry first, of the entries with the requested status, their
  number, and the number of pages rounded up, exact below \<open>2^53\<close> entries although the code computes
  it in floating point.\<close>

theorem history_list_page:
  assumes sz: "sz = size_of sizeq" and st: "st = status_filter E statusq"
    and w: "conn w = Idle" and E: "\<forall>n. fault E n = None" "\<forall>n. rows_cut E n = None"
    and dates: "\<forall>(k, r) \<in> set (rows (sync_history (wdb w))). dated E r"
    and few: "history_count st (wdb w) < 2 ^ 53"
  shows "\<exists>w' d. list_history_handler E pageq sizeq statusq w =
      Some (\<lparr>code = 200, body = History_List ''Sync histories retrieved successfully'' d\<rparr>, w')
    \<and> wdb w' = wdb w
    \<and> ld_content d = map (view_of E) (history_page st sz (page_offset (page_of pageq) sz) (wdb w))
    \<and> ld_total_elements d = history_count st (wdb w)
    \<and> ld_total_pages d = - ((- history_count st (wdb w)) div sz)"
proof -
  let ?page = "history_page st sz (page_offset (page_of pageq) sz) (wdb w)"
  have "\<forall>x \<in> set ?page. history_scan E x = Inr (view_of E x)"
    using dates page_rows history_scan_dated by fastforce
  then have scan: "scan_rows (history_scan E) ?page [] = Inr (map (view_of E) ?page)"
    using scan_rows_ok [of ?page "history_scan E" "view_of E" "[]"] by simp
  have "total_pages (history_count st (wdb w)) sz = - ((- history_count st (wdb w)) div sz)"
    by (rule total_pages_exact) (use few size_of_range [of sizeq] in \<open>auto simp: history_count_def sz in64_def\<close>)
  then show ?thesis
    using w E scan
    by (simp add: list_history_handler_def Let_def query_row_def db_query_def list_data_def sz st)
qed

theorem history_list_page_witness:
  "\<exists>w' d. list_history_handler calm None (Some ''2'') None log_world =
      Some (\<lparr>code = 200, body = History_List ''Sync histories retrieved successfully'' d\<rparr>, w')
    \<and> map hv_id (ld_content d) = [3, 2] \<and> ld_total_pages d = 2"
proof -
  have dates: "\<forall>(k, r) \<in> set (rows (sync_history (wdb log_world))). dated calm r"
    by (simp add: log_row_def dated_def calm_def)
  have sz: "size_of (Some ''2'') = 2" by code_simp
  have st: "status_filter calm None = None" by code_simp
  have n: "history_count None (wdb log_world) = 3" by (simp add: history_count_def wanted_def)
  have "map hv_id (map (view_of calm) (history_page None 2 (page_offset (page_of None) 2) (wdb log_world))) = [3, 2]"
    by code_simp
  then show ?thesis
    using history_list_page [OF sz [symmetric] st [symmetric] _ _ _ dates, of None] n by simp fastforce
qed

text \<open>C20: Read one after the other, the pages of a list of less than \<open>2 ^ 53\<close> entries are all its entries, newest first, each once;
  none is skipped or repeated.\<close>

theorem history_pages_cover:
  assumes sz: "0 < sz" "sz \<le> max64" and few: "history_count st db < 2 ^ 53"
  shows "concat (map (\<lambda>i. history_page st sz (page_offset (int i + 1) sz) db)
      [0..<nat (total_pages (history_count st db) sz)]) = rev (wanted st db)"
proof -
  let ?xs = "rev (wanted st db)" and ?n = "history_count st db" and ?s = "nat sz"
  have n: "?n = int (length ?xs)" by (simp add: history_count_def)
  obtain d r where d: "(- ?n) div sz = d" "- ?n = d * sz + r" "0 \<le> r" "r < sz" by (rule division_parts [OF sz(1)])
  have pages: "total_pages ?n sz = - d" using total_pages_exact [OF _ few sz] n d(1) by simp
  have page: "history_page st sz (page_offset (int i + 1) sz) db = take ?s (drop (i * ?s) ?xs)" if "i < nat (- d)" for i
  proof -
    have "(int i + 1) * sz \<le> (- d) * sz" using that sz by (intro mult_right_mono) auto
    then have "int i * sz + sz \<le> - (d * sz)" by (simp add: algebra_simps)
    then have less: "int i * sz < ?n" using d by linarith
    moreover have "0 \<le> int i * sz" using sz by simp
    ultimately have "wrap64 (int i * sz) = int i * sz" using few by (intro wrap64_id) (simp add: in64_def)
    then show ?thesis by (simp add: history_page_def page_offset_def nat_mult_distrib)
  qed
  have all: "length ?xs \<le> nat (- d) * ?s"
  proof -
    have "?n \<le> - (d * sz)" using d by linarith
    moreover have "d \<le> 0" using d sz n by (smt (verit) mult_pos_pos of_nat_0_le_iff zero_less_mult_iff)
    ultimately show ?thesis using n sz by (simp add: nat_mult_distrib [symmetric] nat_le_iff le_nat_iff)
  qed
  have "concat (map (\<lambda>i. history_page st sz (page_offset (int i + 1) sz) db) [0..<nat (- d)])
      = concat (map (\<lambda>i. take ?s (drop (i * ?s) ?xs)) [0..<nat (- d)])"
    using page by (intro arg_cong [where f = concat] map_cong) auto
  then show ?thesis using all by (simp only: pages concat_pages take_all)
qed

theorem history_pages_cover_witness:
  "concat (map (\<lambda>i. history_page None 2 (page_offset (int i + 1) 2) (wdb log_world))
      [0..<nat (total_pages (history_count None (wdb log_world)) 2)]) = rev (wanted None (wdb log_world))"
  by (rule history_pages_cover) (simp_all add: history_count_def wanted_def)

text \<open>The offset of a page is computed in 64 bits and wraps around: page \<open>2^62 + 1\<close> of size 4 has
  offset 0, so it shows the newest entries and is not marked as the first page.\<close>

theorem page_offset_wraps:
  "history_page st 4 (page_offset 4611686018427387905 4) db = history_page st 4 (page_offset 1 4) db
   \<and> ld_first (list_data 4611686018427387905 4 n content) = False"
  by (simp add: page_offset_def wrap64_def list_data_def Let_def)

section \<open>Retry and delete\<close>

text \<open>C22: A retry resets a failed entry to PENDING_RETRY without its reason and answers 200; the payload
  and the number of retries stay, no other entry changes, and nothing is synchronised again: all
  other tables are as they were. An entry that has not failed is refused with 400, a missing one
  with 404, and nothing changes.\<close>

theorem retry_resets_failed:
  assumes w: "conn w = Idle" and E: "\<forall>n. fault E n = None" and id: "parse_int idp = Some k"
    and t: "ordered (sync_history (wdb w))" and time: "fmt_ts E (clock E (Suc (calls w))) \<noteq> None"
    and dates: "\<forall>r. tlookup k (sync_history (wdb w)) = Some r \<longrightarrow> fmt_ts E (h_created_at r) \<noteq> None"
  shows "\<exists>resp w'. retry_history_handler E idp w = Some (resp, w') \<and> same_targets (wdb w) (wdb w')
    \<and> (\<forall>j. j \<noteq> k \<longrightarrow> tlookup j (sync_history (wdb w')) = tlookup j (sync_history (wdb w)))
    \<and> (case tlookup k (sync_history (wdb w)) of
         None \<Rightarrow> code resp = 404 \<and> wdb w' = wdb w
       | Some r \<Rightarrow>
           if to_upper (uni_upper E) (h_status r) \<noteq> ''FAILED'' then code resp = 400 \<and> wdb w' = wdb w
           else code resp = 200 \<and> (\<exists>r'. tlookup k (sync_history (wdb w')) = Some r' \<and> h_status r' = ''PENDING_RETRY''
             \<and> h_failure_reason r' = None \<and> h_payload r' = h_payload r \<and> h_retries r' = h_retries r))"
proof (cases "tlookup k (sync_history (wdb w))")
  case None
  then show ?thesis using w E id
    by (simp add: retry_history_handler_def query_row_def history_by_id_def missing_or_error_def history_missing_def)
next
  case (Some r)
  have q: "query_row E (history_by_id k) (\<lambda>(j, r). Inr (h_status r)) w = Some (Inr (h_status r), tick w)"
    using w E Some by (simp add: query_row_def history_by_id_def)
  show ?thesis
  proof (cases "to_upper (uni_upper E) (h_status r) = ''FAILED''")
    case False
    then show ?thesis using q id Some by (simp add: retry_history_handler_def)
  next
    case True
    let ?r' = "r\<lparr>h_status := ''PENDING_RETRY'', h_failure_reason := None, h_updated_at := clock E (Suc (calls w))\<rparr>"
    let ?w2 = "(tick (tick w))\<lparr>wdb := (wdb w)\<lparr>sync_history := tput k ?r' (sync_history (wdb w))\<rparr>\<rparr>"
    have x: "db_exec E (history_mark_retry k) (tick w) = Some (Inr \<lparr>er_last_id = 0, er_affected = 1\<rparr>, ?w2)"
      using w E Some by (simp add: db_exec_def run_stmt_def history_mark_retry_def history_update_def ctx_of_def)
    have look: "tlookup j (sync_history (wdb ?w2)) = (if j = k then Some ?r' else tlookup j (sync_history (wdb w)))" for j
      using plain.look_put [OF t] by simp
    have "dated E ?r'" using time dates Some by (simp add: dated_def)
    then have y: "query_row E (history_by_id k) (history_scan E) ?w2 = Some (Inr (view_of E (k, ?r')), tick ?w2)"
      using w E look [of k] by (simp add: query_row_def history_by_id_def history_scan_dated)
    have run: "retry_history_handler E idp w =
        Some (\<lparr>code = 200, body = History_Row ''Sync history will be retried'' (view_of E (k, ?r'))\<rparr>, tick ?w2)"
      using q x y id True by (simp add: retry_history_handler_def)
    show ?thesis unfolding run using look Some True by (simp add: same_targets_def)
  qed
qed

theorem retry_resets_failed_witness:
  "\<exists>resp w' r'. retry_history_handler calm ''2'' log_world = Some (resp, w') \<and> code resp = 200
    \<and> tlookup 2 (sync_history (wdb w')) = Some r' \<and> h_status r' = ''PENDING_RETRY'' \<and> h_retries r' = 0"
proof -
  have id: "parse_int ''2'' = Some 2" by code_simp
  have t: "ordered (sync_history (wdb log_world))" by (simp add: ordered_def)
  have row: "tlookup 2 (sync_history (wdb log_world)) = Some (log_row ''FAILED'' (Some ''Malformed item JSON''))"
    by (simp add: tlookup_def)
  have up: "to_upper (uni_upper calm) ''FAILED'' = ''FAILED''" by (rule upper_known) (simp add: known_statuses_def)
  have ts: "fmt_ts calm s \<noteq> None" for s by (simp add: calm_def)
  show ?thesis
    using retry_resets_failed [OF _ _ id t ts] row up ts by (fastforce simp: log_row_def)
qed

text \<open>C23: When the driver's calls succeed, a deletion answers 204 where the entry exists and 404 where it does not; afterwards exactly
  that entry is gone, a lookup of it answers 404, and no other table has changed.\<close>

theorem delete_removes_entry:
  assumes w: "conn w = Idle" and E: "no_faults E" and id: "parse_int idp = Some k"
    and t: "ordered (sync_history (wdb w))"
  shows "\<exists>resp w'. delete_history_handler E idp w = Some (resp, w')
    \<and> code resp = (if tlookup k (sync_history (wdb w)) = None then 404 else 204)
    \<and> (\<forall>j. tlookup j (sync_history (wdb w')) = (if j = k then None else tlookup j (sync_history (wdb w))))
    \<and> same_targets (wdb w) (wdb w') \<and> conn w' = Idle
    \<and> (\<exists>w''. get_history_handler E idp w' = Some (history_missing, w''))"
proof -
  have F: "fault E n = None" "result_err E n = None" for n using E by (simp_all add: no_faults_def)
  show ?thesis
  proof (cases "tlookup k (sync_history (wdb w))")
    case None
    have "delete_history_handler E idp w = Some (history_missing, (tick w)\<lparr>wdb := wdb w\<rparr>)"
      using w F id None
      by (simp add: delete_history_handler_def db_exec_def run_stmt_def history_delete_def rows_affected_def)
    then show ?thesis using None w F id
      by (simp add: history_missing_def get_history_handler_def query_row_def history_by_id_def missing_or_error_def)
  next
    case (Some r)
    let ?w' = "(tick w)\<lparr>wdb := (wdb w)\<lparr>sync_history := tdelete (\<lambda>j s. j = k) (sync_history (wdb w))\<rparr>\<rparr>"
    have run: "delete_history_handler E idp w = Some (answer_message 204 ''Sync history deleted successfully'', ?w')"
      using w F id Some
      by (simp add: delete_history_handler_def db_exec_def run_stmt_def history_delete_def rows_affected_def)
    have look: "tlookup j (sync_history (wdb ?w')) = (if j = k then None else tlookup j (sync_history (wdb w)))" for j
      using plain.look_del [OF t, of j "\<lambda>j s. j = k"] by (simp split: option.splits)
    then show ?thesis unfolding run using w F id Some
      by (simp add: same_targets_def get_history_handler_def query_row_def history_by_id_def missing_or_error_def)
  qed
qed

theorem delete_removes_entry_witness:
  "\<exists>resp w'. delete_history_handler calm ''2'' log_world = Some (resp, w') \<and> code resp = 204
    \<and> tlookup 2 (sync_history (wdb w')) = None"
proof -
  have id: "parse_int ''2'' = Some 2" by code_simp
  have t: "ordered (sync_history (wdb log_world))" by (simp add: ordered_def)
  have row: "tlookup 2 (sync_history (wdb log_world)) \<noteq> None" by (simp add: tlookup_def)
  show ?thesis using delete_removes_entry [OF _ calm_no_faults id t] row by fastforce
qed

end
