(* ===== verification/Health_Handler.thy ===== *)
theory Health_Handler
  imports Sql_Driver Http_Types Sample_Runs
begin

text \<open>
  \<open>HealthHandler\<close> of \<open>internal/handlers/health.go\<close>: a read, and a customer that is inserted and deleted
  again. The error of the deletion is dropped, as in the code.
\<close>

definition health_email :: "env \<Rightarrow> 'm world_scheme \<Rightarrow> string" where
  "health_email E w = ''healthcheck-'' @ uuid_text E (new_uuid E (calls w)) @ ''@example.com''"

definition health_report :: "env \<Rightarrow> bool \<Rightarrow> bool \<Rightarrow> 'm world_scheme \<Rightarrow> response" where
  "health_report E readOk writeOk w =
     (let isHealthy = readOk \<and> writeOk in
      \<lparr>code = (if \<not> isHealthy then 503 else 200),
       body = Health (if \<not> isHealthy then ''Service is unhealthy'' else ''Service is healthy'')
         \<lparr>hc_read = readOk, hc_write = writeOk, hc_timestamp = time_text E (calls w)\<rparr>\<rparr>)"

definition health_handler :: "env \<Rightarrow> 'm world_scheme \<Rightarrow> (response \<times> 'm world_scheme) option" where
  "health_handler E w =
     do { (r, w1) \<leftarrow> query_row E (\<lambda>db. Some (1 :: int)) Inr w;
          let email = health_email E w1; readOk = (case r of Inl e \<Rightarrow> False | Inr val \<Rightarrow> True) in
          do { (x, w2) \<leftarrow> db_exec E (health_insert email) w1;
               case x of
                 Inl writeErr \<Rightarrow> Some (health_report E readOk False w2, w2)
               | Inr res \<Rightarrow>
                   do { (y, w3) \<leftarrow> db_exec E (health_delete email) w2;
                        Some (health_report E readOk True w3, w3) } } }"

section \<open>What a health check leaves behind\<close>

lemma ctx_of_wdb [simp]: "ctx_of E (w\<lparr>wdb := db\<rparr>) = ctx_of E w"
  by (simp add: ctx_of_def)

lemma filter_all: "(\<forall>x \<in> set xs. P x) \<Longrightarrow> filter P xs = xs"
  by (induction xs) auto

lemma insert_delete_customer:
  assumes db: "integrity db" and k: "new_rowid (customers db) = Some k"
    and free: "\<forall>j r. tlookup j (customers db) = Some r \<longrightarrow> c_email r \<noteq> em"
  obtains db1 where "health_insert em c db = finished k 1 db1"
    "health_delete em c' db1 = finished 0 1 (db\<lparr>customers := (customers db)\<lparr>seq := k\<rparr>\<rparr>)"
proof -
  have t: "ordered (customers db)" and cnt: "counted (customers db)" using db by (simp_all add: integrity_def)
  define row where "row = \<lparr>c_email = em, c_first_name = ''Health'', c_last_name = ''Check'', c_default_currency = ''USD'',
    c_created_at = now c, c_updated_at = now c\<rparr>"
  define db1 where "db1 = db\<lparr>customers := auto_put k row (customers db)\<rparr>"
  have "\<not> taken c_email em k (customers db)" using free by (simp add: not_taken_iff [OF t])
  then have ins: "health_insert em c db = finished k 1 db1"
    by (simp add: health_insert_def customer_insert_def k db1_def row_def)
  have rows1: "rows (customers db1) = rows (customers db) @ [(k, row)]"
    using auto_put_new [OF t k] by (simp add: db1_def)
  have orders1: "orders db1 = orders db" by (simp add: db1_def)
  have seq1: "seq (customers db1) = k"
    using new_rowid_fresh(2) [OF t k] by (simp add: db1_def auto_put_def)
  have others: "\<forall>x \<in> set (rows (customers db)). c_email (snd x) \<noteq> em"
  proof
    fix x
    assume "x \<in> set (rows (customers db))"
    then have "tlookup (fst x) (customers db) = Some (snd x)" by (simp add: tlookup_iff [OF t])
    then show "c_email (snd x) \<noteq> em" using free by blast
  qed
  have noref: "\<not> list_ex (\<lambda>(i, q). o_customer_id q = k) (rows (orders db))"
  proof -
    have "o_customer_id q \<noteq> k" if "(i, q) \<in> set (rows (orders db))" for i q
    proof -
      have "ordered (orders db)" using db by (simp add: integrity_def)
      then have "tlookup i (orders db) = Some q" using that by (simp add: tlookup_iff)
      then have "tlookup (o_customer_id q) (customers db) \<noteq> None" using db by (simp add: integrity_def orders_refer_def)
      then show ?thesis using new_rowid_fresh(1) [OF t k] by metis
    qed
    then show ?thesis by (auto simp: list_ex_iff)
  qed
  have keep: "filter (\<lambda>(j, r). c_email r \<noteq> em) (rows (customers db)) = rows (customers db)"
    using others by (intro filter_all) auto
  have gone: "filter (\<lambda>(j, r). c_email r = em) (rows (customers db)) = []"
    using others by (auto simp: filter_empty_conv)
  have "\<not> list_ex (\<lambda>(j, r). c_email r = em \<and> list_ex (\<lambda>(i, q). o_customer_id q = j) (rows (orders db1))) (rows (customers db1))"
    using others noref by (auto simp: rows1 list_ex_iff orders1)
  then have "health_delete em c' db1 = finished 0 1 (db1\<lparr>customers := tdelete (\<lambda>k r. c_email r = em) (customers db1)\<rparr>)"
    by (simp add: health_delete_def rows1 gone row_def)
  moreover have "db1\<lparr>customers := tdelete (\<lambda>k r. c_email r = em) (customers db1)\<rparr> = db\<lparr>customers := (customers db)\<lparr>seq := k\<rparr>\<rparr>"
    using rows1 seq1 keep by (simp add: tdelete_def row_def) (simp add: db1_def)
  ultimately show thesis using that ins by simp
qed

text \<open>C24: When the calls succeed and the drawn address is unused, a health check answers 200 and leaves
  every table with the rows it had. It does use up one customer id: the counter moves on by one
  with each check.\<close>

theorem health_check_leaves_no_row:
  assumes w: "conn w = Idle" and E: "\<forall>n. fault E n = None" and db: "integrity (wdb w)"
    and k: "new_rowid (customers (wdb w)) = Some k"
    and free: "\<forall>j r. tlookup j (customers (wdb w)) = Some r \<longrightarrow> c_email r \<noteq> health_email E (tick w)"
  shows "\<exists>resp w'. health_handler E w = Some (resp, w') \<and> code resp = 200 \<and> conn w' = Idle
    \<and> wdb w' = (wdb w)\<lparr>customers := (customers (wdb w))\<lparr>seq := k\<rparr>\<rparr> \<and> k = seq (customers (wdb w)) + 1"
proof -
  let ?w1 = "tick w" and ?em = "health_email E (tick w)"
  obtain db1 where ins: "health_insert ?em (ctx_of E ?w1) (wdb w) = finished k 1 db1"
    and del: "health_delete ?em (ctx_of E (tick ?w1)) db1 = finished 0 1 ((wdb w)\<lparr>customers := (customers (wdb w))\<lparr>seq := k\<rparr>\<rparr>)"
    by (rule insert_delete_customer [OF db k free])
  have seq: "k = seq (customers (wdb w)) + 1"
    using k db counted_top [of "customers (wdb w)"] by (auto simp: new_rowid_def integrity_def split: if_split_asm)
  show ?thesis using w E ins del seq
    by (simp add: health_handler_def query_row_def db_exec_def run_stmt_def Let_def health_report_def)
qed

theorem health_check_leaves_no_row_witness:
  "\<exists>resp w'. health_handler calm fresh_world = Some (resp, w') \<and> code resp = 200
    \<and> seq (customers (wdb w')) = 1"
proof -
  have k: "new_rowid (customers (wdb fresh_world)) = Some 1" by code_simp
  have free: "\<forall>j r. tlookup j (customers (wdb fresh_world)) = Some r \<longrightarrow> c_email r \<noteq> health_email calm (tick fresh_world)"
    by (simp add: empty_database_def)
  have db: "integrity (wdb fresh_world)" by (simp add: integrity_empty)
  show ?thesis using health_check_leaves_no_row [OF _ _ db k free] by fastforce
qed

text \<open>The health check answers 200 exactly when its read and its insertion succeed; a driver that
  fails on the deletion goes unnoticed, and the temporary customer stays in the table.\<close>

theorem health_check_ignores_cleanup:
  assumes w: "conn w = Idle" and E: "fault E (calls w) = None" "fault E (Suc (calls w)) = None"
    and cleanup: "fault E (Suc (Suc (calls w))) \<noteq> None"
    and t: "ordered (customers (wdb w))" and k: "new_rowid (customers (wdb w)) = Some k"
    and free: "\<forall>j r. tlookup j (customers (wdb w)) = Some r \<longrightarrow> c_email r \<noteq> health_email E (tick w)"
  shows "\<exists>resp w' row. health_handler E w = Some (resp, w') \<and> code resp = 200
    \<and> tlookup k (customers (wdb w')) = Some row \<and> c_first_name row = ''Health''"
proof -
  have "\<not> taken c_email (health_email E (tick w)) k (customers (wdb w))" using free by (simp add: not_taken_iff [OF t])
  then show ?thesis using w E cleanup k
    by (auto simp: health_handler_def query_row_def db_exec_def run_stmt_def Let_def health_report_def
        health_insert_def customer_insert_def auto.look_put [OF t])
qed

theorem health_check_ignores_cleanup_witness:
  "\<exists>resp w' row. health_handler (calm\<lparr>fault := \<lambda>n. if n = 2 then Some ''disk I/O error'' else None\<rparr>) fresh_world = Some (resp, w')
    \<and> code resp = 200 \<and> tlookup 1 (customers (wdb w')) = Some row"
proof -
  let ?E = "calm\<lparr>fault := \<lambda>n. if n = 2 then Some ''disk I/O error'' else None\<rparr>"
  have k: "new_rowid (customers (wdb fresh_world)) = Some 1" by code_simp
  have free: "\<forall>j r. tlookup j (customers (wdb fresh_world)) = Some r \<longrightarrow> c_email r \<noteq> health_email ?E (tick fresh_world)"
    by (simp add: empty_database_def)
  have t: "ordered (customers (wdb fresh_world))" by (simp add: empty_database_def)
  have calls: "calls fresh_world = 0" by (simp add: fresh_world_def)
  show ?thesis using health_check_ignores_cleanup [OF _ _ _ _ t k free] calls by fastforce
qed

end
