(* ===== verification/Server.thy ===== *)
theory Server
  imports Middleware Sync_Correct History_Props Health_Handler
begin

text \<open>
  \<open>cmd/server/main.go\<close>: the routes, and a request on its way through the middleware to its handler.
  The handlers of third-party packages (Swagger UI, Prometheus, gqlgen with its playground) appear
  by name only. Gin's own redirects of paths with a trailing slash are left out: they reach no handler.
\<close>

datatype route =
    R_Health
  | R_Sync
  | R_Stats
  | R_List
  | R_Get string
  | R_Retry string
  | R_Delete string
  | R_Swagger string
  | R_Redirect string
  | R_Metrics
  | R_Graphql
  | R_Playground

text \<open>A path parameter is one segment that is not empty.\<close>

definition param :: "string \<Rightarrow> string \<Rightarrow> string option" where
  "param pre path = (let rest = drop (length pre) path in
     if has_prefix path pre \<and> rest \<noteq> [] \<and> CHR ''/'' \<notin> set rest then Some rest else None)"

definition route_get :: "string \<Rightarrow> route option" where
  "route_get path =
     (if path = ''/swagger'' then Some (R_Redirect ''/swagger/index.html'')
      else if has_prefix path ''/swagger/'' then
        (if drop 8 path = ''/'' then Some (R_Redirect ''/swagger/index.html'') else Some (R_Swagger (drop 8 path)))
      else if path = ''/metrics'' \<or> path = ''/actuator/prometheus'' then Some R_Metrics
      else if path = ''/api/v1/healthz'' then Some R_Health
      else if path = ''/api/v1/sync/stats'' then Some R_Stats
      else if path = ''/api/v1/sync-history'' then Some R_List
      else if path = ''/graphql'' then Some R_Graphql
      else if path = ''/playground'' then Some R_Playground
      else if path = ''/'' then Some (R_Redirect ''/playground'')
      else map_option R_Get (param ''/api/v1/sync-history/'' path))"

definition route_of :: "string \<Rightarrow> string \<Rightarrow> route option" where
  "route_of method path =
     (if method = ''GET'' then route_get path
      else if method = ''POST'' then
        (if path = ''/api/v1/sync'' then Some R_Sync
         else if path = ''/graphql'' then Some R_Graphql
         else map_option R_Retry (param ''/api/v1/sync-history/retry/'' path))
      else if method = ''DELETE'' then map_option R_Delete (param ''/api/v1/sync-history/'' path)
      else None)"

section \<open>Requests\<close>

record request =
  rq_method :: string
  rq_path :: string
  rq_token :: string
  rq_query :: "string \<Rightarrow> string option"
  rq_text :: string
  rq_json :: "json option"

datatype reply = Answer response | Redirect_To string | Handed_To string | Unmatched

definition answered :: "(response \<times> 'w) option \<Rightarrow> (reply \<times> 'w) option" where
  "answered = map_option (\<lambda>(resp, w). (Answer resp, w))"

definition handle :: "env \<Rightarrow> request \<Rightarrow> route \<Rightarrow> sync_world \<Rightarrow> (reply \<times> sync_world) option" where
  "handle E q r w = (case r of
      R_Health \<Rightarrow> answered (health_handler E w)
    | R_Sync \<Rightarrow> answered (sync_handler E (rq_json q) w)
    | R_Stats \<Rightarrow> answered (stats_handler E w)
    | R_List \<Rightarrow> answered (list_history_handler E (rq_query q ''page'') (rq_query q ''size'') (rq_query q ''status'') w)
    | R_Get i \<Rightarrow> answered (get_history_handler E i w)
    | R_Retry i \<Rightarrow> answered (retry_history_handler E i w)
    | R_Delete i \<Rightarrow> answered (delete_history_handler E i w)
    | R_Swagger s \<Rightarrow> Some (Handed_To ''ginSwagger'', w)
    | R_Redirect p \<Rightarrow> Some (Redirect_To p, w)
    | R_Metrics \<Rightarrow> Some (Handed_To ''promhttp'', w)
    | R_Graphql \<Rightarrow> Some (Handed_To ''gqlgen'', w)
    | R_Playground \<Rightarrow> Some (Handed_To ''playground'', w))"

definition access_denied :: response where
  "access_denied = answer_message 401 ''Access Denied''"

definition serve :: "env \<Rightarrow> string \<Rightarrow> request \<Rightarrow> sync_world \<Rightarrow> (reply \<times> sync_world) option" where
  "serve E authToken q w =
     (if \<not> auth_passes authToken (rq_method q) (rq_path q) (rq_token q) (rq_text q) then Some (Answer access_denied, w)
      else (case route_of (rq_method q) (rq_path q) of None \<Rightarrow> Some (Unmatched, w) | Some r \<Rightarrow> handle E q r w))"

text \<open>The routes that read or write synchronisation data.\<close>

definition sync_route :: "route \<Rightarrow> bool" where
  "sync_route r \<longleftrightarrow> (case r of R_Sync \<Rightarrow> True | R_Stats \<Rightarrow> True | R_List \<Rightarrow> True
     | R_Get i \<Rightarrow> True | R_Retry i \<Rightarrow> True | R_Delete i \<Rightarrow> True | _ \<Rightarrow> False)"

section \<open>Without the token\<close>

lemma paramD: "param pre path = Some i \<Longrightarrow> path = pre @ i \<and> i \<noteq> [] \<and> CHR ''/'' \<notin> set i"
  by (auto simp: param_def has_prefix_iff Let_def split: if_split_asm)

lemma suffix_segment:
  assumes "CHR ''/'' \<notin> set i" and "has_suffix (pre @ CHR ''/'' # i) (CHR ''/'' # s)" and "CHR ''/'' \<notin> set s"
  shows "i = s"
proof -
  obtain r where r: "pre @ CHR ''/'' # i = r @ CHR ''/'' # s" using assms(2) by (auto simp: has_suffix_iff)
  have "rev (pre @ CHR ''/'' # i) = rev (r @ CHR ''/'' # s)" by (rule arg_cong [OF r])
  then have "takeWhile (\<lambda>c. c \<noteq> CHR ''/'') (rev i @ CHR ''/'' # rev pre) = takeWhile (\<lambda>c. c \<noteq> CHR ''/'') (rev s @ CHR ''/'' # rev r)"
    by simp
  moreover have "takeWhile (\<lambda>c. c \<noteq> CHR ''/'') (rev t @ CHR ''/'' # u) = rev t" if "CHR ''/'' \<notin> set t" for t u
    using that by (subst takeWhile_append2) auto
  ultimately show ?thesis using assms by simp
qed

lemma graphql_no_number: "parse_int ''graphql'' = None"
  by code_simp

lemma graphql_paths:
  "\<not> has_suffix ''/api/v1/sync'' ''/graphql''" "\<not> has_suffix ''/api/v1/sync/stats'' ''/graphql''"
  "\<not> has_suffix ''/api/v1/sync-history'' ''/graphql''" "has_suffix ''/graphql'' ''/graphql''"
  by code_simp+

lemma route_ofD:
  "route_of m p = Some R_Sync \<Longrightarrow> p = ''/api/v1/sync''"
  "route_of m p = Some R_Stats \<Longrightarrow> p = ''/api/v1/sync/stats''"
  "route_of m p = Some R_List \<Longrightarrow> p = ''/api/v1/sync-history''"
  "route_of m p = Some (R_Get i) \<Longrightarrow> param ''/api/v1/sync-history/'' p = Some i"
  "route_of m p = Some (R_Delete i) \<Longrightarrow> param ''/api/v1/sync-history/'' p = Some i"
  "route_of m p = Some (R_Retry i) \<Longrightarrow> param ''/api/v1/sync-history/retry/'' p = Some i"
  unfolding route_of_def route_get_def
  by (simp_all split: if_split_asm)

text \<open>Where a synchronisation route can be reached: under its prefix, and under a path that ends in
  \<open>/graphql\<close> only with that text as the id.\<close>

lemma sync_route_paths:
  assumes "route_of m p = Some r" and "sync_route r"
  shows "has_prefix p ''/api/v1/sync'' \<and> p \<noteq> ''/api/v1/healthz'' \<and> p \<noteq> ''/healthz''
    \<and> (has_suffix p ''/graphql'' \<longrightarrow> r \<in> {R_Get ''graphql'', R_Retry ''graphql'', R_Delete ''graphql''})"
proof -
  have par: "has_prefix p ''/api/v1/sync'' \<and> p \<noteq> ''/api/v1/healthz'' \<and> p \<noteq> ''/healthz''
      \<and> (has_suffix p ''/graphql'' \<longrightarrow> i = ''graphql'')"
    if q: "param pre p = Some i" and pre: "pre = ''/api/v1/sync'' @ mid @ ''/''" for pre mid i
  proof -
    have p: "p = (''/api/v1/sync'' @ mid) @ CHR ''/'' # i" and i: "CHR ''/'' \<notin> set i"
      using paramD [OF q] pre by simp_all
    have "i = ''graphql''" if "has_suffix p ''/graphql''"
      using suffix_segment [OF i, of "''/api/v1/sync'' @ mid" "''graphql''"] that p by simp
    moreover have "has_prefix p ''/api/v1/sync''" unfolding has_prefix_iff using p by auto
    ultimately show ?thesis by (auto simp: p)
  qed
  note hist = par [of "''/api/v1/sync-history/''" _ "''-history''"]
  note retry = par [of "''/api/v1/sync-history/retry/''" _ "''-history/retry''"]
  show ?thesis
  proof (cases r)
    case R_Sync
    then have "p = ''/api/v1/sync''" using assms(1) route_ofD(1) by simp
    then show ?thesis by (simp add: graphql_paths has_prefix_def)
  next
    case R_Stats
    then have "p = ''/api/v1/sync/stats''" using assms(1) route_ofD(2) by simp
    then show ?thesis by (simp add: graphql_paths has_prefix_def)
  next
    case R_List
    then have "p = ''/api/v1/sync-history''" using assms(1) route_ofD(3) by simp
    then show ?thesis by (simp add: graphql_paths has_prefix_def)
  next
    case (R_Get i)
    then show ?thesis using hist [OF route_ofD(4)] assms(1) by simp
  next
    case (R_Retry i)
    then show ?thesis using retry [OF route_ofD(6)] assms(1) by simp
  next
    case (R_Delete i)
    then show ?thesis using hist [OF route_ofD(5)] assms(1) by simp
  qed (use assms(2) in \<open>simp_all add: sync_route_def\<close>)
qed

text \<open>C16: A request for synchronisation data or history that does not carry the service's token gets 401,
  or, when its path ends in \<open>/graphql\<close> and so skips the check, 400 for an id that is no number. In
  both cases nothing has been read or written.\<close>

theorem sync_routes_need_token:
  assumes r: "route_of (rq_method q) (rq_path q) = Some r" "sync_route r" and bad: "token_fails tok (rq_token q)"
  shows "serve E tok q w = Some (Answer access_denied, w) \<or> serve E tok q w = Some (Answer invalid_id, w)"
proof (cases "auth_passes tok (rq_method q) (rq_path q) (rq_token q) (rq_text q)")
  case False
  then show ?thesis by (simp add: serve_def)
next
  case True
  note paths = sync_route_paths [OF r]
  then have "has_suffix (rq_path q) ''/graphql''"
    using True bad by (auto simp: auth_passes_def graphql_paths split: if_split_asm)
  then have "r \<in> {R_Get ''graphql'', R_Retry ''graphql'', R_Delete ''graphql''}" using paths by blast
  then have "handle E q r w = Some (Answer invalid_id, w)"
    by (auto simp: handle_def answered_def get_history_handler_def retry_history_handler_def
        delete_history_handler_def graphql_no_number)
  then show ?thesis using True r(1) by (simp add: serve_def)
qed

definition sample_request :: "string \<Rightarrow> string \<Rightarrow> string \<Rightarrow> request" where
  "sample_request m p hdr = \<lparr>rq_method = m, rq_path = p, rq_token = hdr, rq_query = (\<lambda>k. None), rq_text = [], rq_json = None\<rparr>"

theorem sync_routes_need_token_witness:
  "serve calm ''key'' (sample_request ''DELETE'' ''/api/v1/sync-history/graphql'' ''guess'') fresh_world
     = Some (Answer access_denied, fresh_world)
   \<or> serve calm ''key'' (sample_request ''DELETE'' ''/api/v1/sync-history/graphql'' ''guess'') fresh_world
     = Some (Answer invalid_id, fresh_world)"
proof -
  have r: "route_of (rq_method (sample_request ''DELETE'' ''/api/v1/sync-history/graphql'' ''guess''))
      (rq_path (sample_request ''DELETE'' ''/api/v1/sync-history/graphql'' ''guess'')) = Some (R_Delete ''graphql'')"
    by code_simp
  show ?thesis by (rule sync_routes_need_token [OF r]) (simp_all add: sync_route_def token_fails_def sample_request_def)
qed

section \<open>With the token\<close>

lemma answered_idle:
  "answers run \<Longrightarrow> \<exists>rep w'. answered run = Some (rep, w') \<and> conn w' = Idle"
  by (auto simp: answers_def answered_def)

lemma health_answers:
  assumes w: "conn w = Idle" shows "answers (health_handler E w)"
proof -
  obtain r where r: "query_row E (\<lambda>db. Some (1 :: int)) Inr w = Some (r, tick w)" using query_row_Some [OF w] by blast
  have w1: "conn (tick w) = Idle" using w by simp
  obtain x w2 where x: "db_exec E (health_insert (health_email E (tick w))) (tick w) = Some (x, w2)" "conn w2 = Idle"
    using db_exec_run [OF w1] by blast
  obtain y w3 where y: "db_exec E (health_delete (health_email E (tick w))) w2 = Some (y, w3)" "conn w3 = Idle"
    using db_exec_run [OF x(2)] by blast
  show ?thesis using r x y by (cases x) (simp_all add: health_handler_def Let_def answers_def)
qed

lemma sync_answers:
  "struct_validator (validate E) \<Longrightarrow> conn w = Idle \<Longrightarrow> answers (sync_handler E req w)"
  using sync_answers_idle by (fastforce simp: answers_def)

lemma handle_idle:
  assumes V: "struct_validator (validate E)" and w: "conn w = Idle"
  shows "\<exists>rep w'. handle E q r w = Some (rep, w') \<and> conn w' = Idle"
proof (cases r)
  case R_Health
  then show ?thesis using answered_idle [OF health_answers [OF w]] by (simp add: handle_def)
next
  case R_Sync
  then show ?thesis using answered_idle [OF sync_answers [OF V w]] by (simp add: handle_def)
next
  case R_Stats
  then show ?thesis using answered_idle [OF stats_answers [OF w]] by (simp add: handle_def)
next
  case R_List
  then show ?thesis using answered_idle [OF list_answers [OF w]] by (simp add: handle_def)
next
  case (R_Get i)
  then show ?thesis using answered_idle [OF get_answers [OF w]] by (simp add: handle_def)
next
  case (R_Retry i)
  then show ?thesis using answered_idle [OF retry_answers [OF w]] by (simp add: handle_def)
next
  case (R_Delete i)
  then show ?thesis using answered_idle [OF delete_answers [OF w]] by (simp add: handle_def)
qed (simp_all add: handle_def w)

lemma serve_idle:
  assumes "struct_validator (validate E)" "conn w = Idle"
  shows "\<exists>rep w'. serve E tok q w = Some (rep, w') \<and> conn w' = Idle"
  using handle_idle [OF assms] assms(2) by (simp add: serve_def split: option.split)

text \<open>Every request is answered, with or without the token: no handler panics or is left waiting for
  the connection, and the connection is free afterwards. With the token the request reaches the
  handler of its route.\<close>

theorem every_request_is_answered:
  assumes "struct_validator (validate E)" and "conn w = Idle"
  shows "\<exists>rep w'. serve E tok q w = Some (rep, w') \<and> conn w' = Idle
    \<and> (rq_token q = tok \<and> tok \<noteq> [] \<longrightarrow>
        (case route_of (rq_method q) (rq_path q) of None \<Rightarrow> rep = Unmatched | Some r \<Rightarrow> handle E q r w = Some (rep, w')))"
proof -
  obtain rep w' where run: "serve E tok q w = Some (rep, w')" "conn w' = Idle"
    using serve_idle [OF assms] by blast
  have "case route_of (rq_method q) (rq_path q) of None \<Rightarrow> rep = Unmatched | Some r \<Rightarrow> handle E q r w = Some (rep, w')"
    if "rq_token q = tok" "tok \<noteq> []"
    using run(1) that by (auto simp: serve_def token_holder_passes split: option.splits)
  then show ?thesis using run by blast
qed

theorem every_request_is_answered_witness:
  "\<exists>rep w'. serve calm ''key'' (sample_request ''DELETE'' ''/api/v1/sync-history/2'' ''key'') log_world = Some (rep, w')
    \<and> conn w' = Idle"
  using every_request_is_answered [OF calm_validator, of log_world "''key''" "sample_request ''DELETE'' ''/api/v1/sync-history/2'' ''key''"]
  by auto

end
