(* ===== verification/Employee_Broker.thy ===== *)
theory Employee_Broker
  imports Prelude "HOL-Library.Sublist"
begin

text \<open>
  \<open>EmployeeBroker\<close> of \<open>graph/resolver.go\<close> and the life of a subscription, \<open>EmployeeCreated\<close> of
  \<open>graph/schema.resolvers.go\<close>. Channels live in a heap, by index; \<open>subs\<close> lists the keys of the map
  \<open>subscribers\<close>. Every operation holds the mutex, so each is one step. \<open>None\<close> is a panic: closing a
  channel twice, or sending on a closed one.
\<close>

section \<open>Channels\<close>

record 'e channel =
  ch_buffer :: "'e list"
  ch_closed :: bool

definition try_send :: "'e \<Rightarrow> 'e channel \<Rightarrow> 'e channel" where
  "try_send e c = (if length (ch_buffer c) < 10 then c\<lparr>ch_buffer := ch_buffer c @ [e]\<rparr> else c)"

definition receive :: "'e channel \<Rightarrow> ('e \<times> 'e channel) option" where
  "receive c = (case ch_buffer c of [] \<Rightarrow> None | e # es \<Rightarrow> Some (e, c\<lparr>ch_buffer := es\<rparr>))"

text \<open>What a subscriber relies on: a queue of bounded length that drops what does not fit.\<close>

locale mailbox =
  fixes send :: "'e \<Rightarrow> 'c \<Rightarrow> 'c"
    and recv :: "'c \<Rightarrow> ('e \<times> 'c) option"
    and contents :: "'c \<Rightarrow> 'e list"
    and cap :: nat
  assumes contents_send: "contents (send e c) = (if length (contents c) < cap then contents c @ [e] else contents c)"
    and recv_None: "recv c = None \<longleftrightarrow> contents c = []"
    and recv_Some: "recv c = Some (e, c') \<Longrightarrow> contents c = e # contents c'"
begin

lemma send_bounded: "length (contents c) \<le> cap \<Longrightarrow> length (contents (send e c)) \<le> cap"
  by (simp add: contents_send)

lemma recv_bounded: "length (contents c) \<le> cap \<Longrightarrow> recv c = Some (e, c') \<Longrightarrow> length (contents c') \<le> cap"
  using recv_Some by fastforce

lemma send_all:
  "length (contents c) \<le> cap \<Longrightarrow> contents (fold send es c) = contents c @ take (cap - length (contents c)) es"
proof (induction es arbitrary: c)
  case Nil
  then show ?case by simp
next
  case (Cons e es)
  show ?case
  proof (cases "length (contents c) < cap")
    case True
    then have "cap - length (contents c) = Suc (cap - length (contents c @ [e]))" by simp
    then show ?thesis using Cons True by (simp add: contents_send)
  next
    case False
    then show ?thesis using Cons by (simp add: contents_send)
  qed
qed

lemma recv_moves: "recv c = Some (e, c') \<Longrightarrow> (xs @ [e]) @ contents c' = xs @ contents c"
  by (simp add: recv_Some)

end

interpretation mail: mailbox try_send receive ch_buffer 10
  by unfold_locales (auto simp: try_send_def receive_def split: list.splits)

section \<open>The broker\<close>

record 'e broker =
  chans :: "'e channel list"
  subs :: "nat list"

definition new_broker :: "'e broker" where
  "new_broker = \<lparr>chans = [], subs = []\<rparr>"

definition subscribe :: "'e broker \<Rightarrow> nat \<times> 'e broker" where
  "subscribe b = (let ch = length (chans b) in
     (ch, b\<lparr>chans := chans b @ [\<lparr>ch_buffer = [], ch_closed = False\<rparr>], subs := ch # subs b\<rparr>))"

definition unsubscribe :: "nat \<Rightarrow> 'e broker \<Rightarrow> 'e broker option" where
  "unsubscribe ch b = (let b' = b\<lparr>subs := removeAll ch (subs b)\<rparr> in
     if ch_closed (chans b ! ch) then None
     else Some (b'\<lparr>chans := (chans b)[ch := (chans b ! ch)\<lparr>ch_closed := True\<rparr>]\<rparr>))"

fun send_each :: "'e \<Rightarrow> nat list \<Rightarrow> 'e channel list \<Rightarrow> 'e channel list option" where
  "send_each e [] cs = Some cs"
| "send_each e (ch # chs) cs =
     (if ch_closed (cs ! ch) then None else send_each e chs (cs[ch := try_send e (cs ! ch)]))"

definition publish :: "'e \<Rightarrow> 'e broker \<Rightarrow> 'e broker option" where
  "publish e b = map_option (\<lambda>cs. b\<lparr>chans := cs\<rparr>) (send_each e (subs b) (chans b))"

text \<open>The order in which Go visits the subscribers does not matter.\<close>

lemma send_each_open:
  assumes "distinct chs" "\<forall>ch \<in> set chs. ch < length cs \<and> \<not> ch_closed (cs ! ch)"
  shows "send_each e chs cs = Some (map (\<lambda>(i, c). if i \<in> set chs then try_send e c else c) (enumerate 0 cs))"
  using assms
proof (induction chs arbitrary: cs)
  case Nil
  have "map (\<lambda>(i, c). c) (enumerate 0 cs) = cs" by (rule nth_equalityI) (simp_all add: nth_enumerate_eq)
  then show ?case by simp
next
  case (Cons ch chs)
  let ?cs = "cs[ch := try_send e (cs ! ch)]"
  have IH: "send_each e chs ?cs = Some (map (\<lambda>(i, c). if i \<in> set chs then try_send e c else c) (enumerate 0 ?cs))"
    by (rule Cons.IH) (use Cons.prems in \<open>auto simp: nth_list_update\<close>)
  have "map (\<lambda>(i, c). if i \<in> set chs then try_send e c else c) (enumerate 0 ?cs)
      = map (\<lambda>(i, c). if i \<in> set (ch # chs) then try_send e c else c) (enumerate 0 cs)"
    by (rule nth_equalityI) (use Cons.prems in \<open>auto simp: nth_enumerate_eq nth_list_update\<close>)
  then show ?case using IH Cons.prems by simp
qed

section \<open>Subscriptions\<close>

text \<open>
  \<open>live\<close> are the channels whose goroutine still waits for the end of its context; it unsubscribes when
  that comes, once. The events of a run are recorded in a trace.
\<close>

record 'e hub =
  hub_broker :: "'e broker"
  live :: "nat list"

datatype 'e event = Opened nat | Ended nat | Published 'e | Received nat 'e

inductive hub_step :: "'e hub \<Rightarrow> 'e event \<Rightarrow> 'e hub option \<Rightarrow> bool" where
  open_step: "subscribe (hub_broker h) = (ch, b) \<Longrightarrow>
     hub_step h (Opened ch) (Some (h\<lparr>hub_broker := b, live := ch # live h\<rparr>))"
| end_step: "ch \<in> set (live h) \<Longrightarrow>
     hub_step h (Ended ch) (map_option (\<lambda>b. h\<lparr>hub_broker := b, live := removeAll ch (live h)\<rparr>) (unsubscribe ch (hub_broker h)))"
| publish_step: "hub_step h (Published e) (map_option (\<lambda>b. h\<lparr>hub_broker := b\<rparr>) (publish e (hub_broker h)))"
| receive_step: "ch < length (chans (hub_broker h)) \<Longrightarrow> receive (chans (hub_broker h) ! ch) = Some (e, c) \<Longrightarrow>
     hub_step h (Received ch e) (Some (h\<lparr>hub_broker := (hub_broker h)\<lparr>chans := (chans (hub_broker h))[ch := c]\<rparr>\<rparr>))"

inductive_cases open_stepE: "hub_step h (Opened ch) r"
inductive_cases end_stepE: "hub_step h (Ended ch) r"
inductive_cases publish_stepE: "hub_step h (Published e) r"
inductive_cases receive_stepE: "hub_step h (Received ch e) r"

inductive hub_run :: "'e event list \<Rightarrow> 'e hub \<Rightarrow> bool" where
  hub_start: "hub_run [] \<lparr>hub_broker = new_broker, live = []\<rparr>"
| hub_more: "hub_run tr h \<Longrightarrow> hub_step h ev (Some h') \<Longrightarrow> hub_run (tr @ [ev]) h'"

definition hub_ok :: "'e hub \<Rightarrow> bool" where
  "hub_ok h \<longleftrightarrow> subs (hub_broker h) = live h \<and> distinct (live h)
     \<and> (\<forall>ch \<in> set (live h). ch < length (chans (hub_broker h)) \<and> \<not> ch_closed (chans (hub_broker h) ! ch))
     \<and> (\<forall>c \<in> set (chans (hub_broker h)). length (ch_buffer c) \<le> 10)"

lemma hub_okD:
  assumes "hub_ok h"
  shows "subs (hub_broker h) = live h" "distinct (live h)"
    "ch \<in> set (live h) \<Longrightarrow> ch < length (chans (hub_broker h)) \<and> \<not> ch_closed (chans (hub_broker h) ! ch)"
    "c \<in> set (chans (hub_broker h)) \<Longrightarrow> length (ch_buffer c) \<le> 10"
  using assms by (simp_all add: hub_ok_def)

lemma hub_publish:
  assumes "hub_ok h"
  shows "publish e (hub_broker h) = Some ((hub_broker h)\<lparr>chans :=
    map (\<lambda>(i, c). if i \<in> set (live h) then try_send e c else c) (enumerate 0 (chans (hub_broker h)))\<rparr>)"
  using send_each_open [of "live h" "chans (hub_broker h)" e] hub_okD [OF assms] by (simp add: publish_def)

lemma try_send_closed [simp]: "ch_closed (try_send e c) = ch_closed c"
  by (simp add: try_send_def)

lemma receive_closed: "receive c = Some (e, c') \<Longrightarrow> ch_closed c' = ch_closed c"
  by (auto simp: receive_def split: list.splits)

lemma hub_step_ok:
  assumes ok: "hub_ok h" and step: "hub_step h ev r"
  shows "\<exists>h'. r = Some h' \<and> hub_ok h'"
  using step
proof cases
  case (open_step ch b)
  have "ch < Suc (length (chans (hub_broker h)))" if "ch \<in> set (live h)" for ch
    using hub_okD(3) [OF ok that] by simp
  then show ?thesis using open_step hub_okD [OF ok]
    by (auto simp: hub_ok_def subscribe_def Let_def nth_append dest: less_imp_neq)
next
  case (end_step ch)
  then show ?thesis using hub_okD [OF ok]
    by (auto simp: hub_ok_def unsubscribe_def Let_def nth_list_update distinct_removeAll dest!: set_update_subset_insert [THEN subsetD])
next
  case (publish_step e)
  have bound: "length (ch_buffer (if b then try_send e c else c)) \<le> 10" if "length (ch_buffer c) \<le> 10" for b and c
    using mail.send_bounded [OF that] that by simp
  show ?thesis
    unfolding publish_step(2) hub_publish [OF ok]
    using hub_okD [OF ok] bound by (auto simp: hub_ok_def nth_enumerate_eq in_set_enumerate_eq)
next
  case (receive_step ch e c)
  have "length (ch_buffer c) \<le> 10"
    using mail.recv_bounded [OF _ receive_step(4)] hub_okD(4) [OF ok] receive_step(3) by simp
  then show ?thesis using receive_step hub_okD [OF ok] receive_closed [OF receive_step(4)]
    by (auto simp: hub_ok_def nth_list_update dest!: set_update_subset_insert [THEN subsetD])
qed

lemma hub_run_ok: "hub_run tr h \<Longrightarrow> hub_ok h"
proof (induction rule: hub_run.induct)
  case hub_start
  then show ?case by (simp add: hub_ok_def new_broker_def)
next
  case (hub_more tr h ev h')
  then show ?case using hub_step_ok by blast
qed

text \<open>C26: However subscriptions begin and end, employees are published and subscribers read, no step
  panics: no channel is closed twice, and nothing is sent on a closed one. A subscriber's buffer
  never holds more than ten employees.\<close>

theorem broker_never_panics:
  assumes "hub_run tr h" and "hub_step h ev r"
  shows "\<exists>h'. r = Some h' \<and> (\<forall>c \<in> set (chans (hub_broker h')). length (ch_buffer c) \<le> 10)"
  using hub_step_ok [OF hub_run_ok [OF assms(1)] assms(2)] by (auto simp: hub_ok_def)

text \<open>A run with a subscriber: it subscribes, an employee is published, its context ends.\<close>

definition one_subscriber :: "'e \<Rightarrow> 'e hub" where
  "one_subscriber e = \<lparr>hub_broker = \<lparr>chans = [\<lparr>ch_buffer = [e], ch_closed = False\<rparr>], subs = [0]\<rparr>, live = [0]\<rparr>"

lemma one_subscriber_run: "hub_run [Opened 0, Published e] (one_subscriber e)"
proof -
  have "hub_run ([] @ [Opened 0]) \<lparr>hub_broker = \<lparr>chans = [\<lparr>ch_buffer = [], ch_closed = False\<rparr>], subs = [0]\<rparr>, live = [0]\<rparr>"
    (is "hub_run _ ?h") using hub_step.open_step [of "\<lparr>hub_broker = new_broker, live = []\<rparr>"]
    by (intro hub_more [OF hub_start]) (simp add: subscribe_def new_broker_def)
  then have "hub_run (([] @ [Opened 0]) @ [Published e]) (one_subscriber e)"
    by (rule hub_more) (use hub_step.publish_step [of ?h e] in \<open>simp add: publish_def try_send_def one_subscriber_def\<close>)
  then show ?thesis by simp
qed

theorem broker_never_panics_witness:
  "\<exists>h'. map_option (\<lambda>b. (one_subscriber (1 :: nat))\<lparr>hub_broker := b, live := removeAll 0 (live (one_subscriber 1))\<rparr>)
      (unsubscribe 0 (hub_broker (one_subscriber 1))) = Some h'"
proof -
  have "0 \<in> set (live (one_subscriber (1 :: nat)))" by (simp add: one_subscriber_def)
  from broker_never_panics [OF one_subscriber_run hub_step.end_step [OF this]] show ?thesis by blast
qed

section \<open>What subscribers read\<close>

fun published :: "'e event list \<Rightarrow> 'e list" where
  "published [] = []"
| "published (Published e # tr) = e # published tr"
| "published (ev # tr) = published tr"

fun received :: "nat \<Rightarrow> 'e event list \<Rightarrow> 'e list" where
  "received ch [] = []"
| "received ch (Received j e # tr) = (if j = ch then e # received ch tr else received ch tr)"
| "received ch (ev # tr) = received ch tr"

lemma trace_append [simp]:
  "published (tr @ tr') = published tr @ published tr'"
  "received ch (tr @ tr') = received ch tr @ received ch tr'"
proof -
  show "published (tr @ tr') = published tr @ published tr'" by (induction tr rule: published.induct) simp_all
  show "received ch (tr @ tr') = received ch tr @ received ch tr'" by (induction ch tr rule: received.induct) simp_all
qed

text \<open>The account of one channel, kept from the trace alone: whether it is subscribed, what it was to get so far,
  and how much of that has been read. A publication counts when fewer than ten wait to be read.\<close>

fun account :: "nat \<Rightarrow> 'e event \<Rightarrow> bool \<times> 'e list \<times> nat \<Rightarrow> bool \<times> 'e list \<times> nat" where
  "account ch (Opened j) (open, due, n) = (open \<or> j = ch, due, n)"
| "account ch (Ended j) (open, due, n) = (open \<and> j \<noteq> ch, due, n)"
| "account ch (Published e) (open, due, n) = (open, if open \<and> length due < n + 10 then due @ [e] else due, n)"
| "account ch (Received j e) (open, due, n) = (open, due, if j = ch then Suc n else n)"

definition accounted :: "nat \<Rightarrow> 'e event list \<Rightarrow> bool \<times> 'e list \<times> nat" where
  "accounted ch tr = fold (account ch) tr (False, [], 0)"

definition due_to :: "nat \<Rightarrow> 'e event list \<Rightarrow> 'e list" where
  "due_to ch tr = fst (snd (accounted ch tr))"

lemma accounted_snoc [simp]: "accounted ch (tr @ [ev]) = account ch ev (accounted ch tr)"
  by (simp add: accounted_def)

lemma due_in_order: "subseq (due_to ch tr) (published tr)"
proof (induction tr rule: rev_induct)
  case (snoc ev tr)
  obtain op due n where a: "accounted ch tr = (op, due, n)" by (cases "accounted ch tr") auto
  then have s: "subseq due (published tr)" using snoc by (simp add: due_to_def)
  have "subseq (due @ [e]) (published tr @ [e]) \<and> subseq due (published tr @ [e])" for e
    using list_emb_append_mono [OF s, of "[e]" "[e]"] list_emb_append_mono [OF s, of "[]" "[e]"] by simp
  then show ?case using s a by (cases ev) (auto simp: due_to_def)
qed (simp add: due_to_def accounted_def)

definition books_right :: "'e event list \<Rightarrow> 'e hub \<Rightarrow> bool" where
  "books_right tr h \<longleftrightarrow> (\<forall>ch. if ch < length (chans (hub_broker h))
     then accounted ch tr = (ch \<in> set (live h), received ch tr @ ch_buffer (chans (hub_broker h) ! ch), length (received ch tr))
     else accounted ch tr = (False, [], 0) \<and> received ch tr = [])"

lemma unsubscribe_length: "unsubscribe ch b = Some b' \<Longrightarrow> length (chans b') = length (chans b)"
  by (auto simp: unsubscribe_def Let_def split: if_split_asm)

lemma unsubscribe_buffer:
  "unsubscribe ch b = Some b' \<Longrightarrow> i < length (chans b) \<Longrightarrow> ch_buffer (chans b' ! i) = ch_buffer (chans b ! i)"
  by (cases "i = ch") (auto simp: unsubscribe_def Let_def split: if_split_asm)

lemmas unsubscribe_frame = unsubscribe_length unsubscribe_buffer

lemma books_right_step:
  assumes ok: "hub_ok h" and books: "books_right tr h" and step: "hub_step h ev (Some h')"
  shows "books_right (tr @ [ev]) h'"
proof -
  let ?cs = "chans (hub_broker h)"
  have known: "accounted ch tr = (ch \<in> set (live h), received ch tr @ ch_buffer (?cs ! ch), length (received ch tr))"
    if "ch < length ?cs" for ch
    using books that by (auto simp: books_right_def split: if_split_asm)
  have none: "accounted ch tr = (False, [], 0)" "received ch tr = []" if "\<not> ch < length ?cs" for ch
    using books that by (auto simp: books_right_def split: if_split_asm)
  from step show ?thesis
  proof cases
    case (open_step ch b)
    then show ?thesis using known none
      by (auto simp: books_right_def subscribe_def Let_def nth_append less_Suc_eq)
  next
    case (end_step ch)
    then obtain b where "unsubscribe ch (hub_broker h) = Some b" and h': "hub_broker h' = b" "live h' = removeAll ch (live h)"
      by (cases "unsubscribe ch (hub_broker h)") auto
    then show ?thesis using end_step(1) known none by (auto simp: books_right_def unsubscribe_frame)
  next
    case (publish_step e)
    then have cs: "chans (hub_broker h') = map (\<lambda>(i, c). if i \<in> set (live h) then try_send e c else c) (enumerate 0 ?cs)"
      and live: "live h' = live h"
      using hub_publish [OF ok, of e] by auto
    show ?thesis using publish_step(1) known none
      by (auto simp: books_right_def cs live nth_enumerate_eq mail.contents_send)
  next
    case (receive_step ch e c)
    then show ?thesis using known none mail.recv_Some [OF receive_step(4)]
      by (auto simp: books_right_def nth_list_update)
  qed
qed

text \<open>C27: What a subscriber has read, followed by what waits in its buffer, is exactly what was published while it
  was subscribed and fewer than ten employees waited for it, in the order of publication: nothing else is
  lost, repeated or reordered.\<close>

theorem subscribers_read_in_order:
  assumes "hub_run tr h" and "ch < length (chans (hub_broker h))"
  shows "received ch tr @ ch_buffer (chans (hub_broker h) ! ch) = due_to ch tr \<and> subseq (due_to ch tr) (published tr)"
proof -
  have "hub_ok h \<and> books_right tr h"
    using assms(1)
  proof (induction rule: hub_run.induct)
    case hub_start
    then show ?case by (simp add: hub_ok_def books_right_def accounted_def new_broker_def)
  next
    case (hub_more tr h ev h')
    then show ?case using hub_step_ok books_right_step by blast
  qed
  then have "accounted ch tr = (ch \<in> set (live h), received ch tr @ ch_buffer (chans (hub_broker h) ! ch), length (received ch tr))"
    using assms(2) by (auto simp: books_right_def split: if_split_asm)
  then show ?thesis using due_in_order [of ch tr] by (simp add: due_to_def)
qed

theorem subscribers_read_in_order_witness:
  "received 0 [Opened 0, Published (7 :: nat)] @ ch_buffer (chans (hub_broker (one_subscriber 7)) ! 0) = [7]"
proof -
  have "due_to 0 [Opened 0, Published (7 :: nat)] = [7]" by (simp add: due_to_def accounted_def)
  then show ?thesis
    using subscribers_read_in_order [OF one_subscriber_run, of 0 "7 :: nat"] by (simp add: one_subscriber_def)
qed

text \<open>A subscriber that never reads keeps the first ten employees published to it and loses the rest.\<close>

theorem idle_subscriber_keeps_ten:
  "ch_buffer (fold try_send es \<lparr>ch_buffer = [], ch_closed = False\<rparr>) = take 10 es"
  using mail.send_all [of "\<lparr>ch_buffer = [], ch_closed = False\<rparr>" es] by simp

text \<open>\<open>Unsubscribe\<close> is safe once only: called again for the same channel, it panics.\<close>

theorem unsubscribe_once:
  assumes "unsubscribe ch b = Some b'" and "ch < length (chans b)"
  shows "unsubscribe ch b' = None"
  using assms by (auto simp: unsubscribe_def Let_def split: if_split_asm)

theorem unsubscribe_once_witness:
  "unsubscribe 0 (the (unsubscribe 0 (hub_broker (one_subscriber (1 :: nat))))) = None"
proof -
  have "unsubscribe 0 (hub_broker (one_subscriber (1 :: nat))) = Some (the (unsubscribe 0 (hub_broker (one_subscriber 1))))"
    by (simp add: one_subscriber_def unsubscribe_def)
  then show ?thesis by (rule unsubscribe_once) (simp add: one_subscriber_def)
qed

end
