(* ===== verification/Go_Time.thy ===== *)
theory Go_Time
  imports Go_Text
begin

text \<open>
  \<open>parseTime\<close> of \<open>graph/schema.resolvers.go\<close> with the part of Go's \<open>time.Parse\<close> its four layouts use.
  A time is its civil date and clock with the offset from UTC in seconds.
\<close>

record gtime =
  t_year :: int
  t_month :: int
  t_day :: int
  t_hour :: int
  t_minute :: int
  t_second :: int
  t_nano :: int
  t_offset :: int

section \<open>Pieces of a layout\<close>

definition digit :: "char \<Rightarrow> int" where
  "digit c = int (byte c) - 48"

definition two_digits :: "string \<Rightarrow> (int \<times> string) option" where
  "two_digits s = (case s of a # b # r \<Rightarrow>
       if is_digit a \<and> is_digit b then Some (10 * digit a + digit b, r) else None | _ \<Rightarrow> None)"

text \<open>The hour may be written with one digit.\<close>

definition one_or_two_digits :: "string \<Rightarrow> (int \<times> string) option" where
  "one_or_two_digits s = (case s of
      a # b # r \<Rightarrow> if \<not> is_digit a then None
        else if is_digit b then Some (10 * digit a + digit b, r) else Some (digit a, b # r)
    | [a] \<Rightarrow> if is_digit a then Some (digit a, []) else None
    | [] \<Rightarrow> None)"

definition four_digits :: "string \<Rightarrow> (int \<times> string) option" where
  "four_digits s = do { (hi, r) \<leftarrow> two_digits s; (lo, r') \<leftarrow> two_digits r; Some (100 * hi + lo, r') }"

definition literal :: "char \<Rightarrow> string \<Rightarrow> string option" where
  "literal c s = (case s of a # r \<Rightarrow> if a = c then Some r else None | [] \<Rightarrow> None)"

definition within :: "int \<Rightarrow> int \<Rightarrow> (int \<times> string) option \<Rightarrow> (int \<times> string) option" where
  "within lo hi x = (case x of Some (n, r) \<Rightarrow> if lo \<le> n \<and> n \<le> hi then Some (n, r) else None | None \<Rightarrow> None)"

text \<open>A fraction of a second is read although no layout has one.\<close>

definition fraction :: "string \<Rightarrow> int \<times> string" where
  "fraction s = (case s of
      p # a # r \<Rightarrow>
        if (p = CHR ''.'' \<or> p = CHR '','') \<and> is_digit a then
          (let ds = a # takeWhile is_digit r; used = take 9 ds
           in (fold (\<lambda>d n. 10 * n + digit d) used 0 * 10 ^ (9 - length used), dropWhile is_digit r))
        else (0, s)
    | _ \<Rightarrow> (0, s))"

definition leap_year :: "int \<Rightarrow> bool" where
  "leap_year y \<longleftrightarrow> y mod 4 = 0 \<and> (y mod 100 \<noteq> 0 \<or> y mod 400 = 0)"

definition days_in :: "int \<Rightarrow> int \<Rightarrow> int" where
  "days_in m y = (if m = 2 then if leap_year y then 29 else 28 else if m \<in> {4, 6, 9, 11} then 30 else 31)"

definition date_part :: "string \<Rightarrow> (gtime \<times> string) option" where
  "date_part s =
     do { (y, r1) \<leftarrow> four_digits s;
          r2 \<leftarrow> literal (CHR ''-'') r1;
          (m, r3) \<leftarrow> within 1 12 (two_digits r2);
          r4 \<leftarrow> literal (CHR ''-'') r3;
          (d, r5) \<leftarrow> two_digits r4;
          Some (\<lparr>t_year = y, t_month = m, t_day = d, t_hour = 0, t_minute = 0, t_second = 0, t_nano = 0, t_offset = 0\<rparr>, r5) }"

definition clock_part :: "gtime \<Rightarrow> string \<Rightarrow> (gtime \<times> string) option" where
  "clock_part t s =
     do { (h, r1) \<leftarrow> within 0 23 (one_or_two_digits s);
          r2 \<leftarrow> literal (CHR '':'') r1;
          (m, r3) \<leftarrow> within 0 59 (two_digits r2);
          r4 \<leftarrow> literal (CHR '':'') r3;
          (sec, r5) \<leftarrow> within 0 59 (two_digits r4);
          let (ns, r6) = fraction r5 in
          Some (t\<lparr>t_hour := h, t_minute := m, t_second := sec, t_nano := ns\<rparr>, r6) }"

definition zone_part :: "gtime \<Rightarrow> string \<Rightarrow> (gtime \<times> string) option" where
  "zone_part t s = (case s of
      c # r \<Rightarrow>
        if c = CHR ''Z'' then Some (t, r)
        else if c = CHR ''+'' \<or> c = CHR ''-'' then
          do { (hr, r1) \<leftarrow> within 0 24 (two_digits r);
               r2 \<leftarrow> literal (CHR '':'') r1;
               (mm, r3) \<leftarrow> within 0 60 (two_digits r2);
               Some (t\<lparr>t_offset := (if c = CHR ''-'' then -1 else 1) * (hr * 60 + mm) * 60\<rparr>, r3) }
        else None
    | [] \<Rightarrow> None)"

text \<open>The end of a value: nothing may follow, and the day has to exist.\<close>

definition finish :: "gtime \<times> string \<Rightarrow> gtime option" where
  "finish x = (case x of (t, r) \<Rightarrow>
     if r = [] \<and> 1 \<le> t_day t \<and> t_day t \<le> days_in (t_month t) (t_year t) then Some t else None)"

section \<open>The layouts, in the order they are tried\<close>

definition parse_rfc3339 :: "string \<Rightarrow> gtime option" where
  "parse_rfc3339 s =
     do { (t, r) \<leftarrow> date_part s; r1 \<leftarrow> literal (CHR ''T'') r; (t2, r2) \<leftarrow> clock_part t r1; x \<leftarrow> zone_part t2 r2; finish x }"

definition parse_utc :: "string \<Rightarrow> gtime option" where
  "parse_utc s =
     do { (t, r) \<leftarrow> date_part s; r1 \<leftarrow> literal (CHR ''T'') r; (t2, r2) \<leftarrow> clock_part t r1;
          r3 \<leftarrow> literal (CHR ''Z'') r2; finish (t2, r3) }"

text \<open>The space of the layout matches any number of spaces.\<close>

definition parse_spaced :: "string \<Rightarrow> gtime option" where
  "parse_spaced s =
     do { (t, r) \<leftarrow> date_part s;
          if r \<noteq> [] \<and> hd r \<noteq> CHR '' '' then None
          else do { x \<leftarrow> clock_part t (dropWhile (\<lambda>c. c = CHR '' '') r); finish x } }"

definition parse_date :: "string \<Rightarrow> gtime option" where
  "parse_date s = do { x \<leftarrow> date_part s; finish x }"

definition parse_time :: "string \<Rightarrow> gtime option" where
  "parse_time s =
     (case parse_rfc3339 s of Some t \<Rightarrow> Some t | None \<Rightarrow>
     (case parse_utc s of Some t \<Rightarrow> Some t | None \<Rightarrow>
     (case parse_spaced s of Some t \<Rightarrow> Some t | None \<Rightarrow> parse_date s)))"

section \<open>Round trips\<close>

definition digit_char :: "int \<Rightarrow> char" where
  "digit_char n = char_of (48 + nat n)"

definition pad2 :: "int \<Rightarrow> string" where
  "pad2 n = [digit_char (n div 10), digit_char (n mod 10)]"

definition show_date :: "gtime \<Rightarrow> string" where
  "show_date t = pad2 (t_year t div 100) @ pad2 (t_year t mod 100) @ CHR ''-'' # pad2 (t_month t) @ CHR ''-'' # pad2 (t_day t)"

definition show_clock :: "gtime \<Rightarrow> string" where
  "show_clock t = pad2 (t_hour t) @ CHR '':'' # pad2 (t_minute t) @ CHR '':'' # pad2 (t_second t)"

definition civil :: "gtime \<Rightarrow> bool" where
  "civil t \<longleftrightarrow> 0 \<le> t_year t \<and> t_year t \<le> 9999 \<and> 1 \<le> t_month t \<and> t_month t \<le> 12
     \<and> 1 \<le> t_day t \<and> t_day t \<le> days_in (t_month t) (t_year t) \<and> 0 \<le> t_hour t \<and> t_hour t \<le> 23
     \<and> 0 \<le> t_minute t \<and> t_minute t \<le> 59 \<and> 0 \<le> t_second t \<and> t_second t \<le> 59 \<and> t_nano t = 0 \<and> t_offset t = 0"

lemma digit_char_facts:
  assumes "0 \<le> n" "n \<le> 9"
  shows "is_digit (digit_char n)" "digit (digit_char n) = n"
proof -
  have "byte (digit_char n) = 48 + nat n" using assms by (simp add: digit_char_def)
  then show "is_digit (digit_char n)" "digit (digit_char n) = n"
    using assms by (simp_all add: is_digit_def digit_def)
qed

lemma two_digits_pad2 [simp]:
  assumes "0 \<le> n" "n \<le> 99"
  shows "two_digits (pad2 n @ r) = Some (n, r)"
proof -
  have "0 \<le> n div 10" "n div 10 \<le> 9" "0 \<le> n mod 10" "n mod 10 \<le> 9" using assms by simp_all
  then show ?thesis using digit_char_facts [of "n div 10"] digit_char_facts [of "n mod 10"]
    by (simp add: two_digits_def pad2_def)
qed

lemma hour_pad2 [simp]:
  assumes "0 \<le> n" "n \<le> 99"
  shows "one_or_two_digits (pad2 n @ r) = Some (n, r)"
proof -
  have "0 \<le> n div 10" "n div 10 \<le> 9" "0 \<le> n mod 10" "n mod 10 \<le> 9" using assms by simp_all
  then show ?thesis using digit_char_facts [of "n div 10"] digit_char_facts [of "n mod 10"]
    by (simp add: one_or_two_digits_def pad2_def)
qed

lemma days_in_le: "days_in m y \<le> 31"
  by (simp add: days_in_def)

lemma date_part_show:
  assumes t: "civil t"
  shows "date_part (show_date t @ r) = Some (t\<lparr>t_hour := 0, t_minute := 0, t_second := 0\<rparr>, r)"
proof -
  have "0 \<le> t_year t div 100" "t_year t div 100 \<le> 99" "0 \<le> t_year t mod 100" "t_year t mod 100 \<le> 99"
    "t_day t \<le> 31" using t days_in_le [of "t_month t" "t_year t"] by (auto simp: civil_def)
  moreover have "100 * (t_year t div 100) + t_year t mod 100 = t_year t" by simp
  ultimately show ?thesis using t
    by (simp add: date_part_def show_date_def four_digits_def literal_def within_def civil_def)
qed

lemma fraction_none: "(\<forall>c s. r = c # s \<longrightarrow> c \<noteq> CHR ''.'' \<and> c \<noteq> CHR '','') \<Longrightarrow> fraction r = (0, r)"
  by (simp add: fraction_def split: list.split)

lemma clock_part_show:
  assumes t: "civil t" and r: "\<forall>c s. r = c # s \<longrightarrow> c \<noteq> CHR ''.'' \<and> c \<noteq> CHR '',''"
  shows "clock_part u (show_clock t @ r) =
    Some (u\<lparr>t_hour := t_hour t, t_minute := t_minute t, t_second := t_second t, t_nano := 0\<rparr>, r)"
  using t fraction_none [OF r]
  by (simp add: clock_part_def show_clock_def literal_def within_def civil_def)

lemma finish_civil: "civil t \<Longrightarrow> finish (t, []) = Some t"
  by (simp add: finish_def civil_def)

lemma dropWhile_clock [simp]: "civil t \<Longrightarrow> dropWhile (\<lambda>c. c = CHR '' '') (show_clock t) = show_clock t"
proof -
  assume t: "civil t"
  then have "is_digit (digit_char (t_hour t div 10))" by (intro digit_char_facts(1)) (auto simp: civil_def)
  then have "digit_char (t_hour t div 10) \<noteq> CHR '' ''" by (auto simp: is_digit_def)
  then show ?thesis by (simp add: show_clock_def pad2_def)
qed

lemma same_civil:
  "civil t \<Longrightarrow> t\<lparr>t_nano := 0\<rparr> = t"
  by (cases t) (simp add: civil_def)

lemma parse_rfc3339_show: "civil t \<Longrightarrow> parse_rfc3339 (show_date t @ CHR ''T'' # show_clock t @ ''Z'') = Some t"
  by (simp add: parse_rfc3339_def date_part_show literal_def clock_part_show zone_part_def finish_civil same_civil)

lemma parse_spaced_show: "civil t \<Longrightarrow> parse_spaced (show_date t @ CHR '' '' # show_clock t) = Some t"
  using clock_part_show [of t "[]"]
  by (simp add: parse_spaced_def date_part_show finish_civil same_civil)

lemma parse_date_show:
  "civil t \<Longrightarrow> parse_date (show_date t) = Some (t\<lparr>t_hour := 0, t_minute := 0, t_second := 0\<rparr>)"
  using date_part_show [of t "[]"] by (simp add: parse_date_def finish_def civil_def)

lemma not_other_layout:
  assumes "civil t"
  shows "parse_rfc3339 (show_date t @ CHR '' '' # r) = None" "parse_utc (show_date t @ CHR '' '' # r) = None"
    "parse_rfc3339 (show_date t) = None" "parse_utc (show_date t) = None" "parse_spaced (show_date t) = None"
  using date_part_show [OF assms, of "[]"] date_part_show [OF assms, of "CHR '' '' # r"]
  by (simp_all add: parse_rfc3339_def parse_utc_def parse_spaced_def literal_def clock_part_def
      one_or_two_digits_def within_def)



end
