(* ===== verification/Employee_Resolvers.thy ===== *)
theory Employee_Resolvers
  imports Sql_Driver Employee_Broker Go_Time Sample_Runs
begin

text \<open>
  The resolvers of \<open>graph/schema.resolvers.go\<close> over the model types of \<open>graph/model/models_gen.go\<close>.
  A resolver returns a value or an error; the mutation that creates an employee also publishes it.
\<close>

section \<open>Model types\<close>

record create_employee_input =
  ci_id :: int
  ci_employee_id :: string
  ci_first_name :: string
  ci_last_name :: string
  ci_email :: string
  ci_middle_name :: "string option"
  ci_company :: "string option"
  ci_job_title :: "string option"

record update_employee_input =
  ui_first_name :: "string option"
  ui_last_name :: "string option"
  ui_email :: "string option"
  ui_middle_name :: "string option"
  ui_company :: "string option"
  ui_job_title :: "string option"

record employee =
  g_id :: int
  g_employee_id :: string
  g_first_name :: string
  g_middle_name :: "string option"
  g_last_name :: string
  g_gender :: "string option"
  g_email :: string
  g_phone_number :: "string option"
  g_date_of_birth :: "gtime option"
  g_nationality :: "string option"
  g_job_level :: "string option"
  g_department :: "string option"
  g_location :: "string option"
  g_bank_account_number :: "string option"
  g_company :: "string option"
  g_job_title :: "string option"
  g_cost_center :: "string option"
  g_start_date :: "gtime option"
  g_employee_status :: "string option"
  g_manager_id :: "string option"
  g_manager_email :: "string option"
  g_last_modified_on :: "gtime option"
  g_last_modified :: "int option"
  g_full_name :: string

section \<open>Reading a row\<close>

text \<open>A DATETIME column that is NULL, empty or unreadable leaves the field unset.\<close>

definition scan_time :: "env \<Rightarrow> string option \<Rightarrow> gtime option" where
  "scan_time E col = (case map_option (dt_text E) col of
      None \<Rightarrow> None | Some s \<Rightarrow> if s \<noteq> [] then parse_time s else None)"

definition blank :: "string \<Rightarrow> bool" where
  "blank s \<longleftrightarrow> trim_space s = []"

definition full_name :: "string \<Rightarrow> string option \<Rightarrow> string \<Rightarrow> string" where
  "full_name first middle last_name = join '' ''
     ((if \<not> blank first then [first] else [])
      @ (case middle of Some m \<Rightarrow> if \<not> blank m then [m] else [] | None \<Rightarrow> [])
      @ (if \<not> blank last_name then [last_name] else []))"

text \<open>
  \<open>rows.Scan\<close> cannot fail on a row of this table: the statements write only texts, integers and NULL, each
  to a column whose variable takes it, and the dates are scanned into strings, which take whatever is
  stored (\<open>dt_text\<close>); so its error has no branch here.
\<close>

definition scan_employee :: "env \<Rightarrow> int \<times> employee_row \<Rightarrow> employee" where
  "scan_employee E x = (case x of (k, r) \<Rightarrow>
     \<lparr>g_id = k, g_employee_id = e_employee_id r, g_first_name = e_first_name r, g_middle_name = e_middle_name r,
      g_last_name = e_last_name r, g_gender = e_gender r, g_email = e_email r, g_phone_number = e_phone_number r,
      g_date_of_birth = scan_time E (e_date_of_birth r), g_nationality = e_nationality r,
      g_job_level = e_job_level r, g_department = e_department r, g_location = e_location r,
      g_bank_account_number = e_bank_account_number r, g_company = e_company r, g_job_title = e_job_title r,
      g_cost_center = e_cost_center r, g_start_date = scan_time E (e_start_date r),
      g_employee_status = e_employee_status r, g_manager_id = e_manager_id r, g_manager_email = e_manager_email r,
      g_last_modified_on = scan_time E (e_last_modified_on r), g_last_modified = e_last_modified r,
      g_full_name = full_name (e_first_name r) (e_middle_name r) (e_last_name r)\<rparr>)"

section \<open>Queries\<close>

definition employee_rows :: "int \<Rightarrow> database \<Rightarrow> (int \<times> employee_row) list" where
  "employee_rows k db = (case tlookup k (employees db) of None \<Rightarrow> [] | Some r \<Rightarrow> [(k, r)])"

definition get_employee_by_id ::
  "env \<Rightarrow> int \<Rightarrow> 'm world_scheme \<Rightarrow> (employee option answer \<times> 'm world_scheme) option" where
  "get_employee_by_id E k w =
     do { (q, w1) \<leftarrow> db_query E (employee_rows k) w;
          Some (case q of
              Inl e \<Rightarrow> (Inl e, w1)
            | Inr [] \<Rightarrow> (Inr None, rows_close w1)
            | Inr (x # xs) \<Rightarrow> (Inr (Some (scan_employee E x)), rows_close w1)) }"

definition safe_offset :: "int option \<Rightarrow> int" where
  "safe_offset p = (case p of Some n \<Rightarrow> if 0 < n then n else 0 | None \<Rightarrow> 0)"

definition safe_limit :: "int option \<Rightarrow> int" where
  "safe_limit p = (case p of Some n \<Rightarrow> if 0 < n then n else 10 | None \<Rightarrow> 10)"

definition employee_page :: "(int \<times> employee_row \<Rightarrow> bool) \<Rightarrow> int \<Rightarrow> int \<Rightarrow> database \<Rightarrow> (int \<times> employee_row) list" where
  "employee_page P lim off db = take (nat lim) (drop (nat off) (filter P (rows (employees db))))"

definition list_query ::
  "env \<Rightarrow> (int \<times> employee_row \<Rightarrow> bool) \<Rightarrow> int option \<Rightarrow> int option \<Rightarrow> 'm world_scheme
     \<Rightarrow> (employee list answer \<times> 'm world_scheme) option" where
  "list_query E P offset limit w =
     do { (q, w1) \<leftarrow> db_query E (employee_page P (safe_limit limit) (safe_offset offset)) w;
          Some (case q of
              Inl e \<Rightarrow> (Inl e, w1)
            | Inr xs \<Rightarrow> (Inr (map (scan_employee E) xs), rows_close w1)) }"

definition employees_query ::
  "env \<Rightarrow> int option \<Rightarrow> int option \<Rightarrow> 'm world_scheme \<Rightarrow> (employee list answer \<times> 'm world_scheme) option" where
  "employees_query E offset limit w = list_query E (\<lambda>x. True) offset limit w"

definition hello :: "string answer" where
  "hello = Inr ''Hello from Sync Bridge''"

section \<open>Search\<close>

text \<open>
  SQLite's \<open>lower\<close> maps ASCII letters only. \<open>LIKE\<close> compares characters, ASCII letters without regard
  to case; the percent sign matches any text and the underscore any one character. SQLite's error for a
  pattern of more than 50000 bytes is not modelled.
\<close>

definition sql_lower :: "string \<Rightarrow> string" where
  "sql_lower s = map lower_char s"

definition same_letter :: "string \<Rightarrow> string \<Rightarrow> bool" where
  "same_letter a b \<longleftrightarrow> sql_lower a = sql_lower b"

fun like_runes :: "string list \<Rightarrow> string list \<Rightarrow> bool" where
  "like_runes [] s = (s = [])"
| "like_runes (p # ps) [] = (p = ''%'' \<and> like_runes ps [])"
| "like_runes (p # ps) (c # s) =
     (if p = ''%'' then like_runes ps (c # s) \<or> like_runes (p # ps) s
      else (p = ''_'' \<or> same_letter p c) \<and> like_runes ps s)"

definition sql_like :: "string \<Rightarrow> string \<Rightarrow> bool" where
  "sql_like s pat \<longleftrightarrow> like_runes (runes pat) (runes s)"

definition search_pattern :: "env \<Rightarrow> string \<Rightarrow> string" where
  "search_pattern E search = ''%'' @ to_lower (uni_lower E) search @ ''%''"

definition search_match :: "string \<Rightarrow> int \<times> employee_row \<Rightarrow> bool" where
  "search_match pat x = (case x of (k, r) \<Rightarrow>
     sql_like (sql_lower (e_first_name r)) pat \<or> sql_like (sql_lower (e_last_name r)) pat
     \<or> sql_like (sql_lower (e_email r)) pat)"

definition search_employees ::
  "env \<Rightarrow> string \<Rightarrow> int option \<Rightarrow> int option \<Rightarrow> 'm world_scheme \<Rightarrow> (employee list answer \<times> 'm world_scheme) option" where
  "search_employees E search offset limit w =
     list_query E (search_match (search_pattern E search)) offset limit w"

section \<open>Mutations\<close>

definition db_app_error :: "env \<Rightarrow> go_error \<Rightarrow> go_error" where
  "db_app_error E e = App (handle_db_error (uni_upper E) (Some e))"

text \<open>The broker may panic on publishing; \<open>None\<close> covers that too.\<close>

definition create_employee ::
  "env \<Rightarrow> create_employee_input \<Rightarrow> 'm world_scheme \<Rightarrow> employee broker
     \<Rightarrow> (employee answer \<times> 'm world_scheme \<times> employee broker) option" where
  "create_employee E d w b =
     do { (x, w1) \<leftarrow> db_exec E (employee_create (ci_id d) (ci_employee_id d) (ci_first_name d) (ci_middle_name d)
            (ci_last_name d) (ci_email d) (ci_company d) (ci_job_title d)) w;
          case x of
            Inl e \<Rightarrow> Some (Inl (db_app_error E e), w1, b)
          | Inr res \<Rightarrow>
              do { (y, w2) \<leftarrow> get_employee_by_id E (ci_id d) w1;
                   case y of
                     Inl e \<Rightarrow> Some (Inl e, w2, b)
                   | Inr None \<Rightarrow> Some (Inl (Other ''failed to retrieve newly created employee''), w2, b)
                   | Inr (Some emp) \<Rightarrow> do { b' \<leftarrow> publish emp b; Some (Inr emp, w2, b') } } }"

definition or_else :: "'a option \<Rightarrow> 'a option \<Rightarrow> 'a option" where
  "or_else a b = (case a of Some x \<Rightarrow> Some x | None \<Rightarrow> b)"

definition value_or :: "'a option \<Rightarrow> 'a \<Rightarrow> 'a" where
  "value_or a x = (case a of Some y \<Rightarrow> y | None \<Rightarrow> x)"

definition update_employee ::
  "env \<Rightarrow> int \<Rightarrow> update_employee_input \<Rightarrow> 'm world_scheme \<Rightarrow> (employee option answer \<times> 'm world_scheme) option" where
  "update_employee E k d w =
     do { (y, w1) \<leftarrow> get_employee_by_id E k w;
          case y of
            Inl e \<Rightarrow> Some (Inl e, w1)
          | Inr None \<Rightarrow> Some (Inr None, w1)
          | Inr (Some old) \<Rightarrow>
              do { (x, w2) \<leftarrow> db_exec E (employee_update (value_or (ui_first_name d) (g_first_name old))
                     (value_or (ui_last_name d) (g_last_name old)) (value_or (ui_email d) (g_email old))
                     (or_else (ui_middle_name d) (g_middle_name old)) (or_else (ui_company d) (g_company old))
                     (or_else (ui_job_title d) (g_job_title old)) k) w1;
                   case x of
                     Inl e \<Rightarrow> Some (Inl (db_app_error E e), w2)
                   | Inr res \<Rightarrow> get_employee_by_id E k w2 } }"

definition delete_employee :: "env \<Rightarrow> int \<Rightarrow> 'm world_scheme \<Rightarrow> (bool answer \<times> 'm world_scheme) option" where
  "delete_employee E k w =
     do { (x, w1) \<leftarrow> db_exec E (employee_delete k) w;
          Some (case x of
              Inl e \<Rightarrow> (Inl e, w1)
            | Inr res \<Rightarrow>
                (case rows_affected E w1 res of Inl e \<Rightarrow> (Inl e, w1) | Inr n \<Rightarrow> (Inr (0 < n), w1))) }"

end
