(* ===== verification/Employee_Props.thy ===== *)
theory Employee_Props
  imports Employee_Resolvers
begin

text \<open>What the employee resolvers promise.\<close>

section \<open>Reading one employee\<close>

lemma get_employee_run:
  assumes "conn w = Idle" "fault E (calls w) = None" "rows_cut E (calls w) = None"
  shows "\<exists>w'. get_employee_by_id E k w =
      Some (Inr (map_option (\<lambda>r. scan_employee E (k, r)) (tlookup k (employees (wdb w)))), w')
    \<and> conn w' = Idle \<and> wdb w' = wdb w \<and> calls w' = Suc (calls w)"
  using assms by (simp add: get_employee_by_id_def db_query_def employee_rows_def split: option.split)

lemma scan_employee_simps [simp]:
  "g_id (scan_employee E (k, r)) = k" "g_first_name (scan_employee E (k, r)) = e_first_name r"
  "g_middle_name (scan_employee E (k, r)) = e_middle_name r" "g_last_name (scan_employee E (k, r)) = e_last_name r"
  "g_email (scan_employee E (k, r)) = e_email r" "g_company (scan_employee E (k, r)) = e_company r"
  "g_job_title (scan_employee E (k, r)) = e_job_title r" "g_employee_id (scan_employee E (k, r)) = e_employee_id r"
  by (simp_all add: scan_employee_def)

section \<open>Creating\<close>

definition created_row :: "create_employee_input \<Rightarrow> employee_row" where
  "created_row d = \<lparr>e_employee_id = ci_employee_id d, e_first_name = ci_first_name d, e_middle_name = ci_middle_name d, e_last_name = ci_last_name d, e_gender = None, e_email = ci_email d, e_phone_number = None, e_date_of_birth = None, e_nationality = None, e_job_level = None, e_department = None, e_location = None, e_bank_account_number = None, e_company = ci_company d, e_job_title = ci_job_title d, e_cost_center = None, e_start_date = None, e_employee_status = None, e_manager_id = None, e_manager_email = None, e_last_modified_on = None, e_last_modified = None\<rparr>"

lemma employee_create_row:
  "employee_create (ci_id d) (ci_employee_id d) (ci_first_name d) (ci_middle_name d)
     (ci_last_name d) (ci_email d) (ci_company d) (ci_job_title d) = employee_insert (ci_id d) (created_row d)"
  by (simp add: employee_create_def created_row_def)

lemma column_upper: "to_upper uni ''id'' = ''ID''" "to_upper uni ''email'' = ''EMAIL''"
  by code_simp+

lemma employee_duplicates:
  assumes "names_unique E"
  shows "db_app_error E (Other (render E (Unique ''employees'' ''id''))) = App (duplicate_entry ''ID'')"
    and "db_app_error E (Other (render E (Unique ''employees'' ''email''))) = App (duplicate_entry ''EMAIL'')"
  using column_upper handle_db_error_unique [OF assms, of "''employees''" "''id''" "uni_upper E"]
    handle_db_error_unique [OF assms, of "''employees''" "''email''" "uni_upper E"]
  by (simp_all add: db_app_error_def is_word_char_def is_digit_def)

text \<open>C28: \<open>createEmployee\<close> answers with a conflict on ID or EMAIL, and changes nothing, when another employee
  has the id or the address. Otherwise it stores the employee under the given id and no other row,
  returns it as stored, and publishes it to the subscribers.\<close>

theorem create_employee_outcome:
  assumes w: "conn w = Idle" and E: "no_faults E" "names_unique E"
    and t: "ordered (employees (wdb w))" and b: "\<forall>e. publish e b \<noteq> None"
  shows "\<exists>r w' b'. create_employee E d w b = Some (r, w', b') \<and> conn w' = Idle
    \<and> (if tlookup (ci_id d) (employees (wdb w)) \<noteq> None
       then r = Inl (App (duplicate_entry ''ID'')) \<and> wdb w' = wdb w \<and> b' = b
       else if taken e_email (ci_email d) (ci_id d) (employees (wdb w))
       then r = Inl (App (duplicate_entry ''EMAIL'')) \<and> wdb w' = wdb w \<and> b' = b
       else \<exists>emp. r = Inr emp \<and> emp = scan_employee E (ci_id d, created_row d) \<and> publish emp b = Some b'
         \<and> tlookup (ci_id d) (employees (wdb w')) = Some (created_row d)
         \<and> only_at (ci_id d) (employees (wdb w)) (employees (wdb w')))"
proof -
  have F: "fault E n = None" "rows_cut E n = None" for n using E(1) by (simp_all add: no_faults_def)
  let ?t = "employees (wdb w)" and ?k = "ci_id d" and ?row = "created_row d"
  have email: "e_email ?row = ci_email d" by (simp add: created_row_def)
  show ?thesis
  proof (cases "tlookup ?k ?t \<noteq> None \<or> taken e_email (ci_email d) ?k ?t")
    case True
    then show ?thesis using w F email employee_duplicates [OF E(2)]
      by (auto simp: create_employee_def employee_create_row db_exec_def run_stmt_def employee_insert_def)
  next
    case False
    let ?w1 = "(tick w)\<lparr>wdb := (wdb w)\<lparr>employees := tput ?k ?row ?t\<rparr>\<rparr>"
    have x: "db_exec E (employee_insert ?k ?row) w = Some (Inr \<lparr>er_last_id = ?k, er_affected = 1\<rparr>, ?w1)"
      using False w F email by (simp add: db_exec_def run_stmt_def employee_insert_def)
    have look: "tlookup ?k (employees (wdb ?w1)) = Some ?row" using plain.look_put [OF t] by simp
    obtain w' where get: "get_employee_by_id E ?k ?w1 = Some (Inr (Some (scan_employee E (?k, ?row))), w')"
      "conn w' = Idle" "wdb w' = wdb ?w1"
      using get_employee_run [of ?w1 E ?k] w F look by auto
    obtain b' where "publish (scan_employee E (?k, ?row)) b = Some b'" using b by blast
    then have "create_employee E d w b = Some (Inr (scan_employee E (?k, ?row)), w', b')"
      using x get(1) by (simp add: create_employee_def employee_create_row)
    then show ?thesis using False get look \<open>publish _ b = Some b'\<close> t by simp
  qed
qed

definition sample_input :: create_employee_input where
  "sample_input = \<lparr>ci_id = 5, ci_employee_id = ''E5'', ci_first_name = ''Mary'', ci_last_name = ''Jackson'',
     ci_email = ''m@j.k'', ci_middle_name = None, ci_company = None, ci_job_title = None\<rparr>"

lemma new_broker_publishes: "publish e new_broker = Some new_broker"
  by (simp add: publish_def new_broker_def)

theorem create_employee_outcome_witness:
  "\<exists>w' b' emp. create_employee calm sample_input fresh_world new_broker = Some (Inr emp, w', b')
    \<and> tlookup 5 (employees (wdb w')) = Some (created_row sample_input)"
proof -
  have "tlookup (ci_id sample_input) (employees (wdb fresh_world)) = None"
    "\<not> taken e_email (ci_email sample_input) (ci_id sample_input) (employees (wdb fresh_world))" by code_simp+
  moreover have "ordered (employees (wdb fresh_world))" by (simp add: empty_database_def)
  ultimately show ?thesis
    using create_employee_outcome [of fresh_world calm new_broker sample_input] calm_no_faults calm_names_unique
      new_broker_publishes by (fastforce simp: sample_input_def)
qed

section \<open>Updating and deleting\<close>

definition updated_row :: "update_employee_input \<Rightarrow> employee_row \<Rightarrow> employee_row" where
  "updated_row d r = r\<lparr>e_first_name := value_or (ui_first_name d) (e_first_name r),
     e_last_name := value_or (ui_last_name d) (e_last_name r), e_email := value_or (ui_email d) (e_email r),
     e_middle_name := or_else (ui_middle_name d) (e_middle_name r), e_company := or_else (ui_company d) (e_company r),
     e_job_title := or_else (ui_job_title d) (e_job_title r)\<rparr>"

text \<open>C29: \<open>updateEmployee\<close> returns nothing for an unknown id and a conflict for an address another
  employee has, changing nothing. Otherwise exactly the fields the input gives are replaced, in that
  employee only, and the employee is returned as stored. A field cannot be cleared.\<close>

theorem update_employee_outcome:
  assumes w: "conn w = Idle" and E: "no_faults E" "names_unique E" and t: "ordered (employees (wdb w))"
  shows "\<exists>r w'. update_employee E k d w = Some (r, w') \<and> conn w' = Idle
    \<and> (case tlookup k (employees (wdb w)) of
         None \<Rightarrow> r = Inr None \<and> wdb w' = wdb w
       | Some old \<Rightarrow>
           if taken e_email (e_email (updated_row d old)) k (employees (wdb w))
           then r = Inl (App (duplicate_entry ''EMAIL'')) \<and> wdb w' = wdb w
           else r = Inr (Some (scan_employee E (k, updated_row d old)))
             \<and> wdb w' = (wdb w)\<lparr>employees := tput k (updated_row d old) (employees (wdb w))\<rparr>)"
proof -
  have F: "fault E n = None" "rows_cut E n = None" for n using E(1) by (simp_all add: no_faults_def)
  obtain w1 where get: "get_employee_by_id E k w =
      Some (Inr (map_option (\<lambda>r. scan_employee E (k, r)) (tlookup k (employees (wdb w)))), w1)"
    "conn w1 = Idle" "wdb w1 = wdb w" using get_employee_run [OF w F(1) F(2)] by blast
  show ?thesis
  proof (cases "tlookup k (employees (wdb w))")
    case None
    then show ?thesis using get by (simp add: update_employee_def)
  next
    case (Some old)
    let ?row = "updated_row d old" and ?t = "employees (wdb w)"
    let ?s = "employee_update (e_first_name ?row) (e_last_name ?row) (e_email ?row) (e_middle_name ?row) (e_company ?row) (e_job_title ?row) k"
    have run: "update_employee E k d w = do { (x, w2) \<leftarrow> db_exec E ?s w1;
        case x of Inl e \<Rightarrow> Some (Inl (db_app_error E e), w2) | Inr res \<Rightarrow> get_employee_by_id E k w2 }"
      using get(1) Some by (simp add: update_employee_def updated_row_def)
    show ?thesis
    proof (cases "taken e_email (e_email ?row) k ?t")
      case True
      then have "db_exec E ?s w1 = Some (Inl (Other (render E (Unique ''employees'' ''email''))), tick w1)"
        using get(2,3) F Some by (simp add: db_exec_def run_stmt_def employee_update_def)
      then show ?thesis using run True Some get(2,3) employee_duplicates(2) [OF E(2)] by simp
    next
      case False
      let ?w2 = "(tick w1)\<lparr>wdb := (wdb w)\<lparr>employees := tput k ?row ?t\<rparr>\<rparr>"
      have x: "db_exec E ?s w1 = Some (Inr \<lparr>er_last_id = 0, er_affected = 1\<rparr>, ?w2)"
        using False get(2,3) F Some by (simp add: db_exec_def run_stmt_def employee_update_def) (simp add: updated_row_def)
      have "tlookup k (employees (wdb ?w2)) = Some ?row" using plain.look_put [OF t] by simp
      then obtain w' where "get_employee_by_id E k ?w2 = Some (Inr (Some (scan_employee E (k, ?row))), w')"
        "conn w' = Idle" "wdb w' = wdb ?w2"
        using get_employee_run [of ?w2 E k] get(2) F by auto
      then show ?thesis using run x False Some by simp
    qed
  qed
qed

definition new_title :: update_employee_input where
  "new_title = \<lparr>ui_first_name = None, ui_last_name = None, ui_email = None, ui_middle_name = None,
     ui_company = None, ui_job_title = Some ''engineer''\<rparr>"

definition staff_world :: sync_world where
  "staff_world = fresh_world\<lparr>wdb := empty_database\<lparr>employees :=
     \<lparr>rows = [(5, created_row sample_input)], seq = 0\<rparr>\<rparr>\<rparr>"

theorem update_employee_outcome_witness:
  "\<exists>emp w'. update_employee calm 5 new_title staff_world = Some (Inr (Some emp), w') \<and> g_job_title emp = Some ''engineer''
    \<and> g_email emp = ''m@j.k''"
proof -
  have t: "ordered (employees (wdb staff_world))" by (simp add: staff_world_def ordered_def)
  have row: "tlookup 5 (employees (wdb staff_world)) = Some (created_row sample_input)"
    by (simp add: staff_world_def tlookup_def)
  have free: "\<not> taken e_email (e_email (updated_row new_title (created_row sample_input))) 5 (employees (wdb staff_world))"
    by (simp add: staff_world_def taken_def)
  have idle: "conn staff_world = Idle" by (simp add: staff_world_def)
  show ?thesis
    using update_employee_outcome [OF idle calm_no_faults calm_names_unique t, of 5 new_title] row free
    by (auto simp: updated_row_def new_title_def created_row_def sample_input_def value_or_def or_else_def)
qed

text \<open>\<open>deleteEmployee\<close> removes exactly the named employee and says whether there was one; a lookup
  afterwards finds nobody.\<close>

theorem delete_employee_outcome:
  assumes w: "conn w = Idle" and E: "no_faults E" and t: "ordered (employees (wdb w))"
  shows "\<exists>w' w''. delete_employee E k w = Some (Inr (tlookup k (employees (wdb w)) \<noteq> None), w') \<and> conn w' = Idle
    \<and> (\<forall>j. tlookup j (employees (wdb w')) = (if j = k then None else tlookup j (employees (wdb w))))
    \<and> get_employee_by_id E k w' = Some (Inr None, w'')"
proof -
  have F: "fault E n = None" "result_err E n = None" "rows_cut E n = None" for n
    using E by (simp_all add: no_faults_def)
  obtain w' where run: "delete_employee E k w = Some (Inr (tlookup k (employees (wdb w)) \<noteq> None), w')" "conn w' = Idle"
    and look: "\<And>j. tlookup j (employees (wdb w')) = (if j = k then None else tlookup j (employees (wdb w)))"
  proof (cases "tlookup k (employees (wdb w))")
    case None
    then show ?thesis using w F that [of "(tick w)\<lparr>wdb := wdb w\<rparr>"]
      by (simp add: delete_employee_def db_exec_def run_stmt_def employee_delete_def rows_affected_def)
  next
    case (Some r)
    then show ?thesis
      using w F plain.look_del [OF t]
        that [of "(tick w)\<lparr>wdb := (wdb w)\<lparr>employees := tdelete (\<lambda>j s. j = k) (employees (wdb w))\<rparr>\<rparr>"]
      by (simp add: delete_employee_def db_exec_def run_stmt_def employee_delete_def rows_affected_def split: option.split)
  qed
  then show ?thesis using get_employee_run [OF run(2) F(1) F(3), of k] look [of k] by auto
qed

theorem delete_employee_outcome_witness:
  "\<exists>w'. delete_employee calm 5 staff_world = Some (Inr True, w') \<and> tlookup 5 (employees (wdb w')) = None"
proof -
  have t: "ordered (employees (wdb staff_world))" by (simp add: staff_world_def ordered_def)
  have row: "tlookup 5 (employees (wdb staff_world)) \<noteq> None" by (simp add: staff_world_def tlookup_def)
  have idle: "conn staff_world = Idle" by (simp add: staff_world_def)
  show ?thesis using delete_employee_outcome [OF idle calm_no_faults t, of 5] row by auto
qed

section \<open>Lists and searches\<close>

text \<open>The pages of an employee list or search, read one after the other with any page size, are all
  the employees it is about, by id, each once.\<close>

theorem employee_pages_cover:
  assumes "0 < lim" and "length (filter P (rows (employees db))) \<le> k * nat lim"
  shows "concat (map (\<lambda>i. employee_page P (safe_limit (Some lim)) (safe_offset (Some (int i * lim))) db) [0..<k])
    = filter P (rows (employees db))"
proof -
  have "safe_offset (Some (int i * lim)) = int i * lim" for i
    using assms(1) by (auto simp: safe_offset_def zero_less_mult_iff mult_eq_0_iff)
  then have "employee_page P (safe_limit (Some lim)) (safe_offset (Some (int i * lim))) db
      = take (nat lim) (drop (i * nat lim) (filter P (rows (employees db))))" for i
    using assms(1) by (simp add: employee_page_def safe_limit_def nat_mult_distrib)
  then show ?thesis using assms(2) by (simp add: concat_pages)
qed

theorem employee_pages_cover_witness:
  "concat (map (\<lambda>i. employee_page (\<lambda>x. True) (safe_limit (Some 2)) (safe_offset (Some (int i * 2))) (wdb staff_world)) [0..<1])
    = filter (\<lambda>x. True) (rows (employees (wdb staff_world)))"
  by (rule employee_pages_cover) (simp_all add: staff_world_def)

definition plain_runes :: "string list \<Rightarrow> bool" where
  "plain_runes ps \<longleftrightarrow> (\<forall>p \<in> set ps. p \<noteq> ''%'' \<and> p \<noteq> ''_'')"

lemma like_rest: "like_runes [''%''] t"
  by (induction t) simp_all

lemma like_front:
  "plain_runes ps \<Longrightarrow> like_runes (ps @ [''%'']) t \<longleftrightarrow> (\<exists>b c. t = b @ c \<and> list_all2 same_letter ps b)"
proof (induction ps arbitrary: t)
  case Nil
  then show ?case by (simp add: like_rest)
next
  case (Cons p ps)
  have plain: "plain_runes ps" "p \<noteq> ''%''" "p \<noteq> ''_''" using Cons.prems by (auto simp: plain_runes_def)
  show ?case
  proof (cases t)
    case Nil
    then show ?thesis using plain by (auto simp: list_all2_Cons1)
  next
    case (Cons c t')
    have "(\<exists>b d. t = b @ d \<and> list_all2 same_letter (p # ps) b) \<longleftrightarrow>
        same_letter p c \<and> (\<exists>b d. t' = b @ d \<and> list_all2 same_letter ps b)" (is "?L \<longleftrightarrow> ?R")
    proof
      assume ?L
      then obtain b d where b: "t = b @ d" "list_all2 same_letter (p # ps) b" by blast
      then obtain c' b' where "b = c' # b'" "same_letter p c'" "list_all2 same_letter ps b'"
        by (auto simp: list_all2_Cons1)
      then show ?R using b(1) Cons by auto
    next
      assume ?R
      then obtain b d where "same_letter p c" "t' = b @ d" "list_all2 same_letter ps b" by blast
      then have "t = (c # b) @ d" "list_all2 same_letter (p # ps) (c # b)" using Cons by simp_all
      then show ?L by blast
    qed
    then show ?thesis using plain Cons.IH [OF plain(1)] by (simp add: Cons)
  qed
qed

lemma like_inside:
  assumes "plain_runes ps"
  shows "like_runes (''%'' # ps @ [''%'']) t \<longleftrightarrow> (\<exists>a b c. t = a @ b @ c \<and> list_all2 same_letter ps b)"
proof (induction t)
  case Nil
  have "like_runes (ps @ [''%'']) [] \<longleftrightarrow> (\<exists>b c. [] = b @ c \<and> list_all2 same_letter ps b)"
    by (rule like_front [OF assms])
  then show ?case by auto
next
  case (Cons c t)
  have "(\<exists>a b d. c # t = a @ b @ d \<and> list_all2 same_letter ps b) \<longleftrightarrow>
      (\<exists>b d. c # t = b @ d \<and> list_all2 same_letter ps b) \<or> (\<exists>a b d. t = a @ b @ d \<and> list_all2 same_letter ps b)"
    (is "?L \<longleftrightarrow> ?R")
  proof
    assume ?L
    then obtain a b d where a: "c # t = a @ b @ d" "list_all2 same_letter ps b" by blast
    then show ?R by (cases a) auto
  next
    assume ?R
    then consider b d where "c # t = [] @ b @ d" "list_all2 same_letter ps b"
      | a b d where "c # t = (c # a) @ b @ d" "list_all2 same_letter ps b" by auto
    then show ?L by cases blast+
  qed
  then show ?case using Cons like_front [OF assms, of "c # t"] by simp
qed

lemma lower_char_idem [simp]: "lower_char (lower_char c) = lower_char c"
  by (auto simp: lower_char_def)

lemma same_letters:
  "list_all2 same_letter (map (\<lambda>c. [c]) xs) (map (\<lambda>c. [c]) ys) \<longleftrightarrow> sql_lower xs = sql_lower ys"
proof (induction xs arbitrary: ys)
  case Nil
  then show ?case by (cases ys) (simp_all add: sql_lower_def)
next
  case (Cons x xs)
  then show ?case by (cases ys) (simp_all add: same_letter_def sql_lower_def)
qed

lemma sql_lower_ascii: "is_ascii s \<Longrightarrow> is_ascii (sql_lower s)"
  by (auto simp: is_ascii_def sql_lower_def lower_char_def list_all_iff)

lemma sql_lower_idem [simp]: "sql_lower (sql_lower s) = sql_lower s"
  by (simp add: sql_lower_def)

text \<open>For ASCII text, the pattern of a search without wildcards finds it anywhere, in any case.\<close>

definition no_wildcards :: "string \<Rightarrow> bool" where
  "no_wildcards s \<longleftrightarrow> is_ascii s \<and> CHR ''%'' \<notin> set s \<and> CHR ''_'' \<notin> set s"

lemma lower_not_wild: "c \<noteq> CHR ''%'' \<Longrightarrow> c \<noteq> CHR ''_'' \<Longrightarrow> lower_char c \<noteq> CHR ''%'' \<and> lower_char c \<noteq> CHR ''_''"
proof (cases "65 \<le> byte c \<and> byte c \<le> 90")
  case True
  then have "byte (lower_char c) = byte c + 32" by (simp add: lower_char_def)
  then show ?thesis using True by auto
next
  case False
  then have "lower_char c = c" by (auto simp: lower_char_def)
  then show "c \<noteq> CHR ''%'' \<Longrightarrow> c \<noteq> CHR ''_'' \<Longrightarrow> lower_char c \<noteq> CHR ''%'' \<and> lower_char c \<noteq> CHR ''_''" by simp
qed

lemma like_search:
  assumes s: "no_wildcards s" and f: "is_ascii f"
  shows "sql_like (sql_lower f) (search_pattern E s) \<longleftrightarrow> contains (sql_lower f) (sql_lower s)"
proof -
  let ?sing = "map (\<lambda>c. [c])"
  have s': "is_ascii (sql_lower s)" "is_ascii (sql_lower f)" using s f by (simp_all add: no_wildcards_def sql_lower_ascii)
  have pat: "search_pattern E s = ''%'' @ sql_lower s @ ''%''"
    using s by (simp add: search_pattern_def to_lower_def no_wildcards_def sql_lower_def)
  have "is_ascii (''%'' @ sql_lower s @ ''%'')" using s'(1) by (simp add: is_ascii_def)
  then have rs: "runes (search_pattern E s) = ''%'' # ?sing (sql_lower s) @ [''%'']" unfolding pat by (simp only: runes_ascii) simp
  have plain: "plain_runes (?sing (sql_lower s))"
  proof -
    have "lower_char c \<noteq> CHR ''%'' \<and> lower_char c \<noteq> CHR ''_''" if "c \<in> set s" for c
      by (rule lower_not_wild) (use s that in \<open>auto simp: no_wildcards_def\<close>)
    then show ?thesis by (auto simp: plain_runes_def sql_lower_def)
  qed
  have "sql_like (sql_lower f) (search_pattern E s) \<longleftrightarrow>
      like_runes (''%'' # ?sing (sql_lower s) @ [''%'']) (?sing (sql_lower f))"
    by (simp only: sql_like_def rs runes_ascii [OF s'(2)])
  also have "\<dots> \<longleftrightarrow> (\<exists>a b c. ?sing (sql_lower f) = a @ b @ c \<and> list_all2 same_letter (?sing (sql_lower s)) b)"
    by (rule like_inside [OF plain])
  also have "\<dots> \<longleftrightarrow> (\<exists>x y z. sql_lower f = x @ y @ z \<and> sql_lower s = sql_lower y)"
  proof
    assume "\<exists>a b c. ?sing (sql_lower f) = a @ b @ c \<and> list_all2 same_letter (?sing (sql_lower s)) b"
    then obtain a b c where "?sing (sql_lower f) = a @ b @ c" and b: "list_all2 same_letter (?sing (sql_lower s)) b" by blast
    then obtain x u where u: "sql_lower f = x @ u" "b @ c = ?sing u" by (auto simp: map_eq_append_conv)
    from u(2) obtain y z where y: "u = y @ z" "b = ?sing y" by (auto simp: append_eq_map_conv)
    with u(1) have "sql_lower f = x @ y @ z" "b = ?sing y" by simp_all
    then show "\<exists>x y z. sql_lower f = x @ y @ z \<and> sql_lower s = sql_lower y"
      using b same_letters [of "sql_lower s" y] by auto
  next
    assume "\<exists>x y z. sql_lower f = x @ y @ z \<and> sql_lower s = sql_lower y"
    then obtain x y z where y: "sql_lower f = x @ y @ z" "sql_lower s = sql_lower y" by blast
    then have "list_all2 same_letter (?sing (sql_lower s)) (?sing y)" using same_letters [of "sql_lower s" y] by simp
    moreover have "?sing (sql_lower f) = ?sing x @ ?sing y @ ?sing z" using y(1) by simp
    ultimately show "\<exists>a b c. ?sing (sql_lower f) = a @ b @ c \<and> list_all2 same_letter (?sing (sql_lower s)) b" by blast
  qed
  also have "\<dots> \<longleftrightarrow> (\<exists>x z. sql_lower f = x @ sql_lower s @ z)"
  proof -
    have "sql_lower y = y" if "sql_lower f = x @ y @ z" for x y z
    proof -
      have "sql_lower (x @ y @ z) = x @ y @ z" using sql_lower_idem [of f] that by simp
      then have "sql_lower x @ sql_lower y @ sql_lower z = x @ y @ z" by (simp add: sql_lower_def)
      moreover have "length (sql_lower x) = length x" "length (sql_lower y) = length y" by (simp_all add: sql_lower_def)
      ultimately show ?thesis by (simp add: append_eq_append_conv)
    qed
    then show ?thesis by (metis sql_lower_idem)
  qed
  finally show ?thesis by (simp add: contains_iff)
qed

definition names_contain :: "string \<Rightarrow> int \<times> employee_row \<Rightarrow> bool" where
  "names_contain s x = (case x of (k, r) \<Rightarrow> contains (sql_lower (e_first_name r)) (sql_lower s)
     \<or> contains (sql_lower (e_last_name r)) (sql_lower s) \<or> contains (sql_lower (e_email r)) (sql_lower s))"

definition ascii_names :: "employee_row \<Rightarrow> bool" where
  "ascii_names r \<longleftrightarrow> is_ascii (e_first_name r) \<and> is_ascii (e_last_name r) \<and> is_ascii (e_email r)"

lemma list_query_run:
  assumes "conn w = Idle" "fault E (calls w) = None" "rows_cut E (calls w) = None"
  shows "\<exists>w'. list_query E P offset limit w =
      Some (Inr (map (scan_employee E) (employee_page P (safe_limit limit) (safe_offset offset) (wdb w))), w')
    \<and> conn w' = Idle \<and> wdb w' = wdb w"
  using assms by (simp add: list_query_def db_query_def)

text \<open>C30: A search for ASCII text without \<open>%\<close> and \<open>_\<close>, among employees with ASCII names, returns the page of
  exactly those whose first name, last name or address contains the text, in any case, by id.\<close>

theorem search_finds_text:
  assumes w: "conn w = Idle" and E: "fault E (calls w) = None" "rows_cut E (calls w) = None"
    and s: "no_wildcards s" and names: "\<forall>(k, r) \<in> set (rows (employees (wdb w))). ascii_names r"
  shows "\<exists>w'. search_employees E s offset limit w =
      Some (Inr (map (scan_employee E) (employee_page (names_contain s) (safe_limit limit) (safe_offset offset) (wdb w))), w')
    \<and> conn w' = Idle \<and> wdb w' = wdb w"
proof -
  have "search_match (search_pattern E s) x = names_contain s x" if "x \<in> set (rows (employees (wdb w)))" for x
    using that names like_search [OF s] by (force simp: search_match_def names_contain_def ascii_names_def)
  then have "filter (search_match (search_pattern E s)) (rows (employees (wdb w)))
      = filter (names_contain s) (rows (employees (wdb w)))" by (rule filter_cong [OF refl])
  then show ?thesis using list_query_run [OF w E, of "search_match (search_pattern E s)" offset limit]
    by (simp add: search_employees_def employee_page_def)
qed

theorem search_finds_text_witness:
  "\<exists>w' emp. search_employees calm ''JACK'' None None staff_world = Some (Inr [emp], w') \<and> g_last_name emp = ''Jackson''"
proof -
  have s: "no_wildcards ''JACK''" by code_simp
  have idle: "conn staff_world = Idle" by (simp add: staff_world_def)
  have names: "\<forall>(k, r) \<in> set (rows (employees (wdb staff_world))). ascii_names r"
    by (simp add: staff_world_def ascii_names_def is_ascii_def created_row_def sample_input_def)
  have page: "employee_page (names_contain ''JACK'') (safe_limit None) (safe_offset None) (wdb staff_world)
      = [(5, created_row sample_input)]" by code_simp
  show ?thesis using search_finds_text [OF idle _ _ s names, of calm None None]
    by (auto simp: page created_row_def sample_input_def)
qed

text \<open>The search text is not escaped in the pattern: a search for an underscore returns the page of
  everyone whose first name is not empty, whether there is an underscore in it or not.\<close>

theorem search_underscore_matches:
  assumes "e_first_name r \<noteq> []"
  shows "search_match (search_pattern E ''_'') (k, r)"
proof -
  have "runes (sql_lower (e_first_name r)) \<noteq> []"
    using assms by (cases "e_first_name r") (auto simp: sql_lower_def Let_def)
  moreover have "runes (search_pattern E ''_'') = [''%'', ''_'', ''%'']"
    using runes_ascii [of "''%_%''"]
    by (simp add: search_pattern_def to_lower_def is_ascii_def lower_char_def)
  ultimately show ?thesis
    by (cases "runes (sql_lower (e_first_name r))") (simp_all add: search_match_def sql_like_def like_rest)
qed

theorem search_underscore_matches_witness:
  "search_match (search_pattern calm ''_'') (5, created_row sample_input)"
  by (rule search_underscore_matches) (simp add: created_row_def sample_input_def)

section \<open>Full names\<close>

text \<open>The full name joins, by single spaces, those of the first, middle and last name that are not
  blank, in that order, each as it is stored; it is empty only when all are blank.\<close>

theorem full_name_parts:
  "full_name f m l = join '' '' (filter (\<lambda>s. \<not> blank s) (f # (case m of None \<Rightarrow> [] | Some s \<Rightarrow> [s]) @ [l]))
    \<and> (full_name f m l = [] \<longleftrightarrow> blank f \<and> blank (case m of None \<Rightarrow> [] | Some s \<Rightarrow> s) \<and> blank l)"
proof -
  have nonblank: "s \<noteq> []" if "\<not> blank s" for s using that by (auto simp: blank_def trim_space_def)
  have "blank []" by (simp add: blank_def trim_space_def)
  then show ?thesis
    by (cases m; cases "blank f"; cases "blank l") (auto simp: full_name_def nonblank split: if_split_asm)
qed

section \<open>Answering\<close>

lemma get_employee_answers:
  assumes "conn w = Idle" shows "\<exists>r w'. get_employee_by_id E k w = Some (r, w') \<and> conn w' = Idle"
  using assms by (cases "fault E (calls w)") (auto simp: get_employee_by_id_def db_query_def split: list.split)

lemma db_exec_answers:
  assumes "conn w = Idle" shows "\<exists>r w'. db_exec E s w = Some (r, w') \<and> conn w' = Idle"
  using assms run_stmt_frame(1) [of E s w] by (cases "run_stmt E s w") (simp add: db_exec_def)

lemma list_query_answers:
  assumes "conn w = Idle" shows "\<exists>r w'. list_query E P offset limit w = Some (r, w') \<and> conn w' = Idle"
  using assms by (cases "fault E (calls w)") (auto simp: list_query_def db_query_def)

lemma create_answers:
  assumes w: "conn w = Idle" and b: "\<forall>e. publish e b \<noteq> None"
  shows "\<exists>r w' b'. create_employee E d w b = Some (r, w', b') \<and> conn w' = Idle"
proof -
  obtain x w1 where x: "db_exec E (employee_create (ci_id d) (ci_employee_id d) (ci_first_name d) (ci_middle_name d)
      (ci_last_name d) (ci_email d) (ci_company d) (ci_job_title d)) w = Some (x, w1)" "conn w1 = Idle"
    using db_exec_answers [OF w] by blast
  obtain y w2 where y: "get_employee_by_id E (ci_id d) w1 = Some (y, w2)" "conn w2 = Idle"
    using get_employee_answers [OF x(2)] by blast
  show ?thesis
  proof (cases "\<exists>r emp. x = Inr r \<and> y = Inr (Some emp)")
    case True
    then obtain r emp where r: "x = Inr r" "y = Inr (Some emp)" by blast
    obtain b' where "publish emp b = Some b'" using b by blast
    then show ?thesis using x y r by (simp add: create_employee_def)
  next
    case False
    then show ?thesis using x y by (cases x; cases y) (auto simp: create_employee_def split: option.split)
  qed
qed

lemma update_answers:
  assumes w: "conn w = Idle"
  shows "\<exists>r w'. update_employee E k d w = Some (r, w') \<and> conn w' = Idle"
proof -
  obtain y w1 where y: "get_employee_by_id E k w = Some (y, w1)" "conn w1 = Idle"
    using get_employee_answers [OF w] by blast
  have "\<exists>r w'. do { (x, w2) \<leftarrow> db_exec E s w1;
      case x of Inl e \<Rightarrow> Some (Inl (db_app_error E e), w2) | Inr res \<Rightarrow> get_employee_by_id E k w2 } = Some (r, w')
      \<and> conn w' = Idle" for s
  proof -
    obtain x w2 where x: "db_exec E s w1 = Some (x, w2)" "conn w2 = Idle" using db_exec_answers [OF y(2)] by blast
    then show ?thesis using get_employee_answers [OF x(2), of E k] by (cases x) auto
  qed
  then show ?thesis using y by (auto simp: update_employee_def split: sum.split option.split)
qed

lemma delete_employee_answers:
  assumes w: "conn w = Idle" shows "\<exists>r w'. delete_employee E k w = Some (r, w') \<and> conn w' = Idle"
proof -
  obtain x w1 where "db_exec E (employee_delete k) w = Some (x, w1)" "conn w1 = Idle" using db_exec_answers [OF w] by blast
  then show ?thesis by (auto simp: delete_employee_def split: sum.split)
qed

end
