(* ===== verification/Service.thy ===== *)
theory Service
  imports Server Employee_Props
begin

text \<open>
  The running service: what \<open>main\<close> sets up, and every step that can follow, in any order: REST
  requests, GraphQL operations, the life of subscriptions, and the pool replacing its connection.
  One request runs from start to end before the next (\<open>Concurrent\<close> lets them overlap); what is proved
  of the states between requests is proved for every environment, faults of the driver included.
\<close>

record app =
  ap_world :: sync_world
  ap_hub :: "employee hub"

definition start :: "(string \<Rightarrow> string + database option) \<Rightarrow> env \<Rightarrow> (string \<Rightarrow> string) \<Rightarrow> string + app" where
  "start open E getenv =
     (case init_db open E (cf_database_url (load_config getenv)) of
        Inl e \<Rightarrow> Inl (''Fatal: Database initialization failed: '' @ e)
      | Inr w \<Rightarrow> Inr \<lparr>ap_world = \<lparr>wdb = wdb w, conn = conn w, pragma_fk = pragma_fk w, calls = calls w,
            sync_total = (\<lambda>k. 0), sync_errors = (\<lambda>k. 0), sync_duration = []\<rparr>,
          ap_hub = \<lparr>hub_broker = new_broker, live = []\<rparr>\<rparr>)"

inductive app_step :: "env \<Rightarrow> string \<Rightarrow> app \<Rightarrow> app \<Rightarrow> bool" for E tok where
  rest: "serve E tok q (ap_world a) = Some (rep, w) \<Longrightarrow> app_step E tok a (a\<lparr>ap_world := w\<rparr>)"
| create: "create_employee E d (ap_world a) (hub_broker (ap_hub a)) = Some (r, w, b) \<Longrightarrow>
     app_step E tok a \<lparr>ap_world = w, ap_hub = (ap_hub a)\<lparr>hub_broker := b\<rparr>\<rparr>"
| update: "update_employee E k u (ap_world a) = Some (ro, w) \<Longrightarrow> app_step E tok a (a\<lparr>ap_world := w\<rparr>)"
| delete: "delete_employee E k (ap_world a) = Some (rb, w) \<Longrightarrow> app_step E tok a (a\<lparr>ap_world := w\<rparr>)"
| lookup: "get_employee_by_id E k (ap_world a) = Some (ro, w) \<Longrightarrow> app_step E tok a (a\<lparr>ap_world := w\<rparr>)"
| listing: "list_query E P offset limit (ap_world a) = Some (rl, w) \<Longrightarrow> app_step E tok a (a\<lparr>ap_world := w\<rparr>)"
| subscription: "hub_step (ap_hub a) ev (Some h) \<Longrightarrow> app_step E tok a (a\<lparr>ap_hub := h\<rparr>)"
| recycle: "app_step E tok a (a\<lparr>ap_world := conn_recycled (ap_world a)\<rparr>)"

inductive reachable :: "env \<Rightarrow> string \<Rightarrow> app \<Rightarrow> app \<Rightarrow> bool" for E tok a where
  here: "reachable E tok a a"
| more: "reachable E tok a b \<Longrightarrow> app_step E tok b c \<Longrightarrow> reachable E tok a c"

section \<open>Invariants of the database\<close>

definition kept :: "(bool \<Rightarrow> database \<Rightarrow> bool) \<Rightarrow> 'm world_scheme \<Rightarrow> 'm world_scheme \<Rightarrow> bool" where
  "kept P w w' \<longleftrightarrow> pragma_fk w' = pragma_fk w \<and> (P (pragma_fk w) (wdb w) \<longrightarrow> P (pragma_fk w) (wdb w'))"

lemma kept_refl [simp]: "kept P w w"
  by (simp add: kept_def)

lemma kept_trans: "kept P u v \<Longrightarrow> kept P v w \<Longrightarrow> kept P u w"
  by (simp add: kept_def)

lemma kept_same: "wdb w' = wdb w \<Longrightarrow> pragma_fk w' = pragma_fk w \<Longrightarrow> kept P w w'"
  by (simp add: kept_def)

lemma kept_query_row: "query_row E q f w = Some (r, w') \<Longrightarrow> kept P w w'"
  by (auto simp: query_row_def kept_def split: if_split_asm)

lemma kept_db_query: "db_query E q w = Some (r, w') \<Longrightarrow> kept P w w' \<and> kept P w (rows_close w')"
  by (auto simp: db_query_def kept_def split: if_split_asm option.splits)

lemma kept_exec: "stmt_keeps P s \<Longrightarrow> db_exec E s w = Some (r, w') \<Longrightarrow> kept P w w'"
  using run_stmt_keeps [of P s w E] by (auto simp: db_exec_def kept_def split: if_split_asm) (metis run_stmt_frame(2) snd_conv)+

locale service_invariant = sync_invariant P own for P own +
  assumes history_mark_retry: "stmt_keeps P (history_mark_retry k)"
    and history_delete: "stmt_keeps P (history_delete k)"
    and health_insert: "stmt_keeps P (health_insert em)"
    and health_delete: "stmt_keeps P (health_delete em)"
    and employee_create: "stmt_keeps P (employee_create k eid fn mn ln em co jt)"
    and employee_update: "stmt_keeps P (employee_update fn ln em mn co jt k)"
    and employee_delete: "stmt_keeps P (employee_delete k)"
begin

lemma stats_kept:
  assumes "stats_handler E w = Some (r, w')"
  shows "kept P w w'"
proof -
  obtain q w1 where q: "db_query E status_counts w = Some (q, w1)"
    using assms by (auto simp: stats_handler_def bind_Some_iff)
  then have "w' = w1 \<or> w' = rows_close w1" using assms by (cases q) (auto simp: stats_handler_def)
  then show ?thesis using kept_db_query [OF q] by blast
qed

lemma get_kept:
  assumes "get_history_handler E i w = Some (r, w')"
  shows "kept P w w'"
proof (cases "parse_int i")
  case (Some k)
  then obtain q w1 where q: "query_row E (history_by_id k) (history_scan E) w = Some (q, w1)"
    using assms by (auto simp: get_history_handler_def bind_Some_iff)
  then have "w' = w1" using assms Some by (cases q) (auto simp: get_history_handler_def)
  then show ?thesis using kept_query_row [OF q] by blast
qed (use assms in \<open>simp add: get_history_handler_def\<close>)

lemma list_kept:
  assumes "list_history_handler E p s st w = Some (r, w')"
  shows "kept P w w'"
proof -
  let ?st = "status_filter E st"
  obtain c w1 where c: "query_row E (\<lambda>db. Some (history_count ?st db)) Inr w = Some (c, w1)"
    using assms by (auto simp: list_history_handler_def Let_def bind_Some_iff)
  show ?thesis
  proof (cases c)
    case (Inl e)
    then show ?thesis using assms c kept_query_row [OF c] by (auto simp: list_history_handler_def Let_def)
  next
    case (Inr n)
    then obtain q w2 where q: "db_query E (history_page ?st (size_of s) (page_offset (page_of p) (size_of s))) w1 = Some (q, w2)"
      using assms c by (auto simp: list_history_handler_def Let_def bind_Some_iff)
    then have "w' = w2 \<or> w' = rows_close w2" using assms c Inr
      by (cases q) (auto simp: list_history_handler_def Let_def split: sum.split_asm)
    then show ?thesis using kept_trans [OF kept_query_row [OF c]] kept_db_query [OF q] by blast
  qed
qed

lemma delete_kept:
  assumes "delete_history_handler E i w = Some (r, w')"
  shows "kept P w w'"
proof (cases "parse_int i")
  case (Some k)
  then obtain x w1 where x: "db_exec E (history_delete k) w = Some (x, w1)"
    using assms by (auto simp: delete_history_handler_def bind_Some_iff)
  then have "w' = w1" using assms Some
    by (cases x) (auto simp: delete_history_handler_def split: sum.split_asm if_split_asm)
  then show ?thesis using kept_exec [OF history_delete x] by blast
qed (use assms in \<open>simp add: delete_history_handler_def\<close>)

lemma retry_kept:
  assumes "retry_history_handler E i w = Some (r, w')"
  shows "kept P w w'"
proof (cases "parse_int i")
  case None
  then show ?thesis using assms by (simp add: retry_history_handler_def)
next
  case (Some k)
  then obtain q w1 where q: "query_row E (history_by_id k) (\<lambda>(j, r). Inr (h_status r)) w = Some (q, w1)"
    using assms by (auto simp: retry_history_handler_def bind_Some_iff)
  note k1 = kept_query_row [OF q, of P]
  show ?thesis
  proof (cases "\<exists>status. q = Inr status \<and> to_upper (uni_upper E) status = ''FAILED''")
    case False
    then have "w' = w1" using assms Some q by (auto simp: retry_history_handler_def split: sum.split_asm if_split_asm)
    then show ?thesis using k1 by simp
  next
    case True
    then obtain x w2 where x: "db_exec E (history_mark_retry k) w1 = Some (x, w2)"
      using assms Some q by (auto simp: retry_history_handler_def bind_Some_iff)
    note k2 = kept_trans [OF k1 kept_exec [OF history_mark_retry x]]
    show ?thesis
    proof (cases x)
      case (Inl e)
      then show ?thesis using assms Some q True x k2 by (auto simp: retry_history_handler_def)
    next
      case (Inr res)
      then obtain y w3 where y: "query_row E (history_by_id k) (history_scan E) w2 = Some (y, w3)"
        using assms Some q True x by (auto simp: retry_history_handler_def bind_Some_iff)
      then have "w' = w3" using assms Some q True x Inr by (cases y) (auto simp: retry_history_handler_def)
      then show ?thesis using kept_trans [OF k2 kept_query_row [OF y]] by blast
    qed
  qed
qed

lemma health_kept:
  assumes "health_handler E w = Some (r, w')"
  shows "kept P w w'"
proof -
  obtain v w1 where q: "query_row E (\<lambda>db. Some (1 :: int)) Inr w = Some (v, w1)"
    using assms by (auto simp: health_handler_def bind_Some_iff)
  let ?em = "health_email E w1"
  obtain x w2 where x: "db_exec E (health_insert ?em) w1 = Some (x, w2)"
    using assms q by (auto simp: health_handler_def bind_Some_iff Let_def)
  note k2 = kept_trans [OF kept_query_row [OF q] kept_exec [OF health_insert x]]
  show ?thesis
  proof (cases x)
    case (Inl e)
    then show ?thesis using assms q x k2 by (simp add: health_handler_def Let_def)
  next
    case (Inr res)
    then obtain y where "db_exec E (health_delete ?em) w2 = Some (y, w')"
      using assms q x by (auto simp: health_handler_def bind_Some_iff Let_def)
    then show ?thesis using kept_trans [OF k2 kept_exec [OF health_delete]] by blast
  qed
qed

lemma sync_kept: "conn w = Idle \<Longrightarrow> sync_handler E req w = Some (resp, w') \<Longrightarrow> kept P w w'"
  using handler_keeps [of w E req resp w'] handler_pragma [of w E req resp w'] by (auto simp: kept_def)

lemma handle_kept:
  assumes w: "conn w = Idle" and run: "handle E q r w = Some (rep, w')"
  shows "kept P w w'"
proof -
  have ans: "\<exists>resp. x = Some (resp, w')" if "answered x = Some (rep, w')" for x :: "(response \<times> sync_world) option"
    using that by (auto simp: answered_def)
  show ?thesis
  proof (cases r)
    case R_Health
    then show ?thesis using run ans health_kept by (force simp: handle_def)
  next
    case R_Sync
    then show ?thesis using run ans sync_kept [OF w] by (force simp: handle_def)
  next
    case R_Stats
    then show ?thesis using run ans stats_kept by (force simp: handle_def)
  next
    case R_List
    then show ?thesis using run ans list_kept by (force simp: handle_def)
  next
    case (R_Get i)
    then show ?thesis using run ans get_kept by (force simp: handle_def)
  next
    case (R_Retry i)
    then show ?thesis using run ans retry_kept by (force simp: handle_def)
  next
    case (R_Delete i)
    then show ?thesis using run ans delete_kept by (force simp: handle_def)
  qed (use run in \<open>simp_all add: handle_def\<close>)
qed

lemma serve_kept: "conn w = Idle \<Longrightarrow> serve E tok q w = Some (rep, w') \<Longrightarrow> kept P w w'"
  by (auto simp: serve_def dest: handle_kept split: if_split_asm option.split_asm)

lemma get_employee_kept:
  assumes "get_employee_by_id E k w = Some (r, w')"
  shows "kept P w w'"
proof -
  obtain q w1 where q: "db_query E (employee_rows k) w = Some (q, w1)"
    using assms by (auto simp: get_employee_by_id_def bind_Some_iff)
  then have "w' = w1 \<or> w' = rows_close w1"
    using assms by (cases q) (auto simp: get_employee_by_id_def split: list.split_asm)
  then show ?thesis using kept_db_query [OF q] by blast
qed

lemma list_query_kept:
  assumes "list_query E p offset limit w = Some (r, w')"
  shows "kept P w w'"
proof -
  obtain q w1 where q: "db_query E (employee_page p (safe_limit limit) (safe_offset offset)) w = Some (q, w1)"
    using assms by (auto simp: list_query_def bind_Some_iff)
  then have "w' = w1 \<or> w' = rows_close w1" using assms by (cases q) (auto simp: list_query_def)
  then show ?thesis using kept_db_query [OF q] by blast
qed

lemma create_kept:
  assumes "create_employee E d w b = Some (r, w', b')"
  shows "kept P w w'"
proof -
  let ?s = "employee_create (ci_id d) (ci_employee_id d) (ci_first_name d) (ci_middle_name d)
    (ci_last_name d) (ci_email d) (ci_company d) (ci_job_title d)"
  obtain x w1 where x: "db_exec E ?s w = Some (x, w1)"
    using assms by (auto simp: create_employee_def bind_Some_iff)
  note k1 = kept_exec [OF employee_create x]
  show ?thesis
  proof (cases x)
    case (Inl e)
    then show ?thesis using assms x k1 by (simp add: create_employee_def)
  next
    case (Inr res)
    then obtain y w2 where y: "get_employee_by_id E (ci_id d) w1 = Some (y, w2)"
      using assms x by (auto simp: create_employee_def bind_Some_iff)
    then have "w' = w2" using assms x Inr
      by (auto simp: create_employee_def bind_Some_iff split: sum.split_asm option.split_asm)
    then show ?thesis using kept_trans [OF k1 get_employee_kept [OF y]] by blast
  qed
qed

lemma update_kept:
  assumes "update_employee E k d w = Some (r, w')"
  shows "kept P w w'"
proof -
  obtain y w1 where y: "get_employee_by_id E k w = Some (y, w1)"
    using assms by (auto simp: update_employee_def bind_Some_iff)
  note k1 = get_employee_kept [OF y]
  show ?thesis
  proof (cases "\<exists>old. y = Inr (Some old)")
    case False
    then have "w' = w1" using assms y by (auto simp: update_employee_def split: sum.split_asm option.split_asm)
    then show ?thesis using k1 by simp
  next
    case True
    then obtain old where old: "y = Inr (Some old)" by blast
    let ?s = "employee_update (value_or (ui_first_name d) (g_first_name old))
      (value_or (ui_last_name d) (g_last_name old)) (value_or (ui_email d) (g_email old))
      (or_else (ui_middle_name d) (g_middle_name old)) (or_else (ui_company d) (g_company old))
      (or_else (ui_job_title d) (g_job_title old)) k"
    obtain x w2 where x: "db_exec E ?s w1 = Some (x, w2)"
      using assms y old by (auto simp: update_employee_def bind_Some_iff)
    note k2 = kept_trans [OF k1 kept_exec [OF employee_update x]]
    show ?thesis
    proof (cases x)
      case (Inl e)
      then show ?thesis using assms y old x k2 by (simp add: update_employee_def)
    next
      case (Inr res)
      then have "get_employee_by_id E k w2 = Some (r, w')" using assms y old x by (simp add: update_employee_def)
      then show ?thesis using kept_trans [OF k2 get_employee_kept] by blast
    qed
  qed
qed

lemma delete_employee_kept:
  assumes "delete_employee E k w = Some (r, w')"
  shows "kept P w w'"
proof -
  obtain x w1 where x: "db_exec E (employee_delete k) w = Some (x, w1)"
    using assms by (auto simp: delete_employee_def bind_Some_iff)
  then have "w' = w1" using assms by (cases x) (auto simp: delete_employee_def split: sum.split_asm)
  then show ?thesis using kept_exec [OF employee_delete x] by blast
qed

end

section \<open>Reachable states\<close>

text \<open>A property of the database that also survives the loss of the pragma holds in every reachable state.\<close>

lemma create_broker:
  assumes "create_employee E d w b = Some (r, w', b')"
  shows "b' = b \<or> (\<exists>emp. publish emp b = Some b')"
proof -
  let ?s = "employee_create (ci_id d) (ci_employee_id d) (ci_first_name d) (ci_middle_name d)
    (ci_last_name d) (ci_email d) (ci_company d) (ci_job_title d)"
  obtain x w1 where x: "db_exec E ?s w = Some (x, w1)"
    using assms by (auto simp: create_employee_def bind_Some_iff)
  show ?thesis
  proof (cases x)
    case (Inl e)
    then show ?thesis using assms x by (simp add: create_employee_def)
  next
    case (Inr res)
    then obtain y w2 where "get_employee_by_id E (ci_id d) w1 = Some (y, w2)"
      using assms x by (auto simp: create_employee_def bind_Some_iff)
    then show ?thesis using assms x Inr
      by (auto simp: create_employee_def bind_Some_iff split: sum.split_asm option.split_asm)
  qed
qed

lemma hub_ok_publish:
  assumes ok: "hub_ok h" and b: "b' = hub_broker h \<or> (\<exists>emp. publish emp (hub_broker h) = Some b')"
  shows "hub_ok (h\<lparr>hub_broker := b'\<rparr>)"
  using b
proof
  assume "b' = hub_broker h"
  then show ?thesis using ok by simp
next
  assume "\<exists>emp. publish emp (hub_broker h) = Some b'"
  then obtain emp where "publish emp (hub_broker h) = Some b'" by blast
  then show ?thesis using hub_step_ok [OF ok hub_step.publish_step [of h emp]] by simp
qed

lemma hub_publishes: "hub_ok h \<Longrightarrow> \<forall>e. publish e (hub_broker h) \<noteq> None"
  by (simp add: hub_publish)

locale app_invariant = service_invariant P own for P own +
  assumes relax: "P fk db \<Longrightarrow> P False db"
begin

definition app_ok :: "app \<Rightarrow> bool" where
  "app_ok a \<longleftrightarrow> conn (ap_world a) = Idle \<and> P (pragma_fk (ap_world a)) (wdb (ap_world a)) \<and> hub_ok (ap_hub a)"

lemma kept_ok: "kept P w w' \<Longrightarrow> P (pragma_fk w) (wdb w) \<Longrightarrow> P (pragma_fk w') (wdb w')"
  by (simp add: kept_def)

lemma step_ok:
  assumes V: "struct_validator (validate E)" and ok: "app_ok a" and step: "app_step E tok a b"
  shows "app_ok b"
proof -
  have w: "conn (ap_world a) = Idle" and p: "P (pragma_fk (ap_world a)) (wdb (ap_world a))" and h: "hub_ok (ap_hub a)"
    using ok by (simp_all add: app_ok_def)
  from step show ?thesis
  proof cases
    case (rest q rep w')
    then have "conn w' = Idle" using serve_idle [OF V w, of tok q] by auto
    then show ?thesis using rest kept_ok [OF serve_kept [OF w rest(2)] p] h by (simp add: app_ok_def)
  next
    case (create d r w' b')
    have "conn w' = Idle" using create_answers [OF w hub_publishes [OF h], of E d] create(2) by auto
    then show ?thesis
      using create kept_ok [OF create_kept [OF create(2)] p] hub_ok_publish [OF h create_broker [OF create(2)]]
      by (simp add: app_ok_def)
  next
    case (update k u ro w')
    then have "conn w' = Idle" using update_answers [OF w, of E k u] by auto
    then show ?thesis using update kept_ok [OF update_kept [OF update(2)] p] h by (simp add: app_ok_def)
  next
    case (delete k rb w')
    then have "conn w' = Idle" using delete_employee_answers [OF w, of E k] by auto
    then show ?thesis using delete kept_ok [OF delete_employee_kept [OF delete(2)] p] h by (simp add: app_ok_def)
  next
    case (lookup k ro w')
    then have "conn w' = Idle" using get_employee_answers [OF w, of E k] by auto
    then show ?thesis using lookup kept_ok [OF get_employee_kept [OF lookup(2)] p] h by (simp add: app_ok_def)
  next
    case (listing Q offset limit rl w')
    then have "conn w' = Idle" using list_query_answers [OF w, of E Q offset limit] by auto
    then show ?thesis using listing kept_ok [OF list_query_kept [OF listing(2)] p] h by (simp add: app_ok_def)
  next
    case (subscription ev h')
    then show ?thesis using hub_step_ok [OF h] w p by (fastforce simp: app_ok_def)
  next
    case recycle
    then show ?thesis using w h relax [OF p] by (simp add: app_ok_def conn_recycled_def)
  qed
qed

lemma reachable_ok:
  assumes V: "struct_validator (validate E)" and a: "app_ok a" and r: "reachable E tok a b"
  shows "app_ok b"
  using r by induction (use a step_ok [OF V] in auto)

end

interpretation consistent: app_invariant enforced "\<lambda>k. True"
  by unfold_locales (simp_all add: keeps_inv, simp add: enforced_def)

section \<open>The log\<close>

text \<open>What every entry of the log satisfies, on any database the service has written.\<close>

definition entry_sound :: "history_row \<Rightarrow> bool" where
  "entry_sound r \<longleftrightarrow> h_status r \<in> set known_statuses \<and> h_retries r = 0
     \<and> (case h_failure_reason r of None \<Rightarrow> True | Some s \<Rightarrow> length s \<le> 255)"

definition log_sound :: "bool \<Rightarrow> database \<Rightarrow> bool" where
  "log_sound fk db \<longleftrightarrow> counted (sync_history db)
     \<and> (\<forall>k r. tlookup k (sync_history db) = Some r \<longrightarrow> entry_sound r)"

lemma log_soundI:
  "counted (sync_history db) \<Longrightarrow> (\<And>k r. tlookup k (sync_history db) = Some r \<Longrightarrow> entry_sound r) \<Longrightarrow> log_sound fk db"
  by (simp add: log_sound_def)

text \<open>A statement that leaves the log alone keeps it sound.\<close>

lemma log_untouched:
  "(\<And>c db r db'. s c db = Inr (r, db') \<Longrightarrow> sync_history db' = sync_history db) \<Longrightarrow> stmt_keeps log_sound s"
  by (auto simp: stmt_keeps_def log_sound_def)

lemma counted_put_existing:
  assumes t: "counted t" and k: "tlookup k t = Some r"
  shows "counted (tput k r' t)"
proof (rule countedI)
  have q: "seq (tput k r' t) = seq t" by (simp add: tput_def)
  show "ordered (tput k r' t)" using t by auto
  show "0 \<le> seq (tput k r' t)" "seq (tput k r' t) \<le> max64" using counted_seq [OF t] by (simp_all add: q)
  fix j s
  assume "tlookup j (tput k r' t) = Some s"
  then have "j = k \<or> tlookup j t = Some s" using t by (auto simp: plain.look_put split: if_splits)
  then show "in64 j \<and> j \<le> seq (tput k r' t)" using countedD [OF t] k q by auto
qed

lemma log_insert_sound: "stmt_keeps log_sound (history_insert p)"
proof (rule stmt_keepsI)
  fix c db r db'
  assume db: "log_sound (fk_on c) db" and s: "history_insert p c db = Inr (r, db')"
  let ?t = "sync_history db"
  define row where "row = \<lparr>h_payload = p, h_status = ''PENDING_RETRY'', h_failure_reason = None, h_retries = 0,
     h_created_at = now c, h_updated_at = now c\<rparr>"
  have t: "counted ?t" using db by (simp add: log_sound_def)
  obtain k where k: "new_rowid ?t = Some k" "sync_history db' = auto_put k row ?t"
    using s by (auto simp: history_insert_def row_def split: option.splits)
  have "entry_sound row" by (simp add: entry_sound_def row_def known_statuses_def)
  moreover have "entry_sound q" if "tlookup j ?t = Some q" for j q using db that by (simp add: log_sound_def)
  ultimately show "log_sound (fk_on c) db'"
    using counted_auto_put [OF t conjunct1 [OF new_rowid_in64 [OF t k(1)]]] t
    by (intro log_soundI) (auto simp: k(2) auto.look_put split: if_split_asm)
qed

lemma log_update_sound:
  assumes f: "\<And>r. entry_sound r \<Longrightarrow> entry_sound (f r)" and db: "log_sound fk db"
    and s: "history_update k f db = Inr (x, db')"
  shows "log_sound fk db'"
proof (cases "tlookup k (sync_history db)")
  case None
  then show ?thesis using s db by (simp add: history_update_def)
next
  case (Some r)
  then have db': "sync_history db' = tput k (f r) (sync_history db)" using s by (auto simp: history_update_def)
  have t: "counted (sync_history db)" and e: "\<And>j q. tlookup j (sync_history db) = Some q \<Longrightarrow> entry_sound q"
    using db by (simp_all add: log_sound_def)
  show ?thesis
    using counted_put_existing [OF t Some] t e f [OF e [OF Some]]
    by (intro log_soundI) (auto simp: db' plain.look_put Some split: if_split_asm)
qed

lemma log_marks_sound:
  "length reason \<le> 255 \<Longrightarrow> stmt_keeps log_sound (history_mark_failed reason k)"
  "stmt_keeps log_sound (history_mark_successful k)" "stmt_keeps log_sound (history_mark_retry k)"
  unfolding history_mark_failed_def history_mark_successful_def history_mark_retry_def
  by (rule stmt_keepsI, rule log_update_sound, auto simp: entry_sound_def known_statuses_def)+

lemma log_delete_sound: "stmt_keeps log_sound (history_delete k)"
proof (rule stmt_keepsI)
  fix c db r db'
  assume db: "log_sound (fk_on c) db" and s: "history_delete k c db = Inr (r, db')"
  then have t: "counted (sync_history db)" and e: "\<And>j q. tlookup j (sync_history db) = Some q \<Longrightarrow> entry_sound q"
    by (simp_all add: log_sound_def)
  from s have "db' = db \<or> sync_history db' = tdelete (\<lambda>j s. j = k) (sync_history db)"
    by (auto simp: history_delete_def split: option.splits)
  then show "log_sound (fk_on c) db'"
  proof
    assume db': "sync_history db' = tdelete (\<lambda>j s. j = k) (sync_history db)"
    show ?thesis
      by (rule log_soundI) (use counted_delete [OF t] t e in \<open>auto simp: db' plain.look_del split: option.split_asm if_split_asm\<close>)
  qed (use db in simp)
qed

lemma statements_leave_log:
  "customer_upsert k em fn ln cur c db = Inr (r, db') \<Longrightarrow> sync_history db' = sync_history db"
  "customer_insert em fn ln cur c db = Inr (r, db') \<Longrightarrow> sync_history db' = sync_history db"
  "product_upsert k nm ds pr cur act wg c db = Inr (r, db') \<Longrightarrow> sync_history db' = sync_history db"
  "product_insert nm ds pr cur act wg c db = Inr (r, db') \<Longrightarrow> sync_history db' = sync_history db"
  "order_upsert k num cust st cur amt c db = Inr (r, db') \<Longrightarrow> sync_history db' = sync_history db"
  "order_insert num cust st cur amt c db = Inr (r, db') \<Longrightarrow> sync_history db' = sync_history db"
  "order_items_delete ord c db = Inr (r, db') \<Longrightarrow> sync_history db' = sync_history db"
  "order_item_insert ord pid q up c db = Inr (r, db') \<Longrightarrow> sync_history db' = sync_history db"
  "employee_upsert k row c db = Inr (r, db') \<Longrightarrow> sync_history db' = sync_history db"
  "employee_insert k row c db = Inr (r, db') \<Longrightarrow> sync_history db' = sync_history db"
  "health_delete em c db = Inr (r, db') \<Longrightarrow> sync_history db' = sync_history db"
  "employee_update fn' ln' em' mn' co jt k c db = Inr (r, db') \<Longrightarrow> sync_history db' = sync_history db"
  "employee_delete k c db = Inr (r, db') \<Longrightarrow> sync_history db' = sync_history db"
  by (auto simp: customer_upsert_def customer_insert_def product_upsert_def product_insert_def
       order_upsert_def order_insert_def order_items_delete_def order_item_insert_def employee_upsert_def
       employee_insert_def health_delete_def employee_update_def employee_delete_def Let_def
       split: option.splits if_split_asm)

interpretation logs: app_invariant log_sound "\<lambda>k. True"
proof unfold_locales
  show "stmt_keeps log_sound (health_insert em)" for em
    unfolding health_insert_def by (rule log_untouched) (rule statements_leave_log)
  show "stmt_keeps log_sound (employee_create k eid fn mn ln em co jt)" for k eid fn mn ln em co jt
    unfolding employee_create_def by (rule log_untouched) (rule statements_leave_log)
qed (simp_all add: log_insert_sound log_marks_sound log_delete_sound log_untouched [OF statements_leave_log(1)]
  log_untouched [OF statements_leave_log(2)] log_untouched [OF statements_leave_log(3)]
  log_untouched [OF statements_leave_log(4)] log_untouched [OF statements_leave_log(5)]
  log_untouched [OF statements_leave_log(6)] log_untouched [OF statements_leave_log(7)]
  log_untouched [OF statements_leave_log(8)] log_untouched [OF statements_leave_log(9)]
  log_untouched [OF statements_leave_log(10)] log_untouched [OF statements_leave_log(11)]
  log_untouched [OF statements_leave_log(12)] log_untouched [OF statements_leave_log(13)],
  simp add: log_sound_def)

section \<open>The service as started\<close>

definition stored_sound :: "(string \<Rightarrow> string + database option) \<Rightarrow> bool" where
  "stored_sound open \<longleftrightarrow> (\<forall>path db. open path = Inr (Some db) \<longrightarrow> integrity db \<and> log_sound True db)"

lemma log_sound_empty: "log_sound fk empty_database"
  by (rule log_soundI) (simp_all add: empty_database_def)

lemma start_world:
  assumes run: "start open E getenv = Inr a" and db: "stored_sound open"
  shows "conn (ap_world a) = Idle" and "pragma_fk (ap_world a)" and "integrity (wdb (ap_world a))"
    and "log_sound True (wdb (ap_world a))" and "hub_ok (ap_hub a)"
proof -
  obtain w where w: "init_db open E (cf_database_url (load_config getenv)) = Inr w"
    and a: "a = \<lparr>ap_world = \<lparr>wdb = wdb w, conn = conn w, pragma_fk = pragma_fk w, calls = calls w,
            sync_total = (\<lambda>k. 0), sync_errors = (\<lambda>k. 0), sync_duration = []\<rparr>,
          ap_hub = \<lparr>hub_broker = new_broker, live = []\<rparr>\<rparr>"
    using run by (auto simp: start_def split: sum.split_asm)
  obtain stored where "open (db_path (cf_database_url (load_config getenv))) = Inr stored"
    and w': "w = \<lparr>wdb = (case stored of None \<Rightarrow> empty_database | Some db \<Rightarrow> db), conn = Idle, pragma_fk = True, calls = 3\<rparr>"
    using w by (auto simp: init_db_def split: sum.split_asm option.split_asm)
  then show "conn (ap_world a) = Idle" "pragma_fk (ap_world a)" "integrity (wdb (ap_world a))"
    "log_sound True (wdb (ap_world a))"
    using db by (auto simp: a stored_sound_def integrity_empty log_sound_empty split: option.split)
  show "hub_ok (ap_hub a)" by (simp add: a hub_ok_def new_broker_def)
qed

definition no_files :: "string \<Rightarrow> string + database option" where
  "no_files path = Inr None"

lemma no_files_sound: "stored_sound no_files"
  by (simp add: stored_sound_def no_files_def)

definition fresh_app :: app where
  "fresh_app = \<lparr>ap_world = \<lparr>wdb = empty_database, conn = Idle, pragma_fk = True, calls = 3,
     sync_total = (\<lambda>k. 0), sync_errors = (\<lambda>k. 0), sync_duration = []\<rparr>, ap_hub = \<lparr>hub_broker = new_broker, live = []\<rparr>\<rparr>"

lemma fresh_start: "start no_files calm (\<lambda>k. []) = Inr fresh_app"
  by (simp add: start_def init_db_def no_files_def fresh_app_def)

text \<open>An order for a customer that does not exist.\<close>

definition orphan_request :: request where
  "orphan_request = (sample_request ''POST'' ''/api/v1/sync'' ''key'')\<lparr>rq_json := sync_json ''orders''
     [JObj [(''order_number'', JStr ''A-1''), (''customer_id'', JNum ''99''), (''status'', JStr ''paid''), (''amount'', JNum ''5'')]]\<rparr>"

text \<open>However the service runs on from its start, through requests, resolvers and subscriptions in any
  order and with any faults of the driver: while the pool has not replaced the connection, the
  database is consistent.\<close>

theorem service_stays_consistent:
  assumes "struct_validator (validate E)" and "start open E getenv = Inr a" and "stored_sound open"
    and "reachable E tok a b" and "pragma_fk (ap_world b)"
  shows "integrity (wdb (ap_world b))"
proof -
  have "consistent.app_ok a"
    using start_world [OF assms(2,3)] by (simp add: consistent.app_ok_def enforced_def)
  then have "consistent.app_ok b" by (rule consistent.reachable_ok [OF assms(1) _ assms(4)])
  then show ?thesis using assms(5) by (simp add: consistent.app_ok_def enforced_def)
qed

theorem service_stays_consistent_witness:
  "integrity (wdb (ap_world fresh_app))"
  by (rule service_stays_consistent [OF calm_validator fresh_start no_files_sound reachable.here])
     (simp add: fresh_app_def)

text \<open>In every state the service reaches, each log entry is PENDING_RETRY, FAILED or SUCCESSFUL, its reason
  has at most 255 bytes, and it counts no retries: nothing ever moves that number.\<close>

theorem log_stays_sound:
  assumes "struct_validator (validate E)" and "start open E getenv = Inr a" and "stored_sound open"
    and "reachable E tok a b" and "tlookup k (sync_history (wdb (ap_world b))) = Some r"
  shows "entry_sound r"
proof -
  have "logs.app_ok a"
    using start_world [OF assms(2,3)] by (simp add: logs.app_ok_def)
  then have "logs.app_ok b" by (rule logs.reachable_ok [OF assms(1) _ assms(4)])
  then show ?thesis using assms(5) by (simp add: logs.app_ok_def log_sound_def)
qed

lemma orphan_refused:
  "(case serve calm ''key'' orphan_request (ap_world fresh_app) of
      Some (Answer resp, w) \<Rightarrow> code resp = 500 \<and> map fst (rows (sync_history (wdb w))) = [1] | _ \<Rightarrow> False)"
  by code_simp

theorem log_stays_sound_witness:
  "\<exists>b r. reachable calm ''key'' fresh_app b \<and> tlookup 1 (sync_history (wdb (ap_world b))) = Some r \<and> entry_sound r"
proof -
  obtain resp w where run: "serve calm ''key'' orphan_request (ap_world fresh_app) = Some (Answer resp, w)"
    and rows: "map fst (rows (sync_history (wdb w))) = [1]"
    using orphan_refused by (auto split: option.split_asm prod.split_asm reply.split_asm)
  have reach: "reachable calm ''key'' fresh_app (fresh_app\<lparr>ap_world := w\<rparr>)"
    by (rule reachable.more [OF reachable.here app_step.rest [where q = orphan_request]]) (use run in simp)
  obtain r where r: "tlookup 1 (sync_history (wdb (ap_world (fresh_app\<lparr>ap_world := w\<rparr>)))) = Some r"
    using rows by (auto simp: tlookup_def)
  show ?thesis using log_stays_sound [OF calm_validator fresh_start no_files_sound reach r] reach r by blast
qed

text \<open>In every state the service reaches the connection is free and no broker panics, so each REST request
  is answered and each GraphQL mutation and query returns.\<close>

theorem service_stays_available:
  assumes "struct_validator (validate E)" and "start open E getenv = Inr a" and "stored_sound open"
    and "reachable E tok a b"
  shows "conn (ap_world b) = Idle \<and> serve E tok' q (ap_world b) \<noteq> None
    \<and> create_employee E d (ap_world b) (hub_broker (ap_hub b)) \<noteq> None \<and> update_employee E k u (ap_world b) \<noteq> None
    \<and> delete_employee E k (ap_world b) \<noteq> None \<and> get_employee_by_id E k (ap_world b) \<noteq> None
    \<and> employees_query E offset limit (ap_world b) \<noteq> None \<and> search_employees E s offset limit (ap_world b) \<noteq> None"
proof -
  have "logs.app_ok a" using start_world [OF assms(2,3)] by (simp add: logs.app_ok_def)
  then have ok: "logs.app_ok b" by (rule logs.reachable_ok [OF assms(1) _ assms(4)])
  then have w: "conn (ap_world b) = Idle" and h: "hub_ok (ap_hub b)" by (simp_all add: logs.app_ok_def)
  show ?thesis
    using w serve_idle [OF assms(1) w, of tok' q] create_answers [OF w hub_publishes [OF h], of E d]
      update_answers [OF w, of E k u] delete_employee_answers [OF w, of E k] get_employee_answers [OF w, of E k]
      list_query_answers [OF w, of E "\<lambda>x. True" offset limit]
      list_query_answers [OF w, of E "search_match (search_pattern E s)" offset limit]
    by (auto simp: employees_query_def search_employees_def)
qed

theorem service_stays_available_witness:
  "serve calm ''key'' (sample_request ''GET'' ''/api/v1/sync/stats'' ''key'') (ap_world fresh_app) \<noteq> None"
  using service_stays_available [OF calm_validator fresh_start no_files_sound reachable.here] by blast

lemma orphan_accepted:
  "(case serve calm ''key'' orphan_request (conn_recycled (ap_world fresh_app)) of
      Some (Answer resp, w) \<Rightarrow> code resp = 200 \<and> map (\<lambda>(k, r). (k, o_customer_id r)) (rows (orders (wdb w))) = [(1, 99)]
        \<and> rows (customers (wdb w)) = []
    | _ \<Rightarrow> False)"
  by code_simp

text \<open>C32: The pragma that enforces foreign keys is set once, on the first connection. When the pool has
  replaced that connection, an order for a customer that does not exist is accepted: the service
  reaches states that are not consistent.\<close>

theorem recycled_connection_breaks_integrity:
  "\<exists>b. reachable calm ''key'' fresh_app b \<and> \<not> integrity (wdb (ap_world b))"
proof -
  obtain resp w where run: "serve calm ''key'' orphan_request (conn_recycled (ap_world fresh_app)) = Some (Answer resp, w)"
    and rows: "map (\<lambda>(k, r). (k, o_customer_id r)) (rows (orders (wdb w))) = [(1, 99)]" "rows (customers (wdb w)) = []"
    using orphan_accepted by (auto split: option.split_asm prod.split_asm reply.split_asm)
  let ?a = "fresh_app\<lparr>ap_world := conn_recycled (ap_world fresh_app)\<rparr>"
  have "reachable calm ''key'' fresh_app ?a" by (rule reachable.more [OF reachable.here app_step.recycle])
  moreover have "app_step calm ''key'' ?a (?a\<lparr>ap_world := w\<rparr>)"
    by (rule app_step.rest [where q = orphan_request]) (use run in simp)
  ultimately have reach: "reachable calm ''key'' fresh_app (?a\<lparr>ap_world := w\<rparr>)" by (rule reachable.more)
  obtain r where r: "rows (orders (wdb w)) = [(1, r)]" "o_customer_id r = 99" using rows(1) by auto
  have "tlookup 1 (orders (wdb w)) = Some r" "tlookup 99 (customers (wdb w)) = None"
    using r rows(2) by (simp_all add: tlookup_def)
  then have "\<not> orders_refer (wdb w)" using r(2) by (force simp: orders_refer_def)
  then have "\<not> integrity (wdb w)" by (simp add: integrity_def)
  then show ?thesis using reach by (intro exI [of _ "?a\<lparr>ap_world := w\<rparr>"]) simp
qed

end
