(* ===== verification/Graphql_Runtime.thy ===== *)
theory Graphql_Runtime
  imports Service
begin

text \<open>
  What \<open>graph/generated.go\<close> takes from the gqlgen runtime, gathered in one record that the
  generated functions receive, and the contract they rely on. Go's \<open>any\<close> values are the JSON values
  they are decoded from; a Go map holds a key once. A context is the path of the field it belongs to.

  The generated functions are generic in the type of a resolver's value, which \<open>ResolveField\<close> only
  hands on to \<open>marshal\<close>; so \<open>rt_resolve\<close> takes resolvers whose value is already given to it.
\<close>

section \<open>Computations\<close>

datatype step = At string | Nth nat

type_synonym path = "step list"

record gql =
  g_app :: app
  g_errors :: "(path \<times> string) list"

text \<open>\<open>Some (Some x, s)\<close> returns \<open>x\<close>, \<open>Some (None, s)\<close> panics, \<open>None\<close> never comes back.\<close>

type_synonym 'a run = "gql \<Rightarrow> ('a option \<times> gql) option"

definition gret :: "'a \<Rightarrow> 'a run" where
  "gret x s = Some (Some x, s)"

definition gpanic :: "'a run" where
  "gpanic s = Some (None, s)"

definition gbind :: "'a run \<Rightarrow> ('a \<Rightarrow> 'b run) \<Rightarrow> 'b run" where
  "gbind m f s = (case m s of
      None \<Rightarrow> None
    | Some (None, s') \<Rightarrow> Some (None, s')
    | Some (Some x, s') \<Rightarrow> f x s')"

definition add_error :: "path \<Rightarrow> string \<Rightarrow> gql \<Rightarrow> gql" where
  "add_error ctx e s = s\<lparr>g_errors := g_errors s @ [(ctx, e)]\<rparr>"

definition gerror :: "path \<Rightarrow> string \<Rightarrow> unit run" where
  "gerror ctx e s = Some (Some (), add_error ctx e s)"

text \<open>A deferred \<open>recover\<close>: a panic becomes the error \<open>e\<close> and the result \<open>x\<close>.\<close>

definition recovered :: "string \<Rightarrow> path \<Rightarrow> 'a \<Rightarrow> 'a run \<Rightarrow> 'a run" where
  "recovered e ctx x m s = (case m s of
      None \<Rightarrow> None
    | Some (None, s') \<Rightarrow> Some (Some x, add_error ctx e s')
    | Some (Some y, s') \<Rightarrow> Some (Some y, s'))"

fun map_run :: "('b \<Rightarrow> 'a run) \<Rightarrow> 'b list \<Rightarrow> 'a list run" where
  "map_run f [] = gret []"
| "map_run f (x # xs) = gbind (f x) (\<lambda>y. gbind (map_run f xs) (\<lambda>ys. gret (y # ys)))"

lemma recovered_simps [simp]:
  "recovered e ctx x (gret y) = gret y"
  "recovered e ctx x gpanic s = Some (Some x, add_error ctx e s)"
  by (simp_all add: recovered_def gret_def gpanic_def fun_eq_iff)

lemma gbind_gret [simp]: "gbind (gret x) f = f x"
  by (simp add: gbind_def gret_def fun_eq_iff)

lemma gbind_gpanic [simp]: "gbind gpanic f = gpanic"
  by (simp add: gbind_def gpanic_def fun_eq_iff)

lemma gbind_gerror [simp]: "gbind (gerror ctx e) f = (\<lambda>s. f () (add_error ctx e s))"
  by (simp add: gbind_def gerror_def fun_eq_iff)

lemma gbind_assoc: "gbind (gbind m f) h = gbind m (\<lambda>x. gbind (f x) h)"
  by (simp add: gbind_def fun_eq_iff split: option.splits prod.splits)

lemma gbind_Some: "m s = Some (Some x, s') \<Longrightarrow> gbind m f s = f x s'"
  by (simp add: gbind_def)

lemma gbind_SomeD: "gbind m f s = Some (r, s') \<Longrightarrow>
    m s = Some (None, s') \<and> r = None \<or> (\<exists>x s1. m s = Some (Some x, s1) \<and> f x s1 = Some (r, s'))"
  by (auto simp: gbind_def split: option.splits prod.splits)

lemma add_error_simps [simp]:
  "g_app (add_error ctx e s) = g_app s" "g_errors (add_error ctx e s) = g_errors s @ [(ctx, e)]"
  by (simp_all add: add_error_def)

section \<open>Marshalled values, fields and their contexts\<close>

text \<open>\<open>Missing\<close> is Go's nil interface, \<open>Null\<close> is \<open>graphql.Null\<close>.\<close>

datatype marshaler =
    Missing
  | Null
  | Literal string
  | Field_Set "(string \<times> marshaler) list"
  | Slice "marshaler list"

text \<open>Writing a value that holds Go's nil somewhere calls a method on it.\<close>

fun complete :: "marshaler \<Rightarrow> bool" where
  "complete Missing = False"
| "complete (Field_Set ms) = list_all (\<lambda>m. complete (snd m)) ms"
| "complete (Slice vs) = list_all complete vs"
| "complete v = True"

record 's cfield =
  cf_name :: string
  cf_alias :: string
  cf_sel :: 's
  cf_args :: "string \<Rightarrow> json option"

datatype arg =
    A_Create create_employee_input
  | A_Update update_employee_input
  | A_Long int
  | A_Int "int option"
  | A_String string
  | A_Bool bool
  | A_Optional_Bool "bool option"

datatype child =
    Child_Employee
  | Child_Directive
  | Child_EnumValue
  | Child_Field
  | Child_InputValue
  | Child_Schema
  | Child_Type
  | No_Child string

record 's fctx =
  fc_object :: string
  fc_field :: "'s cfield"
  fc_is_method :: bool
  fc_is_resolver :: bool
  fc_args :: "(string \<times> arg) list"
  fc_child :: child

definition in_field :: "path \<Rightarrow> 's cfield \<Rightarrow> path" where
  "in_field ctx field = ctx @ [At (cf_alias field)]"

type_synonym 's init = "path \<Rightarrow> 's cfield \<Rightarrow> ('s fctx \<times> string option) run"
type_synonym 's marshal = "path \<Rightarrow> 's \<Rightarrow> marshaler run"

section \<open>The runtime\<close>

text \<open>
  \<^item> \<open>rt_collect\<close>: \<open>CollectFields\<close>, the fields of a selection set that apply to the given types.
  \<^item> \<open>rt_resolve\<close>: \<open>ResolveField\<close>; \<open>rt_stream\<close>: \<open>ResolveFieldStream\<close>, whose value is the function
    that waits for the next event.
  \<^item> \<open>rt_scalar_context\<close>: \<open>NewScalarFieldContext\<close>; \<open>rt_arg\<close>: the argument \<open>ProcessArgField\<close> hands on,
    with its context; \<open>rt_on_path\<close>: \<open>ErrorOnPath\<close>; \<open>rt_recover\<close>: the error a recovered panic becomes.
  \<^item> \<open>rt_unmarshal_*\<close>, \<open>rt_marshal_*\<close>: the scalars.
  \<^item> \<open>rt_slice\<close>: \<open>MarshalSliceConcurrently\<close>; \<open>rt_root\<close>: \<open>RootResolverMiddleware\<close>; \<open>rt_schedule\<close>: the
    order in which the \<open>n\<close> delayed fields of a set are run by \<open>Dispatch\<close>.
\<close>

record 's runtime =
  rt_collect :: "'s \<Rightarrow> string list \<Rightarrow> 's cfield list"
  rt_resolve :: "path \<Rightarrow> 's cfield \<Rightarrow> 's init \<Rightarrow> (path \<Rightarrow> 's fctx \<Rightarrow> 's marshal answer run) \<Rightarrow> bool \<Rightarrow> bool \<Rightarrow> marshaler run"
  rt_stream :: "path \<Rightarrow> 's cfield \<Rightarrow> 's init \<Rightarrow> (path \<Rightarrow> 's fctx \<Rightarrow> nat answer run)
      \<Rightarrow> (path \<Rightarrow> 's \<Rightarrow> employee option \<Rightarrow> marshaler run) \<Rightarrow> bool \<Rightarrow> bool \<Rightarrow> marshaler run option run"
  rt_scalar_context :: "string \<Rightarrow> 's cfield \<Rightarrow> bool \<Rightarrow> bool \<Rightarrow> string \<Rightarrow> 's fctx \<times> string option"
  rt_arg :: "path \<Rightarrow> (string \<Rightarrow> json option) \<Rightarrow> string \<Rightarrow> (path \<times> json) option"
  rt_on_path :: "path \<Rightarrow> string option \<Rightarrow> string option"
  rt_recover :: string
  rt_has_error :: "path \<Rightarrow> (path \<times> string) list \<Rightarrow> bool"
  rt_unmarshal_int64 :: "json \<Rightarrow> int \<times> string option"
  rt_unmarshal_int :: "json \<Rightarrow> int \<times> string option"
  rt_unmarshal_string :: "json \<Rightarrow> string \<times> string option"
  rt_unmarshal_boolean :: "json \<Rightarrow> bool \<times> string option"
  rt_marshal_int64 :: "int \<Rightarrow> marshaler"
  rt_marshal_string :: "string \<Rightarrow> marshaler"
  rt_marshal_boolean :: "bool \<Rightarrow> marshaler"
  rt_marshal_time :: "gtime \<Rightarrow> marshaler"
  rt_slice :: "path \<Rightarrow> nat \<Rightarrow> (path \<Rightarrow> nat \<Rightarrow> marshaler run) \<Rightarrow> marshaler list run"
  rt_root :: "(marshaler \<times> nat) run \<Rightarrow> (marshaler \<times> nat) run"
  rt_schedule :: "nat \<Rightarrow> nat list"

text \<open>\<open>ResolveField\<close> and \<open>ProcessArgField\<close> at the type of the value.\<close>

definition resolve_field ::
  "'s runtime \<Rightarrow> path \<Rightarrow> 's cfield \<Rightarrow> 's init \<Rightarrow> (path \<Rightarrow> 's fctx \<Rightarrow> 'a answer run)
     \<Rightarrow> (path \<Rightarrow> 's \<Rightarrow> 'a \<Rightarrow> marshaler run) \<Rightarrow> bool \<Rightarrow> bool \<Rightarrow> marshaler run" where
  "resolve_field rt ctx field init resolver marshal recover_panic non_null =
     rt_resolve rt ctx field init
       (\<lambda>ctx fc. gbind (resolver ctx fc) (\<lambda>r. gret (case r of Inl e \<Rightarrow> Inl e | Inr v \<Rightarrow> Inr (\<lambda>ctx sel. marshal ctx sel v))))
       recover_panic non_null"

text \<open>The channel a subscription reads from.\<close>

definition channel_of :: "nat \<Rightarrow> gql \<Rightarrow> employee channel" where
  "channel_of ch s = chans (hub_broker (ap_hub (g_app s))) ! ch"

definition set_channel :: "nat \<Rightarrow> employee channel \<Rightarrow> gql \<Rightarrow> gql" where
  "set_channel ch c s = (let a = g_app s; h = ap_hub a; b = hub_broker h in
     s\<lparr>g_app := a\<lparr>ap_hub := h\<lparr>hub_broker := b\<lparr>chans := (chans b)[ch := c]\<rparr>\<rparr>\<rparr>\<rparr>)"

text \<open>A Go function that returns a value and an error; \<open>None\<close> panics.\<close>

type_synonym 'a decoded = "('a \<times> string option) option"

definition process_arg ::
  "'s runtime \<Rightarrow> path \<Rightarrow> (string \<Rightarrow> json option) \<Rightarrow> string \<Rightarrow> 'a \<Rightarrow> (path \<Rightarrow> json \<Rightarrow> 'a decoded) \<Rightarrow> 'a decoded" where
  "process_arg rt ctx rawArgs name zero mapper =
     (case rt_arg rt ctx rawArgs name of None \<Rightarrow> Some (zero, None) | Some (ctx', v) \<Rightarrow> mapper ctx' v)"

section \<open>The contract\<close>

locale gqlgen =
  fixes rt :: "'s runtime"
  assumes resolve_bad_context:
      "init ctx field s = Some (Some (fc, Some e), s1) \<Longrightarrow>
         rt_resolve rt ctx field init resolver True nn s = Some (Some Null, s1)"
    and resolve_runs:
      "init ctx field s = Some (Some (fc, None), s1) \<Longrightarrow>
         rt_resolve rt ctx field init resolver True nn s =
           recovered (rt_recover rt) (in_field ctx field) Null
             (gbind (resolver (in_field ctx field) fc) (\<lambda>r. case r of
                Inl e \<Rightarrow> gbind (gerror (in_field ctx field) (error_text e)) (\<lambda>u. gret Null)
              | Inr k \<Rightarrow> k (in_field ctx field) (cf_sel field))) s1"
    and scalar_context: "snd (rt_scalar_context rt ob field im ir e) = None"
    and arg_found: "rt_arg rt ctx raw name = map_option (Pair (ctx @ [At name])) (raw name)"
    and no_error_on_path: "rt_on_path rt ctx None = None"
    and error_on_path: "rt_on_path rt ctx (Some e) \<noteq> None"
    and scalars_not_null:
      "rt_marshal_int64 rt num \<noteq> Null" "rt_marshal_string rt t \<noteq> Null" "rt_marshal_boolean rt b \<noteq> Null"
    and scalars_complete:
      "complete (rt_marshal_int64 rt num)" "complete (rt_marshal_string rt t)" "complete (rt_marshal_boolean rt b)"
      "complete (rt_marshal_time rt tm)"
    and slice_runs:
      "(\<And>i. i < n \<Longrightarrow> f (ctx @ [Nth i]) i s = Some (Some (m i), s)) \<Longrightarrow>
         rt_slice rt ctx n f s = Some (Some (map m [0..<n]), s)"
    and slice_frame:
      "(\<And>i s r s'. i < n \<Longrightarrow> f (ctx @ [Nth i]) i s = Some (r, s') \<Longrightarrow> g_app s' = g_app s) \<Longrightarrow>
         rt_slice rt ctx n f s = Some (rs, s') \<Longrightarrow> g_app s' = g_app s"
    and stream_runs:
      "ini ctx field s = Some (Some (fc, None), s1) \<Longrightarrow>
         res (in_field ctx field) fc s1 = Some (Some (Inr ch), s2) \<Longrightarrow>
         \<exists>next. rt_stream rt ctx field ini res marshal True True s = Some (Some (Some next), s2)
           \<and> (\<forall>s e c. receive (channel_of ch s) = Some (e, c) \<longrightarrow>
               next s = gbind (marshal (in_field ctx field) (cf_sel field) (Some e))
                 (\<lambda>v. gret (Field_Set [(cf_alias field, v)])) (set_channel ch c s))"
    and no_root_middleware: "rt_root rt act = act"
    and schedule_complete: "distinct (rt_schedule rt n)" "set (rt_schedule rt n) = {..<n}"
begin

lemma resolve_field_bad_context:
  "init ctx field s = Some (Some (fc, Some e), s1) \<Longrightarrow>
     resolve_field rt ctx field init resolver marshal True nn s = Some (Some Null, s1)"
  unfolding resolve_field_def by (rule resolve_bad_context)

lemma resolve_field_runs:
  assumes "init ctx field s = Some (Some (fc, None), s1)"
  shows "resolve_field rt ctx field init resolver marshal True nn s =
      recovered (rt_recover rt) (in_field ctx field) Null
        (gbind (resolver (in_field ctx field) fc) (\<lambda>r. case r of
           Inl e \<Rightarrow> gbind (gerror (in_field ctx field) (error_text e)) (\<lambda>u. gret Null)
         | Inr v \<Rightarrow> marshal (in_field ctx field) (cf_sel field) v)) s1"
proof -
  have eq: "(\<lambda>r. gbind (gret (case r of Inl e \<Rightarrow> Inl e | Inr v \<Rightarrow> Inr (\<lambda>ctx sel. marshal ctx sel v)))
        (\<lambda>r. case r of Inl e \<Rightarrow> gbind (gerror (in_field ctx field) (error_text e)) (\<lambda>u. gret Null)
           | Inr k \<Rightarrow> k (in_field ctx field) (cf_sel field)))
    = (\<lambda>r. case r of Inl e \<Rightarrow> gbind (gerror (in_field ctx field) (error_text e)) (\<lambda>u. gret Null)
           | Inr v \<Rightarrow> marshal (in_field ctx field) (cf_sel field) v)"
    by (rule ext) (simp split: sum.split)
  show ?thesis
    unfolding resolve_field_def resolve_runs [where init = init, OF assms] by (simp only: gbind_assoc eq)
qed

lemma process_arg_simp:
  "process_arg rt ctx raw name zero mapper =
     (case raw name of None \<Rightarrow> Some (zero, None) | Some v \<Rightarrow> mapper (ctx @ [At name]) v)"
  by (simp add: process_arg_def arg_found split: option.split)

end

end
