(* ===== verification/Graphql_Input.thy ===== *)
theory Graphql_Input
  imports Graphql_Runtime
begin

text \<open>
  The input half of \<open>graph/generated.go\<close>: scalars, the two input objects and the arguments of each
  root field. A function returns a value and an error, as in Go; on an error the value is what had
  been read so far. Reading an input object that is neither null nor a map panics (a failed type
  assertion).
\<close>

section \<open>Scalars\<close>

definition on_path :: "'s runtime \<Rightarrow> path \<Rightarrow> 'a \<times> string option \<Rightarrow> 'a \<times> string option" where
  "on_path rt ctx r = (case r of (res, err) \<Rightarrow> (res, rt_on_path rt ctx err))"

definition unmarshalNLong :: "'s runtime \<Rightarrow> path \<Rightarrow> json \<Rightarrow> int \<times> string option" where
  "unmarshalNLong rt ctx v = on_path rt ctx (rt_unmarshal_int64 rt v)"

definition unmarshalNString :: "'s runtime \<Rightarrow> path \<Rightarrow> json \<Rightarrow> string \<times> string option" where
  "unmarshalNString rt ctx v = on_path rt ctx (rt_unmarshal_string rt v)"

definition unmarshalOInt :: "'s runtime \<Rightarrow> path \<Rightarrow> json \<Rightarrow> int option \<times> string option" where
  "unmarshalOInt rt ctx v =
     (if v = JNull then (None, None)
      else (case rt_unmarshal_int rt v of (res, err) \<Rightarrow> (Some res, rt_on_path rt ctx err)))"

definition unmarshalOString :: "'s runtime \<Rightarrow> path \<Rightarrow> json \<Rightarrow> string option \<times> string option" where
  "unmarshalOString rt ctx v =
     (if v = JNull then (None, None)
      else (case rt_unmarshal_string rt v of (res, err) \<Rightarrow> (Some res, rt_on_path rt ctx err)))"

definition unmarshalOBoolean :: "'s runtime \<Rightarrow> path \<Rightarrow> json \<Rightarrow> bool \<times> string option" where
  "unmarshalOBoolean rt ctx v = on_path rt ctx (rt_unmarshal_boolean rt v)"

definition unmarshalOBoolean_pointer :: "'s runtime \<Rightarrow> path \<Rightarrow> json \<Rightarrow> bool option \<times> string option" where
  "unmarshalOBoolean_pointer rt ctx v =
     (if v = JNull then (None, None)
      else (case rt_unmarshal_boolean rt v of (res, err) \<Rightarrow> (Some res, rt_on_path rt ctx err)))"

section \<open>Input objects\<close>

text \<open>\<open>it.X = data\<close> after \<open>if err != nil \{ return it, err \}\<close>.\<close>

definition assign :: "('d \<Rightarrow> 'a \<Rightarrow> 'a) \<Rightarrow> 'a \<Rightarrow> 'd \<times> string option \<Rightarrow> 'a \<times> string option" where
  "assign upd it r = (case r of (data, None) \<Rightarrow> (upd data it, None) | (data, Some err) \<Rightarrow> (it, Some err))"

text \<open>The loop over \<open>fieldsInOrder\<close>: a field that is not in the map is skipped, an error ends it.\<close>

fun fields_in_order ::
  "('a \<Rightarrow> string \<Rightarrow> json \<Rightarrow> 'a \<times> string option) \<Rightarrow> (string \<Rightarrow> json option) \<Rightarrow> string list \<Rightarrow> 'a \<Rightarrow> 'a \<times> string option" where
  "fields_in_order put asMap [] it = (it, None)"
| "fields_in_order put asMap (k # ks) it =
     (case asMap k of
        None \<Rightarrow> fields_in_order put asMap ks it
      | Some v \<Rightarrow> (case put it k v of
            (it', None) \<Rightarrow> fields_in_order put asMap ks it'
          | (it', Some err) \<Rightarrow> (it', Some err)))"

definition zero_create :: create_employee_input where
  "zero_create = \<lparr>ci_id = 0, ci_employee_id = [], ci_first_name = [], ci_last_name = [], ci_email = [],
     ci_middle_name = None, ci_company = None, ci_job_title = None\<rparr>"

definition create_fields :: "string list" where
  "create_fields = [''id'', ''employeeId'', ''firstName'', ''lastName'', ''email'', ''middleName'', ''company'', ''jobTitle'']"

definition put_create :: "'s runtime \<Rightarrow> path \<Rightarrow> create_employee_input \<Rightarrow> string \<Rightarrow> json \<Rightarrow> create_employee_input \<times> string option" where
  "put_create rt ctx it k v =
     (let ctx = ctx @ [At k] in
      if k = ''id'' then assign (\<lambda>d it. it\<lparr>ci_id := d\<rparr>) it (unmarshalNLong rt ctx v)
      else if k = ''employeeId'' then assign (\<lambda>d it. it\<lparr>ci_employee_id := d\<rparr>) it (unmarshalNString rt ctx v)
      else if k = ''firstName'' then assign (\<lambda>d it. it\<lparr>ci_first_name := d\<rparr>) it (unmarshalNString rt ctx v)
      else if k = ''lastName'' then assign (\<lambda>d it. it\<lparr>ci_last_name := d\<rparr>) it (unmarshalNString rt ctx v)
      else if k = ''email'' then assign (\<lambda>d it. it\<lparr>ci_email := d\<rparr>) it (unmarshalNString rt ctx v)
      else if k = ''middleName'' then assign (\<lambda>d it. it\<lparr>ci_middle_name := d\<rparr>) it (unmarshalOString rt ctx v)
      else if k = ''company'' then assign (\<lambda>d it. it\<lparr>ci_company := d\<rparr>) it (unmarshalOString rt ctx v)
      else if k = ''jobTitle'' then assign (\<lambda>d it. it\<lparr>ci_job_title := d\<rparr>) it (unmarshalOString rt ctx v)
      else (it, None))"

definition unmarshalInputCreateEmployeeInput :: "'s runtime \<Rightarrow> path \<Rightarrow> json \<Rightarrow> create_employee_input decoded" where
  "unmarshalInputCreateEmployeeInput rt ctx obj =
     (case obj of
        JNull \<Rightarrow> Some (zero_create, None)
      | JObj kvs \<Rightarrow> Some (fields_in_order (put_create rt ctx) (map_of kvs) create_fields zero_create)
      | _ \<Rightarrow> None)"

definition zero_update :: update_employee_input where
  "zero_update = \<lparr>ui_first_name = None, ui_last_name = None, ui_email = None,
     ui_middle_name = None, ui_company = None, ui_job_title = None\<rparr>"

definition update_fields :: "string list" where
  "update_fields = [''firstName'', ''lastName'', ''email'', ''middleName'', ''company'', ''jobTitle'']"

definition put_update :: "'s runtime \<Rightarrow> path \<Rightarrow> update_employee_input \<Rightarrow> string \<Rightarrow> json \<Rightarrow> update_employee_input \<times> string option" where
  "put_update rt ctx it k v =
     (let ctx = ctx @ [At k]; data = unmarshalOString rt ctx v in
      if k = ''firstName'' then assign (\<lambda>d it. it\<lparr>ui_first_name := d\<rparr>) it data
      else if k = ''lastName'' then assign (\<lambda>d it. it\<lparr>ui_last_name := d\<rparr>) it data
      else if k = ''email'' then assign (\<lambda>d it. it\<lparr>ui_email := d\<rparr>) it data
      else if k = ''middleName'' then assign (\<lambda>d it. it\<lparr>ui_middle_name := d\<rparr>) it data
      else if k = ''company'' then assign (\<lambda>d it. it\<lparr>ui_company := d\<rparr>) it data
      else if k = ''jobTitle'' then assign (\<lambda>d it. it\<lparr>ui_job_title := d\<rparr>) it data
      else (it, None))"

definition unmarshalInputUpdateEmployeeInput :: "'s runtime \<Rightarrow> path \<Rightarrow> json \<Rightarrow> update_employee_input decoded" where
  "unmarshalInputUpdateEmployeeInput rt ctx obj =
     (case obj of
        JNull \<Rightarrow> Some (zero_update, None)
      | JObj kvs \<Rightarrow> Some (fields_in_order (put_update rt ctx) (map_of kvs) update_fields zero_update)
      | _ \<Rightarrow> None)"

definition unmarshalNCreateEmployeeInput :: "'s runtime \<Rightarrow> path \<Rightarrow> json \<Rightarrow> create_employee_input decoded" where
  "unmarshalNCreateEmployeeInput rt ctx v = map_option (on_path rt ctx) (unmarshalInputCreateEmployeeInput rt ctx v)"

definition unmarshalNUpdateEmployeeInput :: "'s runtime \<Rightarrow> path \<Rightarrow> json \<Rightarrow> update_employee_input decoded" where
  "unmarshalNUpdateEmployeeInput rt ctx v = map_option (on_path rt ctx) (unmarshalInputUpdateEmployeeInput rt ctx v)"

section \<open>Arguments\<close>

type_synonym args = "(string \<times> arg) list"

text \<open>One argument after the other: \<open>args[name] = arg\<close>, or \<open>return nil, err\<close>.\<close>

definition next_arg :: "'a decoded \<Rightarrow> ('a \<Rightarrow> args decoded) \<Rightarrow> args decoded" where
  "next_arg r k = (case r of
      None \<Rightarrow> None
    | Some (x, Some err) \<Rightarrow> Some ([], Some err)
    | Some (x, None) \<Rightarrow> k x)"

definition field_Mutation_createEmployee_args :: "'s runtime \<Rightarrow> path \<Rightarrow> (string \<Rightarrow> json option) \<Rightarrow> args decoded" where
  "field_Mutation_createEmployee_args rt ctx rawArgs =
     next_arg (process_arg rt ctx rawArgs ''data'' zero_create (unmarshalNCreateEmployeeInput rt))
       (\<lambda>arg0. Some ([(''data'', A_Create arg0)], None))"

definition field_Mutation_deleteEmployee_args :: "'s runtime \<Rightarrow> path \<Rightarrow> (string \<Rightarrow> json option) \<Rightarrow> args decoded" where
  "field_Mutation_deleteEmployee_args rt ctx rawArgs =
     next_arg (process_arg rt ctx rawArgs ''id'' 0 (\<lambda>ctx v. Some (unmarshalNLong rt ctx v)))
       (\<lambda>arg0. Some ([(''id'', A_Long arg0)], None))"

definition field_Mutation_updateEmployee_args :: "'s runtime \<Rightarrow> path \<Rightarrow> (string \<Rightarrow> json option) \<Rightarrow> args decoded" where
  "field_Mutation_updateEmployee_args rt ctx rawArgs =
     next_arg (process_arg rt ctx rawArgs ''id'' 0 (\<lambda>ctx v. Some (unmarshalNLong rt ctx v)))
       (\<lambda>arg0. next_arg (process_arg rt ctx rawArgs ''data'' zero_update (unmarshalNUpdateEmployeeInput rt))
         (\<lambda>arg1. Some ([(''id'', A_Long arg0), (''data'', A_Update arg1)], None)))"

definition field_Query_employee_args :: "'s runtime \<Rightarrow> path \<Rightarrow> (string \<Rightarrow> json option) \<Rightarrow> args decoded" where
  "field_Query_employee_args rt ctx rawArgs =
     next_arg (process_arg rt ctx rawArgs ''id'' 0 (\<lambda>ctx v. Some (unmarshalNLong rt ctx v)))
       (\<lambda>arg0. Some ([(''id'', A_Long arg0)], None))"

definition field_Query_employees_args :: "'s runtime \<Rightarrow> path \<Rightarrow> (string \<Rightarrow> json option) \<Rightarrow> args decoded" where
  "field_Query_employees_args rt ctx rawArgs =
     next_arg (process_arg rt ctx rawArgs ''offset'' None (\<lambda>ctx v. Some (unmarshalOInt rt ctx v)))
       (\<lambda>arg0. next_arg (process_arg rt ctx rawArgs ''limit'' None (\<lambda>ctx v. Some (unmarshalOInt rt ctx v)))
         (\<lambda>arg1. Some ([(''offset'', A_Int arg0), (''limit'', A_Int arg1)], None)))"

definition field_Query_searchEmployees_args :: "'s runtime \<Rightarrow> path \<Rightarrow> (string \<Rightarrow> json option) \<Rightarrow> args decoded" where
  "field_Query_searchEmployees_args rt ctx rawArgs =
     next_arg (process_arg rt ctx rawArgs ''search'' [] (\<lambda>ctx v. Some (unmarshalNString rt ctx v)))
       (\<lambda>arg0. next_arg (process_arg rt ctx rawArgs ''offset'' None (\<lambda>ctx v. Some (unmarshalOInt rt ctx v)))
         (\<lambda>arg1. next_arg (process_arg rt ctx rawArgs ''limit'' None (\<lambda>ctx v. Some (unmarshalOInt rt ctx v)))
           (\<lambda>arg2. Some ([(''search'', A_String arg0), (''offset'', A_Int arg1), (''limit'', A_Int arg2)], None))))"

end
