(* ===== verification/Graphql_Fields.thy ===== *)
theory Graphql_Fields
  imports Graphql_Input
begin

text \<open>
  The output half of \<open>graph/generated.go\<close> below the root: the marshallers of the schema's types, one
  resolver and one field context per field of \<open>Employee\<close>, the object itself and lists of it. A
  non-null type reports a null value once, unless the field has an error already.
\<close>

section \<open>Scalars\<close>

definition null_element :: string where
  "null_element = ''the requested element is null which the schema does not allow''"

definition null_checked :: "'s runtime \<Rightarrow> path \<Rightarrow> marshaler \<Rightarrow> marshaler run" where
  "null_checked rt ctx res s =
     (if res = Null \<and> \<not> rt_has_error rt ctx (g_errors s)
      then gbind (gerror ctx null_element) (\<lambda>u. gret res) s
      else gret res s)"

definition marshalNBoolean :: "'s runtime \<Rightarrow> path \<Rightarrow> 's \<Rightarrow> bool \<Rightarrow> marshaler run" where
  "marshalNBoolean rt ctx sel v = null_checked rt ctx (rt_marshal_boolean rt v)"

definition marshalNLong :: "'s runtime \<Rightarrow> path \<Rightarrow> 's \<Rightarrow> int \<Rightarrow> marshaler run" where
  "marshalNLong rt ctx sel v = null_checked rt ctx (rt_marshal_int64 rt v)"

definition marshalNString :: "'s runtime \<Rightarrow> path \<Rightarrow> 's \<Rightarrow> string \<Rightarrow> marshaler run" where
  "marshalNString rt ctx sel v = null_checked rt ctx (rt_marshal_string rt v)"

definition marshalODateTime :: "'s runtime \<Rightarrow> path \<Rightarrow> 's \<Rightarrow> gtime option \<Rightarrow> marshaler run" where
  "marshalODateTime rt ctx sel v = gret (case v of None \<Rightarrow> Null | Some t \<Rightarrow> rt_marshal_time rt t)"

definition marshalOBoolean :: "'s runtime \<Rightarrow> path \<Rightarrow> 's \<Rightarrow> bool \<Rightarrow> marshaler run" where
  "marshalOBoolean rt ctx sel v = gret (rt_marshal_boolean rt v)"

definition marshalOLong :: "'s runtime \<Rightarrow> path \<Rightarrow> 's \<Rightarrow> int option \<Rightarrow> marshaler run" where
  "marshalOLong rt ctx sel v = gret (case v of None \<Rightarrow> Null | Some n \<Rightarrow> rt_marshal_int64 rt n)"

definition marshalOString :: "'s runtime \<Rightarrow> path \<Rightarrow> 's \<Rightarrow> string option \<Rightarrow> marshaler run" where
  "marshalOString rt ctx sel v = gret (case v of None \<Rightarrow> Null | Some t \<Rightarrow> rt_marshal_string rt t)"

section \<open>The fields of an employee\<close>

text \<open>The definitions of the fields and their contexts.\<close>

named_theorems employee_field_defs

definition fieldContext_Employee_id :: "'s runtime \<Rightarrow> 's cfield \<Rightarrow> 's fctx \<times> string option" where [employee_field_defs]:
  "fieldContext_Employee_id rt field = rt_scalar_context rt ''Employee'' field False False ''field of type Long does not have child fields''"

definition Employee_id :: "'s runtime \<Rightarrow> path \<Rightarrow> 's cfield \<Rightarrow> employee \<Rightarrow> marshaler run" where [employee_field_defs]:
  "Employee_id rt ctx field obj = resolve_field rt ctx field
     (\<lambda>ctx field. gret (fieldContext_Employee_id rt field)) (\<lambda>ctx fc. gret (Inr (g_id obj)))
     (marshalNLong rt) True True"

definition fieldContext_Employee_employeeId :: "'s runtime \<Rightarrow> 's cfield \<Rightarrow> 's fctx \<times> string option" where [employee_field_defs]:
  "fieldContext_Employee_employeeId rt field = rt_scalar_context rt ''Employee'' field False False ''field of type String does not have child fields''"

definition Employee_employeeId :: "'s runtime \<Rightarrow> path \<Rightarrow> 's cfield \<Rightarrow> employee \<Rightarrow> marshaler run" where [employee_field_defs]:
  "Employee_employeeId rt ctx field obj = resolve_field rt ctx field
     (\<lambda>ctx field. gret (fieldContext_Employee_employeeId rt field)) (\<lambda>ctx fc. gret (Inr (g_employee_id obj)))
     (marshalNString rt) True True"

definition fieldContext_Employee_firstName :: "'s runtime \<Rightarrow> 's cfield \<Rightarrow> 's fctx \<times> string option" where [employee_field_defs]:
  "fieldContext_Employee_firstName rt field = rt_scalar_context rt ''Employee'' field False False ''field of type String does not have child fields''"

definition Employee_firstName :: "'s runtime \<Rightarrow> path \<Rightarrow> 's cfield \<Rightarrow> employee \<Rightarrow> marshaler run" where [employee_field_defs]:
  "Employee_firstName rt ctx field obj = resolve_field rt ctx field
     (\<lambda>ctx field. gret (fieldContext_Employee_firstName rt field)) (\<lambda>ctx fc. gret (Inr (g_first_name obj)))
     (marshalNString rt) True True"

definition fieldContext_Employee_middleName :: "'s runtime \<Rightarrow> 's cfield \<Rightarrow> 's fctx \<times> string option" where [employee_field_defs]:
  "fieldContext_Employee_middleName rt field = rt_scalar_context rt ''Employee'' field False False ''field of type String does not have child fields''"

definition Employee_middleName :: "'s runtime \<Rightarrow> path \<Rightarrow> 's cfield \<Rightarrow> employee \<Rightarrow> marshaler run" where [employee_field_defs]:
  "Employee_middleName rt ctx field obj = resolve_field rt ctx field
     (\<lambda>ctx field. gret (fieldContext_Employee_middleName rt field)) (\<lambda>ctx fc. gret (Inr (g_middle_name obj)))
     (marshalOString rt) True False"

definition fieldContext_Employee_lastName :: "'s runtime \<Rightarrow> 's cfield \<Rightarrow> 's fctx \<times> string option" where [employee_field_defs]:
  "fieldContext_Employee_lastName rt field = rt_scalar_context rt ''Employee'' field False False ''field of type String does not have child fields''"

definition Employee_lastName :: "'s runtime \<Rightarrow> path \<Rightarrow> 's cfield \<Rightarrow> employee \<Rightarrow> marshaler run" where [employee_field_defs]:
  "Employee_lastName rt ctx field obj = resolve_field rt ctx field
     (\<lambda>ctx field. gret (fieldContext_Employee_lastName rt field)) (\<lambda>ctx fc. gret (Inr (g_last_name obj)))
     (marshalNString rt) True True"

definition fieldContext_Employee_gender :: "'s runtime \<Rightarrow> 's cfield \<Rightarrow> 's fctx \<times> string option" where [employee_field_defs]:
  "fieldContext_Employee_gender rt field = rt_scalar_context rt ''Employee'' field False False ''field of type String does not have child fields''"

definition Employee_gender :: "'s runtime \<Rightarrow> path \<Rightarrow> 's cfield \<Rightarrow> employee \<Rightarrow> marshaler run" where [employee_field_defs]:
  "Employee_gender rt ctx field obj = resolve_field rt ctx field
     (\<lambda>ctx field. gret (fieldContext_Employee_gender rt field)) (\<lambda>ctx fc. gret (Inr (g_gender obj)))
     (marshalOString rt) True False"

definition fieldContext_Employee_email :: "'s runtime \<Rightarrow> 's cfield \<Rightarrow> 's fctx \<times> string option" where [employee_field_defs]:
  "fieldContext_Employee_email rt field = rt_scalar_context rt ''Employee'' field False False ''field of type String does not have child fields''"

definition Employee_email :: "'s runtime \<Rightarrow> path \<Rightarrow> 's cfield \<Rightarrow> employee \<Rightarrow> marshaler run" where [employee_field_defs]:
  "Employee_email rt ctx field obj = resolve_field rt ctx field
     (\<lambda>ctx field. gret (fieldContext_Employee_email rt field)) (\<lambda>ctx fc. gret (Inr (g_email obj)))
     (marshalNString rt) True True"

definition fieldContext_Employee_phoneNumber :: "'s runtime \<Rightarrow> 's cfield \<Rightarrow> 's fctx \<times> string option" where [employee_field_defs]:
  "fieldContext_Employee_phoneNumber rt field = rt_scalar_context rt ''Employee'' field False False ''field of type String does not have child fields''"

definition Employee_phoneNumber :: "'s runtime \<Rightarrow> path \<Rightarrow> 's cfield \<Rightarrow> employee \<Rightarrow> marshaler run" where [employee_field_defs]:
  "Employee_phoneNumber rt ctx field obj = resolve_field rt ctx field
     (\<lambda>ctx field. gret (fieldContext_Employee_phoneNumber rt field)) (\<lambda>ctx fc. gret (Inr (g_phone_number obj)))
     (marshalOString rt) True False"

definition fieldContext_Employee_dateOfBirth :: "'s runtime \<Rightarrow> 's cfield \<Rightarrow> 's fctx \<times> string option" where [employee_field_defs]:
  "fieldContext_Employee_dateOfBirth rt field = rt_scalar_context rt ''Employee'' field False False ''field of type DateTime does not have child fields''"

definition Employee_dateOfBirth :: "'s runtime \<Rightarrow> path \<Rightarrow> 's cfield \<Rightarrow> employee \<Rightarrow> marshaler run" where [employee_field_defs]:
  "Employee_dateOfBirth rt ctx field obj = resolve_field rt ctx field
     (\<lambda>ctx field. gret (fieldContext_Employee_dateOfBirth rt field)) (\<lambda>ctx fc. gret (Inr (g_date_of_birth obj)))
     (marshalODateTime rt) True False"

definition fieldContext_Employee_nationality :: "'s runtime \<Rightarrow> 's cfield \<Rightarrow> 's fctx \<times> string option" where [employee_field_defs]:
  "fieldContext_Employee_nationality rt field = rt_scalar_context rt ''Employee'' field False False ''field of type String does not have child fields''"

definition Employee_nationality :: "'s runtime \<Rightarrow> path \<Rightarrow> 's cfield \<Rightarrow> employee \<Rightarrow> marshaler run" where [employee_field_defs]:
  "Employee_nationality rt ctx field obj = resolve_field rt ctx field
     (\<lambda>ctx field. gret (fieldContext_Employee_nationality rt field)) (\<lambda>ctx fc. gret (Inr (g_nationality obj)))
     (marshalOString rt) True False"

definition fieldContext_Employee_jobLevel :: "'s runtime \<Rightarrow> 's cfield \<Rightarrow> 's fctx \<times> string option" where [employee_field_defs]:
  "fieldContext_Employee_jobLevel rt field = rt_scalar_context rt ''Employee'' field False False ''field of type String does not have child fields''"

definition Employee_jobLevel :: "'s runtime \<Rightarrow> path \<Rightarrow> 's cfield \<Rightarrow> employee \<Rightarrow> marshaler run" where [employee_field_defs]:
  "Employee_jobLevel rt ctx field obj = resolve_field rt ctx field
     (\<lambda>ctx field. gret (fieldContext_Employee_jobLevel rt field)) (\<lambda>ctx fc. gret (Inr (g_job_level obj)))
     (marshalOString rt) True False"

definition fieldContext_Employee_department :: "'s runtime \<Rightarrow> 's cfield \<Rightarrow> 's fctx \<times> string option" where [employee_field_defs]:
  "fieldContext_Employee_department rt field = rt_scalar_context rt ''Employee'' field False False ''field of type String does not have child fields''"

definition Employee_department :: "'s runtime \<Rightarrow> path \<Rightarrow> 's cfield \<Rightarrow> employee \<Rightarrow> marshaler run" where [employee_field_defs]:
  "Employee_department rt ctx field obj = resolve_field rt ctx field
     (\<lambda>ctx field. gret (fieldContext_Employee_department rt field)) (\<lambda>ctx fc. gret (Inr (g_department obj)))
     (marshalOString rt) True False"

definition fieldContext_Employee_location :: "'s runtime \<Rightarrow> 's cfield \<Rightarrow> 's fctx \<times> string option" where [employee_field_defs]:
  "fieldContext_Employee_location rt field = rt_scalar_context rt ''Employee'' field False False ''field of type String does not have child fields''"

definition Employee_location :: "'s runtime \<Rightarrow> path \<Rightarrow> 's cfield \<Rightarrow> employee \<Rightarrow> marshaler run" where [employee_field_defs]:
  "Employee_location rt ctx field obj = resolve_field rt ctx field
     (\<lambda>ctx field. gret (fieldContext_Employee_location rt field)) (\<lambda>ctx fc. gret (Inr (g_location obj)))
     (marshalOString rt) True False"

definition fieldContext_Employee_bankAccountNumber :: "'s runtime \<Rightarrow> 's cfield \<Rightarrow> 's fctx \<times> string option" where [employee_field_defs]:
  "fieldContext_Employee_bankAccountNumber rt field = rt_scalar_context rt ''Employee'' field False False ''field of type String does not have child fields''"

definition Employee_bankAccountNumber :: "'s runtime \<Rightarrow> path \<Rightarrow> 's cfield \<Rightarrow> employee \<Rightarrow> marshaler run" where [employee_field_defs]:
  "Employee_bankAccountNumber rt ctx field obj = resolve_field rt ctx field
     (\<lambda>ctx field. gret (fieldContext_Employee_bankAccountNumber rt field)) (\<lambda>ctx fc. gret (Inr (g_bank_account_number obj)))
     (marshalOString rt) True False"

definition fieldContext_Employee_company :: "'s runtime \<Rightarrow> 's cfield \<Rightarrow> 's fctx \<times> string option" where [employee_field_defs]:
  "fieldContext_Employee_company rt field = rt_scalar_context rt ''Employee'' field False False ''field of type String does not have child fields''"

definition Employee_company :: "'s runtime \<Rightarrow> path \<Rightarrow> 's cfield \<Rightarrow> employee \<Rightarrow> marshaler run" where [employee_field_defs]:
  "Employee_company rt ctx field obj = resolve_field rt ctx field
     (\<lambda>ctx field. gret (fieldContext_Employee_company rt field)) (\<lambda>ctx fc. gret (Inr (g_company obj)))
     (marshalOString rt) True False"

definition fieldContext_Employee_jobTitle :: "'s runtime \<Rightarrow> 's cfield \<Rightarrow> 's fctx \<times> string option" where [employee_field_defs]:
  "fieldContext_Employee_jobTitle rt field = rt_scalar_context rt ''Employee'' field False False ''field of type String does not have child fields''"

definition Employee_jobTitle :: "'s runtime \<Rightarrow> path \<Rightarrow> 's cfield \<Rightarrow> employee \<Rightarrow> marshaler run" where [employee_field_defs]:
  "Employee_jobTitle rt ctx field obj = resolve_field rt ctx field
     (\<lambda>ctx field. gret (fieldContext_Employee_jobTitle rt field)) (\<lambda>ctx fc. gret (Inr (g_job_title obj)))
     (marshalOString rt) True False"

definition fieldContext_Employee_costCenter :: "'s runtime \<Rightarrow> 's cfield \<Rightarrow> 's fctx \<times> string option" where [employee_field_defs]:
  "fieldContext_Employee_costCenter rt field = rt_scalar_context rt ''Employee'' field False False ''field of type String does not have child fields''"

definition Employee_costCenter :: "'s runtime \<Rightarrow> path \<Rightarrow> 's cfield \<Rightarrow> employee \<Rightarrow> marshaler run" where [employee_field_defs]:
  "Employee_costCenter rt ctx field obj = resolve_field rt ctx field
     (\<lambda>ctx field. gret (fieldContext_Employee_costCenter rt field)) (\<lambda>ctx fc. gret (Inr (g_cost_center obj)))
     (marshalOString rt) True False"

definition fieldContext_Employee_startDate :: "'s runtime \<Rightarrow> 's cfield \<Rightarrow> 's fctx \<times> string option" where [employee_field_defs]:
  "fieldContext_Employee_startDate rt field = rt_scalar_context rt ''Employee'' field False False ''field of type DateTime does not have child fields''"

definition Employee_startDate :: "'s runtime \<Rightarrow> path \<Rightarrow> 's cfield \<Rightarrow> employee \<Rightarrow> marshaler run" where [employee_field_defs]:
  "Employee_startDate rt ctx field obj = resolve_field rt ctx field
     (\<lambda>ctx field. gret (fieldContext_Employee_startDate rt field)) (\<lambda>ctx fc. gret (Inr (g_start_date obj)))
     (marshalODateTime rt) True False"

definition fieldContext_Employee_employeeStatus :: "'s runtime \<Rightarrow> 's cfield \<Rightarrow> 's fctx \<times> string option" where [employee_field_defs]:
  "fieldContext_Employee_employeeStatus rt field = rt_scalar_context rt ''Employee'' field False False ''field of type String does not have child fields''"

definition Employee_employeeStatus :: "'s runtime \<Rightarrow> path \<Rightarrow> 's cfield \<Rightarrow> employee \<Rightarrow> marshaler run" where [employee_field_defs]:
  "Employee_employeeStatus rt ctx field obj = resolve_field rt ctx field
     (\<lambda>ctx field. gret (fieldContext_Employee_employeeStatus rt field)) (\<lambda>ctx fc. gret (Inr (g_employee_status obj)))
     (marshalOString rt) True False"

definition fieldContext_Employee_managerId :: "'s runtime \<Rightarrow> 's cfield \<Rightarrow> 's fctx \<times> string option" where [employee_field_defs]:
  "fieldContext_Employee_managerId rt field = rt_scalar_context rt ''Employee'' field False False ''field of type String does not have child fields''"

definition Employee_managerId :: "'s runtime \<Rightarrow> path \<Rightarrow> 's cfield \<Rightarrow> employee \<Rightarrow> marshaler run" where [employee_field_defs]:
  "Employee_managerId rt ctx field obj = resolve_field rt ctx field
     (\<lambda>ctx field. gret (fieldContext_Employee_managerId rt field)) (\<lambda>ctx fc. gret (Inr (g_manager_id obj)))
     (marshalOString rt) True False"

definition fieldContext_Employee_managerEmail :: "'s runtime \<Rightarrow> 's cfield \<Rightarrow> 's fctx \<times> string option" where [employee_field_defs]:
  "fieldContext_Employee_managerEmail rt field = rt_scalar_context rt ''Employee'' field False False ''field of type String does not have child fields''"

definition Employee_managerEmail :: "'s runtime \<Rightarrow> path \<Rightarrow> 's cfield \<Rightarrow> employee \<Rightarrow> marshaler run" where [employee_field_defs]:
  "Employee_managerEmail rt ctx field obj = resolve_field rt ctx field
     (\<lambda>ctx field. gret (fieldContext_Employee_managerEmail rt field)) (\<lambda>ctx fc. gret (Inr (g_manager_email obj)))
     (marshalOString rt) True False"

definition fieldContext_Employee_lastModifiedOn :: "'s runtime \<Rightarrow> 's cfield \<Rightarrow> 's fctx \<times> string option" where [employee_field_defs]:
  "fieldContext_Employee_lastModifiedOn rt field = rt_scalar_context rt ''Employee'' field False False ''field of type DateTime does not have child fields''"

definition Employee_lastModifiedOn :: "'s runtime \<Rightarrow> path \<Rightarrow> 's cfield \<Rightarrow> employee \<Rightarrow> marshaler run" where [employee_field_defs]:
  "Employee_lastModifiedOn rt ctx field obj = resolve_field rt ctx field
     (\<lambda>ctx field. gret (fieldContext_Employee_lastModifiedOn rt field)) (\<lambda>ctx fc. gret (Inr (g_last_modified_on obj)))
     (marshalODateTime rt) True False"

definition fieldContext_Employee_lastModified :: "'s runtime \<Rightarrow> 's cfield \<Rightarrow> 's fctx \<times> string option" where [employee_field_defs]:
  "fieldContext_Employee_lastModified rt field = rt_scalar_context rt ''Employee'' field False False ''field of type Long does not have child fields''"

definition Employee_lastModified :: "'s runtime \<Rightarrow> path \<Rightarrow> 's cfield \<Rightarrow> employee \<Rightarrow> marshaler run" where [employee_field_defs]:
  "Employee_lastModified rt ctx field obj = resolve_field rt ctx field
     (\<lambda>ctx field. gret (fieldContext_Employee_lastModified rt field)) (\<lambda>ctx fc. gret (Inr (g_last_modified obj)))
     (marshalOLong rt) True False"

definition fieldContext_Employee_fullName :: "'s runtime \<Rightarrow> 's cfield \<Rightarrow> 's fctx \<times> string option" where [employee_field_defs]:
  "fieldContext_Employee_fullName rt field = rt_scalar_context rt ''Employee'' field False False ''field of type String does not have child fields''"

definition Employee_fullName :: "'s runtime \<Rightarrow> path \<Rightarrow> 's cfield \<Rightarrow> employee \<Rightarrow> marshaler run" where [employee_field_defs]:
  "Employee_fullName rt ctx field obj = resolve_field rt ctx field
     (\<lambda>ctx field. gret (fieldContext_Employee_fullName rt field)) (\<lambda>ctx fc. gret (Inr (g_full_name obj)))
     (marshalNString rt) True True"

section \<open>Looking up a child field\<close>

text \<open>\<open>strconv.Quote\<close> of a name: GraphQL names hold nothing to escape.\<close>

definition quote_name :: "string \<Rightarrow> string" where
  "quote_name n = CHR 0x22 # n @ [CHR 0x22]"

definition found_context :: "'s fctx \<times> string option \<Rightarrow> 's fctx option \<times> string option" where
  "found_context r = (Some (fst r), snd r)"

definition childFields_Employee :: "'s runtime \<Rightarrow> 's cfield \<Rightarrow> 's fctx option \<times> string option" where
  "childFields_Employee rt field = (let name = cf_name field in
     if name = ''id'' then found_context (fieldContext_Employee_id rt field)
     else if name = ''employeeId'' then found_context (fieldContext_Employee_employeeId rt field)
     else if name = ''firstName'' then found_context (fieldContext_Employee_firstName rt field)
     else if name = ''middleName'' then found_context (fieldContext_Employee_middleName rt field)
     else if name = ''lastName'' then found_context (fieldContext_Employee_lastName rt field)
     else if name = ''gender'' then found_context (fieldContext_Employee_gender rt field)
     else if name = ''email'' then found_context (fieldContext_Employee_email rt field)
     else if name = ''phoneNumber'' then found_context (fieldContext_Employee_phoneNumber rt field)
     else if name = ''dateOfBirth'' then found_context (fieldContext_Employee_dateOfBirth rt field)
     else if name = ''nationality'' then found_context (fieldContext_Employee_nationality rt field)
     else if name = ''jobLevel'' then found_context (fieldContext_Employee_jobLevel rt field)
     else if name = ''department'' then found_context (fieldContext_Employee_department rt field)
     else if name = ''location'' then found_context (fieldContext_Employee_location rt field)
     else if name = ''bankAccountNumber'' then found_context (fieldContext_Employee_bankAccountNumber rt field)
     else if name = ''company'' then found_context (fieldContext_Employee_company rt field)
     else if name = ''jobTitle'' then found_context (fieldContext_Employee_jobTitle rt field)
     else if name = ''costCenter'' then found_context (fieldContext_Employee_costCenter rt field)
     else if name = ''startDate'' then found_context (fieldContext_Employee_startDate rt field)
     else if name = ''employeeStatus'' then found_context (fieldContext_Employee_employeeStatus rt field)
     else if name = ''managerId'' then found_context (fieldContext_Employee_managerId rt field)
     else if name = ''managerEmail'' then found_context (fieldContext_Employee_managerEmail rt field)
     else if name = ''lastModifiedOn'' then found_context (fieldContext_Employee_lastModifiedOn rt field)
     else if name = ''lastModified'' then found_context (fieldContext_Employee_lastModified rt field)
     else if name = ''fullName'' then found_context (fieldContext_Employee_fullName rt field)
     else (None, Some (''no field named '' @ quote_name name @ '' was found under type Employee'')))"

section \<open>Objects\<close>

text \<open>
  A field's value comes with the number of nulls the schema does not allow (\<open>out.Invalids\<close>). The map
  \<open>deferred\<close> stays empty in all generated functions, so its loop is left out.
\<close>

definition invalid :: "marshaler \<Rightarrow> nat" where
  "invalid v = (if v = Null then 1 else 0)"

definition non_null :: "marshaler run \<Rightarrow> (marshaler \<times> nat) run" where
  "non_null m = gbind m (\<lambda>v. gret (v, invalid v))"

definition nullable :: "marshaler run \<Rightarrow> (marshaler \<times> nat) run" where
  "nullable m = gbind m (\<lambda>v. gret (v, 0))"

definition field_set :: "'s cfield list \<Rightarrow> (marshaler \<times> nat) list \<Rightarrow> marshaler" where
  "field_set fs out =
     (if 0 < sum_list (map snd out) then Null else Field_Set (zip (map cf_alias fs) (map fst out)))"

definition employee_value :: "'s runtime \<Rightarrow> path \<Rightarrow> employee \<Rightarrow> 's cfield \<Rightarrow> (marshaler \<times> nat) run" where
  "employee_value rt ctx obj field = (let name = cf_name field in
     if name = ''__typename'' then gret (rt_marshal_string rt ''Employee'', 0)
     else if name = ''id'' then non_null (Employee_id rt ctx field obj)
     else if name = ''employeeId'' then non_null (Employee_employeeId rt ctx field obj)
     else if name = ''firstName'' then non_null (Employee_firstName rt ctx field obj)
     else if name = ''middleName'' then nullable (Employee_middleName rt ctx field obj)
     else if name = ''lastName'' then non_null (Employee_lastName rt ctx field obj)
     else if name = ''gender'' then nullable (Employee_gender rt ctx field obj)
     else if name = ''email'' then non_null (Employee_email rt ctx field obj)
     else if name = ''phoneNumber'' then nullable (Employee_phoneNumber rt ctx field obj)
     else if name = ''dateOfBirth'' then nullable (Employee_dateOfBirth rt ctx field obj)
     else if name = ''nationality'' then nullable (Employee_nationality rt ctx field obj)
     else if name = ''jobLevel'' then nullable (Employee_jobLevel rt ctx field obj)
     else if name = ''department'' then nullable (Employee_department rt ctx field obj)
     else if name = ''location'' then nullable (Employee_location rt ctx field obj)
     else if name = ''bankAccountNumber'' then nullable (Employee_bankAccountNumber rt ctx field obj)
     else if name = ''company'' then nullable (Employee_company rt ctx field obj)
     else if name = ''jobTitle'' then nullable (Employee_jobTitle rt ctx field obj)
     else if name = ''costCenter'' then nullable (Employee_costCenter rt ctx field obj)
     else if name = ''startDate'' then nullable (Employee_startDate rt ctx field obj)
     else if name = ''employeeStatus'' then nullable (Employee_employeeStatus rt ctx field obj)
     else if name = ''managerId'' then nullable (Employee_managerId rt ctx field obj)
     else if name = ''managerEmail'' then nullable (Employee_managerEmail rt ctx field obj)
     else if name = ''lastModifiedOn'' then nullable (Employee_lastModifiedOn rt ctx field obj)
     else if name = ''lastModified'' then nullable (Employee_lastModified rt ctx field obj)
     else if name = ''fullName'' then non_null (Employee_fullName rt ctx field obj)
     else gpanic)"

definition Employee_object :: "'s runtime \<Rightarrow> path \<Rightarrow> 's \<Rightarrow> employee \<Rightarrow> marshaler run" where
  "Employee_object rt ctx sel obj =
     (let fs = rt_collect rt sel [''Employee''] in
      gbind (map_run (employee_value rt ctx obj) fs) (\<lambda>out. gret (field_set fs out)))"

definition marshalNEmployee :: "'s runtime \<Rightarrow> path \<Rightarrow> 's \<Rightarrow> employee option \<Rightarrow> marshaler run" where
  "marshalNEmployee rt ctx sel v = (case v of
      None \<Rightarrow> null_checked rt ctx Null
    | Some obj \<Rightarrow> Employee_object rt ctx sel obj)"

definition marshalNEmployees :: "'s runtime \<Rightarrow> path \<Rightarrow> 's \<Rightarrow> employee option list \<Rightarrow> marshaler run" where
  "marshalNEmployees rt ctx sel v =
     gbind (rt_slice rt ctx (length v) (\<lambda>ctx i. marshalNEmployee rt ctx sel (v ! i)))
       (\<lambda>ret. gret (if list_ex (\<lambda>e. e = Null) ret then Null else Slice ret))"

definition marshalOEmployee :: "'s runtime \<Rightarrow> path \<Rightarrow> 's \<Rightarrow> employee option \<Rightarrow> marshaler run" where
  "marshalOEmployee rt ctx sel v = (case v of
      None \<Rightarrow> gret Null
    | Some obj \<Rightarrow> Employee_object rt ctx sel obj)"

end
