(* ===== verification/Graphql_Exec.thy ===== *)
theory Graphql_Exec
  imports Graphql_Fields
begin

text \<open>
  The root of \<open>graph/generated.go\<close>: the fields of \<open>Query\<close>, \<open>Mutation\<close> and \<open>Subscription\<close> with their
  contexts, which read the arguments and call the resolvers, the three root objects, and \<open>Exec\<close>. The
  introspection fields are the parameter \<open>schema\<close> of a query.
\<close>

section \<open>Resolvers within an execution\<close>

definition on_world :: "(sync_world \<Rightarrow> ('a answer \<times> sync_world) option) \<Rightarrow> 'a answer run" where
  "on_world f s = (case f (ap_world (g_app s)) of
      None \<Rightarrow> None
    | Some (r, w) \<Rightarrow> Some (Some r, s\<lparr>g_app := (g_app s)\<lparr>ap_world := w\<rparr>\<rparr>))"

definition on_broker ::
  "(sync_world \<Rightarrow> employee broker \<Rightarrow> ('a answer \<times> sync_world \<times> employee broker) option) \<Rightarrow> 'a answer run" where
  "on_broker f s = (case f (ap_world (g_app s)) (hub_broker (ap_hub (g_app s))) of
      None \<Rightarrow> None
    | Some (r, w, b) \<Rightarrow>
        Some (Some r, s\<lparr>g_app := \<lparr>ap_world = w, ap_hub = (ap_hub (g_app s))\<lparr>hub_broker := b\<rparr>\<rparr>\<rparr>))"

definition value_map :: "('a \<Rightarrow> 'b) \<Rightarrow> 'a answer run \<Rightarrow> 'b answer run" where
  "value_map f m = gbind m (\<lambda>r. gret (case r of Inl e \<Rightarrow> Inl e | Inr v \<Rightarrow> Inr (f v)))"

definition open_subscription :: "nat answer run" where
  "open_subscription s = (let h = ap_hub (g_app s) in case subscribe (hub_broker h) of
      (ch, b) \<Rightarrow> Some (Some (Inr ch), s\<lparr>g_app := (g_app s)\<lparr>ap_hub := h\<lparr>hub_broker := b, live := ch # live h\<rparr>\<rparr>\<rparr>))"

section \<open>Contexts of the root fields\<close>

text \<open>The arguments are read within the field's context; a panic on the way becomes an error too.\<close>

definition with_args :: "'s runtime \<Rightarrow> path \<Rightarrow> 's fctx \<Rightarrow> args decoded \<Rightarrow> ('s fctx \<times> string option) run" where
  "with_args rt ctx fc r = (case r of
      None \<Rightarrow> gbind (gerror ctx (rt_recover rt)) (\<lambda>u. gret (fc, Some (rt_recover rt)))
    | Some (args, Some err) \<Rightarrow> gbind (gerror ctx err) (\<lambda>u. gret (fc\<lparr>fc_args := args\<rparr>, Some err))
    | Some (args, None) \<Rightarrow> gret (fc\<lparr>fc_args := args\<rparr>, None))"

definition root_context :: "string \<Rightarrow> 's cfield \<Rightarrow> child \<Rightarrow> 's fctx" where
  "root_context ob field c =
     \<lparr>fc_object = ob, fc_field = field, fc_is_method = True, fc_is_resolver = True, fc_args = [], fc_child = c\<rparr>"

definition fieldContext_Mutation_createEmployee :: "'s runtime \<Rightarrow> 's init" where
  "fieldContext_Mutation_createEmployee rt ctx field =
     (let fc = root_context ''Mutation'' field Child_Employee; ctx = in_field ctx field in
      with_args rt ctx fc (field_Mutation_createEmployee_args rt ctx (cf_args field)))"

definition fieldContext_Mutation_updateEmployee :: "'s runtime \<Rightarrow> 's init" where
  "fieldContext_Mutation_updateEmployee rt ctx field =
     (let fc = root_context ''Mutation'' field Child_Employee; ctx = in_field ctx field in
      with_args rt ctx fc (field_Mutation_updateEmployee_args rt ctx (cf_args field)))"

definition fieldContext_Mutation_deleteEmployee :: "'s runtime \<Rightarrow> 's init" where
  "fieldContext_Mutation_deleteEmployee rt ctx field =
     (let fc = root_context ''Mutation'' field (No_Child ''field of type Boolean does not have child fields'');
          ctx = in_field ctx field in
      with_args rt ctx fc (field_Mutation_deleteEmployee_args rt ctx (cf_args field)))"

definition fieldContext_Query_hello :: "'s runtime \<Rightarrow> 's cfield \<Rightarrow> 's fctx \<times> string option" where
  "fieldContext_Query_hello rt field =
     rt_scalar_context rt ''Query'' field True True ''field of type String does not have child fields''"

definition fieldContext_Query_employees :: "'s runtime \<Rightarrow> 's init" where
  "fieldContext_Query_employees rt ctx field =
     (let fc = root_context ''Query'' field Child_Employee; ctx = in_field ctx field in
      with_args rt ctx fc (field_Query_employees_args rt ctx (cf_args field)))"

definition fieldContext_Query_employee :: "'s runtime \<Rightarrow> 's init" where
  "fieldContext_Query_employee rt ctx field =
     (let fc = root_context ''Query'' field Child_Employee; ctx = in_field ctx field in
      with_args rt ctx fc (field_Query_employee_args rt ctx (cf_args field)))"

definition fieldContext_Query_searchEmployees :: "'s runtime \<Rightarrow> 's init" where
  "fieldContext_Query_searchEmployees rt ctx field =
     (let fc = root_context ''Query'' field Child_Employee; ctx = in_field ctx field in
      with_args rt ctx fc (field_Query_searchEmployees_args rt ctx (cf_args field)))"

definition fieldContext_Subscription_employeeCreated :: "'s cfield \<Rightarrow> 's fctx \<times> string option" where
  "fieldContext_Subscription_employeeCreated field = (root_context ''Subscription'' field Child_Employee, None)"

section \<open>Root fields\<close>

text \<open>An argument of another type than the resolver's is a failed type assertion: a panic.\<close>

definition Mutation_createEmployee :: "env \<Rightarrow> 's runtime \<Rightarrow> path \<Rightarrow> 's cfield \<Rightarrow> marshaler run" where
  "Mutation_createEmployee E rt ctx field = resolve_field rt ctx field
     (fieldContext_Mutation_createEmployee rt)
     (\<lambda>ctx fc. case map_of (fc_args fc) ''data'' of
        Some (A_Create d) \<Rightarrow> value_map Some (on_broker (create_employee E d))
      | _ \<Rightarrow> gpanic)
     (marshalNEmployee rt) True True"

definition Mutation_updateEmployee :: "env \<Rightarrow> 's runtime \<Rightarrow> path \<Rightarrow> 's cfield \<Rightarrow> marshaler run" where
  "Mutation_updateEmployee E rt ctx field = resolve_field rt ctx field
     (fieldContext_Mutation_updateEmployee rt)
     (\<lambda>ctx fc. case (map_of (fc_args fc) ''id'', map_of (fc_args fc) ''data'') of
        (Some (A_Long k), Some (A_Update d)) \<Rightarrow> on_world (update_employee E k d)
      | _ \<Rightarrow> gpanic)
     (marshalOEmployee rt) True False"

definition Mutation_deleteEmployee :: "env \<Rightarrow> 's runtime \<Rightarrow> path \<Rightarrow> 's cfield \<Rightarrow> marshaler run" where
  "Mutation_deleteEmployee E rt ctx field = resolve_field rt ctx field
     (fieldContext_Mutation_deleteEmployee rt)
     (\<lambda>ctx fc. case map_of (fc_args fc) ''id'' of
        Some (A_Long k) \<Rightarrow> on_world (delete_employee E k)
      | _ \<Rightarrow> gpanic)
     (marshalNBoolean rt) True True"

definition Query_hello :: "'s runtime \<Rightarrow> path \<Rightarrow> 's cfield \<Rightarrow> marshaler run" where
  "Query_hello rt ctx field = resolve_field rt ctx field
     (\<lambda>ctx field. gret (fieldContext_Query_hello rt field)) (\<lambda>ctx fc. gret hello)
     (marshalNString rt) True True"

definition Query_employees :: "env \<Rightarrow> 's runtime \<Rightarrow> path \<Rightarrow> 's cfield \<Rightarrow> marshaler run" where
  "Query_employees E rt ctx field = resolve_field rt ctx field
     (fieldContext_Query_employees rt)
     (\<lambda>ctx fc. case (map_of (fc_args fc) ''offset'', map_of (fc_args fc) ''limit'') of
        (Some (A_Int off), Some (A_Int lim)) \<Rightarrow> value_map (map Some) (on_world (employees_query E off lim))
      | _ \<Rightarrow> gpanic)
     (marshalNEmployees rt) True True"

definition Query_employee :: "env \<Rightarrow> 's runtime \<Rightarrow> path \<Rightarrow> 's cfield \<Rightarrow> marshaler run" where
  "Query_employee E rt ctx field = resolve_field rt ctx field
     (fieldContext_Query_employee rt)
     (\<lambda>ctx fc. case map_of (fc_args fc) ''id'' of
        Some (A_Long k) \<Rightarrow> on_world (get_employee_by_id E k)
      | _ \<Rightarrow> gpanic)
     (marshalOEmployee rt) True False"

definition Query_searchEmployees :: "env \<Rightarrow> 's runtime \<Rightarrow> path \<Rightarrow> 's cfield \<Rightarrow> marshaler run" where
  "Query_searchEmployees E rt ctx field = resolve_field rt ctx field
     (fieldContext_Query_searchEmployees rt)
     (\<lambda>ctx fc. case (map_of (fc_args fc) ''search'', map_of (fc_args fc) ''offset'', map_of (fc_args fc) ''limit'') of
        (Some (A_String t), Some (A_Int off), Some (A_Int lim)) \<Rightarrow>
          value_map (map Some) (on_world (search_employees E t off lim))
      | _ \<Rightarrow> gpanic)
     (marshalNEmployees rt) True True"

definition Subscription_employeeCreated :: "'s runtime \<Rightarrow> path \<Rightarrow> 's cfield \<Rightarrow> marshaler run option run" where
  "Subscription_employeeCreated rt ctx field = rt_stream rt ctx field
     (\<lambda>ctx field. gret (fieldContext_Subscription_employeeCreated field)) (\<lambda>ctx fc. open_subscription)
     (marshalNEmployee rt) True True"

section \<open>Root objects\<close>

text \<open>Mutations run one after the other, in the order of the selection.\<close>

definition in_middleware :: "'s runtime \<Rightarrow> marshaler run \<Rightarrow> marshaler run" where
  "in_middleware rt m = gbind (rt_root rt (nullable m)) (\<lambda>x. gret (fst x))"

definition mutation_value :: "env \<Rightarrow> 's runtime \<Rightarrow> path \<Rightarrow> 's cfield \<Rightarrow> (marshaler \<times> nat) run" where
  "mutation_value E rt ctx field = (let name = cf_name field in
     if name = ''__typename'' then gret (rt_marshal_string rt ''Mutation'', 0)
     else if name = ''createEmployee'' then non_null (in_middleware rt (Mutation_createEmployee E rt ctx field))
     else if name = ''updateEmployee'' then nullable (in_middleware rt (Mutation_updateEmployee E rt ctx field))
     else if name = ''deleteEmployee'' then non_null (in_middleware rt (Mutation_deleteEmployee E rt ctx field))
     else gpanic)"

definition Mutation_object :: "env \<Rightarrow> 's runtime \<Rightarrow> path \<Rightarrow> 's \<Rightarrow> marshaler run" where
  "Mutation_object E rt ctx sel =
     (let fs = rt_collect rt sel [''Mutation''] in
      gbind (map_run (mutation_value E rt ctx) fs) (\<lambda>out. gret (field_set fs out)))"

text \<open>
  The fields of a query are delayed, and \<open>Dispatch\<close> runs them at once, each in its goroutine. Each
  makes one call on the pool's only connection and holds it to its end, so what they do to the
  service is one after the other, in an order the runtime chooses.
\<close>

datatype slot = Now marshaler | Later "(marshaler \<times> nat) run"

definition concurrently :: "'s runtime \<Rightarrow> path \<Rightarrow> (marshaler \<times> nat) run \<Rightarrow> slot run" where
  "concurrently rt ctx inner = gret (Later (rt_root rt (recovered (rt_recover rt) ctx (Missing, 0) inner)))"

definition query_slot :: "env \<Rightarrow> 's runtime \<Rightarrow> (path \<Rightarrow> 's cfield \<Rightarrow> marshaler run) \<Rightarrow> path \<Rightarrow> 's cfield \<Rightarrow> slot run" where
  "query_slot E rt schema ctx field = (let name = cf_name field in
     if name = ''__typename'' then gret (Now (rt_marshal_string rt ''Query''))
     else if name = ''hello'' then concurrently rt ctx (non_null (Query_hello rt ctx field))
     else if name = ''employees'' then concurrently rt ctx (non_null (Query_employees E rt ctx field))
     else if name = ''employee'' then concurrently rt ctx (nullable (Query_employee E rt ctx field))
     else if name = ''searchEmployees'' then concurrently rt ctx (non_null (Query_searchEmployees E rt ctx field))
     else if name = ''__type'' \<or> name = ''__schema'' then
       gbind (in_middleware rt (schema ctx field)) (\<lambda>v. gret (Now v))
     else gpanic)"

fun run_in_order :: "nat list \<Rightarrow> (nat \<Rightarrow> 'a run) \<Rightarrow> (nat \<times> 'a) list run" where
  "run_in_order [] f = gret []"
| "run_in_order (i # is) f = gbind (f i) (\<lambda>x. gbind (run_in_order is f) (\<lambda>xs. gret ((i, x) # xs)))"

fun delayed :: "slot list \<Rightarrow> (marshaler \<times> nat) run list" where
  "delayed [] = []"
| "delayed (Now v # ss) = delayed ss"
| "delayed (Later m # ss) = m # delayed ss"

definition dispatch :: "'s runtime \<Rightarrow> (marshaler \<times> nat) run list \<Rightarrow> (marshaler \<times> nat) list run" where
  "dispatch rt ms = gbind (run_in_order (rt_schedule rt (length ms)) (\<lambda>i. ms ! i))
     (\<lambda>rs. gret (map (\<lambda>i. case map_of rs i of Some x \<Rightarrow> x | None \<Rightarrow> (Missing, 0)) [0..<length ms]))"

fun fill :: "slot list \<Rightarrow> (marshaler \<times> nat) list \<Rightarrow> (marshaler \<times> nat) list" where
  "fill [] rs = []"
| "fill (Now v # ss) rs = (v, 0) # fill ss rs"
| "fill (Later m # ss) (r # rs) = r # fill ss rs"
| "fill (Later m # ss) [] = (Missing, 0) # fill ss []"

definition Query_object :: "env \<Rightarrow> 's runtime \<Rightarrow> (path \<Rightarrow> 's cfield \<Rightarrow> marshaler run) \<Rightarrow> path \<Rightarrow> 's \<Rightarrow> marshaler run" where
  "Query_object E rt schema ctx sel =
     (let fs = rt_collect rt sel [''Query''] in
      gbind (map_run (query_slot E rt schema ctx) fs) (\<lambda>slots.
      gbind (dispatch rt (delayed slots)) (\<lambda>rs. gret (field_set fs (fill slots rs)))))"

text \<open>The stream of a subscription, or Go's nil function.\<close>

definition Subscription_object :: "'s runtime \<Rightarrow> path \<Rightarrow> 's \<Rightarrow> marshaler run option run" where
  "Subscription_object rt ctx sel =
     (let fs = rt_collect rt sel [''Subscription''] in
      if length fs \<noteq> 1 then
        gbind (gerror ctx ''must subscribe to exactly one stream'') (\<lambda>u. gret None)
      else if cf_name (hd fs) = ''employeeCreated'' then Subscription_employeeCreated rt ctx (hd fs)
      else gpanic)"

section \<open>Exec\<close>

datatype op_kind = Op_Query | Op_Mutation | Op_Subscription | Op_Other

record 's operation =
  op_kind :: op_kind
  op_sel :: 's

record gresponse =
  gr_data :: "marshaler option"
  gr_errors :: "string list"

text \<open>
  What \<open>Exec\<close> returns: a function that answers with one response after the other until it answers
  with nil. \<open>first\<close> is the variable of that name; the deferred results of a query are the second
  component, empty from the start as nothing is deferred.
\<close>

datatype handler =
    H_Query bool "gresponse list"
  | H_Mutation bool
  | H_Subscription "marshaler run option"
  | H_One_Shot bool gresponse

definition exec_start :: "'s runtime \<Rightarrow> 's operation \<Rightarrow> handler run" where
  "exec_start rt op = (case op_kind op of
      Op_Query \<Rightarrow> gret (H_Query True [])
    | Op_Mutation \<Rightarrow> gret (H_Mutation True)
    | Op_Subscription \<Rightarrow> gbind (Subscription_object rt [] (op_sel op)) (\<lambda>next. gret (H_Subscription next))
    | Op_Other \<Rightarrow> gret (H_One_Shot True \<lparr>gr_data = None, gr_errors = [''unsupported GraphQL operation'']\<rparr>))"

definition with_data :: "marshaler \<Rightarrow> gresponse" where
  "with_data d = \<lparr>gr_data = Some d, gr_errors = []\<rparr>"

text \<open>\<open>MarshalGQL\<close> of the data panics where nil is left in it; nothing in \<open>Exec\<close> recovers.\<close>

definition respond :: "marshaler \<Rightarrow> handler \<Rightarrow> (gresponse option \<times> handler) run" where
  "respond data h = (if complete data then gret (Some (with_data data), h) else gpanic)"

definition exec_next ::
  "env \<Rightarrow> 's runtime \<Rightarrow> (path \<Rightarrow> 's cfield \<Rightarrow> marshaler run) \<Rightarrow> 's operation \<Rightarrow> handler \<Rightarrow> (gresponse option \<times> handler) run" where
  "exec_next E rt schema op h = (case h of
      H_Query True pending \<Rightarrow> gbind (Query_object E rt schema [] (op_sel op))
        (\<lambda>data. respond data (H_Query False pending))
    | H_Query False (r # pending) \<Rightarrow> gret (Some r, H_Query False pending)
    | H_Query False [] \<Rightarrow> gret (None, h)
    | H_Mutation True \<Rightarrow> gbind (Mutation_object E rt [] (op_sel op))
        (\<lambda>data. respond data (H_Mutation False))
    | H_Mutation False \<Rightarrow> gret (None, h)
    | H_Subscription None \<Rightarrow> gpanic
    | H_Subscription (Some next) \<Rightarrow> gbind next
        (\<lambda>data. if data = Missing then gret (None, h) else respond data h)
    | H_One_Shot True r \<Rightarrow> gret (Some r, H_One_Shot False r)
    | H_One_Shot False r \<Rightarrow> gret (None, h))"

end
