(* ===== verification/Graphql_Meta.thy ===== *)
theory Graphql_Meta
  imports Graphql_Exec
begin

text \<open>
  Introspection in \<open>graph/generated.go\<close>: the types whose names begin with two underscores (\<open>meta\<close>
  here). What they describe comes from gqlgen's package \<open>introspection\<close>; the records below hold what
  the generated code reads of its values, a pointer or a slice that may be nil as an option. A type is
  a handle \<open>'t\<close>, as types refer to each other; the record \<open>introspection\<close> has its methods and the two entries
  of the execution context. With introspection switched off, as \<open>main\<close> leaves it (it builds the server with
  \<open>handler.New\<close> and adds no extension), these two entries answer with an error: \<open>introspection_off\<close> in
  \<open>Graphql_Queries\<close>. This theory has the arguments, the field contexts and the lookup of child
  fields.
\<close>

record 't meta_input_value =
  iv_name :: string
  iv_description :: "string option"
  iv_type :: "'t option"
  iv_default_value :: "string option"
  iv_is_deprecated :: bool
  iv_deprecation_reason :: "string option"

record meta_enum_value =
  ev_name :: string
  ev_description :: "string option"
  ev_is_deprecated :: bool
  ev_deprecation_reason :: "string option"

record 't meta_field =
  fd_name :: string
  fd_description :: "string option"
  fd_args :: "'t meta_input_value list"
  fd_type :: "'t option"
  fd_is_deprecated :: bool
  fd_deprecation_reason :: "string option"

record 't meta_directive =
  dr_name :: string
  dr_description :: "string option"
  dr_is_repeatable :: bool
  dr_locations :: "string list"
  dr_args :: "'t meta_input_value list"

record 't meta_schema =
  sc_description :: "string option"
  sc_types :: "'t list"
  sc_query_type :: "'t option"
  sc_mutation_type :: "'t option"
  sc_subscription_type :: "'t option"
  sc_directives :: "'t meta_directive list"

record 't introspection =
  ty_kind :: "'t \<Rightarrow> string"
  ty_name :: "'t \<Rightarrow> string option"
  ty_description :: "'t \<Rightarrow> string option"
  ty_specified_by_url :: "'t \<Rightarrow> string option"
  ty_fields :: "'t \<Rightarrow> bool \<Rightarrow> 't meta_field list option"
  ty_interfaces :: "'t \<Rightarrow> 't list option"
  ty_possible_types :: "'t \<Rightarrow> 't list option"
  ty_enum_values :: "'t \<Rightarrow> bool \<Rightarrow> meta_enum_value list option"
  ty_input_fields :: "'t \<Rightarrow> 't meta_input_value list option"
  ty_of_type :: "'t \<Rightarrow> 't option"
  ty_is_one_of :: "'t \<Rightarrow> bool"
  introspect_type :: "string \<Rightarrow> 't option answer"
  introspect_schema :: "'t meta_schema option answer"

section \<open>Arguments\<close>

definition include_deprecated :: "'s runtime \<Rightarrow> path \<Rightarrow> (string \<Rightarrow> json option) \<Rightarrow> args decoded" where
  "include_deprecated rt ctx rawArgs =
     next_arg (process_arg rt ctx rawArgs ''includeDeprecated'' False (\<lambda>ctx v. Some (unmarshalOBoolean rt ctx v)))
       (\<lambda>arg0. Some ([(''includeDeprecated'', A_Bool arg0)], None))"

definition include_deprecated_pointer :: "'s runtime \<Rightarrow> path \<Rightarrow> (string \<Rightarrow> json option) \<Rightarrow> args decoded" where
  "include_deprecated_pointer rt ctx rawArgs =
     next_arg (process_arg rt ctx rawArgs ''includeDeprecated'' None (\<lambda>ctx v. Some (unmarshalOBoolean_pointer rt ctx v)))
       (\<lambda>arg0. Some ([(''includeDeprecated'', A_Optional_Bool arg0)], None))"

definition field_meta_Directive_args_args :: "'s runtime \<Rightarrow> path \<Rightarrow> (string \<Rightarrow> json option) \<Rightarrow> args decoded" where
  "field_meta_Directive_args_args = include_deprecated_pointer"

definition field_meta_Field_args_args :: "'s runtime \<Rightarrow> path \<Rightarrow> (string \<Rightarrow> json option) \<Rightarrow> args decoded" where
  "field_meta_Field_args_args = include_deprecated_pointer"

definition field_meta_Type_enumValues_args :: "'s runtime \<Rightarrow> path \<Rightarrow> (string \<Rightarrow> json option) \<Rightarrow> args decoded" where
  "field_meta_Type_enumValues_args = include_deprecated"

definition field_meta_Type_fields_args :: "'s runtime \<Rightarrow> path \<Rightarrow> (string \<Rightarrow> json option) \<Rightarrow> args decoded" where
  "field_meta_Type_fields_args = include_deprecated"

definition field_Query_meta_type_args :: "'s runtime \<Rightarrow> path \<Rightarrow> (string \<Rightarrow> json option) \<Rightarrow> args decoded" where
  "field_Query_meta_type_args rt ctx rawArgs =
     next_arg (process_arg rt ctx rawArgs ''name'' [] (\<lambda>ctx v. Some (unmarshalNString rt ctx v)))
       (\<lambda>arg0. Some ([(''name'', A_String arg0)], None))"

section \<open>Field contexts\<close>

text \<open>The contexts that read no arguments.\<close>

named_theorems meta_contexts

definition meta_context :: "string \<Rightarrow> 's cfield \<Rightarrow> bool \<Rightarrow> child \<Rightarrow> 's fctx" where
  "meta_context ob field is_method c =
     \<lparr>fc_object = ob, fc_field = field, fc_is_method = is_method, fc_is_resolver = False, fc_args = [], fc_child = c\<rparr>"

definition fieldContext_meta_EnumValue_name :: "'s runtime \<Rightarrow> 's cfield \<Rightarrow> 's fctx \<times> string option" where [meta_contexts]:
  "fieldContext_meta_EnumValue_name rt field = rt_scalar_context rt ''__EnumValue'' field False False ''field of type String does not have child fields''"

definition fieldContext_meta_EnumValue_description :: "'s runtime \<Rightarrow> 's cfield \<Rightarrow> 's fctx \<times> string option" where [meta_contexts]:
  "fieldContext_meta_EnumValue_description rt field = rt_scalar_context rt ''__EnumValue'' field True False ''field of type String does not have child fields''"

definition fieldContext_meta_EnumValue_isDeprecated :: "'s runtime \<Rightarrow> 's cfield \<Rightarrow> 's fctx \<times> string option" where [meta_contexts]:
  "fieldContext_meta_EnumValue_isDeprecated rt field = rt_scalar_context rt ''__EnumValue'' field True False ''field of type Boolean does not have child fields''"

definition fieldContext_meta_EnumValue_deprecationReason :: "'s runtime \<Rightarrow> 's cfield \<Rightarrow> 's fctx \<times> string option" where [meta_contexts]:
  "fieldContext_meta_EnumValue_deprecationReason rt field = rt_scalar_context rt ''__EnumValue'' field True False ''field of type String does not have child fields''"

definition fieldContext_meta_InputValue_name :: "'s runtime \<Rightarrow> 's cfield \<Rightarrow> 's fctx \<times> string option" where [meta_contexts]:
  "fieldContext_meta_InputValue_name rt field = rt_scalar_context rt ''__InputValue'' field False False ''field of type String does not have child fields''"

definition fieldContext_meta_InputValue_description :: "'s runtime \<Rightarrow> 's cfield \<Rightarrow> 's fctx \<times> string option" where [meta_contexts]:
  "fieldContext_meta_InputValue_description rt field = rt_scalar_context rt ''__InputValue'' field True False ''field of type String does not have child fields''"

definition fieldContext_meta_InputValue_type :: "'s cfield \<Rightarrow> 's fctx \<times> string option" where [meta_contexts]:
  "fieldContext_meta_InputValue_type field = (meta_context ''__InputValue'' field False Child_Type, None)"

definition fieldContext_meta_InputValue_defaultValue :: "'s runtime \<Rightarrow> 's cfield \<Rightarrow> 's fctx \<times> string option" where [meta_contexts]:
  "fieldContext_meta_InputValue_defaultValue rt field = rt_scalar_context rt ''__InputValue'' field False False ''field of type String does not have child fields''"

definition fieldContext_meta_InputValue_isDeprecated :: "'s runtime \<Rightarrow> 's cfield \<Rightarrow> 's fctx \<times> string option" where [meta_contexts]:
  "fieldContext_meta_InputValue_isDeprecated rt field = rt_scalar_context rt ''__InputValue'' field True False ''field of type Boolean does not have child fields''"

definition fieldContext_meta_InputValue_deprecationReason :: "'s runtime \<Rightarrow> 's cfield \<Rightarrow> 's fctx \<times> string option" where [meta_contexts]:
  "fieldContext_meta_InputValue_deprecationReason rt field = rt_scalar_context rt ''__InputValue'' field True False ''field of type String does not have child fields''"

definition fieldContext_meta_Field_name :: "'s runtime \<Rightarrow> 's cfield \<Rightarrow> 's fctx \<times> string option" where [meta_contexts]:
  "fieldContext_meta_Field_name rt field = rt_scalar_context rt ''__Field'' field False False ''field of type String does not have child fields''"

definition fieldContext_meta_Field_description :: "'s runtime \<Rightarrow> 's cfield \<Rightarrow> 's fctx \<times> string option" where [meta_contexts]:
  "fieldContext_meta_Field_description rt field = rt_scalar_context rt ''__Field'' field True False ''field of type String does not have child fields''"

definition fieldContext_meta_Field_args :: "'s runtime \<Rightarrow> 's init" where
  "fieldContext_meta_Field_args rt ctx field =
     (let fc = meta_context ''__Field'' field False Child_InputValue; ctx = in_field ctx field in
      with_args rt ctx fc (field_meta_Field_args_args rt ctx (cf_args field)))"

definition fieldContext_meta_Field_type :: "'s cfield \<Rightarrow> 's fctx \<times> string option" where [meta_contexts]:
  "fieldContext_meta_Field_type field = (meta_context ''__Field'' field False Child_Type, None)"

definition fieldContext_meta_Field_isDeprecated :: "'s runtime \<Rightarrow> 's cfield \<Rightarrow> 's fctx \<times> string option" where [meta_contexts]:
  "fieldContext_meta_Field_isDeprecated rt field = rt_scalar_context rt ''__Field'' field True False ''field of type Boolean does not have child fields''"

definition fieldContext_meta_Field_deprecationReason :: "'s runtime \<Rightarrow> 's cfield \<Rightarrow> 's fctx \<times> string option" where [meta_contexts]:
  "fieldContext_meta_Field_deprecationReason rt field = rt_scalar_context rt ''__Field'' field True False ''field of type String does not have child fields''"

definition fieldContext_meta_Directive_name :: "'s runtime \<Rightarrow> 's cfield \<Rightarrow> 's fctx \<times> string option" where [meta_contexts]:
  "fieldContext_meta_Directive_name rt field = rt_scalar_context rt ''__Directive'' field False False ''field of type String does not have child fields''"

definition fieldContext_meta_Directive_description :: "'s runtime \<Rightarrow> 's cfield \<Rightarrow> 's fctx \<times> string option" where [meta_contexts]:
  "fieldContext_meta_Directive_description rt field = rt_scalar_context rt ''__Directive'' field True False ''field of type String does not have child fields''"

definition fieldContext_meta_Directive_isRepeatable :: "'s runtime \<Rightarrow> 's cfield \<Rightarrow> 's fctx \<times> string option" where [meta_contexts]:
  "fieldContext_meta_Directive_isRepeatable rt field = rt_scalar_context rt ''__Directive'' field False False ''field of type Boolean does not have child fields''"

definition fieldContext_meta_Directive_locations :: "'s runtime \<Rightarrow> 's cfield \<Rightarrow> 's fctx \<times> string option" where [meta_contexts]:
  "fieldContext_meta_Directive_locations rt field = rt_scalar_context rt ''__Directive'' field False False ''field of type __DirectiveLocation does not have child fields''"

definition fieldContext_meta_Directive_args :: "'s runtime \<Rightarrow> 's init" where
  "fieldContext_meta_Directive_args rt ctx field =
     (let fc = meta_context ''__Directive'' field False Child_InputValue; ctx = in_field ctx field in
      with_args rt ctx fc (field_meta_Directive_args_args rt ctx (cf_args field)))"

definition fieldContext_meta_Type_kind :: "'s runtime \<Rightarrow> 's cfield \<Rightarrow> 's fctx \<times> string option" where [meta_contexts]:
  "fieldContext_meta_Type_kind rt field = rt_scalar_context rt ''__Type'' field True False ''field of type __TypeKind does not have child fields''"

definition fieldContext_meta_Type_name :: "'s runtime \<Rightarrow> 's cfield \<Rightarrow> 's fctx \<times> string option" where [meta_contexts]:
  "fieldContext_meta_Type_name rt field = rt_scalar_context rt ''__Type'' field True False ''field of type String does not have child fields''"

definition fieldContext_meta_Type_description :: "'s runtime \<Rightarrow> 's cfield \<Rightarrow> 's fctx \<times> string option" where [meta_contexts]:
  "fieldContext_meta_Type_description rt field = rt_scalar_context rt ''__Type'' field True False ''field of type String does not have child fields''"

definition fieldContext_meta_Type_specifiedByURL :: "'s runtime \<Rightarrow> 's cfield \<Rightarrow> 's fctx \<times> string option" where [meta_contexts]:
  "fieldContext_meta_Type_specifiedByURL rt field = rt_scalar_context rt ''__Type'' field True False ''field of type String does not have child fields''"

definition fieldContext_meta_Type_fields :: "'s runtime \<Rightarrow> 's init" where
  "fieldContext_meta_Type_fields rt ctx field =
     (let fc = meta_context ''__Type'' field True Child_Field; ctx = in_field ctx field in
      with_args rt ctx fc (field_meta_Type_fields_args rt ctx (cf_args field)))"

definition fieldContext_meta_Type_interfaces :: "'s cfield \<Rightarrow> 's fctx \<times> string option" where [meta_contexts]:
  "fieldContext_meta_Type_interfaces field = (meta_context ''__Type'' field True Child_Type, None)"

definition fieldContext_meta_Type_possibleTypes :: "'s cfield \<Rightarrow> 's fctx \<times> string option" where [meta_contexts]:
  "fieldContext_meta_Type_possibleTypes field = (meta_context ''__Type'' field True Child_Type, None)"

definition fieldContext_meta_Type_enumValues :: "'s runtime \<Rightarrow> 's init" where
  "fieldContext_meta_Type_enumValues rt ctx field =
     (let fc = meta_context ''__Type'' field True Child_EnumValue; ctx = in_field ctx field in
      with_args rt ctx fc (field_meta_Type_enumValues_args rt ctx (cf_args field)))"

definition fieldContext_meta_Type_inputFields :: "'s cfield \<Rightarrow> 's fctx \<times> string option" where [meta_contexts]:
  "fieldContext_meta_Type_inputFields field = (meta_context ''__Type'' field True Child_InputValue, None)"

definition fieldContext_meta_Type_ofType :: "'s cfield \<Rightarrow> 's fctx \<times> string option" where [meta_contexts]:
  "fieldContext_meta_Type_ofType field = (meta_context ''__Type'' field True Child_Type, None)"

definition fieldContext_meta_Type_isOneOf :: "'s runtime \<Rightarrow> 's cfield \<Rightarrow> 's fctx \<times> string option" where [meta_contexts]:
  "fieldContext_meta_Type_isOneOf rt field = rt_scalar_context rt ''__Type'' field True False ''field of type Boolean does not have child fields''"

definition fieldContext_meta_Schema_description :: "'s runtime \<Rightarrow> 's cfield \<Rightarrow> 's fctx \<times> string option" where [meta_contexts]:
  "fieldContext_meta_Schema_description rt field = rt_scalar_context rt ''__Schema'' field True False ''field of type String does not have child fields''"

definition fieldContext_meta_Schema_types :: "'s cfield \<Rightarrow> 's fctx \<times> string option" where [meta_contexts]:
  "fieldContext_meta_Schema_types field = (meta_context ''__Schema'' field True Child_Type, None)"

definition fieldContext_meta_Schema_queryType :: "'s cfield \<Rightarrow> 's fctx \<times> string option" where [meta_contexts]:
  "fieldContext_meta_Schema_queryType field = (meta_context ''__Schema'' field True Child_Type, None)"

definition fieldContext_meta_Schema_mutationType :: "'s cfield \<Rightarrow> 's fctx \<times> string option" where [meta_contexts]:
  "fieldContext_meta_Schema_mutationType field = (meta_context ''__Schema'' field True Child_Type, None)"

definition fieldContext_meta_Schema_subscriptionType :: "'s cfield \<Rightarrow> 's fctx \<times> string option" where [meta_contexts]:
  "fieldContext_meta_Schema_subscriptionType field = (meta_context ''__Schema'' field True Child_Type, None)"

definition fieldContext_meta_Schema_directives :: "'s cfield \<Rightarrow> 's fctx \<times> string option" where [meta_contexts]:
  "fieldContext_meta_Schema_directives field = (meta_context ''__Schema'' field True Child_Directive, None)"

definition fieldContext_Query_meta_type :: "'s runtime \<Rightarrow> 's init" where
  "fieldContext_Query_meta_type rt ctx field =
     (let fc = meta_context ''Query'' field True Child_Type; ctx = in_field ctx field in
      with_args rt ctx fc (field_Query_meta_type_args rt ctx (cf_args field)))"

definition fieldContext_Query_meta_schema :: "'s cfield \<Rightarrow> 's fctx \<times> string option" where [meta_contexts]:
  "fieldContext_Query_meta_schema field = (meta_context ''Query'' field True Child_Schema, None)"

section \<open>Looking up a child field\<close>

type_synonym 's found_run = "path \<Rightarrow> 's cfield \<Rightarrow> ('s fctx option \<times> string option) run"

definition found_here :: "'s fctx \<times> string option \<Rightarrow> ('s fctx option \<times> string option) run" where
  "found_here r = gret (found_context r)"

definition found_init :: "('s fctx \<times> string option) run \<Rightarrow> ('s fctx option \<times> string option) run" where
  "found_init m = gbind m (\<lambda>r. gret (found_context r))"

definition childFields_meta_EnumValue :: "'s runtime \<Rightarrow> 's found_run" where
  "childFields_meta_EnumValue rt ctx field = (let name = cf_name field in
     if name = ''name'' then found_here (fieldContext_meta_EnumValue_name rt field)
     else if name = ''description'' then found_here (fieldContext_meta_EnumValue_description rt field)
     else if name = ''isDeprecated'' then found_here (fieldContext_meta_EnumValue_isDeprecated rt field)
     else if name = ''deprecationReason'' then found_here (fieldContext_meta_EnumValue_deprecationReason rt field)
     else gret (None, Some (''no field named '' @ quote_name name @ '' was found under type __EnumValue'')))"

definition childFields_meta_InputValue :: "'s runtime \<Rightarrow> 's found_run" where
  "childFields_meta_InputValue rt ctx field = (let name = cf_name field in
     if name = ''name'' then found_here (fieldContext_meta_InputValue_name rt field)
     else if name = ''description'' then found_here (fieldContext_meta_InputValue_description rt field)
     else if name = ''type'' then found_here (fieldContext_meta_InputValue_type field)
     else if name = ''defaultValue'' then found_here (fieldContext_meta_InputValue_defaultValue rt field)
     else if name = ''isDeprecated'' then found_here (fieldContext_meta_InputValue_isDeprecated rt field)
     else if name = ''deprecationReason'' then found_here (fieldContext_meta_InputValue_deprecationReason rt field)
     else gret (None, Some (''no field named '' @ quote_name name @ '' was found under type __InputValue'')))"

definition childFields_meta_Field :: "'s runtime \<Rightarrow> 's found_run" where
  "childFields_meta_Field rt ctx field = (let name = cf_name field in
     if name = ''name'' then found_here (fieldContext_meta_Field_name rt field)
     else if name = ''description'' then found_here (fieldContext_meta_Field_description rt field)
     else if name = ''args'' then found_init (fieldContext_meta_Field_args rt ctx field)
     else if name = ''type'' then found_here (fieldContext_meta_Field_type field)
     else if name = ''isDeprecated'' then found_here (fieldContext_meta_Field_isDeprecated rt field)
     else if name = ''deprecationReason'' then found_here (fieldContext_meta_Field_deprecationReason rt field)
     else gret (None, Some (''no field named '' @ quote_name name @ '' was found under type __Field'')))"

definition childFields_meta_Directive :: "'s runtime \<Rightarrow> 's found_run" where
  "childFields_meta_Directive rt ctx field = (let name = cf_name field in
     if name = ''name'' then found_here (fieldContext_meta_Directive_name rt field)
     else if name = ''description'' then found_here (fieldContext_meta_Directive_description rt field)
     else if name = ''isRepeatable'' then found_here (fieldContext_meta_Directive_isRepeatable rt field)
     else if name = ''locations'' then found_here (fieldContext_meta_Directive_locations rt field)
     else if name = ''args'' then found_init (fieldContext_meta_Directive_args rt ctx field)
     else gret (None, Some (''no field named '' @ quote_name name @ '' was found under type __Directive'')))"

definition childFields_meta_Type :: "'s runtime \<Rightarrow> 's found_run" where
  "childFields_meta_Type rt ctx field = (let name = cf_name field in
     if name = ''kind'' then found_here (fieldContext_meta_Type_kind rt field)
     else if name = ''name'' then found_here (fieldContext_meta_Type_name rt field)
     else if name = ''description'' then found_here (fieldContext_meta_Type_description rt field)
     else if name = ''specifiedByURL'' then found_here (fieldContext_meta_Type_specifiedByURL rt field)
     else if name = ''fields'' then found_init (fieldContext_meta_Type_fields rt ctx field)
     else if name = ''interfaces'' then found_here (fieldContext_meta_Type_interfaces field)
     else if name = ''possibleTypes'' then found_here (fieldContext_meta_Type_possibleTypes field)
     else if name = ''enumValues'' then found_init (fieldContext_meta_Type_enumValues rt ctx field)
     else if name = ''inputFields'' then found_here (fieldContext_meta_Type_inputFields field)
     else if name = ''ofType'' then found_here (fieldContext_meta_Type_ofType field)
     else if name = ''isOneOf'' then found_here (fieldContext_meta_Type_isOneOf rt field)
     else gret (None, Some (''no field named '' @ quote_name name @ '' was found under type __Type'')))"

definition childFields_meta_Schema :: "'s runtime \<Rightarrow> 's found_run" where
  "childFields_meta_Schema rt ctx field = (let name = cf_name field in
     if name = ''description'' then found_here (fieldContext_meta_Schema_description rt field)
     else if name = ''types'' then found_here (fieldContext_meta_Schema_types field)
     else if name = ''queryType'' then found_here (fieldContext_meta_Schema_queryType field)
     else if name = ''mutationType'' then found_here (fieldContext_meta_Schema_mutationType field)
     else if name = ''subscriptionType'' then found_here (fieldContext_meta_Schema_subscriptionType field)
     else if name = ''directives'' then found_here (fieldContext_meta_Schema_directives field)
     else gret (None, Some (''no field named '' @ quote_name name @ '' was found under type __Schema'')))"

end
