(* ===== verification/Graphql_Meta_Objects.thy ===== *)
theory Graphql_Meta_Objects
  imports Graphql_Meta
begin

text \<open>
  The objects of introspection. Types refer to types, so \<open>___Type\<close> calls itself through its fields, as
  deep as the selection is nested; each function that reaches it gets the call as its argument \<open>ty\<close>,
  and \<open>meta_Type\<close> ties the knot with fuel: with none left it does not return. \<open>known_type\<close> in
  \<open>Graphql_Meta_Facts\<close> bounds what a selection needs.
\<close>

type_synonym ('s, 't) type_object = "path \<Rightarrow> 's \<Rightarrow> 't \<Rightarrow> marshaler run"

named_theorems meta_field_defs

section \<open>Marshallers of scalars and slices\<close>

definition marshal_slice :: "'s runtime \<Rightarrow> (path \<Rightarrow> 's \<Rightarrow> 'a \<Rightarrow> marshaler run) \<Rightarrow> path \<Rightarrow> 's \<Rightarrow> 'a list \<Rightarrow> marshaler run" where
  "marshal_slice rt marshal ctx sel v =
     gbind (rt_slice rt ctx (length v) (\<lambda>ctx i. marshal ctx sel (v ! i)))
       (\<lambda>ret. gret (if list_ex (\<lambda>e. e = Null) ret then Null else Slice ret))"

definition marshal_optional_slice ::
  "'s runtime \<Rightarrow> (path \<Rightarrow> 's \<Rightarrow> 'a \<Rightarrow> marshaler run) \<Rightarrow> path \<Rightarrow> 's \<Rightarrow> 'a list option \<Rightarrow> marshaler run" where
  "marshal_optional_slice rt marshal ctx sel v = (case v of
      None \<Rightarrow> gret Null
    | Some xs \<Rightarrow> marshal_slice rt marshal ctx sel xs)"

definition marshalN_meta_DirectiveLocation :: "'s runtime \<Rightarrow> path \<Rightarrow> 's \<Rightarrow> string \<Rightarrow> marshaler run" where
  "marshalN_meta_DirectiveLocation rt ctx sel v = null_checked rt ctx (rt_marshal_string rt v)"

definition marshalN_meta_DirectiveLocations :: "'s runtime \<Rightarrow> path \<Rightarrow> 's \<Rightarrow> string list \<Rightarrow> marshaler run" where
  "marshalN_meta_DirectiveLocations rt = marshal_slice rt (marshalN_meta_DirectiveLocation rt)"

definition marshalN_meta_TypeKind :: "'s runtime \<Rightarrow> path \<Rightarrow> 's \<Rightarrow> string \<Rightarrow> marshaler run" where
  "marshalN_meta_TypeKind rt ctx sel v = null_checked rt ctx (rt_marshal_string rt v)"

section \<open>Marshallers of types\<close>

definition marshalN_meta_Type :: "('s, 't) type_object \<Rightarrow> path \<Rightarrow> 's \<Rightarrow> 't \<Rightarrow> marshaler run" where
  "marshalN_meta_Type ty ctx sel v = ty ctx sel v"

definition marshalN_meta_Types :: "'s runtime \<Rightarrow> ('s, 't) type_object \<Rightarrow> path \<Rightarrow> 's \<Rightarrow> 't list \<Rightarrow> marshaler run" where
  "marshalN_meta_Types rt ty = marshal_slice rt (marshalN_meta_Type ty)"

definition marshalN_meta_Type_pointer :: "'s runtime \<Rightarrow> ('s, 't) type_object \<Rightarrow> path \<Rightarrow> 's \<Rightarrow> 't option \<Rightarrow> marshaler run" where
  "marshalN_meta_Type_pointer rt ty ctx sel v = (case v of
      None \<Rightarrow> null_checked rt ctx Null
    | Some t \<Rightarrow> ty ctx sel t)"

definition marshalO_meta_Types :: "'s runtime \<Rightarrow> ('s, 't) type_object \<Rightarrow> path \<Rightarrow> 's \<Rightarrow> 't list option \<Rightarrow> marshaler run" where
  "marshalO_meta_Types rt ty = marshal_optional_slice rt (marshalN_meta_Type ty)"

definition marshalO_meta_Type_pointer :: "('s, 't) type_object \<Rightarrow> path \<Rightarrow> 's \<Rightarrow> 't option \<Rightarrow> marshaler run" where
  "marshalO_meta_Type_pointer ty ctx sel v = (case v of
      None \<Rightarrow> gret Null
    | Some t \<Rightarrow> ty ctx sel t)"

section \<open>Values of enumerations\<close>

definition meta_EnumValue_name :: "'s runtime \<Rightarrow> path \<Rightarrow> 's cfield \<Rightarrow> meta_enum_value \<Rightarrow> marshaler run" where [meta_field_defs]:
  "meta_EnumValue_name rt ctx field obj = resolve_field rt ctx field
     (\<lambda>ctx field. gret (fieldContext_meta_EnumValue_name rt field)) (\<lambda>ctx fc. gret (Inr (ev_name obj)))
     (marshalNString rt) True True"

definition meta_EnumValue_description :: "'s runtime \<Rightarrow> path \<Rightarrow> 's cfield \<Rightarrow> meta_enum_value \<Rightarrow> marshaler run" where [meta_field_defs]:
  "meta_EnumValue_description rt ctx field obj = resolve_field rt ctx field
     (\<lambda>ctx field. gret (fieldContext_meta_EnumValue_description rt field)) (\<lambda>ctx fc. gret (Inr (ev_description obj)))
     (marshalOString rt) True False"

definition meta_EnumValue_isDeprecated :: "'s runtime \<Rightarrow> path \<Rightarrow> 's cfield \<Rightarrow> meta_enum_value \<Rightarrow> marshaler run" where [meta_field_defs]:
  "meta_EnumValue_isDeprecated rt ctx field obj = resolve_field rt ctx field
     (\<lambda>ctx field. gret (fieldContext_meta_EnumValue_isDeprecated rt field)) (\<lambda>ctx fc. gret (Inr (ev_is_deprecated obj)))
     (marshalNBoolean rt) True True"

definition meta_EnumValue_deprecationReason :: "'s runtime \<Rightarrow> path \<Rightarrow> 's cfield \<Rightarrow> meta_enum_value \<Rightarrow> marshaler run" where [meta_field_defs]:
  "meta_EnumValue_deprecationReason rt ctx field obj = resolve_field rt ctx field
     (\<lambda>ctx field. gret (fieldContext_meta_EnumValue_deprecationReason rt field)) (\<lambda>ctx fc. gret (Inr (ev_deprecation_reason obj)))
     (marshalOString rt) True False"

definition meta_EnumValue_value :: "'s runtime \<Rightarrow> path \<Rightarrow> meta_enum_value \<Rightarrow> 's cfield \<Rightarrow> (marshaler \<times> nat) run" where
  "meta_EnumValue_value rt ctx obj field = (let name = cf_name field in
     if name = ''__typename'' then gret (rt_marshal_string rt ''__EnumValue'', 0)
     else if name = ''name'' then non_null (meta_EnumValue_name rt ctx field obj)
     else if name = ''description'' then nullable (meta_EnumValue_description rt ctx field obj)
     else if name = ''isDeprecated'' then non_null (meta_EnumValue_isDeprecated rt ctx field obj)
     else if name = ''deprecationReason'' then nullable (meta_EnumValue_deprecationReason rt ctx field obj)
     else gpanic)"

definition meta_EnumValue :: "'s runtime \<Rightarrow> path \<Rightarrow> 's \<Rightarrow> meta_enum_value \<Rightarrow> marshaler run" where
  "meta_EnumValue rt ctx sel obj =
     (let fs = rt_collect rt sel [''__EnumValue''] in
      gbind (map_run (meta_EnumValue_value rt ctx obj) fs) (\<lambda>out. gret (field_set fs out)))"

definition marshalN_meta_EnumValue :: "'s runtime \<Rightarrow> path \<Rightarrow> 's \<Rightarrow> meta_enum_value \<Rightarrow> marshaler run" where
  "marshalN_meta_EnumValue rt ctx sel v = meta_EnumValue rt ctx sel v"

definition marshalO_meta_EnumValues :: "'s runtime \<Rightarrow> path \<Rightarrow> 's \<Rightarrow> meta_enum_value list option \<Rightarrow> marshaler run" where
  "marshalO_meta_EnumValues rt = marshal_optional_slice rt (marshalN_meta_EnumValue rt)"

section \<open>Input values\<close>

definition meta_InputValue_name :: "'s runtime \<Rightarrow> path \<Rightarrow> 's cfield \<Rightarrow> 't meta_input_value \<Rightarrow> marshaler run" where [meta_field_defs]:
  "meta_InputValue_name rt ctx field obj = resolve_field rt ctx field
     (\<lambda>ctx field. gret (fieldContext_meta_InputValue_name rt field)) (\<lambda>ctx fc. gret (Inr (iv_name obj)))
     (marshalNString rt) True True"

definition meta_InputValue_description :: "'s runtime \<Rightarrow> path \<Rightarrow> 's cfield \<Rightarrow> 't meta_input_value \<Rightarrow> marshaler run" where [meta_field_defs]:
  "meta_InputValue_description rt ctx field obj = resolve_field rt ctx field
     (\<lambda>ctx field. gret (fieldContext_meta_InputValue_description rt field)) (\<lambda>ctx fc. gret (Inr (iv_description obj)))
     (marshalOString rt) True False"

definition meta_InputValue_type :: "'s runtime \<Rightarrow> ('s, 't) type_object \<Rightarrow> path \<Rightarrow> 's cfield \<Rightarrow> 't meta_input_value \<Rightarrow> marshaler run" where [meta_field_defs]:
  "meta_InputValue_type rt ty ctx field obj = resolve_field rt ctx field
     (\<lambda>ctx field. gret (fieldContext_meta_InputValue_type field)) (\<lambda>ctx fc. gret (Inr (iv_type obj)))
     (marshalN_meta_Type_pointer rt ty) True True"

definition meta_InputValue_defaultValue :: "'s runtime \<Rightarrow> path \<Rightarrow> 's cfield \<Rightarrow> 't meta_input_value \<Rightarrow> marshaler run" where [meta_field_defs]:
  "meta_InputValue_defaultValue rt ctx field obj = resolve_field rt ctx field
     (\<lambda>ctx field. gret (fieldContext_meta_InputValue_defaultValue rt field)) (\<lambda>ctx fc. gret (Inr (iv_default_value obj)))
     (marshalOString rt) True False"

definition meta_InputValue_isDeprecated :: "'s runtime \<Rightarrow> path \<Rightarrow> 's cfield \<Rightarrow> 't meta_input_value \<Rightarrow> marshaler run" where [meta_field_defs]:
  "meta_InputValue_isDeprecated rt ctx field obj = resolve_field rt ctx field
     (\<lambda>ctx field. gret (fieldContext_meta_InputValue_isDeprecated rt field)) (\<lambda>ctx fc. gret (Inr (iv_is_deprecated obj)))
     (marshalNBoolean rt) True True"

definition meta_InputValue_deprecationReason :: "'s runtime \<Rightarrow> path \<Rightarrow> 's cfield \<Rightarrow> 't meta_input_value \<Rightarrow> marshaler run" where [meta_field_defs]:
  "meta_InputValue_deprecationReason rt ctx field obj = resolve_field rt ctx field
     (\<lambda>ctx field. gret (fieldContext_meta_InputValue_deprecationReason rt field)) (\<lambda>ctx fc. gret (Inr (iv_deprecation_reason obj)))
     (marshalOString rt) True False"

definition meta_InputValue_value :: "'s runtime \<Rightarrow> ('s, 't) type_object \<Rightarrow> path \<Rightarrow> 't meta_input_value \<Rightarrow> 's cfield \<Rightarrow> (marshaler \<times> nat) run" where
  "meta_InputValue_value rt ty ctx obj field = (let name = cf_name field in
     if name = ''__typename'' then gret (rt_marshal_string rt ''__InputValue'', 0)
     else if name = ''name'' then non_null (meta_InputValue_name rt ctx field obj)
     else if name = ''description'' then nullable (meta_InputValue_description rt ctx field obj)
     else if name = ''type'' then non_null (meta_InputValue_type rt ty ctx field obj)
     else if name = ''defaultValue'' then nullable (meta_InputValue_defaultValue rt ctx field obj)
     else if name = ''isDeprecated'' then non_null (meta_InputValue_isDeprecated rt ctx field obj)
     else if name = ''deprecationReason'' then nullable (meta_InputValue_deprecationReason rt ctx field obj)
     else gpanic)"

definition meta_InputValue :: "'s runtime \<Rightarrow> ('s, 't) type_object \<Rightarrow> path \<Rightarrow> 's \<Rightarrow> 't meta_input_value \<Rightarrow> marshaler run" where
  "meta_InputValue rt ty ctx sel obj =
     (let fs = rt_collect rt sel [''__InputValue''] in
      gbind (map_run (meta_InputValue_value rt ty ctx obj) fs) (\<lambda>out. gret (field_set fs out)))"

definition marshalN_meta_InputValue :: "'s runtime \<Rightarrow> ('s, 't) type_object \<Rightarrow> path \<Rightarrow> 's \<Rightarrow> 't meta_input_value \<Rightarrow> marshaler run" where
  "marshalN_meta_InputValue rt ty ctx sel v = meta_InputValue rt ty ctx sel v"

definition marshalN_meta_InputValues :: "'s runtime \<Rightarrow> ('s, 't) type_object \<Rightarrow> path \<Rightarrow> 's \<Rightarrow> 't meta_input_value list \<Rightarrow> marshaler run" where
  "marshalN_meta_InputValues rt ty = marshal_slice rt (marshalN_meta_InputValue rt ty)"

definition marshalO_meta_InputValues :: "'s runtime \<Rightarrow> ('s, 't) type_object \<Rightarrow> path \<Rightarrow> 's \<Rightarrow> 't meta_input_value list option \<Rightarrow> marshaler run" where
  "marshalO_meta_InputValues rt ty = marshal_optional_slice rt (marshalN_meta_InputValue rt ty)"

section \<open>Fields\<close>

definition meta_Field_name :: "'s runtime \<Rightarrow> path \<Rightarrow> 's cfield \<Rightarrow> 't meta_field \<Rightarrow> marshaler run" where [meta_field_defs]:
  "meta_Field_name rt ctx field obj = resolve_field rt ctx field
     (\<lambda>ctx field. gret (fieldContext_meta_Field_name rt field)) (\<lambda>ctx fc. gret (Inr (fd_name obj)))
     (marshalNString rt) True True"

definition meta_Field_description :: "'s runtime \<Rightarrow> path \<Rightarrow> 's cfield \<Rightarrow> 't meta_field \<Rightarrow> marshaler run" where [meta_field_defs]:
  "meta_Field_description rt ctx field obj = resolve_field rt ctx field
     (\<lambda>ctx field. gret (fieldContext_meta_Field_description rt field)) (\<lambda>ctx fc. gret (Inr (fd_description obj)))
     (marshalOString rt) True False"

definition meta_Field_args :: "'s runtime \<Rightarrow> ('s, 't) type_object \<Rightarrow> path \<Rightarrow> 's cfield \<Rightarrow> 't meta_field \<Rightarrow> marshaler run" where [meta_field_defs]:
  "meta_Field_args rt ty ctx field obj = resolve_field rt ctx field
     (fieldContext_meta_Field_args rt) (\<lambda>ctx fc. gret (Inr (fd_args obj)))
     (marshalN_meta_InputValues rt ty) True True"

definition meta_Field_type :: "'s runtime \<Rightarrow> ('s, 't) type_object \<Rightarrow> path \<Rightarrow> 's cfield \<Rightarrow> 't meta_field \<Rightarrow> marshaler run" where [meta_field_defs]:
  "meta_Field_type rt ty ctx field obj = resolve_field rt ctx field
     (\<lambda>ctx field. gret (fieldContext_meta_Field_type field)) (\<lambda>ctx fc. gret (Inr (fd_type obj)))
     (marshalN_meta_Type_pointer rt ty) True True"

definition meta_Field_isDeprecated :: "'s runtime \<Rightarrow> path \<Rightarrow> 's cfield \<Rightarrow> 't meta_field \<Rightarrow> marshaler run" where [meta_field_defs]:
  "meta_Field_isDeprecated rt ctx field obj = resolve_field rt ctx field
     (\<lambda>ctx field. gret (fieldContext_meta_Field_isDeprecated rt field)) (\<lambda>ctx fc. gret (Inr (fd_is_deprecated obj)))
     (marshalNBoolean rt) True True"

definition meta_Field_deprecationReason :: "'s runtime \<Rightarrow> path \<Rightarrow> 's cfield \<Rightarrow> 't meta_field \<Rightarrow> marshaler run" where [meta_field_defs]:
  "meta_Field_deprecationReason rt ctx field obj = resolve_field rt ctx field
     (\<lambda>ctx field. gret (fieldContext_meta_Field_deprecationReason rt field)) (\<lambda>ctx fc. gret (Inr (fd_deprecation_reason obj)))
     (marshalOString rt) True False"

definition meta_Field_value :: "'s runtime \<Rightarrow> ('s, 't) type_object \<Rightarrow> path \<Rightarrow> 't meta_field \<Rightarrow> 's cfield \<Rightarrow> (marshaler \<times> nat) run" where
  "meta_Field_value rt ty ctx obj field = (let name = cf_name field in
     if name = ''__typename'' then gret (rt_marshal_string rt ''__Field'', 0)
     else if name = ''name'' then non_null (meta_Field_name rt ctx field obj)
     else if name = ''description'' then nullable (meta_Field_description rt ctx field obj)
     else if name = ''args'' then non_null (meta_Field_args rt ty ctx field obj)
     else if name = ''type'' then non_null (meta_Field_type rt ty ctx field obj)
     else if name = ''isDeprecated'' then non_null (meta_Field_isDeprecated rt ctx field obj)
     else if name = ''deprecationReason'' then nullable (meta_Field_deprecationReason rt ctx field obj)
     else gpanic)"

definition meta_Field :: "'s runtime \<Rightarrow> ('s, 't) type_object \<Rightarrow> path \<Rightarrow> 's \<Rightarrow> 't meta_field \<Rightarrow> marshaler run" where
  "meta_Field rt ty ctx sel obj =
     (let fs = rt_collect rt sel [''__Field''] in
      gbind (map_run (meta_Field_value rt ty ctx obj) fs) (\<lambda>out. gret (field_set fs out)))"

definition marshalN_meta_Field :: "'s runtime \<Rightarrow> ('s, 't) type_object \<Rightarrow> path \<Rightarrow> 's \<Rightarrow> 't meta_field \<Rightarrow> marshaler run" where
  "marshalN_meta_Field rt ty ctx sel v = meta_Field rt ty ctx sel v"

definition marshalO_meta_Fields :: "'s runtime \<Rightarrow> ('s, 't) type_object \<Rightarrow> path \<Rightarrow> 's \<Rightarrow> 't meta_field list option \<Rightarrow> marshaler run" where
  "marshalO_meta_Fields rt ty = marshal_optional_slice rt (marshalN_meta_Field rt ty)"

section \<open>Directives\<close>

definition meta_Directive_name :: "'s runtime \<Rightarrow> path \<Rightarrow> 's cfield \<Rightarrow> 't meta_directive \<Rightarrow> marshaler run" where [meta_field_defs]:
  "meta_Directive_name rt ctx field obj = resolve_field rt ctx field
     (\<lambda>ctx field. gret (fieldContext_meta_Directive_name rt field)) (\<lambda>ctx fc. gret (Inr (dr_name obj)))
     (marshalNString rt) True True"

definition meta_Directive_description :: "'s runtime \<Rightarrow> path \<Rightarrow> 's cfield \<Rightarrow> 't meta_directive \<Rightarrow> marshaler run" where [meta_field_defs]:
  "meta_Directive_description rt ctx field obj = resolve_field rt ctx field
     (\<lambda>ctx field. gret (fieldContext_meta_Directive_description rt field)) (\<lambda>ctx fc. gret (Inr (dr_description obj)))
     (marshalOString rt) True False"

definition meta_Directive_isRepeatable :: "'s runtime \<Rightarrow> path \<Rightarrow> 's cfield \<Rightarrow> 't meta_directive \<Rightarrow> marshaler run" where [meta_field_defs]:
  "meta_Directive_isRepeatable rt ctx field obj = resolve_field rt ctx field
     (\<lambda>ctx field. gret (fieldContext_meta_Directive_isRepeatable rt field)) (\<lambda>ctx fc. gret (Inr (dr_is_repeatable obj)))
     (marshalNBoolean rt) True True"

definition meta_Directive_locations :: "'s runtime \<Rightarrow> path \<Rightarrow> 's cfield \<Rightarrow> 't meta_directive \<Rightarrow> marshaler run" where [meta_field_defs]:
  "meta_Directive_locations rt ctx field obj = resolve_field rt ctx field
     (\<lambda>ctx field. gret (fieldContext_meta_Directive_locations rt field)) (\<lambda>ctx fc. gret (Inr (dr_locations obj)))
     (marshalN_meta_DirectiveLocations rt) True True"

definition meta_Directive_args :: "'s runtime \<Rightarrow> ('s, 't) type_object \<Rightarrow> path \<Rightarrow> 's cfield \<Rightarrow> 't meta_directive \<Rightarrow> marshaler run" where [meta_field_defs]:
  "meta_Directive_args rt ty ctx field obj = resolve_field rt ctx field
     (fieldContext_meta_Directive_args rt) (\<lambda>ctx fc. gret (Inr (dr_args obj)))
     (marshalN_meta_InputValues rt ty) True True"

definition meta_Directive_value :: "'s runtime \<Rightarrow> ('s, 't) type_object \<Rightarrow> path \<Rightarrow> 't meta_directive \<Rightarrow> 's cfield \<Rightarrow> (marshaler \<times> nat) run" where
  "meta_Directive_value rt ty ctx obj field = (let name = cf_name field in
     if name = ''__typename'' then gret (rt_marshal_string rt ''__Directive'', 0)
     else if name = ''name'' then non_null (meta_Directive_name rt ctx field obj)
     else if name = ''description'' then nullable (meta_Directive_description rt ctx field obj)
     else if name = ''isRepeatable'' then non_null (meta_Directive_isRepeatable rt ctx field obj)
     else if name = ''locations'' then non_null (meta_Directive_locations rt ctx field obj)
     else if name = ''args'' then non_null (meta_Directive_args rt ty ctx field obj)
     else gpanic)"

definition meta_Directive :: "'s runtime \<Rightarrow> ('s, 't) type_object \<Rightarrow> path \<Rightarrow> 's \<Rightarrow> 't meta_directive \<Rightarrow> marshaler run" where
  "meta_Directive rt ty ctx sel obj =
     (let fs = rt_collect rt sel [''__Directive''] in
      gbind (map_run (meta_Directive_value rt ty ctx obj) fs) (\<lambda>out. gret (field_set fs out)))"

definition marshalN_meta_Directive :: "'s runtime \<Rightarrow> ('s, 't) type_object \<Rightarrow> path \<Rightarrow> 's \<Rightarrow> 't meta_directive \<Rightarrow> marshaler run" where
  "marshalN_meta_Directive rt ty ctx sel v = meta_Directive rt ty ctx sel v"

definition marshalN_meta_Directives :: "'s runtime \<Rightarrow> ('s, 't) type_object \<Rightarrow> path \<Rightarrow> 's \<Rightarrow> 't meta_directive list \<Rightarrow> marshaler run" where
  "marshalN_meta_Directives rt ty = marshal_slice rt (marshalN_meta_Directive rt ty)"

section \<open>Types\<close>

definition meta_Type_kind :: "'s runtime \<Rightarrow> 't introspection \<Rightarrow> path \<Rightarrow> 's cfield \<Rightarrow> 't \<Rightarrow> marshaler run" where [meta_field_defs]:
  "meta_Type_kind rt I ctx field obj = resolve_field rt ctx field
     (\<lambda>ctx field. gret (fieldContext_meta_Type_kind rt field)) (\<lambda>ctx fc. gret (Inr (ty_kind I obj)))
     (marshalN_meta_TypeKind rt) True True"

definition meta_Type_name :: "'s runtime \<Rightarrow> 't introspection \<Rightarrow> path \<Rightarrow> 's cfield \<Rightarrow> 't \<Rightarrow> marshaler run" where [meta_field_defs]:
  "meta_Type_name rt I ctx field obj = resolve_field rt ctx field
     (\<lambda>ctx field. gret (fieldContext_meta_Type_name rt field)) (\<lambda>ctx fc. gret (Inr (ty_name I obj)))
     (marshalOString rt) True False"

definition meta_Type_description :: "'s runtime \<Rightarrow> 't introspection \<Rightarrow> path \<Rightarrow> 's cfield \<Rightarrow> 't \<Rightarrow> marshaler run" where [meta_field_defs]:
  "meta_Type_description rt I ctx field obj = resolve_field rt ctx field
     (\<lambda>ctx field. gret (fieldContext_meta_Type_description rt field)) (\<lambda>ctx fc. gret (Inr (ty_description I obj)))
     (marshalOString rt) True False"

definition meta_Type_specifiedByURL :: "'s runtime \<Rightarrow> 't introspection \<Rightarrow> path \<Rightarrow> 's cfield \<Rightarrow> 't \<Rightarrow> marshaler run" where [meta_field_defs]:
  "meta_Type_specifiedByURL rt I ctx field obj = resolve_field rt ctx field
     (\<lambda>ctx field. gret (fieldContext_meta_Type_specifiedByURL rt field)) (\<lambda>ctx fc. gret (Inr (ty_specified_by_url I obj)))
     (marshalOString rt) True False"

definition meta_Type_fields :: "'s runtime \<Rightarrow> 't introspection \<Rightarrow> ('s, 't) type_object \<Rightarrow> path \<Rightarrow> 's cfield \<Rightarrow> 't \<Rightarrow> marshaler run" where [meta_field_defs]:
  "meta_Type_fields rt I ty ctx field obj = resolve_field rt ctx field
     (fieldContext_meta_Type_fields rt) (\<lambda>ctx fc. case map_of (fc_args fc) ''includeDeprecated'' of Some (A_Bool b) \<Rightarrow> gret (Inr (ty_fields I obj b)) | _ \<Rightarrow> gpanic)
     (marshalO_meta_Fields rt ty) True False"

definition meta_Type_interfaces :: "'s runtime \<Rightarrow> 't introspection \<Rightarrow> ('s, 't) type_object \<Rightarrow> path \<Rightarrow> 's cfield \<Rightarrow> 't \<Rightarrow> marshaler run" where [meta_field_defs]:
  "meta_Type_interfaces rt I ty ctx field obj = resolve_field rt ctx field
     (\<lambda>ctx field. gret (fieldContext_meta_Type_interfaces field)) (\<lambda>ctx fc. gret (Inr (ty_interfaces I obj)))
     (marshalO_meta_Types rt ty) True False"

definition meta_Type_possibleTypes :: "'s runtime \<Rightarrow> 't introspection \<Rightarrow> ('s, 't) type_object \<Rightarrow> path \<Rightarrow> 's cfield \<Rightarrow> 't \<Rightarrow> marshaler run" where [meta_field_defs]:
  "meta_Type_possibleTypes rt I ty ctx field obj = resolve_field rt ctx field
     (\<lambda>ctx field. gret (fieldContext_meta_Type_possibleTypes field)) (\<lambda>ctx fc. gret (Inr (ty_possible_types I obj)))
     (marshalO_meta_Types rt ty) True False"

definition meta_Type_enumValues :: "'s runtime \<Rightarrow> 't introspection \<Rightarrow> path \<Rightarrow> 's cfield \<Rightarrow> 't \<Rightarrow> marshaler run" where [meta_field_defs]:
  "meta_Type_enumValues rt I ctx field obj = resolve_field rt ctx field
     (fieldContext_meta_Type_enumValues rt) (\<lambda>ctx fc. case map_of (fc_args fc) ''includeDeprecated'' of Some (A_Bool b) \<Rightarrow> gret (Inr (ty_enum_values I obj b)) | _ \<Rightarrow> gpanic)
     (marshalO_meta_EnumValues rt) True False"

definition meta_Type_inputFields :: "'s runtime \<Rightarrow> 't introspection \<Rightarrow> ('s, 't) type_object \<Rightarrow> path \<Rightarrow> 's cfield \<Rightarrow> 't \<Rightarrow> marshaler run" where [meta_field_defs]:
  "meta_Type_inputFields rt I ty ctx field obj = resolve_field rt ctx field
     (\<lambda>ctx field. gret (fieldContext_meta_Type_inputFields field)) (\<lambda>ctx fc. gret (Inr (ty_input_fields I obj)))
     (marshalO_meta_InputValues rt ty) True False"

definition meta_Type_ofType :: "'s runtime \<Rightarrow> 't introspection \<Rightarrow> ('s, 't) type_object \<Rightarrow> path \<Rightarrow> 's cfield \<Rightarrow> 't \<Rightarrow> marshaler run" where [meta_field_defs]:
  "meta_Type_ofType rt I ty ctx field obj = resolve_field rt ctx field
     (\<lambda>ctx field. gret (fieldContext_meta_Type_ofType field)) (\<lambda>ctx fc. gret (Inr (ty_of_type I obj)))
     (marshalO_meta_Type_pointer ty) True False"

definition meta_Type_isOneOf :: "'s runtime \<Rightarrow> 't introspection \<Rightarrow> path \<Rightarrow> 's cfield \<Rightarrow> 't \<Rightarrow> marshaler run" where [meta_field_defs]:
  "meta_Type_isOneOf rt I ctx field obj = resolve_field rt ctx field
     (\<lambda>ctx field. gret (fieldContext_meta_Type_isOneOf rt field)) (\<lambda>ctx fc. gret (Inr (ty_is_one_of I obj)))
     (marshalOBoolean rt) True False"

definition meta_Type_value :: "'s runtime \<Rightarrow> 't introspection \<Rightarrow> ('s, 't) type_object \<Rightarrow> path \<Rightarrow> 't \<Rightarrow> 's cfield \<Rightarrow> (marshaler \<times> nat) run" where
  "meta_Type_value rt I ty ctx obj field = (let name = cf_name field in
     if name = ''__typename'' then gret (rt_marshal_string rt ''__Type'', 0)
     else if name = ''kind'' then non_null (meta_Type_kind rt I ctx field obj)
     else if name = ''name'' then nullable (meta_Type_name rt I ctx field obj)
     else if name = ''description'' then nullable (meta_Type_description rt I ctx field obj)
     else if name = ''specifiedByURL'' then nullable (meta_Type_specifiedByURL rt I ctx field obj)
     else if name = ''fields'' then nullable (meta_Type_fields rt I ty ctx field obj)
     else if name = ''interfaces'' then nullable (meta_Type_interfaces rt I ty ctx field obj)
     else if name = ''possibleTypes'' then nullable (meta_Type_possibleTypes rt I ty ctx field obj)
     else if name = ''enumValues'' then nullable (meta_Type_enumValues rt I ctx field obj)
     else if name = ''inputFields'' then nullable (meta_Type_inputFields rt I ty ctx field obj)
     else if name = ''ofType'' then nullable (meta_Type_ofType rt I ty ctx field obj)
     else if name = ''isOneOf'' then nullable (meta_Type_isOneOf rt I ctx field obj)
     else gpanic)"

definition meta_Type_step :: "'s runtime \<Rightarrow> 't introspection \<Rightarrow> ('s, 't) type_object \<Rightarrow> path \<Rightarrow> 's \<Rightarrow> 't \<Rightarrow> marshaler run" where
  "meta_Type_step rt I ty ctx sel obj =
     (let fs = rt_collect rt sel [''__Type''] in
      gbind (map_run (meta_Type_value rt I ty ctx obj) fs) (\<lambda>out. gret (field_set fs out)))"

primrec meta_Type :: "'s runtime \<Rightarrow> 't introspection \<Rightarrow> nat \<Rightarrow> ('s, 't) type_object" where
  "meta_Type rt I 0 = (\<lambda>ctx sel obj s. None)"
| "meta_Type rt I (Suc n) = meta_Type_step rt I (meta_Type rt I n)"

section \<open>The schema\<close>

definition meta_Schema_description :: "'s runtime \<Rightarrow> path \<Rightarrow> 's cfield \<Rightarrow> 't meta_schema \<Rightarrow> marshaler run" where [meta_field_defs]:
  "meta_Schema_description rt ctx field obj = resolve_field rt ctx field
     (\<lambda>ctx field. gret (fieldContext_meta_Schema_description rt field)) (\<lambda>ctx fc. gret (Inr (sc_description obj)))
     (marshalOString rt) True False"

definition meta_Schema_types :: "'s runtime \<Rightarrow> ('s, 't) type_object \<Rightarrow> path \<Rightarrow> 's cfield \<Rightarrow> 't meta_schema \<Rightarrow> marshaler run" where [meta_field_defs]:
  "meta_Schema_types rt ty ctx field obj = resolve_field rt ctx field
     (\<lambda>ctx field. gret (fieldContext_meta_Schema_types field)) (\<lambda>ctx fc. gret (Inr (sc_types obj)))
     (marshalN_meta_Types rt ty) True True"

definition meta_Schema_queryType :: "'s runtime \<Rightarrow> ('s, 't) type_object \<Rightarrow> path \<Rightarrow> 's cfield \<Rightarrow> 't meta_schema \<Rightarrow> marshaler run" where [meta_field_defs]:
  "meta_Schema_queryType rt ty ctx field obj = resolve_field rt ctx field
     (\<lambda>ctx field. gret (fieldContext_meta_Schema_queryType field)) (\<lambda>ctx fc. gret (Inr (sc_query_type obj)))
     (marshalN_meta_Type_pointer rt ty) True True"

definition meta_Schema_mutationType :: "'s runtime \<Rightarrow> ('s, 't) type_object \<Rightarrow> path \<Rightarrow> 's cfield \<Rightarrow> 't meta_schema \<Rightarrow> marshaler run" where [meta_field_defs]:
  "meta_Schema_mutationType rt ty ctx field obj = resolve_field rt ctx field
     (\<lambda>ctx field. gret (fieldContext_meta_Schema_mutationType field)) (\<lambda>ctx fc. gret (Inr (sc_mutation_type obj)))
     (marshalO_meta_Type_pointer ty) True False"

definition meta_Schema_subscriptionType :: "'s runtime \<Rightarrow> ('s, 't) type_object \<Rightarrow> path \<Rightarrow> 's cfield \<Rightarrow> 't meta_schema \<Rightarrow> marshaler run" where [meta_field_defs]:
  "meta_Schema_subscriptionType rt ty ctx field obj = resolve_field rt ctx field
     (\<lambda>ctx field. gret (fieldContext_meta_Schema_subscriptionType field)) (\<lambda>ctx fc. gret (Inr (sc_subscription_type obj)))
     (marshalO_meta_Type_pointer ty) True False"

definition meta_Schema_directives :: "'s runtime \<Rightarrow> ('s, 't) type_object \<Rightarrow> path \<Rightarrow> 's cfield \<Rightarrow> 't meta_schema \<Rightarrow> marshaler run" where [meta_field_defs]:
  "meta_Schema_directives rt ty ctx field obj = resolve_field rt ctx field
     (\<lambda>ctx field. gret (fieldContext_meta_Schema_directives field)) (\<lambda>ctx fc. gret (Inr (sc_directives obj)))
     (marshalN_meta_Directives rt ty) True True"

definition meta_Schema_value :: "'s runtime \<Rightarrow> ('s, 't) type_object \<Rightarrow> path \<Rightarrow> 't meta_schema \<Rightarrow> 's cfield \<Rightarrow> (marshaler \<times> nat) run" where
  "meta_Schema_value rt ty ctx obj field = (let name = cf_name field in
     if name = ''__typename'' then gret (rt_marshal_string rt ''__Schema'', 0)
     else if name = ''description'' then nullable (meta_Schema_description rt ctx field obj)
     else if name = ''types'' then non_null (meta_Schema_types rt ty ctx field obj)
     else if name = ''queryType'' then non_null (meta_Schema_queryType rt ty ctx field obj)
     else if name = ''mutationType'' then nullable (meta_Schema_mutationType rt ty ctx field obj)
     else if name = ''subscriptionType'' then nullable (meta_Schema_subscriptionType rt ty ctx field obj)
     else if name = ''directives'' then non_null (meta_Schema_directives rt ty ctx field obj)
     else gpanic)"

definition meta_Schema :: "'s runtime \<Rightarrow> ('s, 't) type_object \<Rightarrow> path \<Rightarrow> 's \<Rightarrow> 't meta_schema \<Rightarrow> marshaler run" where
  "meta_Schema rt ty ctx sel obj =
     (let fs = rt_collect rt sel [''__Schema''] in
      gbind (map_run (meta_Schema_value rt ty ctx obj) fs) (\<lambda>out. gret (field_set fs out)))"

definition marshalO_meta_Schema :: "'s runtime \<Rightarrow> ('s, 't) type_object \<Rightarrow> path \<Rightarrow> 's \<Rightarrow> 't meta_schema option \<Rightarrow> marshaler run" where
  "marshalO_meta_Schema rt ty ctx sel v = (case v of
      None \<Rightarrow> gret Null
    | Some obj \<Rightarrow> meta_Schema rt ty ctx sel obj)"

section \<open>The fields of \<open>Query\<close>\<close>

definition Query_meta_type :: "'s runtime \<Rightarrow> 't introspection \<Rightarrow> nat \<Rightarrow> path \<Rightarrow> 's cfield \<Rightarrow> marshaler run" where
  "Query_meta_type rt I n ctx field = resolve_field rt ctx field
     (fieldContext_Query_meta_type rt)
     (\<lambda>ctx fc. case map_of (fc_args fc) ''name'' of Some (A_String t) \<Rightarrow> gret (introspect_type I t) | _ \<Rightarrow> gpanic)
     (marshalO_meta_Type_pointer (meta_Type rt I n)) True False"

definition Query_meta_schema :: "'s runtime \<Rightarrow> 't introspection \<Rightarrow> nat \<Rightarrow> path \<Rightarrow> 's cfield \<Rightarrow> marshaler run" where
  "Query_meta_schema rt I n ctx field = resolve_field rt ctx field
     (\<lambda>ctx field. gret (fieldContext_Query_meta_schema field)) (\<lambda>ctx fc. gret (introspect_schema I))
     (marshalO_meta_Schema rt (meta_Type rt I n)) True False"

text \<open>What a query calls for its two fields of this kind.\<close>

definition introspect :: "'s runtime \<Rightarrow> 't introspection \<Rightarrow> nat \<Rightarrow> path \<Rightarrow> 's cfield \<Rightarrow> marshaler run" where
  "introspect rt I n ctx field =
     (if cf_name field = ''__type'' then Query_meta_type rt I n ctx field else Query_meta_schema rt I n ctx field)"

end
