(* ===== verification/Graphql_Complexity.thy ===== *)
theory Graphql_Complexity
  imports Graphql_Input
begin

text \<open>
  \<open>Complexity\<close> of \<open>graph/generated.go\<close>: the cost gqlgen asks the schema for, field by field, when a
  limit is set. The configuration has an optional function per field; \<open>None\<close> is Go's nil. The result
  is the cost and whether there is one; \<open>None\<close> is a panic while the arguments are read, which
  \<open>Complexity\<close> does not recover from.
\<close>

record complexity_root =
  cr_Employee_bankAccountNumber :: "(int \<Rightarrow> int) option"
  cr_Employee_company :: "(int \<Rightarrow> int) option"
  cr_Employee_costCenter :: "(int \<Rightarrow> int) option"
  cr_Employee_dateOfBirth :: "(int \<Rightarrow> int) option"
  cr_Employee_department :: "(int \<Rightarrow> int) option"
  cr_Employee_email :: "(int \<Rightarrow> int) option"
  cr_Employee_employeeId :: "(int \<Rightarrow> int) option"
  cr_Employee_employeeStatus :: "(int \<Rightarrow> int) option"
  cr_Employee_firstName :: "(int \<Rightarrow> int) option"
  cr_Employee_fullName :: "(int \<Rightarrow> int) option"
  cr_Employee_gender :: "(int \<Rightarrow> int) option"
  cr_Employee_id :: "(int \<Rightarrow> int) option"
  cr_Employee_jobLevel :: "(int \<Rightarrow> int) option"
  cr_Employee_jobTitle :: "(int \<Rightarrow> int) option"
  cr_Employee_lastModified :: "(int \<Rightarrow> int) option"
  cr_Employee_lastModifiedOn :: "(int \<Rightarrow> int) option"
  cr_Employee_lastName :: "(int \<Rightarrow> int) option"
  cr_Employee_location :: "(int \<Rightarrow> int) option"
  cr_Employee_managerEmail :: "(int \<Rightarrow> int) option"
  cr_Employee_managerId :: "(int \<Rightarrow> int) option"
  cr_Employee_middleName :: "(int \<Rightarrow> int) option"
  cr_Employee_nationality :: "(int \<Rightarrow> int) option"
  cr_Employee_phoneNumber :: "(int \<Rightarrow> int) option"
  cr_Employee_startDate :: "(int \<Rightarrow> int) option"
  cr_Mutation_createEmployee :: "(int \<Rightarrow> create_employee_input \<Rightarrow> int) option"
  cr_Mutation_deleteEmployee :: "(int \<Rightarrow> int \<Rightarrow> int) option"
  cr_Mutation_updateEmployee :: "(int \<Rightarrow> int \<Rightarrow> update_employee_input \<Rightarrow> int) option"
  cr_Query_employee :: "(int \<Rightarrow> int \<Rightarrow> int) option"
  cr_Query_employees :: "(int \<Rightarrow> int option \<Rightarrow> int option \<Rightarrow> int) option"
  cr_Query_hello :: "(int \<Rightarrow> int) option"
  cr_Query_searchEmployees :: "(int \<Rightarrow> string \<Rightarrow> int option \<Rightarrow> int option \<Rightarrow> int) option"
  cr_Subscription_employeeCreated :: "(int \<Rightarrow> int) option"

text \<open>A case of the switch: nil breaks, so do arguments that cannot be read.\<close>

definition no_cost :: "(int \<times> bool) option" where
  "no_cost = Some (0, False)"

definition plain_cost :: "(int \<Rightarrow> int) option \<Rightarrow> int \<Rightarrow> (int \<times> bool) option" where
  "plain_cost f childComplexity = (case f of None \<Rightarrow> no_cost | Some g \<Rightarrow> Some (g childComplexity, True))"

definition args_cost :: "'f option \<Rightarrow> args decoded \<Rightarrow> ('f \<Rightarrow> (string \<Rightarrow> arg option) \<Rightarrow> int option) \<Rightarrow> (int \<times> bool) option" where
  "args_cost f args cost = (case f of
      None \<Rightarrow> no_cost
    | Some g \<Rightarrow>
        (case args of
           None \<Rightarrow> None
         | Some (a, Some err) \<Rightarrow> no_cost
         | Some (a, None) \<Rightarrow> map_option (\<lambda>n. (n, True)) (cost g (map_of a))))"

definition employee_complexity :: "complexity_root \<Rightarrow> string \<Rightarrow> int \<Rightarrow> (int \<times> bool) option option" where
  "employee_complexity cr key childComplexity =
     (if key = ''Employee.bankAccountNumber'' then Some (plain_cost (cr_Employee_bankAccountNumber cr) childComplexity)
     else if key = ''Employee.company'' then Some (plain_cost (cr_Employee_company cr) childComplexity)
     else if key = ''Employee.costCenter'' then Some (plain_cost (cr_Employee_costCenter cr) childComplexity)
     else if key = ''Employee.dateOfBirth'' then Some (plain_cost (cr_Employee_dateOfBirth cr) childComplexity)
     else if key = ''Employee.department'' then Some (plain_cost (cr_Employee_department cr) childComplexity)
     else if key = ''Employee.email'' then Some (plain_cost (cr_Employee_email cr) childComplexity)
     else if key = ''Employee.employeeId'' then Some (plain_cost (cr_Employee_employeeId cr) childComplexity)
     else if key = ''Employee.employeeStatus'' then Some (plain_cost (cr_Employee_employeeStatus cr) childComplexity)
     else if key = ''Employee.firstName'' then Some (plain_cost (cr_Employee_firstName cr) childComplexity)
     else if key = ''Employee.fullName'' then Some (plain_cost (cr_Employee_fullName cr) childComplexity)
     else if key = ''Employee.gender'' then Some (plain_cost (cr_Employee_gender cr) childComplexity)
     else if key = ''Employee.id'' then Some (plain_cost (cr_Employee_id cr) childComplexity)
     else if key = ''Employee.jobLevel'' then Some (plain_cost (cr_Employee_jobLevel cr) childComplexity)
     else if key = ''Employee.jobTitle'' then Some (plain_cost (cr_Employee_jobTitle cr) childComplexity)
     else if key = ''Employee.lastModified'' then Some (plain_cost (cr_Employee_lastModified cr) childComplexity)
     else if key = ''Employee.lastModifiedOn'' then Some (plain_cost (cr_Employee_lastModifiedOn cr) childComplexity)
     else if key = ''Employee.lastName'' then Some (plain_cost (cr_Employee_lastName cr) childComplexity)
     else if key = ''Employee.location'' then Some (plain_cost (cr_Employee_location cr) childComplexity)
     else if key = ''Employee.managerEmail'' then Some (plain_cost (cr_Employee_managerEmail cr) childComplexity)
     else if key = ''Employee.managerId'' then Some (plain_cost (cr_Employee_managerId cr) childComplexity)
     else if key = ''Employee.middleName'' then Some (plain_cost (cr_Employee_middleName cr) childComplexity)
     else if key = ''Employee.nationality'' then Some (plain_cost (cr_Employee_nationality cr) childComplexity)
     else if key = ''Employee.phoneNumber'' then Some (plain_cost (cr_Employee_phoneNumber cr) childComplexity)
     else if key = ''Employee.startDate'' then Some (plain_cost (cr_Employee_startDate cr) childComplexity)
     else None)"

definition mutation_complexity ::
  "'s runtime \<Rightarrow> complexity_root \<Rightarrow> path \<Rightarrow> string \<Rightarrow> int \<Rightarrow> (string \<Rightarrow> json option) \<Rightarrow> (int \<times> bool) option option" where
  "mutation_complexity rt cr ctx key childComplexity rawArgs =
     (if key = ''Mutation.createEmployee'' then
        Some (args_cost (cr_Mutation_createEmployee cr) (field_Mutation_createEmployee_args rt ctx rawArgs)
          (\<lambda>f args. case args ''data'' of Some (A_Create d) \<Rightarrow> Some (f childComplexity d) | _ \<Rightarrow> None))
      else if key = ''Mutation.deleteEmployee'' then
        Some (args_cost (cr_Mutation_deleteEmployee cr) (field_Mutation_deleteEmployee_args rt ctx rawArgs)
          (\<lambda>f args. case args ''id'' of Some (A_Long k) \<Rightarrow> Some (f childComplexity k) | _ \<Rightarrow> None))
      else if key = ''Mutation.updateEmployee'' then
        Some (args_cost (cr_Mutation_updateEmployee cr) (field_Mutation_updateEmployee_args rt ctx rawArgs)
          (\<lambda>f args. case (args ''id'', args ''data'') of
             (Some (A_Long k), Some (A_Update d)) \<Rightarrow> Some (f childComplexity k d) | _ \<Rightarrow> None))
      else None)"

definition query_complexity ::
  "'s runtime \<Rightarrow> complexity_root \<Rightarrow> path \<Rightarrow> string \<Rightarrow> int \<Rightarrow> (string \<Rightarrow> json option) \<Rightarrow> (int \<times> bool) option option" where
  "query_complexity rt cr ctx key childComplexity rawArgs =
     (if key = ''Query.employee'' then
        Some (args_cost (cr_Query_employee cr) (field_Query_employee_args rt ctx rawArgs)
          (\<lambda>f args. case args ''id'' of Some (A_Long k) \<Rightarrow> Some (f childComplexity k) | _ \<Rightarrow> None))
      else if key = ''Query.employees'' then
        Some (args_cost (cr_Query_employees cr) (field_Query_employees_args rt ctx rawArgs)
          (\<lambda>f args. case (args ''offset'', args ''limit'') of
             (Some (A_Int off), Some (A_Int lim)) \<Rightarrow> Some (f childComplexity off lim) | _ \<Rightarrow> None))
      else if key = ''Query.hello'' then Some (plain_cost (cr_Query_hello cr) childComplexity)
      else if key = ''Query.searchEmployees'' then
        Some (args_cost (cr_Query_searchEmployees cr) (field_Query_searchEmployees_args rt ctx rawArgs)
          (\<lambda>f args. case (args ''search'', args ''offset'', args ''limit'') of
             (Some (A_String t), Some (A_Int off), Some (A_Int lim)) \<Rightarrow> Some (f childComplexity t off lim) | _ \<Rightarrow> None))
      else None)"

definition subscription_complexity :: "complexity_root \<Rightarrow> string \<Rightarrow> int \<Rightarrow> (int \<times> bool) option option" where
  "subscription_complexity cr key childComplexity =
     (if key = ''Subscription.employeeCreated''
      then Some (plain_cost (cr_Subscription_employeeCreated cr) childComplexity) else None)"

definition complexity ::
  "'s runtime \<Rightarrow> complexity_root \<Rightarrow> path \<Rightarrow> string \<Rightarrow> string \<Rightarrow> int \<Rightarrow> (string \<Rightarrow> json option) \<Rightarrow> (int \<times> bool) option" where
  "complexity rt cr ctx typeName field childComplexity rawArgs =
     (let key = typeName @ ''.'' @ field in
      case employee_complexity cr key childComplexity of Some r \<Rightarrow> r | None \<Rightarrow>
      (case mutation_complexity rt cr ctx key childComplexity rawArgs of Some r \<Rightarrow> r | None \<Rightarrow>
      (case query_complexity rt cr ctx key childComplexity rawArgs of Some r \<Rightarrow> r | None \<Rightarrow>
      (case subscription_complexity cr key childComplexity of Some r \<Rightarrow> r | None \<Rightarrow> no_cost))))"

end
