(* ===== verification/Graphql_Facts.thy ===== *)
theory Graphql_Facts
  imports Graphql_Exec Graphql_Complexity
begin

text \<open>
  What an employee shows: the reference for the fields of the schema's type \<open>Employee\<close>, and the proofs
  that its resolvers, its object and its lists answer with it under the runtime's contract.
\<close>

section \<open>What an employee shows\<close>

text \<open>The reference: the fields of the schema's type \<open>Employee\<close> by name, with the value each shows.\<close>

definition shown_option :: "('a \<Rightarrow> marshaler) \<Rightarrow> 'a option \<Rightarrow> marshaler" where
  "shown_option f x = (case x of None \<Rightarrow> Null | Some y \<Rightarrow> f y)"

definition employee_columns :: "'s runtime \<Rightarrow> employee \<Rightarrow> (string \<times> marshaler) list" where
  "employee_columns rt e = (let txt = rt_marshal_string rt; opt = shown_option txt; tm = shown_option (rt_marshal_time rt) in
    [(''__typename'', txt ''Employee''), (''id'', rt_marshal_int64 rt (g_id e)), (''employeeId'', txt (g_employee_id e)),
     (''firstName'', txt (g_first_name e)), (''middleName'', opt (g_middle_name e)), (''lastName'', txt (g_last_name e)),
     (''gender'', opt (g_gender e)), (''email'', txt (g_email e)), (''phoneNumber'', opt (g_phone_number e)),
     (''dateOfBirth'', tm (g_date_of_birth e)), (''nationality'', opt (g_nationality e)), (''jobLevel'', opt (g_job_level e)),
     (''department'', opt (g_department e)), (''location'', opt (g_location e)),
     (''bankAccountNumber'', opt (g_bank_account_number e)), (''company'', opt (g_company e)),
     (''jobTitle'', opt (g_job_title e)), (''costCenter'', opt (g_cost_center e)), (''startDate'', tm (g_start_date e)),
     (''employeeStatus'', opt (g_employee_status e)), (''managerId'', opt (g_manager_id e)),
     (''managerEmail'', opt (g_manager_email e)), (''lastModifiedOn'', tm (g_last_modified_on e)),
     (''lastModified'', shown_option (rt_marshal_int64 rt) (g_last_modified e)), (''fullName'', txt (g_full_name e))])"

definition shown :: "'s runtime \<Rightarrow> employee \<Rightarrow> 's cfield \<Rightarrow> string \<times> marshaler" where
  "shown rt e f = (cf_alias f, the (map_of (employee_columns rt e) (cf_name f)))"

definition employee_field_names :: "string list" where
  "employee_field_names = [''id'', ''employeeId'', ''firstName'', ''middleName'', ''lastName'', ''gender'', ''email'',
     ''phoneNumber'', ''dateOfBirth'', ''nationality'', ''jobLevel'', ''department'', ''location'', ''bankAccountNumber'',
     ''company'', ''jobTitle'', ''costCenter'', ''startDate'', ''employeeStatus'', ''managerId'', ''managerEmail'',
     ''lastModifiedOn'', ''lastModified'', ''fullName'']"

definition known_fields :: "'s runtime \<Rightarrow> 's \<Rightarrow> bool" where
  "known_fields rt sel \<longleftrightarrow> (\<forall>f \<in> set (rt_collect rt sel [''Employee'']). cf_name f \<in> set (''__typename'' # employee_field_names))"

definition employee_view :: "'s runtime \<Rightarrow> 's \<Rightarrow> employee \<Rightarrow> marshaler" where
  "employee_view rt sel e = Field_Set (map (shown rt e) (rt_collect rt sel [''Employee'']))"

lemma columns_field_names: "map fst (employee_columns rt e) = ''__typename'' # employee_field_names"
  by (simp add: employee_columns_def employee_field_names_def Let_def)

context gqlgen begin

lemma plain_context:
  assumes "snd (fce field) = None"
  shows "resolve_field rt ctx field (\<lambda>ctx field. gret (fce field)) (\<lambda>ctx fc. gret (Inr v)) marshal True nn =
    recovered (rt_recover rt) (in_field ctx field) Null (marshal (in_field ctx field) (cf_sel field) v)"
proof
  fix s
  have "gret (fce field) s = Some (Some (fst (fce field), None), s)"
    using assms by (cases "fce field") (simp add: gret_def)
  then show "resolve_field rt ctx field (\<lambda>ctx field. gret (fce field)) (\<lambda>ctx fc. gret (Inr v)) marshal True nn s =
    recovered (rt_recover rt) (in_field ctx field) Null (marshal (in_field ctx field) (cf_sel field) v) s"
    using resolve_field_runs [of "\<lambda>ctx field. gret (fce field)" ctx field s "fst (fce field)" s
        "\<lambda>ctx fc. gret (Inr v)" marshal nn] by simp
qed

lemma scalar_resolves:
  "resolve_field rt ctx field (\<lambda>ctx field. gret (rt_scalar_context rt ob field im ir e)) (\<lambda>ctx fc. gret (Inr v)) marshal True nn =
    recovered (rt_recover rt) (in_field ctx field) Null (marshal (in_field ctx field) (cf_sel field) v)"
  by (rule plain_context, rule scalar_context)

lemma null_checked_value: "v \<noteq> Null \<Longrightarrow> null_checked rt ctx v = gret v"
  by (simp add: null_checked_def fun_eq_iff)

lemmas scalar_marshals = marshalNLong_def marshalNString_def marshalNBoolean_def marshalOString_def marshalODateTime_def
  marshalOLong_def null_checked_value scalars_not_null

lemma employee_value_shown:
  "employee_value rt ctx obj field s = (case map_of (employee_columns rt obj) (cf_name field) of
     Some v \<Rightarrow> Some (Some (v, 0), s) | None \<Rightarrow> Some (None, s))"
proof (cases "cf_name field \<in> set (''__typename'' # employee_field_names)")
  case True
  then have "cf_name field \<in> set [''__typename'']  \<or> cf_name field \<in> set employee_field_names" by simp
  then show ?thesis
    unfolding employee_field_names_def list.set Un_iff insert_iff empty_iff
    by (elim disjE; simp only: employee_value_def; simp add: employee_field_defs scalar_resolves scalar_marshals
        non_null_def nullable_def invalid_def employee_columns_def shown_option_def Let_def gret_def split: option.split)
next
  case False
  then have "map_of (employee_columns rt obj) (cf_name field) = None"
    by (simp only: map_of_eq_None_iff set_map [symmetric] columns_field_names) blast
  moreover have "employee_value rt ctx obj field = gpanic"
    using False by (simp add: employee_value_def employee_field_names_def)
  ultimately show ?thesis by (simp add: gpanic_def)
qed

lemma employee_values_shown:
  assumes "\<forall>f \<in> set fs. cf_name f \<in> set (''__typename'' # employee_field_names)"
  shows "map_run (employee_value rt ctx obj) fs s = Some (Some (map (\<lambda>f. (snd (shown rt obj f), 0)) fs), s)"
  using assms
proof (induction fs)
  case Nil
  then show ?case by (simp add: gret_def)
next
  case (Cons f fs)
  have "cf_name f \<in> set (map fst (employee_columns rt obj))" using Cons.prems by (simp add: columns_field_names)
  then obtain v where "map_of (employee_columns rt obj) (cf_name f) = Some v"
    by (metis list.set_map map_of_eq_None_iff not_None_eq)
  then show ?case using Cons by (simp add: gbind_def employee_value_shown shown_def gret_def)
qed

lemma field_set_shown: "field_set fs (map (\<lambda>f. (snd (shown rt obj f), 0)) fs) = Field_Set (map (shown rt obj) fs)"
proof -
  have "sum_list (map snd (map (\<lambda>f. (snd (shown rt obj f), 0)) fs)) = (0 :: nat)" by (simp add: comp_def)
  moreover have "zip (map cf_alias fs) (map fst (map (\<lambda>f. (snd (shown rt obj f), 0 :: nat)) fs)) = map (shown rt obj) fs"
    by (induction fs) (simp_all add: shown_def)
  ultimately show ?thesis by (simp add: field_set_def)
qed

lemma employee_object_shown:
  assumes "known_fields rt sel"
  shows "Employee_object rt ctx sel obj s = Some (Some (employee_view rt sel obj), s)"
  using employee_values_shown [of "rt_collect rt sel [''Employee'']" ctx obj s] assms
  by (simp add: Employee_object_def Let_def known_fields_def gbind_def field_set_shown employee_view_def gret_def)

lemma shown_option_complete: "(\<And>x. complete (f x)) \<Longrightarrow> complete (shown_option f v)"
  by (cases v) (simp_all add: shown_option_def)

lemma employee_columns_complete: "v \<in> snd ` set (employee_columns rt e) \<Longrightarrow> complete v"
  by (auto simp: employee_columns_def Let_def scalars_complete intro: shown_option_complete)

lemma employee_view_complete:
  assumes "known_fields rt sel"
  shows "complete (employee_view rt sel e)"
proof -
  have "complete (snd (shown rt e f))" if f: "f \<in> set (rt_collect rt sel [''Employee''])" for f
  proof -
    have "cf_name f \<in> set (map fst (employee_columns rt e))"
      using assms f unfolding known_fields_def columns_field_names by blast
    then obtain v where v: "map_of (employee_columns rt e) (cf_name f) = Some v"
      by (metis list.set_map map_of_eq_None_iff not_None_eq)
    then have "v \<in> snd ` set (employee_columns rt e)" by (force dest: map_of_SomeD)
    then show ?thesis using v by (simp add: shown_def employee_columns_complete)
  qed
  then show ?thesis by (simp add: employee_view_def list_all_iff)
qed

lemma employees_shown:
  assumes "known_fields rt sel"
  shows "marshalNEmployees rt ctx sel (map Some es) s = Some (Some (Slice (map (employee_view rt sel) es)), s)"
proof -
  have "rt_slice rt ctx (length es) (\<lambda>ctx i. marshalNEmployee rt ctx sel (map Some es ! i)) s =
      Some (Some (map (\<lambda>i. employee_view rt sel (es ! i)) [0..<length es]), s)"
    by (rule slice_runs) (simp add: marshalNEmployee_def employee_object_shown [OF assms])
  moreover have "map (\<lambda>i. employee_view rt sel (es ! i)) [0..<length es] = map (employee_view rt sel) es"
    by (rule nth_equalityI) simp_all
  moreover have "\<not> list_ex (\<lambda>e. e = Null) (map (employee_view rt sel) es)"
    by (auto simp: list_ex_iff employee_view_def)
  ultimately show ?thesis by (simp add: marshalNEmployees_def gbind_def gret_def)
qed

end

end
