(* ===== verification/Graphql_Service.thy ===== *)
theory Graphql_Service
  imports Graphql_Facts
begin

text \<open>
  What an execution does to the service. \<open>app_relation\<close> is a relation on states of the service that is
  reflexive and transitive; \<open>stays R m\<close> says that \<open>m\<close> stays in it, whether it returns or panics. It
  is interpreted by the steps of the running service and by \<open>read_only\<close>.
\<close>

definition stays :: "(app \<Rightarrow> app \<Rightarrow> bool) \<Rightarrow> 'a run \<Rightarrow> bool" where
  "stays R m \<longleftrightarrow> (\<forall>s r s'. m s = Some (r, s') \<longrightarrow> R (g_app s) (g_app s'))"

lemma staysD: "stays R m \<Longrightarrow> m s = Some (r, s') \<Longrightarrow> R (g_app s) (g_app s')"
  by (auto simp: stays_def)

definition quiet :: "'a run \<Rightarrow> bool" where
  "quiet m \<longleftrightarrow> stays (=) m"

locale app_relation =
  fixes R :: "app \<Rightarrow> app \<Rightarrow> bool"
  assumes refl: "R a a" and trans: "R a b \<Longrightarrow> R b c \<Longrightarrow> R a c"
begin

lemma stays_gret [simp]: "stays R (gret x)"
  by (simp add: stays_def gret_def refl)

lemma stays_gpanic [simp]: "stays R gpanic"
  by (simp add: stays_def gpanic_def refl)

lemma stays_gerror [simp]: "stays R (gerror ctx e)"
  by (simp add: stays_def gerror_def refl)

lemma stays_gbind: "stays R m \<Longrightarrow> (\<And>x. stays R (f x)) \<Longrightarrow> stays R (gbind m f)"
  unfolding stays_def using trans by (blast dest: gbind_SomeD)

lemma stays_gbind_returned:
  "stays R m \<Longrightarrow> (\<And>x s s'. m s = Some (Some x, s') \<Longrightarrow> stays R (f x)) \<Longrightarrow> stays R (gbind m f)"
  unfolding stays_def using trans by (blast dest: gbind_SomeD)

lemma stays_quiet: "quiet m \<Longrightarrow> stays R m"
  unfolding quiet_def stays_def using refl by metis

lemma stays_recovered: "stays R m \<Longrightarrow> stays R (recovered e ctx x m)"
  unfolding stays_def recovered_def by (auto split: option.split_asm)

lemma stays_map_run: "(\<And>x. x \<in> set xs \<Longrightarrow> stays R (f x)) \<Longrightarrow> stays R (map_run f xs)"
  by (induction xs) (auto intro!: stays_gbind)

lemma stays_run_in_order: "(\<And>i. i \<in> set is \<Longrightarrow> stays R (f i)) \<Longrightarrow> stays R (run_in_order is f)"
  by (induction "is") (auto intro!: stays_gbind)

lemma stays_value_map: "stays R m \<Longrightarrow> stays R (value_map f m)"
  by (simp add: value_map_def stays_gbind)

lemma stays_non_null: "stays R m \<Longrightarrow> stays R (non_null m)"
  by (simp add: non_null_def stays_gbind)

lemma stays_nullable: "stays R m \<Longrightarrow> stays R (nullable m)"
  by (simp add: nullable_def stays_gbind)

lemma stays_on_world:
  "(\<And>a r w. f (ap_world a) = Some (r, w) \<Longrightarrow> R a (a\<lparr>ap_world := w\<rparr>)) \<Longrightarrow> stays R (on_world f)"
  by (auto simp: stays_def on_world_def split: option.split_asm)

lemma stays_on_broker:
  "(\<And>a r w b. f (ap_world a) (hub_broker (ap_hub a)) = Some (r, w, b) \<Longrightarrow>
      R a \<lparr>ap_world = w, ap_hub = (ap_hub a)\<lparr>hub_broker := b\<rparr>\<rparr>) \<Longrightarrow> stays R (on_broker f)"
  by (auto simp: stays_def on_broker_def split: option.split_asm)

end

interpretation same: app_relation "(=)"
  by unfold_locales simp_all

lemmas quiet_rules = same.stays_gret same.stays_gpanic same.stays_gerror same.stays_gbind same.stays_map_run
  same.stays_recovered same.stays_non_null same.stays_nullable

section \<open>Marshalling is quiet\<close>

lemma quiet_null_checked: "quiet (null_checked rt ctx v)"
  by (auto simp: quiet_def stays_def null_checked_def gret_def split: if_split_asm)

lemma quiet_scalars:
  "quiet (marshalNBoolean rt ctx sel b)" "quiet (marshalNLong rt ctx sel n)" "quiet (marshalNString rt ctx sel t)"
  "quiet (marshalODateTime rt ctx sel tm)" "quiet (marshalOLong rt ctx sel on)" "quiet (marshalOString rt ctx sel ot)"
  by (simp_all add: marshalNBoolean_def marshalNLong_def marshalNString_def marshalODateTime_def marshalOLong_def
      marshalOString_def quiet_null_checked) (simp_all add: quiet_def)

context gqlgen begin

lemma quiet_employee_value: "quiet (employee_value rt ctx obj field)"
  by (auto simp: quiet_def stays_def employee_value_shown split: option.split_asm)

lemma quiet_employee_object: "quiet (Employee_object rt ctx sel obj)"
  unfolding Employee_object_def Let_def quiet_def
  by (intro same.stays_gbind same.stays_map_run same.stays_gret quiet_employee_value [unfolded quiet_def])

lemma quiet_employee: "quiet (marshalNEmployee rt ctx sel v)"
  by (cases v) (simp_all add: marshalNEmployee_def quiet_null_checked quiet_employee_object)

lemma quiet_optional_employee: "quiet (marshalOEmployee rt ctx sel v)"
  by (cases v) (simp_all add: marshalOEmployee_def quiet_employee_object, simp add: quiet_def)

lemma quiet_employees: "quiet (marshalNEmployees rt ctx sel v)"
proof -
  have "stays (=) (rt_slice rt ctx (length v) (\<lambda>ctx i. marshalNEmployee rt ctx sel (v ! i)))"
    unfolding stays_def
  proof (intro allI impI)
    fix s r s'
    assume "rt_slice rt ctx (length v) (\<lambda>ctx i. marshalNEmployee rt ctx sel (v ! i)) s = Some (r, s')"
    then have "g_app s' = g_app s"
      by (rule slice_frame [rotated]) (use quiet_employee in \<open>auto simp: quiet_def stays_def\<close>)
    then show "g_app s = g_app s'" by simp
  qed
  then show ?thesis
    unfolding marshalNEmployees_def quiet_def by (intro same.stays_gbind same.stays_gret)
qed

end

section \<open>A root field\<close>

definition context_ok :: "'s init \<Rightarrow> bool" where
  "context_ok init \<longleftrightarrow> (\<forall>ctx field s. \<exists>fc e s'. init ctx field s = Some (Some (fc, e), s') \<and> g_app s' = g_app s)"

lemma with_args_ok: "\<exists>fc' e s'. with_args rt ctx fc r s = Some (Some (fc', e), s') \<and> g_app s' = g_app s"
  by (cases r) (auto simp: with_args_def gret_def split: option.split)

lemma root_contexts_ok:
  "context_ok (fieldContext_Mutation_createEmployee rt)" "context_ok (fieldContext_Mutation_updateEmployee rt)"
  "context_ok (fieldContext_Mutation_deleteEmployee rt)" "context_ok (fieldContext_Query_employees rt)"
  "context_ok (fieldContext_Query_employee rt)" "context_ok (fieldContext_Query_searchEmployees rt)"
  by (simp_all add: context_ok_def with_args_ok Let_def fieldContext_Mutation_createEmployee_def
      fieldContext_Mutation_updateEmployee_def fieldContext_Mutation_deleteEmployee_def fieldContext_Query_employees_def
      fieldContext_Query_employee_def fieldContext_Query_searchEmployees_def)

locale gqlgen_relation = gqlgen rt + app_relation R
  for rt :: "'s runtime" and R :: "app \<Rightarrow> app \<Rightarrow> bool"
begin

lemma stays_resolve_field:
  assumes init: "context_ok init" and resolver: "\<And>ctx fc. stays R (resolver ctx fc)"
    and marshal: "\<And>ctx sel v. quiet (marshal ctx sel v)"
  shows "stays R (resolve_field rt ctx field init resolver marshal True nn)"
  unfolding stays_def
proof (intro allI impI)
  fix s r s'
  assume run: "resolve_field rt ctx field init resolver marshal True nn s = Some (r, s')"
  obtain fc e s1 where i: "init ctx field s = Some (Some (fc, e), s1)" "g_app s1 = g_app s"
    using init by (fastforce simp: context_ok_def)
  show "R (g_app s) (g_app s')"
  proof (cases e)
    case None
    have "stays R (recovered (rt_recover rt) (in_field ctx field) Null
        (gbind (resolver (in_field ctx field) fc) (\<lambda>r. case r of
           Inl e \<Rightarrow> gbind (gerror (in_field ctx field) (error_text e)) (\<lambda>u. gret Null)
         | Inr v \<Rightarrow> marshal (in_field ctx field) (cf_sel field) v)))" (is "stays R ?m")
    proof (intro stays_recovered stays_gbind)
      show "stays R (resolver (in_field ctx field) fc)" by (rule resolver)
      show "stays R (case r of Inl e \<Rightarrow> gbind (gerror (in_field ctx field) (error_text e)) (\<lambda>u. gret Null)
         | Inr v \<Rightarrow> marshal (in_field ctx field) (cf_sel field) v)" for r
        by (cases r) (simp_all only: sum.case stays_quiet [OF marshal] stays_gbind [OF stays_gerror stays_gret])
    qed
    moreover have "resolve_field rt ctx field init resolver marshal True nn s = ?m s1"
      by (rule resolve_field_runs) (use i(1) None in simp)
    ultimately show ?thesis using run i(2) by (metis staysD)
  next
    case (Some err)
    have "resolve_field rt ctx field init resolver marshal True nn s = Some (Some Null, s1)"
      by (rule resolve_field_bad_context) (use i(1) Some in simp)
    then show ?thesis using run i(2) by (simp add: refl)
  qed
qed

end

section \<open>The root objects\<close>

lemma map_run_ConsD:
  assumes "map_run f (x # xs) s = Some (Some ys, s')"
  obtains z s1 zs where "f x s = Some (Some z, s1)" "map_run f xs s1 = Some (Some zs, s')" "ys = z # zs"
proof -
  from assms obtain z s1 where z: "f x s = Some (Some z, s1)"
      and rest: "gbind (map_run f xs) (\<lambda>ys. gret (z # ys)) s1 = Some (Some ys, s')"
    by (auto dest: gbind_SomeD)
  from gbind_SomeD [OF rest] obtain zs where "map_run f xs s1 = Some (Some zs, s')" "ys = z # zs"
    by (auto simp: gret_def)
  with z show ?thesis by (rule that)
qed

lemma map_run_results: "map_run f xs s = Some (Some ys, s') \<Longrightarrow> y \<in> set ys \<Longrightarrow>
    \<exists>x \<in> set xs. \<exists>s1 s2. f x s1 = Some (Some y, s2)"
proof (induction xs arbitrary: s ys)
  case Nil
  then show ?case by (simp add: gret_def)
next
  case (Cons x xs)
  obtain z s1 zs where z: "f x s = Some (Some z, s1)" "map_run f xs s1 = Some (Some zs, s')" "ys = z # zs"
    by (rule map_run_ConsD [OF Cons.prems(1)])
  show ?case
  proof (cases "y = z")
    case True
    then show ?thesis using z(1) by auto
  next
    case False
    then show ?thesis using Cons.IH [OF z(2)] Cons.prems(2) z(3) by auto
  qed
qed

lemma delayed_iff: "m \<in> set (delayed ss) \<longleftrightarrow> Later m \<in> set ss"
  by (induction ss rule: delayed.induct) auto

locale service_reads = gqlgen_relation rt R
  for rt :: "'s runtime" and R :: "app \<Rightarrow> app \<Rightarrow> bool" +
  fixes E :: env
  assumes lookup_step: "get_employee_by_id E k (ap_world a) = Some (ro, w) \<Longrightarrow> R a (a\<lparr>ap_world := w\<rparr>)"
    and listing_step: "list_query E P offset limit (ap_world a) = Some (rl, w) \<Longrightarrow> R a (a\<lparr>ap_world := w\<rparr>)"
begin

lemma stays_employees: "stays R (on_world (employees_query E offset limit))"
  by (rule stays_on_world) (simp add: employees_query_def listing_step)

lemma stays_search: "stays R (on_world (search_employees E search offset limit))"
  by (rule stays_on_world) (simp add: search_employees_def listing_step)

lemma stays_lookup: "stays R (on_world (get_employee_by_id E k))"
  by (rule stays_on_world) (rule lookup_step)

lemma stays_query_employees: "stays R (Query_employees E rt ctx field)"
  unfolding Query_employees_def
  by (rule stays_resolve_field [OF root_contexts_ok(4) _ quiet_employees])
     (auto simp: stays_value_map stays_employees split: option.split arg.split)

lemma stays_query_search: "stays R (Query_searchEmployees E rt ctx field)"
  unfolding Query_searchEmployees_def
  by (rule stays_resolve_field [OF root_contexts_ok(6) _ quiet_employees])
     (auto simp: stays_value_map stays_search split: option.split arg.split)

lemma stays_query_employee: "stays R (Query_employee E rt ctx field)"
  unfolding Query_employee_def
  by (rule stays_resolve_field [OF root_contexts_ok(5) _ quiet_optional_employee])
     (auto simp: stays_lookup split: option.split arg.split)

lemma stays_query_hello: "stays R (Query_hello rt ctx field)"
proof -
  have "Query_hello rt ctx field = recovered (rt_recover rt) (in_field ctx field) Null
      (marshalNString rt (in_field ctx field) (cf_sel field) ''Hello from Sync Bridge'')"
    unfolding Query_hello_def fieldContext_Query_hello_def hello_def by (rule scalar_resolves)
  then show ?thesis by (simp add: stays_recovered stays_quiet quiet_scalars)
qed

lemma stays_in_middleware: "stays R m \<Longrightarrow> stays R (in_middleware rt m)"
  by (simp add: in_middleware_def no_root_middleware stays_gbind stays_nullable)

lemma concurrently_Later:
  "concurrently rt ctx inner s = Some (Some slot, s') \<Longrightarrow> s' = s \<and> slot = Later (recovered (rt_recover rt) ctx (Missing, 0) inner)"
  by (simp add: concurrently_def gret_def no_root_middleware)

lemma query_slot_stays:
  assumes schema: "\<And>ctx field. quiet (schema ctx field)"
  shows "stays R (query_slot E rt schema ctx field)"
    and "query_slot E rt schema ctx field s = Some (Some (Later m), s') \<Longrightarrow> stays R m"
proof -
  show "stays R (query_slot E rt schema ctx field)"
    by (auto simp: query_slot_def Let_def concurrently_def intro!: stays_gbind stays_in_middleware stays_quiet [OF schema])
next
  assume run: "query_slot E rt schema ctx field s = Some (Some (Later m), s')"
  let ?run = "\<lambda>v. recovered (rt_recover rt) ctx (Missing, 0) v"
  consider "cf_name field = ''hello''" | "cf_name field = ''employees''" | "cf_name field = ''employee''"
    | "cf_name field = ''searchEmployees''"
    | "cf_name field \<notin> {''hello'', ''employees'', ''employee'', ''searchEmployees''}" by blast
  then show "stays R m"
  proof cases
    case 1
    then have "m = ?run (non_null (Query_hello rt ctx field))"
      using run by (simp add: query_slot_def) (drule concurrently_Later, simp)
    then show ?thesis by (simp add: stays_recovered stays_non_null stays_query_hello)
  next
    case 2
    then have "m = ?run (non_null (Query_employees E rt ctx field))"
      using run by (simp add: query_slot_def) (drule concurrently_Later, simp)
    then show ?thesis by (simp add: stays_recovered stays_non_null stays_query_employees)
  next
    case 3
    then have "m = ?run (nullable (Query_employee E rt ctx field))"
      using run by (simp add: query_slot_def) (drule concurrently_Later, simp)
    then show ?thesis by (simp add: stays_recovered stays_nullable stays_query_employee)
  next
    case 4
    then have "m = ?run (non_null (Query_searchEmployees E rt ctx field))"
      using run by (simp add: query_slot_def) (drule concurrently_Later, simp)
    then show ?thesis by (simp add: stays_recovered stays_non_null stays_query_search)
  next
    case 5
    then show ?thesis
      using run by (simp add: query_slot_def Let_def gret_def gpanic_def gbind_def split: if_split_asm option.split_asm prod.split_asm)
  qed
qed

lemma stays_dispatch:
  assumes "\<And>m. m \<in> set ms \<Longrightarrow> stays R m"
  shows "stays R (dispatch rt ms)"
  unfolding dispatch_def
proof (intro stays_gbind stays_run_in_order stays_gret)
  fix i assume "i \<in> set (rt_schedule rt (length ms))"
  then have "i < length ms" using schedule_complete(2) by auto
  then show "stays R (ms ! i)" by (intro assms) simp
qed

lemma stays_query_object:
  assumes schema: "\<And>ctx field. quiet (schema ctx field)"
  shows "stays R (Query_object E rt schema ctx sel)"
  unfolding Query_object_def Let_def
proof (rule stays_gbind_returned)
  show "stays R (map_run (query_slot E rt schema ctx) (rt_collect rt sel [''Query'']))"
    by (rule stays_map_run) (rule query_slot_stays(1) [OF schema])
next
  fix slots s s'
  assume slots: "map_run (query_slot E rt schema ctx) (rt_collect rt sel [''Query'']) s = Some (Some slots, s')"
  have "stays R m" if "m \<in> set (delayed slots)" for m
    using map_run_results [OF slots, of "Later m"] that query_slot_stays(2) [OF schema] by (auto simp: delayed_iff)
  then show "stays R (gbind (dispatch rt (delayed slots))
      (\<lambda>rs. gret (field_set (rt_collect rt sel [''Query'']) (fill slots rs))))"
    by (intro stays_gbind stays_dispatch stays_gret)
qed

end

locale service_writes = service_reads rt R E
  for rt :: "'s runtime" and R :: "app \<Rightarrow> app \<Rightarrow> bool" and E :: env +
  assumes create_step: "create_employee E d (ap_world a) (hub_broker (ap_hub a)) = Some (r, w, b) \<Longrightarrow>
        R a \<lparr>ap_world = w, ap_hub = (ap_hub a)\<lparr>hub_broker := b\<rparr>\<rparr>"
    and update_step: "update_employee E k u (ap_world a) = Some (ro, w) \<Longrightarrow> R a (a\<lparr>ap_world := w\<rparr>)"
    and delete_step: "delete_employee E k (ap_world a) = Some (rb, w) \<Longrightarrow> R a (a\<lparr>ap_world := w\<rparr>)"
begin

lemma stays_create: "stays R (Mutation_createEmployee E rt ctx field)"
  unfolding Mutation_createEmployee_def
  by (rule stays_resolve_field [OF root_contexts_ok(1) _ quiet_employee])
     (auto simp: stays_value_map stays_on_broker create_step split: option.split arg.split)

lemma stays_update: "stays R (Mutation_updateEmployee E rt ctx field)"
  unfolding Mutation_updateEmployee_def
  by (rule stays_resolve_field [OF root_contexts_ok(2) _ quiet_optional_employee])
     (auto simp: stays_on_world update_step split: option.split arg.split)

lemma stays_delete: "stays R (Mutation_deleteEmployee E rt ctx field)"
  unfolding Mutation_deleteEmployee_def
  by (rule stays_resolve_field [OF root_contexts_ok(3) _ quiet_scalars(1)])
     (auto simp: stays_on_world delete_step split: option.split arg.split)

lemma stays_mutation_value: "stays R (mutation_value E rt ctx field)"
  by (auto simp: mutation_value_def Let_def intro!: stays_non_null stays_nullable stays_in_middleware
      stays_create stays_update stays_delete)

lemma stays_mutation_object: "stays R (Mutation_object E rt ctx sel)"
  unfolding Mutation_object_def Let_def by (intro stays_gbind stays_map_run stays_gret stays_mutation_value)

end

end
