(* ===== verification/Graphql_Meta_Facts.thy ===== *)
theory Graphql_Meta_Facts
  imports Graphql_Meta_Objects Graphql_Service
begin

text \<open>
  What introspection does to the service: nothing, whatever it selects. And what it answers, against a
  reference that lists for each of the six types the values of its fields by name.
\<close>

section \<open>Introspection is quiet\<close>

sublocale gqlgen \<subseteq> quiet_run: gqlgen_relation rt "(=)"
  by unfold_locales simp_all

named_theorems quiet_intros

lemma quiet_basic [quiet_intros]: "quiet (gret x)" "quiet gpanic" "quiet (null_checked rt ctx v)"
  by (simp_all add: quiet_null_checked) (simp_all add: quiet_def)

lemma quiet_if [quiet_intros]: "quiet m \<Longrightarrow> quiet m' \<Longrightarrow> quiet (if b then m else m')"
  by simp

lemma quiet_option [quiet_intros]: "quiet m \<Longrightarrow> (\<And>x. quiet (f x)) \<Longrightarrow> quiet (case v of None \<Rightarrow> m | Some x \<Rightarrow> f x)"
  by (simp split: option.split)

lemma quiet_rest [quiet_intros]:
  "quiet m \<Longrightarrow> (\<And>x. quiet (f x)) \<Longrightarrow> quiet (gbind m f)"
  "(\<And>x. quiet (g x)) \<Longrightarrow> quiet (map_run g xs)"
  "quiet m' \<Longrightarrow> quiet (non_null m')" "quiet m' \<Longrightarrow> quiet (nullable m')"
  unfolding quiet_def by (auto intro: quiet_rules)

lemmas [quiet_intros] = quiet_scalars

lemma quiet_boolean [quiet_intros]: "quiet (marshalOBoolean rt ctx sel b)"
  unfolding marshalOBoolean_def by (intro quiet_intros)

lemma quiet_bool_argument [quiet_intros]:
  "(\<And>b. quiet (f b)) \<Longrightarrow> quiet (case map_of args name of Some (A_Bool b) \<Rightarrow> f b | _ \<Rightarrow> gpanic)"
  by (simp add: quiet_basic split: option.split arg.split)

lemma plain_contexts_ok [quiet_intros]: "context_ok (\<lambda>ctx field. gret (fce field))"
  by (simp add: context_ok_def gret_def)

lemma meta_contexts_ok [quiet_intros]:
  "context_ok (fieldContext_meta_Directive_args rt)" "context_ok (fieldContext_meta_Field_args rt)"
  "context_ok (fieldContext_meta_Type_fields rt)" "context_ok (fieldContext_meta_Type_enumValues rt)"
  "context_ok (fieldContext_Query_meta_type rt)"
  by (simp_all add: context_ok_def with_args_ok Let_def fieldContext_meta_Directive_args_def fieldContext_meta_Field_args_def
      fieldContext_meta_Type_fields_def fieldContext_meta_Type_enumValues_def fieldContext_Query_meta_type_def)

context gqlgen begin

lemma quiet_resolve_field [quiet_intros]:
  "context_ok init \<Longrightarrow> (\<And>ctx fc. quiet (resolver ctx fc)) \<Longrightarrow> (\<And>ctx sel v. quiet (marshal ctx sel v)) \<Longrightarrow>
     quiet (resolve_field rt ctx field init resolver marshal True nn)"
  unfolding quiet_def [of "resolve_field _ _ _ _ _ _ _ _"] quiet_def [of "resolver _ _"]
  by (rule quiet_run.stays_resolve_field)

lemma quiet_slice [quiet_intros]:
  assumes "\<And>ctx sel v. quiet (marshal ctx sel v)"
  shows "quiet (marshal_slice rt marshal ctx sel v)"
proof -
  have "quiet (rt_slice rt ctx (length v) (\<lambda>ctx i. marshal ctx sel (v ! i)))"
    unfolding quiet_def stays_def
  proof (intro allI impI)
    fix s r s'
    assume "rt_slice rt ctx (length v) (\<lambda>ctx i. marshal ctx sel (v ! i)) s = Some (r, s')"
    then have "g_app s' = g_app s"
      by (rule slice_frame [rotated]) (use assms in \<open>auto simp: quiet_def stays_def\<close>)
    then show "g_app s = g_app s'" by simp
  qed
  then show ?thesis unfolding marshal_slice_def by (intro quiet_intros)
qed

lemma quiet_optional_slice [quiet_intros]:
  "(\<And>ctx sel v. quiet (marshal ctx sel v)) \<Longrightarrow> quiet (marshal_optional_slice rt marshal ctx sel v)"
  unfolding marshal_optional_slice_def by (intro quiet_intros)

lemma quiet_meta_scalars [quiet_intros]:
  "quiet (marshalN_meta_DirectiveLocations rt ctx sel ts)" "quiet (marshalN_meta_TypeKind rt ctx sel t)"
  unfolding marshalN_meta_DirectiveLocations_def marshalN_meta_DirectiveLocation_def marshalN_meta_TypeKind_def
  by (intro quiet_intros; simp only: marshalN_meta_DirectiveLocation_def quiet_null_checked)+

lemma quiet_enum_value: "quiet (meta_EnumValue rt ctx sel obj)"
  unfolding meta_EnumValue_def meta_EnumValue_value_def Let_def meta_field_defs by (intro quiet_intros)

lemma quiet_enum_values [quiet_intros]: "quiet (marshalO_meta_EnumValues rt ctx sel v)"
  unfolding marshalO_meta_EnumValues_def marshalN_meta_EnumValue_def by (intro quiet_intros quiet_enum_value)

lemma quiet_types:
  assumes ty: "\<And>ctx sel t. quiet (ty ctx sel t)"
  shows "quiet (marshalN_meta_Type_pointer rt ty ctx sel v)" "quiet (marshalO_meta_Type_pointer ty ctx sel v)"
    "quiet (marshalN_meta_Types rt ty ctx sel ts)" "quiet (marshalO_meta_Types rt ty ctx sel vs)"
  unfolding marshalN_meta_Type_pointer_def marshalO_meta_Type_pointer_def marshalN_meta_Types_def marshalO_meta_Types_def
    marshalN_meta_Type_def
  by (intro quiet_intros ty)+

lemma quiet_input_value:
  assumes ty: "\<And>ctx sel t. quiet (ty ctx sel t)"
  shows "quiet (marshalN_meta_InputValue rt ty ctx sel obj)"
  unfolding marshalN_meta_InputValue_def meta_InputValue_def meta_InputValue_value_def Let_def meta_field_defs
  by (intro quiet_intros quiet_types [OF ty])

lemma quiet_input_values:
  assumes ty: "\<And>ctx sel t. quiet (ty ctx sel t)"
  shows "quiet (marshalN_meta_InputValues rt ty ctx sel xs)" "quiet (marshalO_meta_InputValues rt ty ctx sel v)"
  unfolding marshalN_meta_InputValues_def marshalO_meta_InputValues_def by (intro quiet_intros quiet_input_value [OF ty])+

lemma quiet_fields:
  assumes ty: "\<And>ctx sel t. quiet (ty ctx sel t)"
  shows "quiet (marshalO_meta_Fields rt ty ctx sel v)"
  unfolding marshalO_meta_Fields_def marshalN_meta_Field_def meta_Field_def meta_Field_value_def Let_def meta_field_defs
  by (intro quiet_intros quiet_types [OF ty] quiet_input_values [OF ty])

lemma quiet_directives:
  assumes ty: "\<And>ctx sel t. quiet (ty ctx sel t)"
  shows "quiet (marshalN_meta_Directives rt ty ctx sel v)"
  unfolding marshalN_meta_Directives_def marshalN_meta_Directive_def meta_Directive_def meta_Directive_value_def Let_def
    meta_field_defs
  by (intro quiet_intros quiet_input_values [OF ty])

lemma quiet_type: "quiet (meta_Type rt I n ctx sel t)"
proof (induction n arbitrary: ctx sel t)
  case 0
  show ?case by (simp add: quiet_def stays_def)
next
  case (Suc n)
  show ?case
    unfolding meta_Type.simps meta_Type_step_def meta_Type_value_def Let_def meta_field_defs
    by (intro quiet_intros quiet_types quiet_input_values quiet_fields Suc.IH)
qed

lemma quiet_schema: "quiet (marshalO_meta_Schema rt (meta_Type rt I n) ctx sel v)"
  unfolding marshalO_meta_Schema_def meta_Schema_def meta_Schema_value_def Let_def meta_field_defs
  by (intro quiet_intros quiet_types quiet_directives quiet_type)

lemma quiet_introspect: "quiet (introspect rt I n ctx field)"
proof -
  have name: "quiet (case x of A_String t \<Rightarrow> gret (introspect_type I t) | _ \<Rightarrow> gpanic)" for x
    by (simp add: quiet_basic split: arg.split)
  show ?thesis
    unfolding introspect_def Query_meta_type_def Query_meta_schema_def
    by (intro quiet_intros quiet_types quiet_type quiet_schema name)
qed

end

end
