(* ===== verification/Graphql_Meta_Views.thy ===== *)
theory Graphql_Meta_Views
  imports Graphql_Meta_Facts
begin

text \<open>
  The reference for introspection: for each of the six types the values of its fields by name, a
  selection being the list of its columns. \<open>type_ok n\<close> says that a selection names existing fields with
  readable arguments and nests types less than \<open>n\<close> deep.
\<close>

section \<open>Views\<close>

definition object_view :: "'s runtime \<Rightarrow> string \<Rightarrow> ('s cfield \<Rightarrow> (string \<times> marshaler) list) \<Rightarrow> 's \<Rightarrow> marshaler" where
  "object_view rt name columns sel =
     Field_Set (map (\<lambda>f. (cf_alias f, the (map_of (columns f) (cf_name f)))) (rt_collect rt sel [name]))"

definition flag :: "'s runtime \<Rightarrow> 's cfield \<Rightarrow> bool" where
  "flag rt f = (case cf_args f ''includeDeprecated'' of None \<Rightarrow> False | Some v \<Rightarrow> fst (rt_unmarshal_boolean rt v))"

definition enum_columns :: "'s runtime \<Rightarrow> meta_enum_value \<Rightarrow> 's cfield \<Rightarrow> (string \<times> marshaler) list" where
  "enum_columns rt e f = (let txt = rt_marshal_string rt; opt = shown_option txt in
    [(''__typename'', txt ''__EnumValue''), (''name'', txt (ev_name e)), (''description'', opt (ev_description e)),
     (''isDeprecated'', rt_marshal_boolean rt (ev_is_deprecated e)), (''deprecationReason'', opt (ev_deprecation_reason e))])"

definition enum_view :: "'s runtime \<Rightarrow> 's \<Rightarrow> meta_enum_value \<Rightarrow> marshaler" where
  "enum_view rt sel e = object_view rt ''__EnumValue'' (enum_columns rt e) sel"

definition input_columns :: "'s runtime \<Rightarrow> ('s \<Rightarrow> 't \<Rightarrow> marshaler) \<Rightarrow> 't meta_input_value \<Rightarrow> 's cfield \<Rightarrow> (string \<times> marshaler) list" where
  "input_columns rt tv a f = (let txt = rt_marshal_string rt; opt = shown_option txt in
    [(''__typename'', txt ''__InputValue''), (''name'', txt (iv_name a)), (''description'', opt (iv_description a)),
     (''type'', shown_option (tv (cf_sel f)) (iv_type a)), (''defaultValue'', opt (iv_default_value a)),
     (''isDeprecated'', rt_marshal_boolean rt (iv_is_deprecated a)), (''deprecationReason'', opt (iv_deprecation_reason a))])"

definition input_view :: "'s runtime \<Rightarrow> ('s \<Rightarrow> 't \<Rightarrow> marshaler) \<Rightarrow> 's \<Rightarrow> 't meta_input_value \<Rightarrow> marshaler" where
  "input_view rt tv sel a = object_view rt ''__InputValue'' (input_columns rt tv a) sel"

definition field_columns :: "'s runtime \<Rightarrow> ('s \<Rightarrow> 't \<Rightarrow> marshaler) \<Rightarrow> 't meta_field \<Rightarrow> 's cfield \<Rightarrow> (string \<times> marshaler) list" where
  "field_columns rt tv d f = (let txt = rt_marshal_string rt; opt = shown_option txt in
    [(''__typename'', txt ''__Field''), (''name'', txt (fd_name d)), (''description'', opt (fd_description d)),
     (''args'', Slice (map (input_view rt tv (cf_sel f)) (fd_args d))), (''type'', shown_option (tv (cf_sel f)) (fd_type d)),
     (''isDeprecated'', rt_marshal_boolean rt (fd_is_deprecated d)), (''deprecationReason'', opt (fd_deprecation_reason d))])"

definition field_view :: "'s runtime \<Rightarrow> ('s \<Rightarrow> 't \<Rightarrow> marshaler) \<Rightarrow> 's \<Rightarrow> 't meta_field \<Rightarrow> marshaler" where
  "field_view rt tv sel d = object_view rt ''__Field'' (field_columns rt tv d) sel"

definition directive_columns :: "'s runtime \<Rightarrow> ('s \<Rightarrow> 't \<Rightarrow> marshaler) \<Rightarrow> 't meta_directive \<Rightarrow> 's cfield \<Rightarrow> (string \<times> marshaler) list" where
  "directive_columns rt tv d f = (let txt = rt_marshal_string rt in
    [(''__typename'', txt ''__Directive''), (''name'', txt (dr_name d)), (''description'', shown_option txt (dr_description d)),
     (''isRepeatable'', rt_marshal_boolean rt (dr_is_repeatable d)), (''locations'', Slice (map txt (dr_locations d))),
     (''args'', Slice (map (input_view rt tv (cf_sel f)) (dr_args d)))])"

definition directive_view :: "'s runtime \<Rightarrow> ('s \<Rightarrow> 't \<Rightarrow> marshaler) \<Rightarrow> 's \<Rightarrow> 't meta_directive \<Rightarrow> marshaler" where
  "directive_view rt tv sel d = object_view rt ''__Directive'' (directive_columns rt tv d) sel"

definition listed :: "('a \<Rightarrow> marshaler) \<Rightarrow> 'a list option \<Rightarrow> marshaler" where
  "listed view = shown_option (\<lambda>xs. Slice (map view xs))"

definition type_columns ::
  "'s runtime \<Rightarrow> 't introspection \<Rightarrow> ('s \<Rightarrow> 't \<Rightarrow> marshaler) \<Rightarrow> 't \<Rightarrow> 's cfield \<Rightarrow> (string \<times> marshaler) list" where
  "type_columns rt I tv t f = (let txt = rt_marshal_string rt; opt = shown_option txt; sel = cf_sel f in
    [(''__typename'', txt ''__Type''), (''kind'', txt (ty_kind I t)), (''name'', opt (ty_name I t)),
     (''description'', opt (ty_description I t)), (''specifiedByURL'', opt (ty_specified_by_url I t)),
     (''fields'', listed (field_view rt tv sel) (ty_fields I t (flag rt f))),
     (''interfaces'', listed (tv sel) (ty_interfaces I t)), (''possibleTypes'', listed (tv sel) (ty_possible_types I t)),
     (''enumValues'', listed (enum_view rt sel) (ty_enum_values I t (flag rt f))),
     (''inputFields'', listed (input_view rt tv sel) (ty_input_fields I t)),
     (''ofType'', shown_option (tv sel) (ty_of_type I t)), (''isOneOf'', rt_marshal_boolean rt (ty_is_one_of I t))])"

primrec type_view :: "'s runtime \<Rightarrow> 't introspection \<Rightarrow> nat \<Rightarrow> 's \<Rightarrow> 't \<Rightarrow> marshaler" where
  "type_view rt I 0 = (\<lambda>sel t. Field_Set [])"
| "type_view rt I (Suc n) = (\<lambda>sel t. object_view rt ''__Type'' (type_columns rt I (type_view rt I n) t) sel)"

definition schema_columns :: "'s runtime \<Rightarrow> ('s \<Rightarrow> 't \<Rightarrow> marshaler) \<Rightarrow> 't meta_schema \<Rightarrow> 's cfield \<Rightarrow> (string \<times> marshaler) list" where
  "schema_columns rt tv c f = (let txt = rt_marshal_string rt; sel = cf_sel f in
    [(''__typename'', txt ''__Schema''), (''description'', shown_option txt (sc_description c)),
     (''types'', Slice (map (tv sel) (sc_types c))), (''queryType'', shown_option (tv sel) (sc_query_type c)),
     (''mutationType'', shown_option (tv sel) (sc_mutation_type c)),
     (''subscriptionType'', shown_option (tv sel) (sc_subscription_type c)),
     (''directives'', Slice (map (directive_view rt tv sel) (sc_directives c)))])"

definition schema_view :: "'s runtime \<Rightarrow> ('s \<Rightarrow> 't \<Rightarrow> marshaler) \<Rightarrow> 's \<Rightarrow> 't meta_schema \<Rightarrow> marshaler" where
  "schema_view rt tv sel c = object_view rt ''__Schema'' (schema_columns rt tv c) sel"

section \<open>Selections\<close>

definition flag_ok :: "'s runtime \<Rightarrow> 's cfield \<Rightarrow> bool" where
  "flag_ok rt f \<longleftrightarrow> (case cf_args f ''includeDeprecated'' of None \<Rightarrow> True | Some v \<Rightarrow> snd (rt_unmarshal_boolean rt v) = None)"

text \<open>Each selected field satisfies what is listed for its name.\<close>

definition fields_ok :: "'s runtime \<Rightarrow> string \<Rightarrow> (string \<times> ('s cfield \<Rightarrow> bool)) list \<Rightarrow> 's \<Rightarrow> bool" where
  "fields_ok rt name oks sel \<longleftrightarrow>
     (\<forall>f \<in> set (rt_collect rt sel [name]). case map_of oks (cf_name f) of None \<Rightarrow> False | Some ok \<Rightarrow> ok f)"

definition leaf :: "'s cfield \<Rightarrow> bool" where
  "leaf f = True"

definition nested :: "('s \<Rightarrow> bool) \<Rightarrow> 's cfield \<Rightarrow> bool" where
  "nested ok f = ok (cf_sel f)"

definition enum_ok :: "'s runtime \<Rightarrow> 's \<Rightarrow> bool" where
  "enum_ok rt = fields_ok rt ''__EnumValue'' [(''__typename'', leaf), (''name'', leaf), (''description'', leaf),
     (''isDeprecated'', leaf), (''deprecationReason'', leaf)]"

definition input_ok :: "'s runtime \<Rightarrow> ('s \<Rightarrow> bool) \<Rightarrow> 's \<Rightarrow> bool" where
  "input_ok rt ok = fields_ok rt ''__InputValue'' [(''__typename'', leaf), (''name'', leaf), (''description'', leaf),
     (''type'', nested ok), (''defaultValue'', leaf), (''isDeprecated'', leaf), (''deprecationReason'', leaf)]"

definition field_ok :: "'s runtime \<Rightarrow> ('s \<Rightarrow> bool) \<Rightarrow> 's \<Rightarrow> bool" where
  "field_ok rt ok = fields_ok rt ''__Field'' [(''__typename'', leaf), (''name'', leaf), (''description'', leaf),
     (''args'', \<lambda>f. flag_ok rt f \<and> nested (input_ok rt ok) f), (''type'', nested ok), (''isDeprecated'', leaf),
     (''deprecationReason'', leaf)]"

definition directive_ok :: "'s runtime \<Rightarrow> ('s \<Rightarrow> bool) \<Rightarrow> 's \<Rightarrow> bool" where
  "directive_ok rt ok = fields_ok rt ''__Directive'' [(''__typename'', leaf), (''name'', leaf), (''description'', leaf),
     (''isRepeatable'', leaf), (''locations'', leaf), (''args'', \<lambda>f. flag_ok rt f \<and> nested (input_ok rt ok) f)]"

primrec type_ok :: "'s runtime \<Rightarrow> nat \<Rightarrow> 's \<Rightarrow> bool" where
  "type_ok rt 0 = (\<lambda>sel. False)"
| "type_ok rt (Suc n) = (let ok = type_ok rt n in
     fields_ok rt ''__Type'' [(''__typename'', leaf), (''kind'', leaf), (''name'', leaf), (''description'', leaf),
       (''specifiedByURL'', leaf), (''fields'', \<lambda>f. flag_ok rt f \<and> nested (field_ok rt ok) f), (''interfaces'', nested ok),
       (''possibleTypes'', nested ok), (''enumValues'', \<lambda>f. flag_ok rt f \<and> nested (enum_ok rt) f),
       (''inputFields'', nested (input_ok rt ok)), (''ofType'', nested ok), (''isOneOf'', leaf)])"

definition schema_ok :: "'s runtime \<Rightarrow> ('s \<Rightarrow> bool) \<Rightarrow> 's \<Rightarrow> bool" where
  "schema_ok rt ok = fields_ok rt ''__Schema'' [(''__typename'', leaf), (''description'', leaf), (''types'', nested ok),
     (''queryType'', nested ok), (''mutationType'', nested ok), (''subscriptionType'', nested ok),
     (''directives'', nested (directive_ok rt ok))]"

text \<open>What gqlgen's values keep: fields, arguments and input fields have a type, and there is a query type.\<close>

definition typed_input :: "'t meta_input_value \<Rightarrow> bool" where
  "typed_input a \<longleftrightarrow> iv_type a \<noteq> None"

definition typed_field :: "'t meta_field \<Rightarrow> bool" where
  "typed_field d \<longleftrightarrow> fd_type d \<noteq> None \<and> list_all typed_input (fd_args d)"

definition typed :: "'t introspection \<Rightarrow> bool" where
  "typed I \<longleftrightarrow> (\<forall>t b. list_all typed_field (case ty_fields I t b of None \<Rightarrow> [] | Some fs \<Rightarrow> fs)
     \<and> list_all typed_input (case ty_input_fields I t of None \<Rightarrow> [] | Some xs \<Rightarrow> xs))"

definition typed_schema :: "'t meta_schema \<Rightarrow> bool" where
  "typed_schema c \<longleftrightarrow> sc_query_type c \<noteq> None \<and> list_all (\<lambda>d. list_all typed_input (dr_args d)) (sc_directives c)"

section \<open>Introspection answers with the views\<close>

definition shows_types :: "('s, 't) type_object \<Rightarrow> ('s \<Rightarrow> bool) \<Rightarrow> ('s \<Rightarrow> 't \<Rightarrow> marshaler) \<Rightarrow> bool" where
  "shows_types ty ok tv \<longleftrightarrow> (\<forall>ctx sel t. ok sel \<longrightarrow> ty ctx sel t = gret (tv sel t) \<and> tv sel t \<noteq> Null)"

lemma object_view_not_null [simp]: "object_view rt name columns sel \<noteq> Null"
  by (simp add: object_view_def)

lemma views_not_null [simp]:
  "enum_view rt sel e \<noteq> Null" "input_view rt tv sel a \<noteq> Null" "field_view rt tv sel d \<noteq> Null" "directive_view rt tv sel dr \<noteq> Null"
  by (simp_all add: enum_view_def input_view_def field_view_def directive_view_def)

lemma type_view_not_null [simp]: "type_view rt I n sel t \<noteq> Null"
  by (cases n) simp_all

lemma fields_okD: "fields_ok rt name oks sel \<Longrightarrow> f \<in> set (rt_collect rt sel [name]) \<Longrightarrow>
    \<exists>ok. map_of oks (cf_name f) = Some ok \<and> ok f"
  by (auto simp: fields_ok_def split: option.split_asm)

lemma map_run_values:
  "(\<And>f. f \<in> set fs \<Longrightarrow> value f = gret (v f, 0)) \<Longrightarrow> map_run value fs = gret (map (\<lambda>f. (v f, 0 :: nat)) fs)"
  by (induction fs) simp_all

lemma object_shown:
  assumes "\<And>f. f \<in> set (rt_collect rt sel [name]) \<Longrightarrow> value f = gret (the (map_of (columns f) (cf_name f)), 0)"
  shows "gbind (map_run value (rt_collect rt sel [name])) (\<lambda>out. gret (field_set (rt_collect rt sel [name]) out))
    = gret (object_view rt name columns sel)"
proof -
  have "zip (map cf_alias fs) (map v fs) = map (\<lambda>f. (cf_alias f, v f)) fs" for fs :: "'a cfield list" and v :: "'a cfield \<Rightarrow> marshaler"
    by (induction fs) simp_all
  then show ?thesis
    using map_run_values [of "rt_collect rt sel [name]" "value" "\<lambda>f. the (map_of (columns f) (cf_name f))", OF assms]
    by (simp add: field_set_def comp_def object_view_def)
qed

context gqlgen begin

lemma slice_shown:
  assumes "\<And>ctx x. x \<in> set xs \<Longrightarrow> marshal ctx sel x = gret (view x)" and "\<And>x. x \<in> set xs \<Longrightarrow> view x \<noteq> Null"
  shows "marshal_slice rt marshal ctx sel xs = gret (Slice (map view xs))"
proof
  fix s
  have "rt_slice rt ctx (length xs) (\<lambda>ctx i. marshal ctx sel (xs ! i)) s =
      Some (Some (map (\<lambda>i. view (xs ! i)) [0..<length xs]), s)"
    by (rule slice_runs) (simp add: assms(1) gret_def)
  moreover have "map (\<lambda>i. view (xs ! i)) [0..<length xs] = map view xs" by (rule nth_equalityI) simp_all
  moreover have "\<not> list_ex (\<lambda>e. e = Null) (map view xs)" unfolding list_ex_iff by (metis (no_types, lifting) assms(2) image_iff list.set_map)
  ultimately show "marshal_slice rt marshal ctx sel xs s = gret (Slice (map view xs)) s"
    by (simp add: marshal_slice_def gbind_def gret_def)
qed

lemma optional_slice_shown:
  assumes "\<And>ctx x. x \<in> set (case v of None \<Rightarrow> [] | Some xs \<Rightarrow> xs) \<Longrightarrow> marshal ctx sel x = gret (view x)"
    and "\<And>x. x \<in> set (case v of None \<Rightarrow> [] | Some xs \<Rightarrow> xs) \<Longrightarrow> view x \<noteq> Null"
  shows "marshal_optional_slice rt marshal ctx sel v = gret (listed view v)"
  using slice_shown [where marshal = marshal and view = view] assms
  by (cases v) (simp_all add: marshal_optional_slice_def listed_def shown_option_def)

lemma plain_resolves:
  "resolve_field rt ctx field (\<lambda>ctx field. gret (fc field, None)) (\<lambda>ctx fc. gret (Inr v)) marshal True nn =
    recovered (rt_recover rt) (in_field ctx field) Null (marshal (in_field ctx field) (cf_sel field) v)"
  by (rule plain_context) simp

lemma flag_read: "flag_ok rt field \<Longrightarrow>
    include_deprecated rt ctx (cf_args field) = Some ([(''includeDeprecated'', A_Bool (flag rt field))], None)"
  by (cases "cf_args field ''includeDeprecated''")
     (auto simp: flag_ok_def flag_def include_deprecated_def process_arg_simp next_arg_def unmarshalOBoolean_def on_path_def
        no_error_on_path split: prod.split)

lemma flag_pointer_read: "flag_ok rt field \<Longrightarrow>
    \<exists>b. include_deprecated_pointer rt ctx (cf_args field) = Some ([(''includeDeprecated'', A_Optional_Bool b)], None)"
  by (cases "cf_args field ''includeDeprecated''")
     (auto simp: flag_ok_def include_deprecated_pointer_def process_arg_simp next_arg_def unmarshalOBoolean_pointer_def
        no_error_on_path split: prod.split)

lemma args_resolve:
  assumes "flag_ok rt field"
  shows "resolve_field rt ctx field (fieldContext_meta_Directive_args rt) (\<lambda>ctx fc. gret (Inr v)) marshal True nn =
      recovered (rt_recover rt) (in_field ctx field) Null (marshal (in_field ctx field) (cf_sel field) v)"
    and "resolve_field rt ctx field (fieldContext_meta_Field_args rt) (\<lambda>ctx fc. gret (Inr v)) marshal True nn =
      recovered (rt_recover rt) (in_field ctx field) Null (marshal (in_field ctx field) (cf_sel field) v)"
proof -
  obtain b where b: "include_deprecated_pointer rt (in_field ctx field) (cf_args field) =
      Some ([(''includeDeprecated'', A_Optional_Bool b)], None)" using flag_pointer_read [OF assms] by blast
  show "resolve_field rt ctx field (fieldContext_meta_Directive_args rt) (\<lambda>ctx fc. gret (Inr v)) marshal True nn =
      recovered (rt_recover rt) (in_field ctx field) Null (marshal (in_field ctx field) (cf_sel field) v)"
    using resolve_field_runs [where init = "fieldContext_meta_Directive_args rt" and resolver = "\<lambda>ctx fc. gret (Inr v)"]
    by (intro ext) (simp add: fieldContext_meta_Directive_args_def Let_def field_meta_Directive_args_args_def b with_args_def gret_def)
  show "resolve_field rt ctx field (fieldContext_meta_Field_args rt) (\<lambda>ctx fc. gret (Inr v)) marshal True nn =
      recovered (rt_recover rt) (in_field ctx field) Null (marshal (in_field ctx field) (cf_sel field) v)"
    using resolve_field_runs [where init = "fieldContext_meta_Field_args rt" and resolver = "\<lambda>ctx fc. gret (Inr v)"]
    by (intro ext) (simp add: fieldContext_meta_Field_args_def Let_def field_meta_Field_args_args_def b with_args_def gret_def)
qed

lemma flag_resolve:
  assumes "flag_ok rt field"
  shows "resolve_field rt ctx field (fieldContext_meta_Type_fields rt)
      (\<lambda>ctx fc. case map_of (fc_args fc) ''includeDeprecated'' of Some (A_Bool b) \<Rightarrow> gret (Inr (g b)) | _ \<Rightarrow> gpanic) marshal True nn =
      recovered (rt_recover rt) (in_field ctx field) Null (marshal (in_field ctx field) (cf_sel field) (g (flag rt field)))"
    and "resolve_field rt ctx field (fieldContext_meta_Type_enumValues rt)
      (\<lambda>ctx fc. case map_of (fc_args fc) ''includeDeprecated'' of Some (A_Bool b) \<Rightarrow> gret (Inr (g b)) | _ \<Rightarrow> gpanic) marshal True nn =
      recovered (rt_recover rt) (in_field ctx field) Null (marshal (in_field ctx field) (cf_sel field) (g (flag rt field)))"
proof -
  let ?r = "\<lambda>(ctx :: path) fc. case map_of (fc_args fc) ''includeDeprecated'' of Some (A_Bool b) \<Rightarrow> gret (Inr (g b)) | _ \<Rightarrow> gpanic"
  note b = flag_read [OF assms, of "in_field ctx field"]
  show "resolve_field rt ctx field (fieldContext_meta_Type_fields rt) ?r marshal True nn =
      recovered (rt_recover rt) (in_field ctx field) Null (marshal (in_field ctx field) (cf_sel field) (g (flag rt field)))"
    using resolve_field_runs [where init = "fieldContext_meta_Type_fields rt" and resolver = ?r]
    by (intro ext) (simp add: fieldContext_meta_Type_fields_def Let_def field_meta_Type_fields_args_def b with_args_def gret_def [of "(_, _)"])
  show "resolve_field rt ctx field (fieldContext_meta_Type_enumValues rt) ?r marshal True nn =
      recovered (rt_recover rt) (in_field ctx field) Null (marshal (in_field ctx field) (cf_sel field) (g (flag rt field)))"
    using resolve_field_runs [where init = "fieldContext_meta_Type_enumValues rt" and resolver = ?r]
    by (intro ext) (simp add: fieldContext_meta_Type_enumValues_def Let_def field_meta_Type_enumValues_args_def b with_args_def gret_def [of "(_, _)"])
qed

text \<open>The rules that turn a field of a known name into its value.\<close>

lemmas meta_resolves = meta_contexts scalar_resolves plain_resolves [unfolded meta_context_def] meta_context_def

lemmas meta_scalars = scalar_marshals marshalOBoolean_def marshalN_meta_TypeKind_def marshalN_meta_DirectiveLocations_def
  marshalN_meta_DirectiveLocation_def non_null_def nullable_def invalid_def

lemma enum_value_shown:
  assumes "map_of [(''__typename'', leaf), (''name'', leaf), (''description'', leaf), (''isDeprecated'', leaf),
      (''deprecationReason'', leaf)] (cf_name f) = Some ok" and "ok f"
  shows "meta_EnumValue_value rt ctx e f = gret (the (map_of (enum_columns rt e f) (cf_name f)), 0)"
  using assms(1)
  by (auto simp: meta_EnumValue_value_def Let_def meta_field_defs meta_resolves meta_scalars enum_columns_def shown_option_def
      split: if_split_asm option.split)

lemma object_ok:
  assumes "fields_ok rt name oks sel"
    and "\<And>f ok. map_of oks (cf_name f) = Some ok \<Longrightarrow> ok f \<Longrightarrow> value f = gret (the (map_of (columns f) (cf_name f)), 0)"
  shows "gbind (map_run value (rt_collect rt sel [name])) (\<lambda>out. gret (field_set (rt_collect rt sel [name]) out))
    = gret (object_view rt name columns sel)"
  by (rule object_shown) (use fields_okD [OF assms(1)] assms(2) in blast)

lemma enum_shown: "enum_ok rt sel \<Longrightarrow> meta_EnumValue rt ctx sel e = gret (enum_view rt sel e)"
  unfolding meta_EnumValue_def Let_def enum_ok_def enum_view_def by (erule object_ok) (rule enum_value_shown)

lemma enums_shown: "enum_ok rt sel \<Longrightarrow> marshalO_meta_EnumValues rt ctx sel v = gret (listed (enum_view rt sel) v)"
  unfolding marshalO_meta_EnumValues_def marshalN_meta_EnumValue_def
  by (rule optional_slice_shown) (simp_all add: enum_shown)

lemma type_pointer_shown:
  assumes "shows_types ty ok tv" and "ok sel"
  shows "marshalO_meta_Type_pointer ty ctx sel v = gret (shown_option (tv sel) v)"
    and "v \<noteq> None \<Longrightarrow> marshalN_meta_Type_pointer rt ty ctx sel v = gret (shown_option (tv sel) v)"
    and "tv sel t \<noteq> Null"
    and "marshalO_meta_Types rt ty ctx sel vs = gret (listed (tv sel) vs)"
    and "marshalN_meta_Types rt ty ctx sel ts = gret (Slice (map (tv sel) ts))"
proof -
  have ty: "ty ctx sel t = gret (tv sel t)" "tv sel t \<noteq> Null" for ctx t using assms by (auto simp: shows_types_def)
  then show "marshalO_meta_Type_pointer ty ctx sel v = gret (shown_option (tv sel) v)"
    "v \<noteq> None \<Longrightarrow> marshalN_meta_Type_pointer rt ty ctx sel v = gret (shown_option (tv sel) v)"
    "tv sel t \<noteq> Null"
    by (auto simp: marshalO_meta_Type_pointer_def marshalN_meta_Type_pointer_def shown_option_def split: option.split)
  show "marshalO_meta_Types rt ty ctx sel vs = gret (listed (tv sel) vs)"
    unfolding marshalO_meta_Types_def marshalN_meta_Type_def by (rule optional_slice_shown) (simp_all add: ty)
  show "marshalN_meta_Types rt ty ctx sel ts = gret (Slice (map (tv sel) ts))"
    unfolding marshalN_meta_Types_def marshalN_meta_Type_def by (rule slice_shown) (simp_all add: ty)
qed

lemma input_value_shown:
  assumes ty: "shows_types ty ok tv" and a: "typed_input a"
    and "map_of [(''__typename'', leaf), (''name'', leaf), (''description'', leaf), (''type'', nested ok), (''defaultValue'', leaf),
      (''isDeprecated'', leaf), (''deprecationReason'', leaf)] (cf_name f) = Some okf" and "okf f"
  shows "meta_InputValue_value rt ty ctx a f = gret (the (map_of (input_columns rt tv a f) (cf_name f)), 0)"
proof -
  have "okf = nested ok \<Longrightarrow> ok (cf_sel f)" using assms(4) by (simp add: nested_def)
  then show ?thesis
    using assms(3) a type_pointer_shown [OF ty]
    by (auto simp: meta_InputValue_value_def Let_def meta_field_defs meta_resolves meta_scalars input_columns_def shown_option_def
        typed_input_def split: if_split_asm option.split)
qed

lemma input_shown:
  "shows_types ty ok tv \<Longrightarrow> typed_input a \<Longrightarrow> input_ok rt ok sel \<Longrightarrow> marshalN_meta_InputValue rt ty ctx sel a = gret (input_view rt tv sel a)"
  unfolding marshalN_meta_InputValue_def meta_InputValue_def Let_def input_ok_def input_view_def
  by (erule object_ok) (rule input_value_shown)

lemma inputs_shown:
  assumes "shows_types ty ok tv" and "input_ok rt ok sel"
  shows "list_all typed_input xs \<Longrightarrow> marshalN_meta_InputValues rt ty ctx sel xs = gret (Slice (map (input_view rt tv sel) xs))"
    and "list_all typed_input (case v of None \<Rightarrow> [] | Some xs \<Rightarrow> xs) \<Longrightarrow>
      marshalO_meta_InputValues rt ty ctx sel v = gret (listed (input_view rt tv sel) v)"
  unfolding marshalN_meta_InputValues_def marshalO_meta_InputValues_def
  by (rule slice_shown optional_slice_shown; simp add: input_shown [OF assms(1) _ assms(2)] list_all_iff)+

lemma field_value_shown:
  assumes ty: "shows_types ty ok tv" and d: "typed_field d"
    and "map_of [(''__typename'', leaf), (''name'', leaf), (''description'', leaf),
      (''args'', \<lambda>f. flag_ok rt f \<and> nested (input_ok rt ok) f), (''type'', nested ok), (''isDeprecated'', leaf),
      (''deprecationReason'', leaf)] (cf_name f) = Some okf" and okf: "okf f"
  shows "meta_Field_value rt ty ctx d f = gret (the (map_of (field_columns rt tv d f) (cf_name f)), 0)"
proof -
  have ok: "okf = nested ok \<Longrightarrow> ok (cf_sel f)"
    "okf = (\<lambda>f. flag_ok rt f \<and> nested (input_ok rt ok) f) \<Longrightarrow> flag_ok rt f \<and> input_ok rt ok (cf_sel f)"
    using okf by (simp_all add: nested_def)
  show ?thesis
    using assms(3) d ok type_pointer_shown(2,3) [OF ty] inputs_shown(1) [OF ty]
    by (auto simp: meta_Field_value_def Let_def meta_field_defs meta_resolves args_resolve meta_scalars field_columns_def
        shown_option_def typed_field_def split: if_split_asm option.split)
qed

lemma field_shown:
  "shows_types ty ok tv \<Longrightarrow> typed_field d \<Longrightarrow> field_ok rt ok sel \<Longrightarrow> meta_Field rt ty ctx sel d = gret (field_view rt tv sel d)"
  unfolding meta_Field_def Let_def field_ok_def field_view_def by (erule object_ok) (rule field_value_shown)

lemma fields_shown:
  assumes "shows_types ty ok tv" and "field_ok rt ok sel"
    and "list_all typed_field (case v of None \<Rightarrow> [] | Some xs \<Rightarrow> xs)"
  shows "marshalO_meta_Fields rt ty ctx sel v = gret (listed (field_view rt tv sel) v)"
  unfolding marshalO_meta_Fields_def marshalN_meta_Field_def
  by (rule optional_slice_shown) (use assms(3) field_shown [OF assms(1) _ assms(2)] in \<open>simp_all add: list_all_iff\<close>)

lemma directive_value_shown:
  assumes ty: "shows_types ty ok tv" and d: "list_all typed_input (dr_args d)"
    and "map_of [(''__typename'', leaf), (''name'', leaf), (''description'', leaf), (''isRepeatable'', leaf), (''locations'', leaf),
      (''args'', \<lambda>f. flag_ok rt f \<and> nested (input_ok rt ok) f)] (cf_name f) = Some okf" and okf: "okf f"
  shows "meta_Directive_value rt ty ctx d f = gret (the (map_of (directive_columns rt tv d f) (cf_name f)), 0)"
proof -
  have ok: "okf = (\<lambda>f. flag_ok rt f \<and> nested (input_ok rt ok) f) \<Longrightarrow> flag_ok rt f \<and> input_ok rt ok (cf_sel f)"
    using okf by (simp add: nested_def)
  have locations: "marshal_slice rt (\<lambda>ctx sel v. null_checked rt ctx (rt_marshal_string rt v)) ctx sel xs =
      gret (Slice (map (rt_marshal_string rt) xs))" for ctx sel xs
    by (rule slice_shown) (simp_all add: null_checked_value scalars_not_null)
  have "marshalN_meta_DirectiveLocations rt ctx sel xs = gret (Slice (map (rt_marshal_string rt) xs))" for ctx sel xs
    unfolding marshalN_meta_DirectiveLocations_def marshalN_meta_DirectiveLocation_def [abs_def] by (rule locations)
  then show ?thesis
    using assms(3) d ok inputs_shown(1) [OF ty]
    by (auto simp: meta_Directive_value_def Let_def meta_field_defs meta_resolves args_resolve scalar_marshals non_null_def
        nullable_def invalid_def directive_columns_def shown_option_def split: if_split_asm option.split)
qed

lemma directives_shown:
  assumes "shows_types ty ok tv" and "directive_ok rt ok sel" and "list_all (\<lambda>d. list_all typed_input (dr_args d)) xs"
  shows "marshalN_meta_Directives rt ty ctx sel xs = gret (Slice (map (directive_view rt tv sel) xs))"
proof -
  have "meta_Directive rt ty ctx sel d = gret (directive_view rt tv sel d)" if "list_all typed_input (dr_args d)" for d ctx
    using assms(2) directive_value_shown [OF assms(1) that]
    unfolding meta_Directive_def Let_def directive_ok_def directive_view_def by (rule object_ok)
  then show ?thesis
    unfolding marshalN_meta_Directives_def marshalN_meta_Directive_def
    by (intro slice_shown) (use assms(3) in \<open>simp_all add: list_all_iff\<close>)
qed

lemma type_value_shown:
  assumes ty: "shows_types ty ok tv" and I: "typed I"
    and name: "map_of [(''__typename'', leaf), (''kind'', leaf), (''name'', leaf), (''description'', leaf),
      (''specifiedByURL'', leaf), (''fields'', \<lambda>f. flag_ok rt f \<and> nested (field_ok rt ok) f), (''interfaces'', nested ok),
      (''possibleTypes'', nested ok), (''enumValues'', \<lambda>f. flag_ok rt f \<and> nested (enum_ok rt) f),
      (''inputFields'', nested (input_ok rt ok)), (''ofType'', nested ok), (''isOneOf'', leaf)] (cf_name f) = Some okf"
    and okf: "okf f"
  shows "meta_Type_value rt I ty ctx t f = gret (the (map_of (type_columns rt I tv t f) (cf_name f)), 0)"
proof -
  have ok: "okf = nested ok \<Longrightarrow> ok (cf_sel f)" "okf = nested (input_ok rt ok) \<Longrightarrow> input_ok rt ok (cf_sel f)"
    "okf = (\<lambda>f. flag_ok rt f \<and> nested (field_ok rt ok) f) \<Longrightarrow> flag_ok rt f \<and> field_ok rt ok (cf_sel f)"
    "okf = (\<lambda>f. flag_ok rt f \<and> nested (enum_ok rt) f) \<Longrightarrow> flag_ok rt f \<and> enum_ok rt (cf_sel f)"
    using okf by (simp_all add: nested_def)
  have I': "list_all typed_field (case ty_fields I t b of None \<Rightarrow> [] | Some fs \<Rightarrow> fs)"
    "list_all typed_input (case ty_input_fields I t of None \<Rightarrow> [] | Some xs \<Rightarrow> xs)" for b using I by (simp_all add: typed_def)
  show ?thesis
    using name ok type_pointer_shown(1,4) [OF ty] inputs_shown(2) [OF ty _ I'(2)] fields_shown [OF ty _ I'(1)] enums_shown
    by (auto simp: meta_Type_value_def Let_def meta_field_defs meta_resolves flag_resolve meta_scalars type_columns_def
        shown_option_def split: if_split_asm option.split)
qed

lemma type_shown:
  assumes "typed I"
  shows "n \<le> m \<Longrightarrow> shows_types (meta_Type rt I m) (type_ok rt n) (type_view rt I n)"
proof (induction n arbitrary: m)
  case 0
  show ?case by (simp add: shows_types_def)
next
  case (Suc n)
  then obtain k where m: "m = Suc k" "n \<le> k" by (cases m) auto
  have "meta_Type rt I m ctx sel t = gret (type_view rt I (Suc n) sel t)" if "type_ok rt (Suc n) sel" for ctx sel t
    using that type_value_shown [OF Suc.IH [OF m(2)] assms]
    unfolding m(1) meta_Type.simps type_view.simps type_ok.simps meta_Type_step_def Let_def by (rule object_ok)
  then show ?case by (simp add: shows_types_def)
qed

lemma schema_value_shown:
  assumes ty: "shows_types ty ok tv" and c: "typed_schema c"
    and name: "map_of [(''__typename'', leaf), (''description'', leaf), (''types'', nested ok), (''queryType'', nested ok),
      (''mutationType'', nested ok), (''subscriptionType'', nested ok), (''directives'', nested (directive_ok rt ok))] (cf_name f) = Some okf"
    and okf: "okf f"
  shows "meta_Schema_value rt ty ctx c f = gret (the (map_of (schema_columns rt tv c f) (cf_name f)), 0)"
proof -
  have ok: "okf = nested ok \<Longrightarrow> ok (cf_sel f)" "okf = nested (directive_ok rt ok) \<Longrightarrow> directive_ok rt ok (cf_sel f)"
    using okf by (simp_all add: nested_def)
  show ?thesis
    using name ok c type_pointer_shown(1,2,3,5) [OF ty] directives_shown [OF ty]
    by (auto simp: meta_Schema_value_def Let_def meta_field_defs meta_resolves meta_scalars schema_columns_def
        shown_option_def typed_schema_def split: if_split_asm option.split)
qed

lemma schema_shown:
  assumes "shows_types ty ok tv" and "typed_schema c" and "schema_ok rt ok sel"
  shows "meta_Schema rt ty ctx sel c = gret (schema_view rt tv sel c)"
  using assms(3) schema_value_shown [OF assms(1,2)]
  unfolding meta_Schema_def Let_def schema_ok_def schema_view_def by (rule object_ok)

lemma schema_field_shown:
  assumes I: "typed I" and c: "introspect_schema I = Inr (Some c)" "typed_schema c"
    and f: "cf_name f = ''__schema''" "schema_ok rt (type_ok rt n) (cf_sel f)" and n: "n \<le> m"
  shows "introspect rt I m ctx f = gret (schema_view rt (type_view rt I n) (cf_sel f) c)"
  using schema_shown [OF type_shown [OF I n] c(2) f(2)]
  by (simp add: introspect_def f(1) Query_meta_schema_def fieldContext_Query_meta_schema_def c(1) plain_resolves
      marshalO_meta_Schema_def)

lemma type_field_shown:
  assumes I: "typed I" and name: "cf_args f ''name'' = Some v" "rt_unmarshal_string rt v = (t, None)"
    and r: "introspect_type I t = Inr ot" and f: "cf_name f = ''__type''" "type_ok rt n (cf_sel f)" and n: "n \<le> m"
  shows "introspect rt I m ctx f = gret (shown_option (type_view rt I n (cf_sel f)) ot)"
proof -
  have "field_Query_meta_type_args rt (in_field ctx f) (cf_args f) = Some ([(''name'', A_String t)], None)"
    using name by (simp add: field_Query_meta_type_args_def process_arg_simp next_arg_def unmarshalNString_def on_path_def no_error_on_path)
  then have init: "fieldContext_Query_meta_type rt ctx f s = Some (Some ((meta_context ''Query'' f True Child_Type)\<lparr>fc_args := [(''name'', A_String t)]\<rparr>, None), s)" for s
    by (simp add: fieldContext_Query_meta_type_def Let_def with_args_def gret_def)
  show ?thesis
    using type_pointer_shown(1) [where sel = "cf_sel f", OF type_shown [OF I n] f(2)]
    by (intro ext) (simp add: introspect_def f(1) Query_meta_type_def resolve_field_runs [where init = "fieldContext_Query_meta_type rt", OF init] r)
qed

end

section \<open>The views can be written\<close>

lemma object_view_complete:
  assumes "fields_ok rt name oks sel"
    and "\<And>f ok. map_of oks (cf_name f) = Some ok \<Longrightarrow> ok f \<Longrightarrow> complete (the (map_of (columns f) (cf_name f)))"
  shows "complete (object_view rt name columns sel)"
  using fields_okD [OF assms(1)] assms(2) by (fastforce simp: object_view_def list_all_iff)

context gqlgen begin

lemmas complete_columns = scalars_complete shown_option_complete list_all_iff listed_def

lemma enum_view_complete: "enum_ok rt sel \<Longrightarrow> complete (enum_view rt sel e)"
  unfolding enum_ok_def enum_view_def
  by (erule object_view_complete) (auto simp: enum_columns_def Let_def complete_columns split: if_split_asm)

lemma input_view_complete:
  assumes tv: "\<And>sel t. ok sel \<Longrightarrow> complete (tv sel t)"
  shows "input_ok rt ok sel \<Longrightarrow> complete (input_view rt tv sel a)"
  unfolding input_ok_def input_view_def
  by (erule object_view_complete) (auto simp: input_columns_def Let_def complete_columns nested_def tv split: if_split_asm)

lemma field_view_complete:
  assumes tv: "\<And>sel t. ok sel \<Longrightarrow> complete (tv sel t)"
  shows "field_ok rt ok sel \<Longrightarrow> complete (field_view rt tv sel d)"
  unfolding field_ok_def field_view_def
  by (erule object_view_complete)
    (auto simp: field_columns_def Let_def complete_columns nested_def tv input_view_complete [where ok = ok, OF tv] split: if_split_asm)

lemma directive_view_complete:
  assumes tv: "\<And>sel t. ok sel \<Longrightarrow> complete (tv sel t)"
  shows "directive_ok rt ok sel \<Longrightarrow> complete (directive_view rt tv sel d)"
  unfolding directive_ok_def directive_view_def
  by (erule object_view_complete)
    (auto simp: directive_columns_def Let_def complete_columns nested_def tv input_view_complete [where ok = ok, OF tv] split: if_split_asm)

lemma type_view_complete: "type_ok rt n sel \<Longrightarrow> complete (type_view rt I n sel t)"
proof (induction n arbitrary: sel t)
  case (Suc n)
  note views = Suc.IH input_view_complete [where ok = "type_ok rt n", OF Suc.IH] field_view_complete [where ok = "type_ok rt n", OF Suc.IH]
  show ?case
    using Suc.prems unfolding type_ok.simps type_view.simps Let_def
    by (elim object_view_complete)
      (auto simp: type_columns_def Let_def complete_columns nested_def views enum_view_complete split: if_split_asm)
qed simp

lemma schema_view_complete:
  assumes "schema_ok rt (type_ok rt n) sel"
  shows "complete (schema_view rt (type_view rt I n) sel c)"
  using assms unfolding schema_ok_def schema_view_def
  by (elim object_view_complete)
    (auto simp: schema_columns_def Let_def complete_columns nested_def type_view_complete
      directive_view_complete [where ok = "type_ok rt n", OF type_view_complete] split: if_split_asm)

end

end
