(* ===== verification/Graphql_Sample.thy ===== *)
theory Graphql_Sample
  imports Graphql_Meta_Views
begin

text \<open>
  A runtime that keeps the contract, for the witnesses: selections are trees, delayed fields run from
  the last to the first, scalars are written as JSON. The relations of \<open>Graphql_Service\<close> are
  interpreted here.
\<close>

section \<open>Selections\<close>

datatype selection = Selection string string "(string \<times> json) list" "selection list"

fun collected :: "selection \<Rightarrow> selection list cfield" where
  "collected (Selection alias name args sel) =
     \<lparr>cf_name = name, cf_alias = alias, cf_sel = sel, cf_args = map_of args\<rparr>"

section \<open>The runtime\<close>

definition sample_resolve ::
  "path \<Rightarrow> 's cfield \<Rightarrow> 's init \<Rightarrow> (path \<Rightarrow> 's fctx \<Rightarrow> 's marshal answer run) \<Rightarrow> bool \<Rightarrow> bool \<Rightarrow> marshaler run" where
  "sample_resolve ctx field init resolver rec nn = gbind (init ctx field) (\<lambda>(fc, err). case err of
       Some e \<Rightarrow> gret Null
     | None \<Rightarrow> recovered ''internal system error'' (in_field ctx field) Null
         (gbind (resolver (in_field ctx field) fc) (\<lambda>r. case r of
            Inl e \<Rightarrow> gbind (gerror (in_field ctx field) (error_text e)) (\<lambda>u. gret Null)
          | Inr k \<Rightarrow> k (in_field ctx field) (cf_sel field))))"

definition sample_next :: "path \<Rightarrow> 's cfield \<Rightarrow> (path \<Rightarrow> 's \<Rightarrow> employee option \<Rightarrow> marshaler run) \<Rightarrow> nat \<Rightarrow> marshaler run" where
  "sample_next ctx field marshal ch s = (case receive (channel_of ch s) of
      None \<Rightarrow> None
    | Some (e, c) \<Rightarrow> gbind (marshal (in_field ctx field) (cf_sel field) (Some e))
        (\<lambda>v. gret (Field_Set [(cf_alias field, v)])) (set_channel ch c s))"

definition sample_stream ::
  "path \<Rightarrow> 's cfield \<Rightarrow> 's init \<Rightarrow> (path \<Rightarrow> 's fctx \<Rightarrow> nat answer run)
     \<Rightarrow> (path \<Rightarrow> 's \<Rightarrow> employee option \<Rightarrow> marshaler run) \<Rightarrow> bool \<Rightarrow> bool \<Rightarrow> marshaler run option run" where
  "sample_stream ctx field init resolver marshal rec nn = gbind (init ctx field) (\<lambda>(fc, err). case err of
       Some e \<Rightarrow> gret None
     | None \<Rightarrow> gbind (resolver (in_field ctx field) fc) (\<lambda>r. case r of
         Inl e \<Rightarrow> gbind (gerror (in_field ctx field) (error_text e)) (\<lambda>u. gret None)
       | Inr ch \<Rightarrow> gret (Some (sample_next ctx field marshal ch))))"

definition sample_int :: "json \<Rightarrow> int \<times> string option" where
  "sample_int v = (case v of
      JNum t \<Rightarrow> (case parse_int t of Some n \<Rightarrow> (n, None) | None \<Rightarrow> (0, Some ''not an integer''))
    | _ \<Rightarrow> (0, Some ''not an integer''))"

definition sample_string :: "json \<Rightarrow> string \<times> string option" where
  "sample_string v = (case v of JStr t \<Rightarrow> (unquote t, None) | _ \<Rightarrow> ([], Some ''not a string''))"

definition sample_boolean :: "json \<Rightarrow> bool \<times> string option" where
  "sample_boolean v = (case v of JBool b \<Rightarrow> (b, None) | _ \<Rightarrow> (False, Some ''not a boolean''))"

definition sample_runtime :: "selection list runtime" where
  "sample_runtime = \<lparr>rt_collect = (\<lambda>sel types. map collected sel), rt_resolve = sample_resolve, rt_stream = sample_stream,
     rt_scalar_context = (\<lambda>ob field im ir e. (\<lparr>fc_object = ob, fc_field = field, fc_is_method = im, fc_is_resolver = ir,
        fc_args = [], fc_child = No_Child e\<rparr>, None)),
     rt_arg = (\<lambda>ctx raw name. map_option (Pair (ctx @ [At name])) (raw name)),
     rt_on_path = (\<lambda>ctx e. e), rt_recover = ''internal system error'',
     rt_has_error = (\<lambda>ctx es. list_ex (\<lambda>(c, e). c = ctx) es),
     rt_unmarshal_int64 = sample_int, rt_unmarshal_int = sample_int, rt_unmarshal_string = sample_string, rt_unmarshal_boolean = sample_boolean,
     rt_marshal_int64 = (\<lambda>n. Literal (show_int n)), rt_marshal_string = (\<lambda>t. Literal (quoted t)),
     rt_marshal_boolean = (\<lambda>b. Literal (if b then ''true'' else ''false'')),
     rt_marshal_time = (\<lambda>t. Literal (quoted (show_date t @ CHR ''T'' # show_clock t @ ''Z''))),
     rt_slice = (\<lambda>ctx n f. map_run (\<lambda>i. f (ctx @ [Nth i]) i) [0..<n]),
     rt_root = (\<lambda>m. m), rt_schedule = (\<lambda>n. rev [0..<n])\<rparr>"

lemma map_run_pure:
  "(\<And>x. x \<in> set xs \<Longrightarrow> f x s = Some (Some (g x), s)) \<Longrightarrow> map_run f xs s = Some (Some (map g xs), s)"
  by (induction xs) (simp_all add: gret_def gbind_def)

lemma sample_contract: "gqlgen sample_runtime"
proof
  fix ctx n s m and f :: "path \<Rightarrow> nat \<Rightarrow> marshaler run"
  assume "\<And>i. i < n \<Longrightarrow> f (ctx @ [Nth i]) i s = Some (Some (m i), s)"
  then show "rt_slice sample_runtime ctx n f s = Some (Some (map m [0..<n]), s)"
    using map_run_pure [of "[0..<n]" "\<lambda>i. f (ctx @ [Nth i]) i" s m] by (simp add: sample_runtime_def)
next
  fix ctx n s s' rs and f :: "path \<Rightarrow> nat \<Rightarrow> marshaler run"
  assume f: "\<And>i s r s'. i < n \<Longrightarrow> f (ctx @ [Nth i]) i s = Some (r, s') \<Longrightarrow> g_app s' = g_app s"
    and run: "rt_slice sample_runtime ctx n f s = Some (rs, s')"
  have "stays (=) (map_run (\<lambda>i. f (ctx @ [Nth i]) i) [0..<n])"
  proof (rule same.stays_map_run)
    fix i assume "i \<in> set [0..<n]"
    then have i: "i < n" by simp
    show "stays (=) (f (ctx @ [Nth i]) i)" unfolding stays_def using f [OF i] by metis
  qed
  then show "g_app s' = g_app s" using run by (auto simp: sample_runtime_def stays_def)
qed (auto simp: sample_runtime_def sample_resolve_def sample_stream_def sample_next_def gbind_def gret_def)

interpretation sample: gqlgen sample_runtime
  by (rule sample_contract)

section \<open>Steps of the service\<close>

lemma reachable_trans: "reachable E tok b c \<Longrightarrow> reachable E tok a b \<Longrightarrow> reachable E tok a c"
  by (induction rule: reachable.induct) (auto intro: reachable.more)

lemma reachable_step: "app_step E tok a b \<Longrightarrow> reachable E tok a b"
  by (rule reachable.more [OF reachable.here])


lemma reachable_writes:
  assumes "gqlgen rt"
  shows "service_writes rt (reachable E tok) E"
proof (intro service_writes.intro service_reads.intro gqlgen_relation.intro app_relation.intro assms
    service_reads_axioms.intro service_writes_axioms.intro)
  show "reachable E tok a a" for a by (rule reachable.here)
  show "reachable E tok a b \<Longrightarrow> reachable E tok b c \<Longrightarrow> reachable E tok a c" for a b c by (rule reachable_trans)
qed (auto intro: reachable_step app_step.intros)

definition read_only :: "app \<Rightarrow> app \<Rightarrow> bool" where
  "read_only a b \<longleftrightarrow> ap_hub b = ap_hub a \<and> wdb (ap_world b) = wdb (ap_world a) \<and> pragma_fk (ap_world b) = pragma_fk (ap_world a)"

lemma get_employee_reads:
  "get_employee_by_id E k w = Some (r, w') \<Longrightarrow> wdb w' = wdb w \<and> pragma_fk w' = pragma_fk w"
  by (auto simp: get_employee_by_id_def bind_Some_iff db_query_def rows_close_def
      split: if_split_asm option.split_asm list.split_asm)

lemma list_query_reads:
  "list_query E P offset limit w = Some (r, w') \<Longrightarrow> wdb w' = wdb w \<and> pragma_fk w' = pragma_fk w"
  by (auto simp: list_query_def bind_Some_iff db_query_def rows_close_def split: if_split_asm option.split_asm)

lemma read_only_reads:
  assumes "gqlgen rt"
  shows "service_reads rt read_only E"
proof (intro service_reads.intro gqlgen_relation.intro app_relation.intro assms service_reads_axioms.intro)
  show "get_employee_by_id E k (ap_world a) = Some (ro, w) \<Longrightarrow> read_only a (a\<lparr>ap_world := w\<rparr>)" for k a ro w
    by (auto dest: get_employee_reads simp: read_only_def)
  show "list_query E P offset limit (ap_world a) = Some (rl, w) \<Longrightarrow> read_only a (a\<lparr>ap_world := w\<rparr>)" for P offset limit a rl w
    by (auto dest: list_query_reads simp: read_only_def)
qed (simp_all add: read_only_def)

interpretation sample_writes: service_writes sample_runtime "reachable calm ''key''" calm
  by (rule reachable_writes [OF sample_contract])

interpretation sample_reads: service_reads sample_runtime read_only calm
  by (rule read_only_reads [OF sample_contract])

section \<open>A state, and what clients write\<close>

definition idle_gql :: gql where
  "idle_gql = \<lparr>g_app = fresh_app, g_errors = []\<rparr>"

definition json_int :: "int \<Rightarrow> json" where
  "json_int n = JNum (show_int n)"

text \<open>A schema with one object type, whose only field is a text.\<close>

definition sample_field :: "string meta_field" where
  "sample_field = \<lparr>fd_name = ''hello'', fd_description = None, fd_args = [], fd_type = Some ''String'',
     fd_is_deprecated = False, fd_deprecation_reason = None\<rparr>"

definition sample_schema :: "string meta_schema" where
  "sample_schema = \<lparr>sc_description = None, sc_types = [''Query'', ''String''], sc_query_type = Some ''Query'',
     sc_mutation_type = None, sc_subscription_type = None, sc_directives = []\<rparr>"

definition sample_types :: "string introspection" where
  "sample_types = \<lparr>ty_kind = (\<lambda>t. if t = ''Query'' then ''OBJECT'' else ''SCALAR''), ty_name = Some,
     ty_description = (\<lambda>t. None), ty_specified_by_url = (\<lambda>t. None),
     ty_fields = (\<lambda>t b. if t = ''Query'' then Some [sample_field] else None), ty_interfaces = (\<lambda>t. None),
     ty_possible_types = (\<lambda>t. None), ty_enum_values = (\<lambda>t b. None), ty_input_fields = (\<lambda>t. None),
     ty_of_type = (\<lambda>t. None), ty_is_one_of = (\<lambda>t. False),
     introspect_type = (\<lambda>t. Inr (if t \<in> set (sc_types sample_schema) then Some t else None)),
     introspect_schema = Inr (Some sample_schema)\<rparr>"

lemma sample_typed: "typed sample_types" "typed_schema sample_schema"
  by (simp_all add: typed_def typed_schema_def sample_types_def sample_schema_def typed_field_def sample_field_def)

abbreviation sample_meta :: "path \<Rightarrow> selection list cfield \<Rightarrow> marshaler run" where
  "sample_meta \<equiv> introspect sample_runtime sample_types 2"

end
