(* ===== verification/Graphql_Props.thy ===== *)
theory Graphql_Props
  imports Graphql_Sample
begin

text \<open>What the GraphQL executor promises, with the service behind it.\<close>

section \<open>Operations and the service\<close>

lemma next_query:
  "exec_next E rt schema op (H_Query True ps) s = Some (r, s') \<Longrightarrow> stays R (Query_object E rt schema [] (op_sel op)) \<Longrightarrow>
     R (g_app s) (g_app s')"
  by (auto simp: exec_next_def stays_def gret_def respond_def gpanic_def dest!: gbind_SomeD split: if_split_asm)

lemma next_mutation:
  "exec_next E rt schema op (H_Mutation True) s = Some (r, s') \<Longrightarrow> stays R (Mutation_object E rt [] (op_sel op)) \<Longrightarrow>
     R (g_app s) (g_app s')"
  by (auto simp: exec_next_def stays_def gret_def respond_def gpanic_def dest!: gbind_SomeD split: if_split_asm)

text \<open>C33: A GraphQL query or mutation does to the service nothing but a sequence of the service's own steps,
  whatever it selects and whatever the driver does; so all that holds in every state the service
  reaches holds after it.\<close>

theorem operations_are_service_steps:
  assumes rt: "gqlgen rt" and kind: "op_kind op \<noteq> Op_Subscription"
    and start: "exec_start rt op s = Some (Some h, s1)" and run: "exec_next E rt (introspect rt I n) op h s1 = Some (r, s2)"
  shows "reachable E tok (g_app s) (g_app s2)"
proof -
  note writes = reachable_writes [OF rt, of E tok]
  have q: "stays (reachable E tok) (Query_object E rt (introspect rt I n) [] (op_sel op))"
    using service_reads.stays_query_object [OF service_writes.axioms(1) [OF writes] gqlgen.quiet_introspect [OF rt]] .
  have m: "stays (reachable E tok) (Mutation_object E rt [] (op_sel op))"
    by (rule service_writes.stays_mutation_object [OF writes])
  show ?thesis
    using start run kind next_query [OF _ q] next_mutation [OF _ m]
    by (cases "op_kind op") (auto simp: exec_start_def gret_def exec_next_def reachable.here)
qed

text \<open>C34: A query changes no table and no subscription, and publishes nothing.\<close>

theorem queries_change_nothing:
  assumes rt: "gqlgen rt" and kind: "op_kind op = Op_Query"
    and start: "exec_start rt op s = Some (Some h, s1)" and run: "exec_next E rt (introspect rt I n) op h s1 = Some (r, s2)"
  shows "wdb (ap_world (g_app s2)) = wdb (ap_world (g_app s)) \<and> ap_hub (g_app s2) = ap_hub (g_app s)"
proof -
  have "stays read_only (Query_object E rt (introspect rt I n) [] (op_sel op))"
    using service_reads.stays_query_object [OF read_only_reads [OF rt] gqlgen.quiet_introspect [OF rt]] .
  then have "read_only (g_app s) (g_app s2)"
    using start run kind next_query by (fastforce simp: exec_start_def gret_def)
  then show ?thesis by (simp add: read_only_def)
qed


section \<open>Arguments\<close>

text \<open>The argument is absent, null, or an integer.\<close>

definition optional_int :: "'s runtime \<Rightarrow> (string \<Rightarrow> json option) \<Rightarrow> string \<Rightarrow> int option \<Rightarrow> bool" where
  "optional_int rt raw name r \<longleftrightarrow> (case raw name of
      None \<Rightarrow> r = None
    | Some v \<Rightarrow> if v = JNull then r = None else \<exists>n. rt_unmarshal_int rt v = (n, None) \<and> r = Some n)"

text \<open>The error of arguments that cannot be read, or of the panic on the way.\<close>

definition rejected :: "'s runtime \<Rightarrow> args decoded \<Rightarrow> string option" where
  "rejected rt r = (case r of None \<Rightarrow> Some (rt_recover rt) | Some (a, err) \<Rightarrow> err)"

context gqlgen begin

lemma optional_int_read:
  "optional_int rt raw name r \<Longrightarrow> process_arg rt ctx raw name None (\<lambda>ctx v. Some (unmarshalOInt rt ctx v)) = Some (r, None)"
  by (auto simp: optional_int_def process_arg_simp unmarshalOInt_def no_error_on_path split: option.splits if_split_asm)

lemma with_args_read: "with_args rt ctx fc (Some (a, None)) s = Some (Some (fc\<lparr>fc_args := a\<rparr>, None), s)"
  by (simp add: with_args_def gret_def)

lemma with_args_rejected:
  "rejected rt r = Some e \<Longrightarrow> \<exists>fc'. with_args rt ctx fc r s = Some (Some (fc', Some e), add_error ctx e s)"
  by (auto simp: rejected_def with_args_def gret_def split: option.splits)

lemma root_field_rejected:
  assumes init: "init ctx field s = with_args rt (in_field ctx field) fc r s" and bad: "rejected rt r = Some e"
  shows "resolve_field rt ctx field init resolver marshal True nn s = Some (Some Null, add_error (in_field ctx field) e s)"
proof -
  obtain fc' where "init ctx field s = Some (Some (fc', Some e), add_error (in_field ctx field) e s)"
    using with_args_rejected [OF bad, of "in_field ctx field" fc s] init by auto
  then show ?thesis by (rule resolve_field_bad_context)
qed

lemma root_field_runs:
  assumes init: "init ctx field s = with_args rt (in_field ctx field) fc (Some (a, None)) s"
  shows "resolve_field rt ctx field init resolver marshal True nn s =
      recovered (rt_recover rt) (in_field ctx field) Null
        (gbind (resolver (in_field ctx field) (fc\<lparr>fc_args := a\<rparr>)) (\<lambda>r. case r of
           Inl e \<Rightarrow> gbind (gerror (in_field ctx field) (error_text e)) (\<lambda>u. gret Null)
         | Inr v \<Rightarrow> marshal (in_field ctx field) (cf_sel field) v)) s"
  by (rule resolve_field_runs) (simp add: init with_args_read)

end

text \<open>A mutation whose arguments cannot be read reports that one error and answers null; its resolver is
  not called, and the service is as it was.\<close>

theorem bad_arguments_stop_mutations:
  assumes rt: "gqlgen rt"
  shows "(\<forall>e. rejected rt (field_Mutation_createEmployee_args rt (in_field ctx field) (cf_args field)) = Some e \<longrightarrow>
        Mutation_createEmployee E rt ctx field s = Some (Some Null, add_error (in_field ctx field) e s))
    \<and> (\<forall>e. rejected rt (field_Mutation_updateEmployee_args rt (in_field ctx field) (cf_args field)) = Some e \<longrightarrow>
        Mutation_updateEmployee E rt ctx field s = Some (Some Null, add_error (in_field ctx field) e s))
    \<and> (\<forall>e. rejected rt (field_Mutation_deleteEmployee_args rt (in_field ctx field) (cf_args field)) = Some e \<longrightarrow>
        Mutation_deleteEmployee E rt ctx field s = Some (Some Null, add_error (in_field ctx field) e s))"
  unfolding Mutation_createEmployee_def Mutation_updateEmployee_def Mutation_deleteEmployee_def
  by (intro conjI allI impI gqlgen.root_field_rejected [OF rt])
     (simp_all add: fieldContext_Mutation_createEmployee_def fieldContext_Mutation_updateEmployee_def
       fieldContext_Mutation_deleteEmployee_def Let_def)

section \<open>Creating an employee\<close>

text \<open>An input object for \<open>d\<close>: numbers and texts are written by \<open>ji\<close> and \<open>js\<close>, absent texts left out.\<close>

definition optional_member :: "(string \<Rightarrow> json) \<Rightarrow> string \<Rightarrow> string option \<Rightarrow> (string \<times> json) list" where
  "optional_member js name x = (case x of None \<Rightarrow> [] | Some t \<Rightarrow> [(name, js t)])"

definition create_json :: "(int \<Rightarrow> json) \<Rightarrow> (string \<Rightarrow> json) \<Rightarrow> create_employee_input \<Rightarrow> json" where
  "create_json ji js d = JObj ([(''id'', ji (ci_id d)), (''employeeId'', js (ci_employee_id d)),
     (''firstName'', js (ci_first_name d)), (''lastName'', js (ci_last_name d)), (''email'', js (ci_email d))]
     @ optional_member js ''middleName'' (ci_middle_name d) @ optional_member js ''company'' (ci_company d)
     @ optional_member js ''jobTitle'' (ci_job_title d))"

definition writes_scalars :: "'s runtime \<Rightarrow> (int \<Rightarrow> json) \<Rightarrow> (string \<Rightarrow> json) \<Rightarrow> create_employee_input \<Rightarrow> bool" where
  "writes_scalars rt ji js d \<longleftrightarrow> rt_unmarshal_int64 rt (ji (ci_id d)) = (ci_id d, None)
     \<and> (\<forall>t \<in> {ci_employee_id d, ci_first_name d, ci_last_name d, ci_email d}
          \<union> set_option (ci_middle_name d) \<union> set_option (ci_company d) \<union> set_option (ci_job_title d).
        rt_unmarshal_string rt (js t) = (t, None) \<and> js t \<noteq> JNull)"

context gqlgen begin

lemma unmarshal_written:
  assumes "writes_scalars rt ji js d"
  shows "unmarshalInputCreateEmployeeInput rt ctx (create_json ji js d) = Some (d, None)"
  using assms
  by (cases d; cases "ci_middle_name d"; cases "ci_company d"; cases "ci_job_title d")
     (simp_all add: writes_scalars_def create_json_def optional_member_def unmarshalInputCreateEmployeeInput_def
        create_fields_def put_create_def assign_def unmarshalNLong_def unmarshalNString_def unmarshalOString_def
        on_path_def no_error_on_path zero_create_def)

lemma create_args_written:
  assumes "writes_scalars rt ji js d" "raw ''data'' = Some (create_json ji js d)"
  shows "field_Mutation_createEmployee_args rt ctx raw = Some ([(''data'', A_Create d)], None)"
  by (simp add: field_Mutation_createEmployee_args_def next_arg_def process_arg_simp assms(2)
      unmarshalNCreateEmployeeInput_def unmarshal_written [OF assms(1)] on_path_def no_error_on_path)

end

text \<open>Reading an input object gives back the employee it was written for.\<close>

theorem create_input_reads_back:
  assumes rt: "gqlgen rt" and d: "writes_scalars rt ji js d"
  shows "unmarshalInputCreateEmployeeInput rt ctx (create_json ji js d) = Some (d, None)"
  by (rule gqlgen.unmarshal_written [OF rt d])

definition created_state :: "sync_world \<Rightarrow> employee broker \<Rightarrow> gql \<Rightarrow> gql" where
  "created_state w b s = s\<lparr>g_app := \<lparr>ap_world = w, ap_hub = (ap_hub (g_app s))\<lparr>hub_broker := b\<rparr>\<rparr>\<rparr>"

lemma created_state_simps [simp]:
  "ap_world (g_app (created_state w b s)) = w" "hub_broker (ap_hub (g_app (created_state w b s))) = b"
  "g_errors (created_state w b s) = g_errors s"
  by (simp_all add: created_state_def)

context gqlgen begin

lemma create_field_run:
  assumes d: "writes_scalars rt ji js d" and arg: "cf_args field ''data'' = Some (create_json ji js d)"
    and sel: "known_fields rt (cf_sel field)"
    and run: "create_employee E d (ap_world (g_app s)) (hub_broker (ap_hub (g_app s))) = Some (r, w', b')"
  shows "Mutation_createEmployee E rt ctx field s = (case r of
       Inr emp \<Rightarrow> Some (Some (employee_view rt (cf_sel field) emp), created_state w' b' s)
     | Inl e \<Rightarrow> Some (Some Null, add_error (in_field ctx field) (error_text e) (created_state w' b' s)))"
proof -
  let ?fc = "root_context ''Mutation'' field Child_Employee"
  have init: "fieldContext_Mutation_createEmployee rt ctx field s =
      with_args rt (in_field ctx field) ?fc (Some ([(''data'', A_Create d)], None)) s"
    by (simp add: fieldContext_Mutation_createEmployee_def Let_def create_args_written [where raw = "cf_args field", OF d arg])
  show ?thesis
    unfolding Mutation_createEmployee_def root_field_runs [where init = "fieldContext_Mutation_createEmployee rt", OF init]
    using employee_object_shown [OF sel]
    by (cases r) (simp_all add: recovered_def gbind_def value_map_def on_broker_def gret_def gerror_def run
        marshalNEmployee_def created_state_def)
qed

end

text \<open>C37: \<open>createEmployee\<close> calls its resolver once, with exactly the employee its argument was written for. It
  answers with the selected fields of the employee as it is stored; an error of the resolver is
  reported at the field, which is null.\<close>

theorem create_field_answers:
  assumes "gqlgen rt" and "writes_scalars rt ji js d" and "cf_args field ''data'' = Some (create_json ji js d)"
    and "known_fields rt (cf_sel field)"
    and "create_employee E d (ap_world (g_app s)) (hub_broker (ap_hub (g_app s))) = Some (r, w', b')"
  shows "Mutation_createEmployee E rt ctx field s = (case r of
       Inr emp \<Rightarrow> Some (Some (employee_view rt (cf_sel field) emp), created_state w' b' s)
     | Inl e \<Rightarrow> Some (Some Null, add_error (in_field ctx field) (error_text e) (created_state w' b' s)))"
  by (rule gqlgen.create_field_run [OF assms])

section \<open>Subscriptions\<close>

text \<open>A subscription that selects no field or several reports an error, but its stream is Go's nil
  function: the first event asked of it panics.\<close>

theorem subscription_needs_one_stream:
  assumes "op_kind op = Op_Subscription" and "length (rt_collect rt (op_sel op) [''Subscription'']) \<noteq> 1"
  shows "exec_start rt op s = Some (Some (H_Subscription None),
        add_error [] ''must subscribe to exactly one stream'' s)
    \<and> exec_next E rt schema op (H_Subscription None) s' = Some (None, s')"
  using assms by (simp add: exec_start_def Subscription_object_def Let_def gret_def exec_next_def gpanic_def gbind_def gerror_def)

text \<open>C40: A subscription to \<open>employeeCreated\<close> opens one channel of the broker, and each employee it receives
  there becomes one response with the selected fields under the field's alias.\<close>

theorem subscription_delivers:
  assumes rt: "gqlgen rt" and op: "op_kind op = Op_Subscription"
    and one: "rt_collect rt (op_sel op) [''Subscription''] = [field]" "cf_name field = ''employeeCreated''"
    and sel: "known_fields rt (cf_sel field)"
  shows "\<exists>nx ch s1. exec_start rt op s = Some (Some (H_Subscription (Some nx)), s1)
    \<and> hub_step (ap_hub (g_app s)) (Opened ch) (Some (ap_hub (g_app s1)))
    \<and> (\<forall>s2 e c. receive (channel_of ch s2) = Some (e, c) \<longrightarrow>
         exec_next E rt schema op (H_Subscription (Some nx)) s2 =
           Some (Some (Some (with_data (Field_Set [(cf_alias field, employee_view rt (cf_sel field) e)])),
             H_Subscription (Some nx)), set_channel ch c s2))"
proof -
  let ?init = "\<lambda>ctx field. gret (fieldContext_Subscription_employeeCreated field)"
  obtain ch b where sub: "subscribe (hub_broker (ap_hub (g_app s))) = (ch, b)" by fastforce
  let ?s1 = "s\<lparr>g_app := (g_app s)\<lparr>ap_hub := (ap_hub (g_app s))\<lparr>hub_broker := b, live := ch # live (ap_hub (g_app s))\<rparr>\<rparr>\<rparr>"
  have init: "?init [] field s = Some (Some (root_context ''Subscription'' field Child_Employee, None), s)"
    by (simp add: fieldContext_Subscription_employeeCreated_def gret_def)
  have opened: "open_subscription s = Some (Some (Inr ch), ?s1)" by (simp add: open_subscription_def sub Let_def)
  obtain nx where stream: "Subscription_employeeCreated rt [] field s = Some (Some (Some nx), ?s1)"
    and events: "\<And>s e c. receive (channel_of ch s) = Some (e, c) \<Longrightarrow> nx s =
       gbind (marshalNEmployee rt (in_field [] field) (cf_sel field) (Some e)) (\<lambda>v. gret (Field_Set [(cf_alias field, v)])) (set_channel ch c s)"
    using gqlgen.stream_runs [OF rt, of ?init "[]" field s _ s "\<lambda>ctx fc. open_subscription" ch ?s1 "marshalNEmployee rt", OF init opened]
    by (auto simp: Subscription_employeeCreated_def)
  have start: "exec_start rt op s = Some (Some (H_Subscription (Some nx)), ?s1)"
    by (simp add: exec_start_def op Subscription_object_def one stream gbind_def gret_def)
  have "hub_step (ap_hub (g_app s)) (Opened ch) (Some (ap_hub (g_app ?s1)))"
    using hub_step.open_step [OF sub] by simp
  moreover have "exec_next E rt schema op (H_Subscription (Some nx)) s2 =
      Some (Some (Some (with_data (Field_Set [(cf_alias field, employee_view rt (cf_sel field) e)])),
        H_Subscription (Some nx)), set_channel ch c s2)" if "receive (channel_of ch s2) = Some (e, c)" for s2 e c
    using events [OF that] gqlgen.employee_object_shown [OF rt sel]
    by (simp add: exec_next_def gbind_def gret_def marshalNEmployee_def respond_def gqlgen.employee_view_complete [OF rt sel])
  ultimately show ?thesis using start by blast
qed

section \<open>Runs\<close>

definition created_key :: "selection" where
  "created_key = Selection ''key'' ''id'' [] []"

definition create_selection :: "string \<Rightarrow> selection" where
  "create_selection alias = Selection alias ''createEmployee'' [(''data'', create_json json_int JStr sample_input)] [created_key]"

definition create_op :: "selection list operation" where
  "create_op = \<lparr>op_kind = Op_Mutation, op_sel = [create_selection ''new'']\<rparr>"

lemma sample_input_written: "writes_scalars sample_runtime json_int JStr sample_input"
  unfolding writes_scalars_def by code_simp

lemma sample_keys_known: "known_fields sample_runtime [created_key]"
  by (simp add: known_fields_def sample_runtime_def created_key_def employee_field_names_def)

theorem create_input_reads_back_witness:
  "unmarshalInputCreateEmployeeInput sample_runtime [] (create_json json_int JStr sample_input) = Some (sample_input, None)"
  by (rule create_input_reads_back [OF sample_contract sample_input_written])

lemma sample_creates:
  obtains r w b where
    "create_employee calm sample_input (ap_world (g_app idle_gql)) (hub_broker (ap_hub (g_app idle_gql))) = Some (Inr r, w, b)"
proof -
  have "case create_employee calm sample_input (ap_world (g_app idle_gql)) (hub_broker (ap_hub (g_app idle_gql))) of
      Some (r, w, b) \<Rightarrow> \<not> isl r | _ \<Rightarrow> False" by code_simp
  then show ?thesis using that by (auto split: option.split_asm) (metis sum.collapse(2))
qed

theorem create_field_answers_witness:
  "\<exists>emp w b. Mutation_createEmployee calm sample_runtime [] (collected (create_selection ''new'')) idle_gql =
     Some (Some (employee_view sample_runtime [created_key] emp), created_state w b idle_gql)"
proof -
  obtain r w b where run: "create_employee calm sample_input (ap_world (g_app idle_gql)) (hub_broker (ap_hub (g_app idle_gql))) =
      Some (Inr r, w, b)" by (rule sample_creates)
  have "Mutation_createEmployee calm sample_runtime [] (collected (create_selection ''new'')) idle_gql =
      Some (Some (employee_view sample_runtime [created_key] r), created_state w b idle_gql)"
    using create_field_answers [OF sample_contract sample_input_written, of "collected (create_selection ''new'')"]
      sample_keys_known run by (simp add: create_selection_def)
  then show ?thesis by blast
qed

lemma create_operation_run:
  obtains s' d where "exec_next calm sample_runtime sample_meta create_op (H_Mutation True) idle_gql =
      Some (Some (Some (with_data d), H_Mutation False), s')"
    and "tlookup 5 (employees (wdb (ap_world (g_app s')))) \<noteq> None"
proof -
  obtain r w b where run: "create_employee calm sample_input (ap_world (g_app idle_gql)) (hub_broker (ap_hub (g_app idle_gql))) =
      Some (Inr r, w, b)" by (rule sample_creates)
  have "case create_employee calm sample_input (ap_world (g_app idle_gql)) (hub_broker (ap_hub (g_app idle_gql))) of
      Some (r, w, b) \<Rightarrow> tlookup 5 (employees (wdb w)) \<noteq> None | _ \<Rightarrow> False" by code_simp
  then have stored: "tlookup 5 (employees (wdb w)) \<noteq> None" by (simp add: run)
  have "Mutation_createEmployee calm sample_runtime [] (collected (create_selection ''new'')) idle_gql =
      Some (Some (employee_view sample_runtime [created_key] r), created_state w b idle_gql)"
    using sample.create_field_run [OF sample_input_written, of "collected (create_selection ''new'')"]
      sample_keys_known run by (simp add: create_selection_def)
  moreover have "rt_collect sample_runtime (op_sel create_op) [''Mutation''] = [collected (create_selection ''new'')]"
    by (simp add: sample_runtime_def create_op_def)
  ultimately have "Mutation_object calm sample_runtime [] (op_sel create_op) idle_gql =
      Some (Some (Field_Set [(''new'', employee_view sample_runtime [created_key] r)]), created_state w b idle_gql)"
    by (simp add: Mutation_object_def Let_def mutation_value_def create_selection_def in_middleware_def non_null_def
        nullable_def sample.no_root_middleware gbind_def gret_def invalid_def field_set_def employee_view_def)
  then show ?thesis
    using stored that [of "Field_Set [(''new'', employee_view sample_runtime [created_key] r)]" "created_state w b idle_gql"]
    by (simp add: exec_next_def gbind_def gret_def respond_def sample.employee_view_complete [OF sample_keys_known])
qed

theorem operations_are_service_steps_witness:
  "\<exists>a. tlookup 5 (employees (wdb (ap_world a))) \<noteq> None \<and> reachable calm ''key'' fresh_app a"
proof -
  obtain s' d where run: "exec_next calm sample_runtime sample_meta create_op (H_Mutation True) idle_gql =
      Some (Some (Some (with_data d), H_Mutation False), s')"
    and stored: "tlookup 5 (employees (wdb (ap_world (g_app s')))) \<noteq> None" by (rule create_operation_run)
  have "reachable calm ''key'' (g_app idle_gql) (g_app s')"
    by (rule operations_are_service_steps [OF sample_contract _ _ run])
       (simp_all add: create_op_def exec_start_def gret_def)
  then show ?thesis using stored by (auto simp: idle_gql_def)
qed

definition hello_op :: "selection list operation" where
  "hello_op = \<lparr>op_kind = Op_Query, op_sel = [Selection ''type'' ''__typename'' [] [], Selection ''hi'' ''hello'' [] []]\<rparr>"

lemma hello_run:
  "exec_next calm sample_runtime sample_meta hello_op (H_Query True []) idle_gql = Some (Some (Some (with_data (Field_Set
     [(''type'', Literal (quoted ''Query'')), (''hi'', Literal (quoted ''Hello from Sync Bridge''))])), H_Query False []), idle_gql)"
  by (simp add: exec_next_def hello_op_def Query_object_def sample_runtime_def query_slot_def concurrently_def Query_hello_def
      resolve_field_def sample_resolve_def gbind_def gret_def fieldContext_Query_hello_def hello_def recovered_def marshalNString_def
      null_checked_def non_null_def invalid_def dispatch_def field_set_def respond_def Let_def)

theorem queries_change_nothing_witness:
  "\<exists>r s2. exec_next calm sample_runtime sample_meta hello_op (H_Query True []) idle_gql = Some (Some r, s2)
     \<and> wdb (ap_world (g_app s2)) = wdb (ap_world fresh_app) \<and> ap_hub (g_app s2) = ap_hub fresh_app"
proof -
  have "exec_start sample_runtime hello_op idle_gql = Some (Some (H_Query True []), idle_gql)"
    by (simp add: hello_op_def exec_start_def gret_def)
  moreover obtain r s2 where run: "exec_next calm sample_runtime sample_meta hello_op (H_Query True []) idle_gql = Some (Some r, s2)"
    using hello_run by blast
  ultimately have "wdb (ap_world (g_app s2)) = wdb (ap_world (g_app idle_gql)) \<and> ap_hub (g_app s2) = ap_hub (g_app idle_gql)"
    by (intro queries_change_nothing [OF sample_contract _ _ run]) (simp_all add: hello_op_def)
  then show ?thesis using run by (auto simp: idle_gql_def)
qed

theorem bad_arguments_stop_mutations_witness:
  "Mutation_deleteEmployee calm sample_runtime []
      \<lparr>cf_name = ''deleteEmployee'', cf_alias = ''gone'', cf_sel = [], cf_args = [''id'' \<mapsto> JStr ''x'']\<rparr> idle_gql =
    Some (Some Null, add_error [At ''gone''] ''not an integer'' idle_gql)"
  using bad_arguments_stop_mutations [OF sample_contract,
      where field = "\<lparr>cf_name = ''deleteEmployee'', cf_alias = ''gone'', cf_sel = [], cf_args = [''id'' \<mapsto> JStr ''x'']\<rparr>"
        and ctx = "[]" and E = calm and s = idle_gql]
  by (simp add: rejected_def field_Mutation_deleteEmployee_args_def next_arg_def process_arg_def unmarshalNLong_def on_path_def
      sample_runtime_def sample_int_def in_field_def)

theorem subscription_needs_one_stream_witness:
  "exec_next calm sample_runtime sample_meta \<lparr>op_kind = Op_Subscription, op_sel = []\<rparr> (H_Subscription None) idle_gql = Some (None, idle_gql)"
  using subscription_needs_one_stream [of "\<lparr>op_kind = Op_Subscription, op_sel = []\<rparr>" sample_runtime]
  by (simp add: sample_runtime_def)

definition listen_op :: "selection list operation" where
  "listen_op = \<lparr>op_kind = Op_Subscription, op_sel = [Selection ''e'' ''employeeCreated'' [] [created_key]]\<rparr>"

theorem subscription_delivers_witness:
  "\<exists>nx ch s1. exec_start sample_runtime listen_op idle_gql = Some (Some (H_Subscription (Some nx)), s1)
     \<and> hub_step (ap_hub fresh_app) (Opened ch) (Some (ap_hub (g_app s1)))"
proof -
  have "rt_collect sample_runtime (op_sel listen_op) [''Subscription''] =
      [collected (Selection ''e'' ''employeeCreated'' [] [created_key])]" by (simp add: sample_runtime_def listen_op_def)
  then show ?thesis
    using subscription_delivers [of sample_runtime listen_op _ idle_gql calm sample_meta, OF sample_contract] sample_keys_known
    by (fastforce simp: listen_op_def idle_gql_def)
qed

end
