(* ===== verification/Graphql_Queries.thy ===== *)
theory Graphql_Queries
  imports Graphql_Props
begin

text \<open>
  What a query answers, for every order in which the runtime runs its fields. \<open>steady db x m\<close>: on the
  database \<open>db\<close>, with the connection free, \<open>m\<close> returns \<open>x\<close>, and leaves both and the errors alone.
\<close>

definition served :: "database \<Rightarrow> gql \<Rightarrow> bool" where
  "served db s \<longleftrightarrow> wdb (ap_world (g_app s)) = db \<and> conn (ap_world (g_app s)) = Idle"

definition steady :: "database \<Rightarrow> 'a \<Rightarrow> 'a run \<Rightarrow> bool" where
  "steady db x m \<longleftrightarrow> (\<forall>s. served db s \<longrightarrow> (\<exists>s'. m s = Some (Some x, s') \<and> served db s' \<and> g_errors s' = g_errors s))"

lemma steady_gret [simp]: "steady db x (gret x)"
  by (simp add: steady_def gret_def)

lemma steady_gbind: "steady db x m \<Longrightarrow> steady db y (f x) \<Longrightarrow> steady db y (gbind m f)"
  unfolding steady_def gbind_def by fastforce

lemma steady_pure: "(\<And>s. m s = Some (Some x, s)) \<Longrightarrow> steady db x m"
  by (simp add: steady_def)

lemma steady_recovered: "steady db x m \<Longrightarrow> steady db x (recovered e ctx y m)"
  unfolding steady_def recovered_def by fastforce

lemma steady_cong: "steady db x m \<Longrightarrow> m' = m \<Longrightarrow> steady db x m'"
  by simp

lemma steady_run_in_order:
  "(\<And>i. i \<in> set is \<Longrightarrow> steady db (g i) (f i)) \<Longrightarrow> steady db (map (\<lambda>i. (i, g i)) is) (run_in_order is f)"
proof (induction "is")
  case (Cons i "is")
  then have "steady db (map (\<lambda>i. (i, g i)) is) (run_in_order is f)" by simp
  then have "steady db ((i, g i) # map (\<lambda>i. (i, g i)) is) (gbind (run_in_order is f) (\<lambda>xs. gret ((i, g i) # xs)))"
    by (rule steady_gbind) simp
  moreover have "steady db (g i) (f i)" using Cons.prems by simp
  ultimately have "steady db ((i, g i) # map (\<lambda>i. (i, g i)) is)
      (gbind (f i) (\<lambda>x. gbind (run_in_order is f) (\<lambda>xs. gret ((i, x) # xs))))"
    by (intro steady_gbind [where x = "g i"])
  then show ?case by simp
qed simp

lemma map_of_graph: "i \<in> set is \<Longrightarrow> map_of (map (\<lambda>i. (i, g i)) is) i = Some (g i)"
  by (induction "is") auto

section \<open>What a field of a query shows\<close>

definition reads_int64 :: "'s runtime \<Rightarrow> (string \<Rightarrow> json option) \<Rightarrow> string \<Rightarrow> int \<Rightarrow> bool" where
  "reads_int64 rt raw name n \<longleftrightarrow> (\<exists>v. raw name = Some v \<and> rt_unmarshal_int64 rt v = (n, None))"

definition reads_string :: "'s runtime \<Rightarrow> (string \<Rightarrow> json option) \<Rightarrow> string \<Rightarrow> string \<Rightarrow> bool" where
  "reads_string rt raw name t \<longleftrightarrow> (\<exists>v. raw name = Some v \<and> rt_unmarshal_string rt v = (t, None))"

definition listing_view :: "env \<Rightarrow> 's runtime \<Rightarrow> 's cfield \<Rightarrow> (int \<times> employee_row) list \<Rightarrow> marshaler" where
  "listing_view E rt f xs = Slice (map (\<lambda>x. employee_view rt (cf_sel f) (scan_employee E x)) xs)"

text \<open>Introspection shows its views; a selection nests types less than \<open>n\<close> deep.\<close>

inductive query_shows :: "env \<Rightarrow> 's runtime \<Rightarrow> 't introspection \<Rightarrow> nat \<Rightarrow> database \<Rightarrow> 's cfield \<Rightarrow> marshaler \<Rightarrow> bool"
  for E :: env and rt :: "'s runtime" and I :: "'t introspection" and n :: nat and db :: database where
  typename: "cf_name f = ''__typename'' \<Longrightarrow> query_shows E rt I n db f (rt_marshal_string rt ''Query'')"
| greeting: "cf_name f = ''hello'' \<Longrightarrow> query_shows E rt I n db f (rt_marshal_string rt ''Hello from Sync Bridge'')"
| listing: "cf_name f = ''employees'' \<Longrightarrow> known_fields rt (cf_sel f) \<Longrightarrow>
    optional_int rt (cf_args f) ''offset'' off \<Longrightarrow> optional_int rt (cf_args f) ''limit'' lim \<Longrightarrow>
    query_shows E rt I n db f (listing_view E rt f (employee_page (\<lambda>x. True) (safe_limit lim) (safe_offset off) db))"
| nobody: "cf_name f = ''employee'' \<Longrightarrow> reads_int64 rt (cf_args f) ''id'' k \<Longrightarrow> tlookup k (employees db) = None \<Longrightarrow>
    query_shows E rt I n db f Null"
| somebody: "cf_name f = ''employee'' \<Longrightarrow> known_fields rt (cf_sel f) \<Longrightarrow> reads_int64 rt (cf_args f) ''id'' k \<Longrightarrow>
    tlookup k (employees db) = Some r \<Longrightarrow>
    query_shows E rt I n db f (employee_view rt (cf_sel f) (scan_employee E (k, r)))"
| found: "cf_name f = ''searchEmployees'' \<Longrightarrow> known_fields rt (cf_sel f) \<Longrightarrow> reads_string rt (cf_args f) ''search'' t \<Longrightarrow>
    optional_int rt (cf_args f) ''offset'' off \<Longrightarrow> optional_int rt (cf_args f) ''limit'' lim \<Longrightarrow>
    query_shows E rt I n db f
      (listing_view E rt f (employee_page (search_match (search_pattern E t)) (safe_limit lim) (safe_offset off) db))"
| described_type: "cf_name f = ''__type'' \<Longrightarrow> reads_string rt (cf_args f) ''name'' t \<Longrightarrow> introspect_type I t = Inr ot \<Longrightarrow>
    type_ok rt n (cf_sel f) \<Longrightarrow> query_shows E rt I n db f (shown_option (type_view rt I n (cf_sel f)) ot)"
| described_schema: "cf_name f = ''__schema'' \<Longrightarrow> introspect_schema I = Inr (Some c) \<Longrightarrow> typed_schema c \<Longrightarrow>
    schema_ok rt (type_ok rt n) (cf_sel f) \<Longrightarrow> query_shows E rt I n db f (schema_view rt (type_view rt I n) (cf_sel f) c)"

lemma steady_on_world:
  assumes "\<And>w. wdb w = db \<Longrightarrow> conn w = Idle \<Longrightarrow> \<exists>w'. f w = Some (x, w') \<and> wdb w' = db \<and> conn w' = Idle"
  shows "steady db x (on_world f)"
  unfolding steady_def
proof (intro allI impI)
  fix s assume "served db s"
  then obtain w' where "f (ap_world (g_app s)) = Some (x, w')" "wdb w' = db" "conn w' = Idle"
    using assms by (auto simp: served_def)
  then show "\<exists>s'. on_world f s = Some (Some x, s') \<and> served db s' \<and> g_errors s' = g_errors s"
    by (simp add: on_world_def served_def)
qed

lemma steady_listing:
  assumes "no_faults E"
  shows "steady db (Inr (map (scan_employee E) (employee_page P (safe_limit lim) (safe_offset off) db)))
    (on_world (list_query E P off lim))"
  by (rule steady_on_world) (use list_query_run [of _ E P off lim] assms in \<open>fastforce simp: no_faults_def\<close>)

lemma steady_lookup:
  assumes "no_faults E"
  shows "steady db (Inr (map_option (\<lambda>r. scan_employee E (k, r)) (tlookup k (employees db)))) (on_world (get_employee_by_id E k))"
  by (rule steady_on_world) (use get_employee_run [of _ E k] assms in \<open>fastforce simp: no_faults_def\<close>)

lemma steady_value_map: "steady db (Inr x) m \<Longrightarrow> steady db (Inr (f x)) (value_map f m)"
  unfolding value_map_def by (erule steady_gbind) simp

context gqlgen begin

lemma steady_root_field:
  assumes init: "\<And>s. init ctx field s = with_args rt (in_field ctx field) fc (Some (a, None)) s"
    and resolver: "steady db (Inr v) (resolver (in_field ctx field) (fc\<lparr>fc_args := a\<rparr>))"
    and marshal: "steady db x (marshal (in_field ctx field) (cf_sel field) v)"
  shows "steady db x (resolve_field rt ctx field init resolver marshal True nn)"
proof (rule steady_cong)
  show "resolve_field rt ctx field init resolver marshal True nn =
      recovered (rt_recover rt) (in_field ctx field) Null
        (gbind (resolver (in_field ctx field) (fc\<lparr>fc_args := a\<rparr>)) (\<lambda>r. case r of
           Inl e \<Rightarrow> gbind (gerror (in_field ctx field) (error_text e)) (\<lambda>u. gret Null)
         | Inr v \<Rightarrow> marshal (in_field ctx field) (cf_sel field) v))"
    by (rule ext, rule root_field_runs, rule init)
next
  show "steady db x (recovered (rt_recover rt) (in_field ctx field) Null
        (gbind (resolver (in_field ctx field) (fc\<lparr>fc_args := a\<rparr>)) (\<lambda>r. case r of
           Inl e \<Rightarrow> gbind (gerror (in_field ctx field) (error_text e)) (\<lambda>u. gret Null)
         | Inr v \<Rightarrow> marshal (in_field ctx field) (cf_sel field) v)))"
    by (intro steady_recovered steady_gbind [OF resolver]) (simp add: marshal)
qed

lemma read_int64: "reads_int64 rt raw name n \<Longrightarrow>
    process_arg rt ctx raw name 0 (\<lambda>ctx v. Some (unmarshalNLong rt ctx v)) = Some (n, None)"
  by (auto simp: reads_int64_def process_arg_simp unmarshalNLong_def on_path_def no_error_on_path)

lemma read_string: "reads_string rt raw name t \<Longrightarrow>
    process_arg rt ctx raw name [] (\<lambda>ctx v. Some (unmarshalNString rt ctx v)) = Some (t, None)"
  by (auto simp: reads_string_def process_arg_simp unmarshalNString_def on_path_def no_error_on_path)

lemma steady_employees_list:
  assumes "known_fields rt (cf_sel f)"
  shows "steady db (listing_view E rt f xs) (marshalNEmployees rt ctx (cf_sel f) (map Some (map (scan_employee E) xs)))"
  using employees_shown [OF assms, of ctx "map (scan_employee E) xs"]
  by (intro steady_pure) (simp add: listing_view_def comp_def)

lemma steady_query_employees:
  assumes E: "no_faults E" and sel: "known_fields rt (cf_sel f)"
    and args: "optional_int rt (cf_args f) ''offset'' off" "optional_int rt (cf_args f) ''limit'' lim"
  shows "steady db (listing_view E rt f (employee_page (\<lambda>x. True) (safe_limit lim) (safe_offset off) db))
    (Query_employees E rt ctx f)"
  unfolding Query_employees_def
proof (rule steady_root_field [where a = "[(''offset'', A_Int off), (''limit'', A_Int lim)]"
      and fc = "root_context ''Query'' f Child_Employee" and v = "map Some (map (scan_employee E)
        (employee_page (\<lambda>x. True) (safe_limit lim) (safe_offset off) db))"])
  show "fieldContext_Query_employees rt ctx f s = with_args rt (in_field ctx f) (root_context ''Query'' f Child_Employee)
      (Some ([(''offset'', A_Int off), (''limit'', A_Int lim)], None)) s" for s
    by (simp add: fieldContext_Query_employees_def field_Query_employees_args_def next_arg_def Let_def
        optional_int_read [OF args(1)] optional_int_read [OF args(2)])
next
  show "steady db (listing_view E rt f (employee_page (\<lambda>x. True) (safe_limit lim) (safe_offset off) db))
    (marshalNEmployees rt (in_field ctx f) (cf_sel f)
      (map Some (map (scan_employee E) (employee_page (\<lambda>x. True) (safe_limit lim) (safe_offset off) db))))"
    by (rule steady_employees_list [OF sel])
qed (simp add: steady_value_map employees_query_def [abs_def] steady_listing [OF E] del: map_map)

lemma steady_query_search:
  assumes E: "no_faults E" and sel: "known_fields rt (cf_sel f)" and t: "reads_string rt (cf_args f) ''search'' t"
    and args: "optional_int rt (cf_args f) ''offset'' off" "optional_int rt (cf_args f) ''limit'' lim"
  shows "steady db (listing_view E rt f
      (employee_page (search_match (search_pattern E t)) (safe_limit lim) (safe_offset off) db))
    (Query_searchEmployees E rt ctx f)"
  unfolding Query_searchEmployees_def
proof (rule steady_root_field [where a = "[(''search'', A_String t), (''offset'', A_Int off), (''limit'', A_Int lim)]"
      and fc = "root_context ''Query'' f Child_Employee" and v = "map Some (map (scan_employee E)
        (employee_page (search_match (search_pattern E t)) (safe_limit lim) (safe_offset off) db))"])
  show "fieldContext_Query_searchEmployees rt ctx f s = with_args rt (in_field ctx f) (root_context ''Query'' f Child_Employee)
      (Some ([(''search'', A_String t), (''offset'', A_Int off), (''limit'', A_Int lim)], None)) s" for s
    by (simp add: fieldContext_Query_searchEmployees_def field_Query_searchEmployees_args_def next_arg_def Let_def
        read_string [OF t] optional_int_read [OF args(1)] optional_int_read [OF args(2)])
next
  let ?xs = "employee_page (search_match (search_pattern E t)) (safe_limit lim) (safe_offset off) db"
  show "steady db (listing_view E rt f ?xs)
    (marshalNEmployees rt (in_field ctx f) (cf_sel f) (map Some (map (scan_employee E) ?xs)))"
    by (rule steady_employees_list [OF sel])
qed (simp add: steady_value_map search_employees_def [abs_def] steady_listing [OF E] del: map_map)

lemma steady_query_employee:
  assumes E: "no_faults E" and k: "reads_int64 rt (cf_args f) ''id'' k"
    and sel: "tlookup k (employees db) \<noteq> None \<longrightarrow> known_fields rt (cf_sel f)"
  shows "steady db (case tlookup k (employees db) of None \<Rightarrow> Null
      | Some r \<Rightarrow> employee_view rt (cf_sel f) (scan_employee E (k, r))) (Query_employee E rt ctx f)"
  unfolding Query_employee_def
proof (rule steady_root_field)
  show "fieldContext_Query_employee rt ctx f s = with_args rt (in_field ctx f) (root_context ''Query'' f Child_Employee)
      (Some ([(''id'', A_Long k)], None)) s" for s
    by (simp add: fieldContext_Query_employee_def field_Query_employee_args_def next_arg_def Let_def read_int64 [OF k])
next
  show "steady db (case tlookup k (employees db) of None \<Rightarrow> Null
      | Some r \<Rightarrow> employee_view rt (cf_sel f) (scan_employee E (k, r)))
    (marshalOEmployee rt (in_field ctx f) (cf_sel f) (map_option (\<lambda>r. scan_employee E (k, r)) (tlookup k (employees db))))"
    using sel employee_object_shown [of "cf_sel f"]
    by (cases "tlookup k (employees db)") (auto simp: marshalOEmployee_def intro: steady_pure)
qed (simp add: steady_lookup [OF E])

lemma steady_query_hello: "steady db (rt_marshal_string rt ''Hello from Sync Bridge'') (Query_hello rt ctx f)"
  unfolding Query_hello_def fieldContext_Query_hello_def hello_def scalar_resolves
  by (simp add: scalar_marshals)

end

section \<open>The whole query\<close>

fun slot_shows :: "database \<Rightarrow> marshaler \<Rightarrow> slot \<Rightarrow> bool" where
  "slot_shows db v (Now x) = (x = v)"
| "slot_shows db v (Later m) = steady db (v, 0) m"

lemma steady_non_null: "steady db v m \<Longrightarrow> v \<noteq> Null \<Longrightarrow> steady db (v, 0) (non_null m)"
  unfolding non_null_def by (erule steady_gbind) (simp add: invalid_def)

lemma steady_nullable: "steady db v m \<Longrightarrow> steady db (v, 0) (nullable m)"
  unfolding nullable_def by (erule steady_gbind) simp

lemma delayed_shows:
  "list_all2 (slot_shows db) vs slots \<Longrightarrow>
     \<exists>xs. list_all2 (\<lambda>x m. steady db (x, 0) m) xs (delayed slots) \<and> fill slots (map (\<lambda>v. (v, 0)) xs) = map (\<lambda>v. (v, 0)) vs"
proof (induction vs slots rule: list_all2_induct)
  case Nil
  show ?case by (rule exI [of _ "[]"]) simp
next
  case (Cons v vs slot slots)
  then obtain xs where xs: "list_all2 (\<lambda>x m. steady db (x, 0) m) xs (delayed slots)"
    "fill slots (map (\<lambda>v. (v, 0)) xs) = map (\<lambda>v. (v, 0)) vs" by blast
  show ?case
  proof (cases slot)
    case (Now x)
    then show ?thesis using Cons xs by (intro exI [of _ xs]) simp
  next
    case (Later m)
    then show ?thesis using Cons xs by (intro exI [of _ "v # xs"]) simp
  qed
qed

lemma field_set_values: "field_set fs (map (\<lambda>v. (v, 0)) vs) = Field_Set (zip (map cf_alias fs) vs)"
  by (simp add: field_set_def comp_def)

context gqlgen begin

lemma concurrently_slot:
  "concurrently rt ctx inner s = Some (Some (Later (recovered (rt_recover rt) ctx (Missing, 0) inner)), s)"
  by (simp add: concurrently_def gret_def no_root_middleware)

lemma described_slot: "gbind (in_middleware rt (gret v)) (\<lambda>v. gret (Now v)) s = Some (Some (Now v), s)"
  by (simp add: in_middleware_def nullable_def no_root_middleware) (simp add: gret_def)

lemma shown_slot:
  assumes E: "no_faults E" and I: "typed I" and n: "n \<le> m" and view: "query_shows E rt I n db f v"
  shows "\<exists>slot. (\<forall>s. query_slot E rt (introspect rt I m) ctx f s = Some (Some slot, s)) \<and> slot_shows db v slot"
  using view
proof cases
  case typename
  then show ?thesis by (intro exI [of _ "Now v"]) (simp add: query_slot_def gret_def)
next
  case greeting
  then show ?thesis using steady_non_null [OF steady_query_hello] scalars_not_null
    by (intro exI [of _ "Later (recovered (rt_recover rt) ctx (Missing, 0) (non_null (Query_hello rt ctx f)))"])
       (simp add: query_slot_def concurrently_slot steady_recovered)
next
  case (listing off lim)
  have "steady db v (Query_employees E rt ctx f)"
    unfolding listing(1) by (rule steady_query_employees [OF E listing(3-5)])
  then have "steady db (v, 0) (non_null (Query_employees E rt ctx f))"
    by (rule steady_non_null) (simp add: listing(1) listing_view_def)
  then show ?thesis using listing(2)
    by (intro exI [of _ "Later (recovered (rt_recover rt) ctx (Missing, 0) (non_null (Query_employees E rt ctx f)))"])
       (simp add: query_slot_def concurrently_slot steady_recovered)
next
  case (nobody k)
  have "steady db v (Query_employee E rt ctx f)"
    using steady_query_employee [OF E nobody(3), of db ctx] nobody by simp
  then show ?thesis using nobody(2)
    by (intro exI [of _ "Later (recovered (rt_recover rt) ctx (Missing, 0) (nullable (Query_employee E rt ctx f)))"])
       (simp add: query_slot_def concurrently_slot steady_recovered steady_nullable)
next
  case (somebody k r)
  have "steady db v (Query_employee E rt ctx f)"
    using steady_query_employee [OF E somebody(4), of db ctx] somebody by simp
  then show ?thesis using somebody(2)
    by (intro exI [of _ "Later (recovered (rt_recover rt) ctx (Missing, 0) (nullable (Query_employee E rt ctx f)))"])
       (simp add: query_slot_def concurrently_slot steady_recovered steady_nullable)
next
  case (found t off lim)
  have "steady db v (Query_searchEmployees E rt ctx f)"
    unfolding found(1) by (rule steady_query_search [OF E found(3-6)])
  then have "steady db (v, 0) (non_null (Query_searchEmployees E rt ctx f))"
    by (rule steady_non_null) (simp add: found(1) listing_view_def)
  then show ?thesis using found(2)
    by (intro exI [of _ "Later (recovered (rt_recover rt) ctx (Missing, 0) (non_null (Query_searchEmployees E rt ctx f)))"])
       (simp add: query_slot_def concurrently_slot steady_recovered)
next
  case (described_type t ot)
  then obtain w where w: "cf_args f ''name'' = Some w" "rt_unmarshal_string rt w = (t, None)" by (auto simp: reads_string_def)
  have "introspect rt I m ctx f = gret v"
    unfolding described_type(1) by (rule type_field_shown [OF I w described_type(4) described_type(2) described_type(5) n])
  then show ?thesis using described_type(2) by (intro exI [of _ "Now v"]) (simp add: query_slot_def described_slot)
next
  case (described_schema c)
  have "introspect rt I m ctx f = gret v"
    unfolding described_schema(1)
    by (rule schema_field_shown [OF I described_schema(3,4) described_schema(2) described_schema(5) n])
  then show ?thesis using described_schema(2) by (intro exI [of _ "Now v"]) (simp add: query_slot_def described_slot)
qed

lemma shown_slots:
  assumes "no_faults E" and "typed I" and "n \<le> m" and "list_all2 (query_shows E rt I n db) fs vs"
  shows "\<exists>slots. (\<forall>s. map_run (query_slot E rt (introspect rt I m) ctx) fs s = Some (Some slots, s)) \<and> list_all2 (slot_shows db) vs slots"
  using assms(4)
proof (induction fs vs rule: list_all2_induct)
  case Nil
  show ?case by (rule exI [of _ "[]"]) (simp add: gret_def)
next
  case (Cons f fs v vs)
  then obtain slots where "\<forall>s. map_run (query_slot E rt (introspect rt I m) ctx) fs s = Some (Some slots, s)"
    "list_all2 (slot_shows db) vs slots" by blast
  moreover obtain slot where "\<forall>s. query_slot E rt (introspect rt I m) ctx f s = Some (Some slot, s)" "slot_shows db v slot"
    using shown_slot [OF assms(1-3) Cons(1)] by blast
  ultimately show ?case by (intro exI [of _ "slot # slots"]) (simp add: gbind_def gret_def)
qed

lemma steady_dispatch:
  assumes "list_all2 (\<lambda>x m. steady db (x, 0) m) xs ms"
  shows "steady db (map (\<lambda>v. (v, 0)) xs) (dispatch rt ms)"
  unfolding dispatch_def
proof (rule steady_gbind)
  let ?is = "rt_schedule rt (length ms)"
  show "steady db (map (\<lambda>i. (i, (xs ! i, 0))) ?is) (run_in_order ?is ((!) ms))"
    by (rule steady_run_in_order) (use assms schedule_complete(2) in \<open>auto simp: list_all2_conv_all_nth\<close>)
  have "map (\<lambda>i. case map_of (map (\<lambda>i. (i, (xs ! i, 0 :: nat))) ?is) i of Some x \<Rightarrow> x | None \<Rightarrow> (Missing, 0)) [0..<length ms]
      = map (\<lambda>v. (v, 0)) xs"
    by (rule nth_equalityI) (use assms schedule_complete(2) in
        \<open>simp_all add: list_all2_conv_all_nth map_of_graph\<close>)
  then show "steady db (map (\<lambda>v. (v, 0)) xs) (gret (map (\<lambda>i. case map_of (map (\<lambda>i. (i, (xs ! i, 0 :: nat))) ?is) i of
      Some x \<Rightarrow> x | None \<Rightarrow> (Missing, 0)) [0..<length ms]))" by simp
qed

lemma slots_answer:
  assumes slots: "map_run (query_slot E rt schema ctx) (rt_collect rt sel [''Query'']) s = Some (Some slots, s1)"
    and "list_all2 (slot_shows db) vs slots" and "served db s1"
  shows "\<exists>s'. Query_object E rt schema ctx sel s =
      Some (Some (Field_Set (zip (map cf_alias (rt_collect rt sel [''Query''])) vs)), s')
    \<and> served db s' \<and> g_errors s' = g_errors s1"
proof -
  let ?fs = "rt_collect rt sel [''Query'']"
  obtain xs where xs: "list_all2 (\<lambda>x m. steady db (x, 0) m) xs (delayed slots)"
    and fill: "fill slots (map (\<lambda>v. (v, 0)) xs) = map (\<lambda>v. (v, 0)) vs" using delayed_shows [OF assms(2)] by blast
  obtain s' where "dispatch rt (delayed slots) s1 = Some (Some (map (\<lambda>v. (v, 0)) xs), s')" "served db s'" "g_errors s' = g_errors s1"
    using steady_dispatch [OF xs] assms(3) unfolding steady_def by blast
  then show ?thesis by (simp add: Query_object_def Let_def gbind_def slots gret_def fill field_set_values)
qed

lemma query_shows_complete: "query_shows E rt I n db f v \<Longrightarrow> complete v"
  by (induction rule: query_shows.induct)
    (auto simp: scalars_complete employee_view_complete listing_view_def list_all_iff type_view_complete schema_view_complete
      intro: shown_option_complete)

lemma shown_fields_complete:
  "list_all2 (\<lambda>f v. complete v) fs vs \<Longrightarrow> complete (Field_Set (zip (map cf_alias fs) vs))"
  by (auto simp: list_all_iff list_all2_conv_all_nth set_zip)

end

text \<open>C35: When the database's calls succeed and the arguments can be read, a query answers every field of its
  selection, under its alias and in the order of the selection, with what the database holds, whatever the
  order the runtime runs the fields in; it reports no error, changes no table, and answers once only.\<close>

theorem query_answers:
  assumes rt: "gqlgen rt" and E: "no_faults E" and I: "typed I" "n \<le> m" and w: "conn (ap_world (g_app s)) = Idle" and op: "op_kind op = Op_Query"
    and view: "list_all2 (query_shows E rt I n (wdb (ap_world (g_app s)))) (rt_collect rt (op_sel op) [''Query'']) vs"
  shows "\<exists>h h' s'. exec_start rt op s = Some (Some h, s)
    \<and> exec_next E rt (introspect rt I m) op h s =
        Some (Some (Some (with_data (Field_Set (zip (map cf_alias (rt_collect rt (op_sel op) [''Query''])) vs))), h'), s')
    \<and> g_errors s' = g_errors s \<and> wdb (ap_world (g_app s')) = wdb (ap_world (g_app s))
    \<and> exec_next E rt (introspect rt I m) op h' s' = Some (Some (None, h'), s')"
proof -
  let ?fs = "rt_collect rt (op_sel op) [''Query'']"
  obtain slots where slots: "map_run (query_slot E rt (introspect rt I m) []) ?fs s = Some (Some slots, s)"
    and "list_all2 (slot_shows (wdb (ap_world (g_app s)))) vs slots" using gqlgen.shown_slots [OF rt E I view] by blast
  then obtain s' where run: "Query_object E rt (introspect rt I m) [] (op_sel op) s = Some (Some (Field_Set (zip (map cf_alias ?fs) vs)), s')"
    "served (wdb (ap_world (g_app s))) s'" "g_errors s' = g_errors s"
    using gqlgen.slots_answer [OF rt slots] w by (auto simp: served_def)
  have "complete (Field_Set (zip (map cf_alias ?fs) vs))"
    by (rule gqlgen.shown_fields_complete [OF rt], rule list_all2_mono [OF view], rule gqlgen.query_shows_complete [OF rt])
  then show ?thesis using run
    by (intro exI [of _ "H_Query True []"] exI [of _ "H_Query False []"] exI [of _ s'])
       (simp add: exec_start_def op gret_def exec_next_def gbind_def served_def respond_def del: complete.simps)
qed

definition listing_op :: "selection list operation" where
  "listing_op = \<lparr>op_kind = Op_Query, op_sel = [Selection ''type'' ''__typename'' [] [], Selection ''hi'' ''hello'' [] [],
     Selection ''all'' ''employees'' [(''limit'', JNum ''5'')] [created_key]]\<rparr>"

theorem query_answers_witness:
  "\<exists>h h' s'. exec_next calm sample_runtime sample_meta listing_op h idle_gql = Some (Some (Some (with_data (Field_Set
     [(''type'', Literal (quoted ''Query'')), (''hi'', Literal (quoted ''Hello from Sync Bridge'')), (''all'', Slice [])])), h'), s')"
proof -
  let ?all = "collected (Selection ''all'' ''employees'' [(''limit'', JNum ''5'')] [created_key])"
  have fs: "rt_collect sample_runtime (op_sel listing_op) [''Query''] =
      [collected (Selection ''type'' ''__typename'' [] []), collected (Selection ''hi'' ''hello'' [] []), ?all]"
    by (simp add: sample_runtime_def listing_op_def)
  have lim: "optional_int sample_runtime (cf_args ?all) ''limit'' (Some 5)"
    unfolding optional_int_def by (simp add: sample_runtime_def sample_int_def) code_simp
  have "employee_page (\<lambda>x. True) (safe_limit (Some 5)) (safe_offset None) (wdb (ap_world (g_app idle_gql))) = []"
    by code_simp
  then have none: "listing_view calm sample_runtime ?all
      (employee_page (\<lambda>x. True) (safe_limit (Some 5)) (safe_offset None) (wdb (ap_world (g_app idle_gql)))) = Slice []"
    by (simp add: listing_view_def)
  have all: "query_shows calm sample_runtime sample_types 2 (wdb (ap_world (g_app idle_gql))) ?all (Slice [])"
    unfolding none [symmetric]
    by (rule query_shows.listing [OF _ _ _ lim]) (simp_all add: sample_keys_known optional_int_def)
  have "list_all2 (query_shows calm sample_runtime sample_types 2 (wdb (ap_world (g_app idle_gql))))
      (rt_collect sample_runtime (op_sel listing_op) [''Query''])
      [rt_marshal_string sample_runtime ''Query'', rt_marshal_string sample_runtime ''Hello from Sync Bridge'', Slice []]"
    using all by (simp add: fs query_shows.typename query_shows.greeting)
  moreover have "conn (ap_world (g_app idle_gql)) = Idle" "op_kind listing_op = Op_Query"
    by (simp_all add: idle_gql_def fresh_app_def listing_op_def)
  ultimately obtain h h' s' where "exec_next calm sample_runtime sample_meta listing_op h idle_gql =
      Some (Some (Some (with_data (Field_Set (zip (map cf_alias (rt_collect sample_runtime (op_sel listing_op) [''Query'']))
        [rt_marshal_string sample_runtime ''Query'', rt_marshal_string sample_runtime ''Hello from Sync Bridge'', Slice []]))), h'), s')"
    using query_answers [OF sample_contract calm_no_faults sample_typed(1) order_refl] by blast
  moreover have "rt_marshal_string sample_runtime t = Literal (quoted t)" for t by (simp add: sample_runtime_def)
  ultimately show ?thesis by (simp only: fs list.map collected.simps cfield.simps zip_Cons_Cons zip_Nil) blast
qed

section \<open>Introspection switched off\<close>

text \<open>What the runtime's entries for introspection answer while introspection is off.\<close>

definition introspection_off :: "'t introspection \<Rightarrow> go_error \<Rightarrow> bool" where
  "introspection_off I e \<longleftrightarrow> introspect_schema I = Inl e \<and> (\<forall>t. introspect_type I t = Inl e)"

definition asks_schema :: "'s runtime \<Rightarrow> 's cfield \<Rightarrow> bool" where
  "asks_schema rt f \<longleftrightarrow> cf_name f = ''__schema'' \<or> cf_name f = ''__type'' \<and> (\<exists>t. reads_string rt (cf_args f) ''name'' t)"

definition refusals :: "'s runtime \<Rightarrow> path \<Rightarrow> go_error \<Rightarrow> 's cfield list \<Rightarrow> (path \<times> string) list" where
  "refusals rt ctx e fs = map (\<lambda>f. (in_field ctx f, error_text e)) (filter (asks_schema rt) fs)"

definition more_errors :: "(path \<times> string) list \<Rightarrow> gql \<Rightarrow> gql" where
  "more_errors es s = s\<lparr>g_errors := g_errors s @ es\<rparr>"

lemma more_errors_simps [simp]:
  "more_errors [] s = s" "more_errors es' (more_errors es s) = more_errors (es @ es') s"
  "g_app (more_errors es s) = g_app s" "g_errors (more_errors es s) = g_errors s @ es"
  "served db (more_errors es s) = served db s"
  by (simp_all add: more_errors_def served_def)

lemma shown_while_off:
  assumes "introspection_off I e" and "query_shows E rt I n db f v"
  shows "\<not> asks_schema rt f"
    and "query_shows E rt (I\<lparr>ty_fields := \<lambda>t b. None, ty_input_fields := \<lambda>t. None\<rparr>) 0 db f v"
    and "query_slot E rt (introspect rt I m) ctx f =
      query_slot E rt (introspect rt (I\<lparr>ty_fields := \<lambda>t b. None, ty_input_fields := \<lambda>t. None\<rparr>) m) ctx f"
  using assms(2)
  by (cases; use assms(1) in \<open>auto simp: introspection_off_def asks_schema_def query_slot_def intro: query_shows.intros\<close>)+

context gqlgen begin

lemma asked_slot:
  assumes off: "introspection_off I e" and f: "asks_schema rt f"
  shows "query_slot E rt (introspect rt I m) ctx f s = Some (Some (Now Null), more_errors [(in_field ctx f, error_text e)] s)"
proof -
  have "introspect rt I m ctx f s = Some (Some Null, more_errors [(in_field ctx f, error_text e)] s)"
  proof (cases "cf_name f = ''__schema''")
    case True
    have "gret (fieldContext_Query_meta_schema f) s = Some (Some (meta_context ''Query'' f True Child_Schema, None), s)"
      by (simp add: fieldContext_Query_meta_schema_def gret_def)
    note runs = resolve_field_runs [where init = "\<lambda>ctx field. gret (fieldContext_Query_meta_schema field)", OF this]
    show ?thesis
      using off by (simp add: introspect_def True Query_meta_schema_def introspection_off_def runs)
        (simp add: gret_def recovered_def gbind_def gerror_def add_error_def more_errors_def)
  next
    case False
    then obtain t w where name: "cf_name f = ''__type''" "cf_args f ''name'' = Some w" "rt_unmarshal_string rt w = (t, None)"
      using f by (auto simp: asks_schema_def reads_string_def)
    then have "field_Query_meta_type_args rt (in_field ctx f) (cf_args f) = Some ([(''name'', A_String t)], None)"
      by (simp add: field_Query_meta_type_args_def process_arg_simp next_arg_def unmarshalNString_def on_path_def no_error_on_path)
    then have init: "fieldContext_Query_meta_type rt ctx f s =
        Some (Some ((meta_context ''Query'' f True Child_Type)\<lparr>fc_args := [(''name'', A_String t)]\<rparr>, None), s)" for s
      by (simp add: fieldContext_Query_meta_type_def Let_def with_args_def gret_def)
    show ?thesis
      using off by (simp add: introspect_def name(1) Query_meta_type_def introspection_off_def gret_def
          resolve_field_runs [where init = "fieldContext_Query_meta_type rt", OF init]
          recovered_def gbind_def gerror_def add_error_def more_errors_def)
  qed
  then show ?thesis
    using f by (auto simp: query_slot_def asks_schema_def in_middleware_def nullable_def no_root_middleware gbind_def gret_def)
qed

lemma slots_while_off:
  assumes E: "no_faults E" and off: "introspection_off I e"
    and "list_all2 (\<lambda>f v. asks_schema rt f \<and> v = Null \<or> query_shows E rt I n db f v) fs vs"
  shows "\<exists>slots. (\<forall>s. map_run (query_slot E rt (introspect rt I m) ctx) fs s = Some (Some slots, more_errors (refusals rt ctx e fs) s))
    \<and> list_all2 (slot_shows db) vs slots"
  using assms(3)
proof (induction fs vs rule: list_all2_induct)
  case Nil
  show ?case by (rule exI [of _ "[]"]) (simp add: gret_def refusals_def)
next
  case (Cons f fs v vs)
  then obtain slots where rest: "list_all2 (slot_shows db) vs slots"
    "\<forall>s. map_run (query_slot E rt (introspect rt I m) ctx) fs s = Some (Some slots, more_errors (refusals rt ctx e fs) s)" by blast
  from Cons(1) show ?case
  proof
    assume "asks_schema rt f \<and> v = Null"
    then show ?thesis using rest asked_slot [OF off, of f E m ctx]
      by (intro exI [of _ "Now Null # slots"]) (simp add: gbind_def gret_def refusals_def)
  next
    assume shown: "query_shows E rt I n db f v"
    note plain = shown_while_off [OF off shown]
    have "typed (I\<lparr>ty_fields := \<lambda>t b. None, ty_input_fields := \<lambda>t. None\<rparr>)" by (simp add: typed_def)
    then obtain slot where "\<forall>s. query_slot E rt (introspect rt I m) ctx f s = Some (Some slot, s)" "slot_shows db v slot"
      using shown_slot [OF E _ le0 plain(2)] plain(3) by metis
    then show ?thesis using rest plain(1)
      by (intro exI [of _ "slot # slots"]) (simp add: gbind_def gret_def refusals_def)
  qed
qed

end

text \<open>C36: The server is built without gqlgen's introspection extension, so the runtime's entries for it
  answer with an error. When the database's calls succeed and the arguments can be read, a query that asks for \<open>__schema\<close> or \<open>__type\<close>, as the playground the server offers
  does, gets null for each such field and one error per field, at its path; the other fields of the
  same query are answered as ever, and no table changes.\<close>

theorem introspection_is_refused:
  assumes rt: "gqlgen rt" and off: "introspection_off I e" and E: "no_faults E"
    and w: "conn (ap_world (g_app s)) = Idle" and op: "op_kind op = Op_Query"
    and view: "list_all2 (\<lambda>f v. asks_schema rt f \<and> v = Null \<or> query_shows E rt I n (wdb (ap_world (g_app s))) f v)
      (rt_collect rt (op_sel op) [''Query'']) vs"
  shows "\<exists>h h' s'. exec_start rt op s = Some (Some h, s)
    \<and> exec_next E rt (introspect rt I m) op h s =
        Some (Some (Some (with_data (Field_Set (zip (map cf_alias (rt_collect rt (op_sel op) [''Query''])) vs))), h'), s')
    \<and> g_errors s' = g_errors s @ refusals rt [] e (rt_collect rt (op_sel op) [''Query''])
    \<and> wdb (ap_world (g_app s')) = wdb (ap_world (g_app s))"
proof -
  let ?fs = "rt_collect rt (op_sel op) [''Query'']" and ?db = "wdb (ap_world (g_app s))"
  obtain slots where slots: "map_run (query_slot E rt (introspect rt I m) []) ?fs s = Some (Some slots, more_errors (refusals rt [] e ?fs) s)"
    and holds: "list_all2 (slot_shows ?db) vs slots" using gqlgen.slots_while_off [OF rt E off view] by blast
  have "served ?db (more_errors (refusals rt [] e ?fs) s)" using w by (simp add: served_def)
  then obtain s' where run: "Query_object E rt (introspect rt I m) [] (op_sel op) s = Some (Some (Field_Set (zip (map cf_alias ?fs) vs)), s')"
    "served ?db s'" "g_errors s' = g_errors s @ refusals rt [] e ?fs"
    using gqlgen.slots_answer [OF rt slots holds] by auto
  have "complete (Field_Set (zip (map cf_alias ?fs) vs))"
    by (rule gqlgen.shown_fields_complete [OF rt], rule list_all2_mono [OF view])
       (auto dest: gqlgen.query_shows_complete [OF rt])
  then show ?thesis using run
    by (intro exI [of _ "H_Query True []"] exI [of _ "H_Query False []"] exI [of _ s'])
       (simp add: exec_start_def op gret_def exec_next_def gbind_def served_def respond_def del: complete.simps)
qed

definition closed_types :: "string introspection" where
  "closed_types = sample_types\<lparr>introspect_type := \<lambda>t. Inl (Other ''introspection disabled''),
     introspect_schema := Inl (Other ''introspection disabled'')\<rparr>"

definition playground_op :: "selection list operation" where
  "playground_op = \<lparr>op_kind = Op_Query, op_sel = [Selection ''hi'' ''hello'' [] [],
     Selection ''schema'' ''__schema'' [] [Selection ''n'' ''description'' [] []]]\<rparr>"

theorem introspection_is_refused_witness:
  "\<exists>h h' s'. exec_next calm sample_runtime (introspect sample_runtime closed_types 2) playground_op h idle_gql =
       Some (Some (Some (with_data (Field_Set
         [(''hi'', Literal (quoted ''Hello from Sync Bridge'')), (''schema'', Null)])), h'), s')
     \<and> g_errors s' = [([At ''schema''], ''introspection disabled'')]"
proof -
  let ?fs = "[collected (Selection ''hi'' ''hello'' [] []), collected (Selection ''schema'' ''__schema'' [] [Selection ''n'' ''description'' [] []])]"
  have fs: "rt_collect sample_runtime (op_sel playground_op) [''Query''] = ?fs" by (simp add: sample_runtime_def playground_op_def)
  have off: "introspection_off closed_types (Other ''introspection disabled'')" by (simp add: introspection_off_def closed_types_def)
  have w: "conn (ap_world (g_app idle_gql)) = Idle" "op_kind playground_op = Op_Query"
    by (simp_all add: idle_gql_def fresh_app_def playground_op_def)
  have view: "list_all2 (\<lambda>f v. asks_schema sample_runtime f \<and> v = Null \<or> query_shows calm sample_runtime closed_types 2 (wdb (ap_world (g_app idle_gql))) f v)
      (rt_collect sample_runtime (op_sel playground_op) [''Query''])
      [rt_marshal_string sample_runtime ''Hello from Sync Bridge'', Null]"
    by (simp add: fs asks_schema_def query_shows.greeting)
  have errors: "refusals sample_runtime [] (Other ''introspection disabled'') ?fs = [([At ''schema''], ''introspection disabled'')]"
    by (simp add: refusals_def asks_schema_def in_field_def)
  have literal: "rt_marshal_string sample_runtime t = Literal (quoted t)" for t by (simp add: sample_runtime_def)
  have none: "g_errors idle_gql = []" by (simp add: idle_gql_def)
  show ?thesis
    using introspection_is_refused [OF sample_contract off calm_no_faults w view, of 2]
    unfolding fs errors literal none
    by (simp only: list.map collected.simps cfield.simps zip_Cons_Cons zip_Nil append_Nil) blast
qed

end
