(* ===== verification/Graphql_Nulls.thy ===== *)
theory Graphql_Nulls
  imports Graphql_Props
begin

text \<open>Names that are looked up, nulls that propagate, the cost of fields, and a mutation that fails halfway.\<close>

section \<open>Child fields\<close>

context gqlgen begin

lemma child_field_found: "snd (childFields_Employee rt f) = None \<longleftrightarrow> cf_name f \<in> set employee_field_names"
proof (cases "cf_name f \<in> set employee_field_names")
  case True
  then show ?thesis
    unfolding employee_field_names_def list.set insert_iff empty_iff
    by (elim disjE; simp only: childFields_Employee_def; simp add: Let_def found_context_def employee_field_defs scalar_context)
next
  case False
  then show ?thesis by (simp add: childFields_Employee_def employee_field_names_def Let_def)
qed

lemma employee_value_returns:
  "(\<exists>v. employee_value rt ctx obj f s = Some (Some v, s)) \<longleftrightarrow> cf_name f \<in> set (''__typename'' # employee_field_names)"
proof -
  have "cf_name f \<in> set (''__typename'' # employee_field_names) \<longleftrightarrow> map_of (employee_columns rt obj) (cf_name f) \<noteq> None"
    by (simp only: columns_field_names [symmetric, of rt obj] map_of_eq_None_iff list.set_map) blast
  then show ?thesis by (auto simp: employee_value_shown split: option.split)
qed

end

text \<open>The two switches over the fields of an employee agree: a name has a resolver exactly when it has a
  context (or asks for the type's name); any other name is an error in the one and a panic in the other.\<close>

theorem child_fields_agree:
  assumes "gqlgen rt"
  shows "(\<exists>v. employee_value rt ctx obj f s = Some (Some v, s)) \<longleftrightarrow>
    cf_name f = ''__typename'' \<or> snd (childFields_Employee rt f) = None"
  unfolding gqlgen.child_field_found [OF assms] gqlgen.employee_value_returns [OF assms] by simp

section \<open>Nulls\<close>

definition non_null_names :: "string list" where
  "non_null_names = [''id'', ''employeeId'', ''firstName'', ''lastName'', ''email'', ''fullName'']"

lemma non_null_result: "non_null m s = Some (Some (v, n), s') \<Longrightarrow> 0 < n \<longleftrightarrow> v = Null"
  by (auto simp: non_null_def gret_def invalid_def dest!: gbind_SomeD split: if_split_asm)

lemma nullable_result: "nullable m s = Some (Some (v, n), s') \<Longrightarrow> n = 0"
  by (auto simp: nullable_def gret_def dest!: gbind_SomeD)

lemma employee_value_invalid:
  assumes typename: "rt_marshal_string rt ''Employee'' \<noteq> Null"
    and run: "employee_value rt ctx obj f s = Some (Some (v, n), s')"
  shows "0 < n \<longleftrightarrow> cf_name f \<in> set non_null_names \<and> v = Null"
proof (cases "cf_name f \<in> set (''__typename'' # employee_field_names)")
  case True
  then have "cf_name f \<in> set [''__typename''] \<or> cf_name f \<in> set employee_field_names" by simp
  then show ?thesis
    using run unfolding employee_field_names_def list.set Un_iff insert_iff empty_iff
    by (elim disjE; simp only: employee_value_def; simp add: Let_def non_null_names_def gret_def)
       (auto dest: non_null_result nullable_result simp: typename)
next
  case False
  then have "employee_value rt ctx obj f = gpanic" by (simp add: employee_value_def employee_field_names_def)
  then show ?thesis using run by (simp add: gpanic_def)
qed

lemma map_run_pointwise:
  assumes "map_run f xs s = Some (Some ys, s')"
  shows "length ys = length xs \<and> (\<forall>i < length xs. \<exists>s1 s2. f (xs ! i) s1 = Some (Some (ys ! i), s2))"
  using assms
proof (induction xs arbitrary: s ys)
  case Nil
  then show ?case by (simp add: gret_def)
next
  case (Cons x xs)
  obtain z s1 zs where z: "f x s = Some (Some z, s1)" "map_run f xs s1 = Some (Some zs, s')" "ys = z # zs"
    by (rule map_run_ConsD [OF Cons.prems])
  show ?case using Cons.IH [OF z(2)] z by (auto simp: nth_Cons split: nat.split)
qed

lemma positive_sum: "0 < sum_list (map snd (xs :: ('a \<times> nat) list)) \<longleftrightarrow> (\<exists>x \<in> set xs. 0 < snd x)"
  by (induction xs) auto

lemma ex_zip: "length xs = length ys \<Longrightarrow> (\<exists>(x, y) \<in> set (zip xs ys). P x y) \<longleftrightarrow> (\<exists>i < length xs. P (xs ! i) (ys ! i))"
  unfolding set_zip by auto

text \<open>C39: An employee is null as soon as one of the selected fields that the schema declares non-null came out
  null, whatever the runtime; otherwise it has all selected fields, nulls of the others included.\<close>

theorem nulls_propagate:
  assumes run: "map_run (employee_value rt ctx obj) (rt_collect rt sel [''Employee'']) s = Some (Some out, s')"
    and typename: "rt_marshal_string rt ''Employee'' \<noteq> Null"
  shows "Employee_object rt ctx sel obj s = Some (Some
    (if \<exists>(f, x) \<in> set (zip (rt_collect rt sel [''Employee'']) out). cf_name f \<in> set non_null_names \<and> fst x = Null then Null
     else Field_Set (zip (map cf_alias (rt_collect rt sel [''Employee''])) (map fst out))), s')"
proof -
  let ?fs = "rt_collect rt sel [''Employee'']"
  note pw = map_run_pointwise [OF run]
  have bad: "0 < snd (out ! i) \<longleftrightarrow> cf_name (?fs ! i) \<in> set non_null_names \<and> fst (out ! i) = Null" if i: "i < length ?fs" for i
  proof -
    obtain s1 s2 where "employee_value rt ctx obj (?fs ! i) s1 = Some (Some (fst (out ! i), snd (out ! i)), s2)"
      using pw i by auto
    then show ?thesis by (rule employee_value_invalid [OF typename])
  qed
  have "0 < sum_list (map snd out) \<longleftrightarrow> (\<exists>x \<in> set out. 0 < snd x)" by (rule positive_sum)
  also have "\<dots> \<longleftrightarrow> (\<exists>i < length out. 0 < snd (out ! i))" by (metis in_set_conv_nth)
  also have "\<dots> \<longleftrightarrow> (\<exists>i < length ?fs. cf_name (?fs ! i) \<in> set non_null_names \<and> fst (out ! i) = Null)" using bad pw by auto
  also have "\<dots> \<longleftrightarrow> (\<exists>(f, x) \<in> set (zip ?fs out). cf_name f \<in> set non_null_names \<and> fst x = Null)"
    using ex_zip [of ?fs out "\<lambda>f x. cf_name f \<in> set non_null_names \<and> fst x = Null"] pw by simp
  finally have eq: "0 < sum_list (map snd out) \<longleftrightarrow>
      (\<exists>(f, x) \<in> set (zip ?fs out). cf_name f \<in> set non_null_names \<and> fst x = Null)" .
  show ?thesis by (simp add: Employee_object_def Let_def gbind_def run gret_def field_set_def eq)
qed

section \<open>Cost\<close>

definition no_costs :: complexity_root where
  "no_costs = \<lparr>cr_Employee_bankAccountNumber = None, cr_Employee_company = None, cr_Employee_costCenter = None,
     cr_Employee_dateOfBirth = None, cr_Employee_department = None, cr_Employee_email = None, cr_Employee_employeeId = None,
     cr_Employee_employeeStatus = None, cr_Employee_firstName = None, cr_Employee_fullName = None, cr_Employee_gender = None,
     cr_Employee_id = None, cr_Employee_jobLevel = None, cr_Employee_jobTitle = None, cr_Employee_lastModified = None,
     cr_Employee_lastModifiedOn = None, cr_Employee_lastName = None, cr_Employee_location = None,
     cr_Employee_managerEmail = None, cr_Employee_managerId = None, cr_Employee_middleName = None,
     cr_Employee_nationality = None, cr_Employee_phoneNumber = None, cr_Employee_startDate = None,
     cr_Mutation_createEmployee = None, cr_Mutation_deleteEmployee = None, cr_Mutation_updateEmployee = None,
     cr_Query_employee = None, cr_Query_employees = None, cr_Query_hello = None, cr_Query_searchEmployees = None,
     cr_Subscription_employeeCreated = None\<rparr>"


lemma no_employee_cost: "employee_complexity no_costs key n \<in> {None, Some no_cost}"
  by (simp add: employee_complexity_def no_costs_def plain_cost_def)

lemma no_mutation_cost: "mutation_complexity rt no_costs ctx key n raw \<in> {None, Some no_cost}"
  by (simp add: mutation_complexity_def no_costs_def args_cost_def)

lemma no_query_cost: "query_complexity rt no_costs ctx key n raw \<in> {None, Some no_cost}"
  by (simp add: query_complexity_def no_costs_def args_cost_def plain_cost_def)

lemma no_subscription_cost: "subscription_complexity no_costs key n \<in> {None, Some no_cost}"
  by (simp add: subscription_complexity_def no_costs_def plain_cost_def)

text \<open>As \<open>main\<close> configures the schema, no field has a cost and no argument is read for one; where the
  field \<open>employees\<close> is given a function, its cost is that function of the decoded offset and limit.\<close>

theorem cost_of_fields:
  assumes "gqlgen rt" and "optional_int rt raw ''offset'' off" and "optional_int rt raw ''limit'' lim"
    and "cr_Query_employees cr = Some f"
  shows "complexity rt no_costs ctx typeName field n raw' = Some (0, False)
    \<and> complexity rt cr ctx ''Query'' ''employees'' n raw = Some (f n off lim, True)"
proof
  show "complexity rt no_costs ctx typeName field n raw' = Some (0, False)"
    using no_employee_cost [of "typeName @ ''.'' @ field" n] no_mutation_cost [of rt ctx "typeName @ ''.'' @ field" n raw']
      no_query_cost [of rt ctx "typeName @ ''.'' @ field" n raw'] no_subscription_cost [of "typeName @ ''.'' @ field" n]
    by (auto simp: complexity_def Let_def no_cost_def)
next
  have "field_Query_employees_args rt ctx raw = Some ([(''offset'', A_Int off), (''limit'', A_Int lim)], None)"
    by (simp add: field_Query_employees_args_def next_arg_def gqlgen.optional_int_read [OF assms(1,2)]
        gqlgen.optional_int_read [OF assms(1,3)])
  then show "complexity rt cr ctx ''Query'' ''employees'' n raw = Some (f n off lim, True)"
    by (simp add: complexity_def employee_complexity_def mutation_complexity_def query_complexity_def args_cost_def assms(4))
qed

theorem cost_of_fields_witness:
  "complexity sample_runtime (no_costs\<lparr>cr_Query_employees := Some (\<lambda>n off lim. n * 3)\<rparr>) [] ''Query'' ''employees'' 2 Map.empty
    = Some (6, True)"
  using cost_of_fields [of sample_runtime Map.empty None None "no_costs\<lparr>cr_Query_employees := Some (\<lambda>n off lim. n * 3)\<rparr>"
      "\<lambda>n off lim. n * 3" "[]" "''Query''" "''hello''" 2 Map.empty]
  by (simp add: sample_contract optional_int_def)

section \<open>A mutation that fails halfway\<close>

lemma map_run_append:
  "map_run f xs s = Some (Some us, s1) \<Longrightarrow> map_run f ys s1 = Some (Some vs, s2) \<Longrightarrow>
     map_run f (xs @ ys) s = Some (Some (us @ vs), s2)"
proof (induction xs arbitrary: s us)
  case Nil
  then show ?case by (simp add: gret_def)
next
  case (Cons x xs)
  obtain z s3 zs where "f x s = Some (Some z, s3)" "map_run f xs s3 = Some (Some zs, s1)" "us = z # zs"
    by (rule map_run_ConsD [OF Cons.prems(1)])
  then show ?case using Cons.IH Cons.prems(2) by (simp add: gbind_def gret_def)
qed

text \<open>Mutations run one after the other, each from the state the ones before it left, and the answer is
  put together at the end.\<close>

theorem mutations_are_serial:
  assumes "rt_collect rt sel [''Mutation''] = fs @ gs"
    and "map_run (mutation_value E rt ctx) fs s = Some (Some xs, s1)"
    and "map_run (mutation_value E rt ctx) gs s1 = Some (Some ys, s2)"
  shows "Mutation_object E rt ctx sel s = Some (Some (field_set (fs @ gs) (xs @ ys)), s2)"
  using map_run_append [OF assms(2,3)] by (simp add: Mutation_object_def Let_def assms(1) gbind_def gret_def)

text \<open>C38: A request with several mutations is not one transaction: where the first creates an employee and the
  second is refused, the whole answer is null, with the one error, but the service is as the two
  resolvers left it: nothing of the first is taken back.\<close>

theorem failed_mutation_keeps_effects:
  assumes rt: "gqlgen rt" and sel: "rt_collect rt sel [''Mutation''] = [f, g]"
    and f: "cf_name f = ''createEmployee''" "cf_args f ''data'' = Some (create_json ji js d)" "writes_scalars rt ji js d"
      "known_fields rt (cf_sel f)"
    and g: "cf_name g = ''createEmployee''" "cf_args g ''data'' = Some (create_json ji js d')" "writes_scalars rt ji js d'"
      "known_fields rt (cf_sel g)"
    and first: "create_employee E d (ap_world (g_app s)) (hub_broker (ap_hub (g_app s))) = Some (Inr emp, w1, b1)"
    and second: "create_employee E d' w1 b1 = Some (Inl e, w2, b2)"
  shows "\<exists>s'. Mutation_object E rt ctx sel s = Some (Some Null, s')
    \<and> ap_world (g_app s') = w2 \<and> hub_broker (ap_hub (g_app s')) = b2
    \<and> g_errors s' = g_errors s @ [(in_field ctx g, error_text e)]"
proof -
  let ?s1 = "created_state w1 b1 s"
  have 1: "Mutation_createEmployee E rt ctx f s = Some (Some (employee_view rt (cf_sel f) emp), ?s1)"
    using gqlgen.create_field_run [OF rt f(3,2,4) first] by simp
  have 2: "Mutation_createEmployee E rt ctx g ?s1 =
      Some (Some Null, add_error (in_field ctx g) (error_text e) (created_state w2 b2 ?s1))"
    using gqlgen.create_field_run [OF rt g(3,2,4), of E ?s1] second by simp
  show ?thesis
    by (simp add: Mutation_object_def Let_def sel mutation_value_def f(1) g(1) in_middleware_def non_null_def nullable_def
        gqlgen.no_root_middleware [OF rt] gbind_def gret_def 1 2 invalid_def field_set_def)
qed

definition same_id_twice :: "selection list" where
  "same_id_twice = [create_selection ''first'', create_selection ''second'']"

theorem mutations_are_serial_witness:
  "\<exists>d s'. Mutation_object calm sample_runtime [] [Selection ''type'' ''__typename'' [] [], Selection ''again'' ''__typename'' [] []] idle_gql =
     Some (Some (Field_Set d), s') \<and> map fst d = [''type'', ''again'']"
proof -
  let ?f = "collected (Selection ''type'' ''__typename'' [] [])" and ?g = "collected (Selection ''again'' ''__typename'' [] [])"
  have "Mutation_object calm sample_runtime [] [Selection ''type'' ''__typename'' [] [], Selection ''again'' ''__typename'' [] []] idle_gql =
     Some (Some (field_set ([?f] @ [?g]) ([(Literal (quoted ''Mutation''), 0)] @ [(Literal (quoted ''Mutation''), 0)])), idle_gql)"
    by (rule mutations_are_serial) (simp_all add: sample_runtime_def mutation_value_def gbind_def gret_def)
  then show ?thesis by (simp add: field_set_def)
qed

theorem failed_mutation_keeps_effects_witness:
  "\<exists>s'. Mutation_object calm sample_runtime [] same_id_twice idle_gql = Some (Some Null, s')
     \<and> tlookup 5 (employees (wdb (ap_world (g_app s')))) \<noteq> None \<and> length (g_errors s') = 1"
proof -
  let ?run = "create_employee calm sample_input (ap_world (g_app idle_gql)) (hub_broker (ap_hub (g_app idle_gql)))"
  let ?second = "case ?run of Some (r, w, b) \<Rightarrow> create_employee calm sample_input w b | None \<Rightarrow> None"
  have "(case ?run of Some (r, w, b) \<Rightarrow> \<not> isl r | _ \<Rightarrow> False)
      \<and> (case ?second of Some (r, w, b) \<Rightarrow> isl r \<and> tlookup 5 (employees (wdb w)) \<noteq> None | _ \<Rightarrow> False)" by code_simp
  then obtain r w b e w2 b2 where first: "?run = Some (Inr r, w, b)"
    and second: "create_employee calm sample_input w b = Some (Inl e, w2, b2)"
    and stored: "tlookup 5 (employees (wdb w2)) \<noteq> None"
    by (auto split: option.split_asm) (metis sum.collapse(2) sum.collapse(1))
  have "\<exists>s'. Mutation_object calm sample_runtime [] same_id_twice idle_gql = Some (Some Null, s')
      \<and> ap_world (g_app s') = w2 \<and> hub_broker (ap_hub (g_app s')) = b2
      \<and> g_errors s' = g_errors idle_gql @ [(in_field [] (collected (create_selection ''second'')), error_text e)]"
    by (rule failed_mutation_keeps_effects [where f = "collected (create_selection ''first'')",
          OF sample_contract _ _ _ sample_input_written _ _ _ sample_input_written _ first second])
       (simp_all add: same_id_twice_def sample_runtime_def, simp_all add: create_selection_def sample_keys_known [unfolded sample_runtime_def])
  then show ?thesis using stored by (auto simp: idle_gql_def)
qed

text \<open>A runtime that writes the empty text as null.\<close>

definition blank_runtime :: "selection list runtime" where
  "blank_runtime = sample_runtime\<lparr>rt_marshal_string := (\<lambda>t. if t = [] then Null else Literal (quoted t))\<rparr>"

definition nameless :: employee where
  "nameless = scan_employee calm (1, created_row (sample_input\<lparr>ci_first_name := []\<rparr>))"

theorem child_fields_agree_witness:
  "\<not> (\<exists>v. employee_value sample_runtime [] nameless (collected (Selection ''pay'' ''salary'' [] [])) idle_gql = Some (Some v, idle_gql))"
  using child_fields_agree [OF sample_contract, of "[]" nameless "collected (Selection ''pay'' ''salary'' [] [])" idle_gql]
  by (simp add: childFields_Employee_def invalid_def)

theorem nulls_propagate_witness:
  "\<exists>s'. Employee_object blank_runtime [] [Selection ''company'' ''company'' [] [], Selection ''name'' ''firstName'' [] []] nameless idle_gql
     = Some (Some Null, s')"
proof -
  let ?fs = "[collected (Selection ''company'' ''company'' [] []), collected (Selection ''name'' ''firstName'' [] [])]"
  have fs: "rt_collect blank_runtime [Selection ''company'' ''company'' [] [], Selection ''name'' ''firstName'' [] []] [''Employee''] = ?fs"
    by (simp add: blank_runtime_def sample_runtime_def)
  have none: "g_first_name nameless = []" "g_company nameless = None" by (simp_all add: nameless_def) code_simp+
  have "\<exists>s'. map_run (employee_value blank_runtime [] nameless) ?fs idle_gql = Some (Some [(Null, 0), (Null, 1)], s')"
    by (simp add: employee_value_def Employee_company_def Employee_firstName_def fieldContext_Employee_company_def
        fieldContext_Employee_firstName_def blank_runtime_def sample_runtime_def resolve_field_def sample_resolve_def Let_def
        gbind_def gret_def recovered_def marshalNString_def marshalOString_def null_checked_def non_null_def nullable_def invalid_def
        none gerror_def)
  then obtain s' where "map_run (employee_value blank_runtime [] nameless) (rt_collect blank_runtime
      [Selection ''company'' ''company'' [] [], Selection ''name'' ''firstName'' [] []] [''Employee'']) idle_gql = Some (Some [(Null, 0), (Null, 1)], s')"
    unfolding fs by blast
  moreover have "rt_marshal_string blank_runtime ''Employee'' \<noteq> Null" by (simp add: blank_runtime_def)
  ultimately have "Employee_object blank_runtime [] [Selection ''company'' ''company'' [] [], Selection ''name'' ''firstName'' [] []] nameless idle_gql =
      Some (Some (if \<exists>(f, x)\<in>set (zip ?fs [(Null, 0 :: nat), (Null, 1)]). cf_name f \<in> set non_null_names \<and> fst x = Null then Null
        else Field_Set (zip (map cf_alias ?fs) (map fst [(Null, 0 :: nat), (Null, 1)]))), s')"
    unfolding fs [symmetric] by (rule nulls_propagate)
  then show ?thesis by (simp add: non_null_names_def)
qed

end
