(* ===== verification/Interleaving.thy ===== *)
theory Interleaving
  imports Service
begin

text \<open>
  Requests that run at the same time. Between two uses of the pool's only connection a request may be
  overtaken: a \<open>process\<close> is a request cut at these points, each \<open>Section\<close> being what it does while it
  holds the connection (one statement, one query with its rows, or one whole transaction). The processes
  below are the handlers and resolvers with the cuts put in; \<open>alone\<close> runs one without interruption and
  gives back the handler.
\<close>

section \<open>Processes\<close>

datatype ('w, 'a) process = Answered 'a | Section "'w \<Rightarrow> (('w, 'a) process \<times> 'w) option"

primrec alone :: "('w, 'a) process \<Rightarrow> 'w \<Rightarrow> ('a \<times> 'w) option" where
  "alone (Answered a) = (\<lambda>w. Some (a, w))"
| "alone (Section f) = (\<lambda>w. case map_option (map_prod alone id) (f w) of None \<Rightarrow> None | Some (g, w') \<Rightarrow> g w')"

lemma alone_section: "alone (Section f) w = (case f w of None \<Rightarrow> None | Some (p, w') \<Rightarrow> alone p w')"
  by (simp split: option.split)

text \<open>A section that makes one call on the database, and what follows it.\<close>

definition call :: "(sync_world \<Rightarrow> ('x \<times> sync_world) option) \<Rightarrow> ('x \<Rightarrow> (app, 'a) process) \<Rightarrow> (app, 'a) process" where
  "call f k = Section (\<lambda>a. case f (ap_world a) of None \<Rightarrow> None | Some (x, w) \<Rightarrow> Some (k x, a\<lparr>ap_world := w\<rparr>))"

definition single :: "(sync_world \<Rightarrow> ('a \<times> sync_world) option) \<Rightarrow> (app, 'a) process" where
  "single f = call f Answered"

lemma alone_call: "alone (call f k) a = (case f (ap_world a) of None \<Rightarrow> None | Some (x, w) \<Rightarrow> alone (k x) (a\<lparr>ap_world := w\<rparr>))"
  by (simp add: call_def alone_section split: option.split)

text \<open>The result of a call together with something read off the state after it.\<close>

definition observing :: "(sync_world \<Rightarrow> 'y) \<Rightarrow> (sync_world \<Rightarrow> ('x \<times> sync_world) option) \<Rightarrow> sync_world \<Rightarrow> (('x \<times> 'y) \<times> sync_world) option" where
  "observing g f w = (case f w of None \<Rightarrow> None | Some (x, w') \<Rightarrow> Some ((x, g w'), w'))"

section \<open>Synchronisation\<close>

datatype tx_outcome =
    Not_Begun_Tx go_error
  | Undone app_error string nat
  | Stored_All "sync_result list" nat

text \<open>From \<open>BeginTx\<close> to \<open>Commit\<close> or \<open>Rollback\<close>.\<close>

definition tx_section :: "env \<Rightarrow> string \<Rightarrow> json list \<Rightarrow> sync_world \<Rightarrow> (tx_outcome \<times> sync_world) option" where
  "tx_section E model data w =
     do { (b, w1) \<leftarrow> begin_tx E w;
          case b of
            Inl err \<Rightarrow> Some (Not_Begun_Tx err, w1)
          | Inr u \<Rightarrow>
              do { (r, w2) \<leftarrow> process_items E model data [] w1;
                   let secs = elapsed E (calls w2) in
                   Some (case r of
                       Inl err \<Rightarrow> (let appErr = as_app_error E err in (Undone appErr (error_class appErr) secs, tx_rollback w2))
                     | Inr results \<Rightarrow> (case tx_commit E w2 of
                           (Inl err, w3) \<Rightarrow> (Undone (handle_db_error (uni_upper E) (Some err)) ''SqliteException'' secs, w3)
                         | (Inr u, w3) \<Rightarrow> (Stored_All results secs, w3))) } }"

definition finishing :: "(sync_world \<Rightarrow> sync_world option) \<Rightarrow> (sync_world \<Rightarrow> sync_world) \<Rightarrow> sync_world \<Rightarrow> (unit \<times> sync_world) option" where
  "finishing mark count w = (case mark w of None \<Rightarrow> None | Some w' \<Rightarrow> Some ((), count w'))"

definition tx_process :: "env \<Rightarrow> string \<Rightarrow> json list \<Rightarrow> int \<Rightarrow> (app, response) process" where
  "tx_process E model data hist = call (tx_section E model data) (\<lambda>out. case out of
       Not_Begun_Tx err \<Rightarrow> call (finishing (mark_history_failed E hist (ae_message (new_internal_error err))) (\<lambda>w. w))
         (\<lambda>u. Answered (answer_error (new_internal_error err)))
     | Undone appErr cls secs \<Rightarrow> call (finishing (mark_history_failed E hist (ae_message appErr)) (count_failure cls model secs))
         (\<lambda>u. Answered (answer_error appErr))
     | Stored_All results secs \<Rightarrow> call (finishing (mark_history_successful E hist) (count_success model secs))
         (\<lambda>u. Answered \<lparr>code = 200, body = Sync_Results ''Sync completed successfully'' results\<rparr>))"

definition sync_process :: "env \<Rightarrow> json option \<Rightarrow> (app, response) process" where
  "sync_process E request =
     (case Option.bind request decode_sync_request of
        None \<Rightarrow> Answered (answer_message 400 ''Invalid JSON body'')
      | Some payload \<Rightarrow>
         (case validate_struct (validate E) (sync_request_fields payload) of
            Some ve \<Rightarrow> Answered (answer_error (parse_validation_error ve))
          | None \<Rightarrow>
             (let data = (case sr_data payload of None \<Rightarrow> [] | Some xs \<Rightarrow> xs) in
              call (create_pending_history E (payload_text data)) (\<lambda>h. case h of
                  Inl err \<Rightarrow> Answered (answer_message 500 (error_text err))
                | Inr hist \<Rightarrow> tx_process E (sr_model payload) data hist))))"

section \<open>History and health\<close>

definition list_process :: "env \<Rightarrow> string option \<Rightarrow> string option \<Rightarrow> string option \<Rightarrow> (app, response) process" where
  "list_process E pageq sizeq statusq =
     (let page = page_of pageq; sz = size_of sizeq; st = status_filter E statusq in
      call (query_row E (\<lambda>db. Some (history_count st db)) Inr) (\<lambda>c. case c of
          Inl e \<Rightarrow> Answered (db_error E e)
        | Inr n \<Rightarrow> single (\<lambda>w.
            do { (q, w2) \<leftarrow> db_query E (history_page st sz (page_offset page sz)) w;
                 Some (case q of
                     Inl e \<Rightarrow> (db_error E e, w2)
                   | Inr xs \<Rightarrow>
                       (case scan_rows (history_scan E) xs [] of
                          Inl e \<Rightarrow> (db_error E e, rows_close w2)
                        | Inr content \<Rightarrow>
                            (\<lparr>code = 200, body = History_List ''Sync histories retrieved successfully''
                                (list_data page sz n content)\<rparr>, rows_close w2))) })))"

definition retry_process :: "env \<Rightarrow> string \<Rightarrow> (app, response) process" where
  "retry_process E idp =
     (case parse_int idp of
        None \<Rightarrow> Answered invalid_id
      | Some k \<Rightarrow>
          call (query_row E (history_by_id k) (\<lambda>(j, r). Inr (h_status r))) (\<lambda>q. case q of
              Inl e \<Rightarrow> Answered (missing_or_error E e)
            | Inr status \<Rightarrow>
                if to_upper (uni_upper E) status \<noteq> ''FAILED''
                then Answered (answer_error (new_bad_request_error ''Only failed syncs can be retried''))
                else call (db_exec E (history_mark_retry k)) (\<lambda>x. case x of
                    Inl e \<Rightarrow> Answered (db_error E e)
                  | Inr res \<Rightarrow> call (query_row E (history_by_id k) (history_scan E)) (\<lambda>y. Answered (case y of
                        Inl e \<Rightarrow> db_error E e
                      | Inr r \<Rightarrow> \<lparr>code = 200, body = History_Row ''Sync history will be retried'' r\<rparr>)))))"

definition health_process :: "env \<Rightarrow> (app, response) process" where
  "health_process E =
     call (observing (health_email E) (query_row E (\<lambda>db. Some (1 :: int)) Inr)) (\<lambda>(r, email).
       let readOk = (case r of Inl e \<Rightarrow> False | Inr val \<Rightarrow> True) in
       call (observing (health_report E readOk False) (db_exec E (health_insert email))) (\<lambda>(x, bad). case x of
           Inl writeErr \<Rightarrow> Answered bad
         | Inr res \<Rightarrow> call (observing (health_report E readOk True) (db_exec E (health_delete email))) (\<lambda>(y, good). Answered good)))"

definition handle_process :: "env \<Rightarrow> request \<Rightarrow> route \<Rightarrow> (app, reply) process" where
  "handle_process E q r = (case r of
      R_Health \<Rightarrow> map_process Answer (health_process E)
    | R_Sync \<Rightarrow> map_process Answer (sync_process E (rq_json q))
    | R_Stats \<Rightarrow> map_process Answer (single (stats_handler E))
    | R_List \<Rightarrow> map_process Answer (list_process E (rq_query q ''page'') (rq_query q ''size'') (rq_query q ''status''))
    | R_Get i \<Rightarrow> map_process Answer (single (get_history_handler E i))
    | R_Retry i \<Rightarrow> map_process Answer (retry_process E i)
    | R_Delete i \<Rightarrow> map_process Answer (single (delete_history_handler E i))
    | R_Swagger s \<Rightarrow> Answered (Handed_To ''ginSwagger'')
    | R_Redirect p \<Rightarrow> Answered (Redirect_To p)
    | R_Metrics \<Rightarrow> Answered (Handed_To ''promhttp'')
    | R_Graphql \<Rightarrow> Answered (Handed_To ''gqlgen'')
    | R_Playground \<Rightarrow> Answered (Handed_To ''playground''))"

definition serve_process :: "env \<Rightarrow> string \<Rightarrow> request \<Rightarrow> (app, reply) process" where
  "serve_process E authToken q =
     (if \<not> auth_passes authToken (rq_method q) (rq_path q) (rq_token q) (rq_text q) then Answered (Answer access_denied)
      else (case route_of (rq_method q) (rq_path q) of None \<Rightarrow> Answered Unmatched | Some r \<Rightarrow> handle_process E q r))"

section \<open>Employees\<close>

definition publishing :: "employee \<Rightarrow> (app, employee answer) process" where
  "publishing emp = Section (\<lambda>a. case publish emp (hub_broker (ap_hub a)) of
       None \<Rightarrow> None
     | Some b \<Rightarrow> Some (Answered (Inr emp), a\<lparr>ap_hub := (ap_hub a)\<lparr>hub_broker := b\<rparr>\<rparr>))"

definition create_process :: "env \<Rightarrow> create_employee_input \<Rightarrow> (app, employee answer) process" where
  "create_process E d =
     call (db_exec E (employee_create (ci_id d) (ci_employee_id d) (ci_first_name d) (ci_middle_name d)
         (ci_last_name d) (ci_email d) (ci_company d) (ci_job_title d))) (\<lambda>x. case x of
         Inl e \<Rightarrow> Answered (Inl (db_app_error E e))
       | Inr res \<Rightarrow> call (get_employee_by_id E (ci_id d)) (\<lambda>y. case y of
             Inl e \<Rightarrow> Answered (Inl e)
           | Inr None \<Rightarrow> Answered (Inl (Other ''failed to retrieve newly created employee''))
           | Inr (Some emp) \<Rightarrow> publishing emp))"

text \<open>The second half of an update writes over the row what was read from it in the first.\<close>

definition update_writing :: "env \<Rightarrow> int \<Rightarrow> update_employee_input \<Rightarrow> employee \<Rightarrow> (app, employee option answer) process" where
  "update_writing E k d old =
     call (db_exec E (employee_update (value_or (ui_first_name d) (g_first_name old))
         (value_or (ui_last_name d) (g_last_name old)) (value_or (ui_email d) (g_email old))
         (or_else (ui_middle_name d) (g_middle_name old)) (or_else (ui_company d) (g_company old))
         (or_else (ui_job_title d) (g_job_title old)) k)) (\<lambda>x. case x of
         Inl e \<Rightarrow> Answered (Inl (db_app_error E e))
       | Inr res \<Rightarrow> single (get_employee_by_id E k))"

definition update_process :: "env \<Rightarrow> int \<Rightarrow> update_employee_input \<Rightarrow> (app, employee option answer) process" where
  "update_process E k d =
     call (get_employee_by_id E k) (\<lambda>y. case y of
         Inl e \<Rightarrow> Answered (Inl e)
       | Inr None \<Rightarrow> Answered (Inr None)
       | Inr (Some old) \<Rightarrow> update_writing E k d old)"

section \<open>All calls\<close>

datatype service_call =
    Rest request
  | Create create_employee_input
  | Update int update_employee_input
  | Remove int
  | Lookup int
  | List_Employees "int option" "int option"
  | Search_Employees string "int option" "int option"

datatype result =
    Replied reply
  | Created "employee answer"
  | Changed "employee option answer"
  | Removed "bool answer"
  | Listed "employee list answer"

definition process_of :: "env \<Rightarrow> string \<Rightarrow> service_call \<Rightarrow> (app, result) process" where
  "process_of E tok c = (case c of
      Rest q \<Rightarrow> map_process Replied (serve_process E tok q)
    | Create d \<Rightarrow> map_process Created (create_process E d)
    | Update k d \<Rightarrow> map_process Changed (update_process E k d)
    | Remove k \<Rightarrow> map_process Removed (single (delete_employee E k))
    | Lookup k \<Rightarrow> map_process Changed (single (get_employee_by_id E k))
    | List_Employees offset limit \<Rightarrow> map_process Listed (single (employees_query E offset limit))
    | Search_Employees s offset limit \<Rightarrow> map_process Listed (single (search_employees E s offset limit)))"

section \<open>Running alone\<close>

text \<open>What an operation on the database does to the service.\<close>

definition in_app :: "app \<Rightarrow> ('a \<times> sync_world) option \<Rightarrow> ('a \<times> app) option" where
  "in_app a r = (case r of None \<Rightarrow> None | Some (x, w) \<Rightarrow> Some (x, a\<lparr>ap_world := w\<rparr>))"

lemma in_app_simps [simp]: "in_app a None = None" "in_app a (Some (x, w)) = Some (x, a\<lparr>ap_world := w\<rparr>)"
  by (simp_all add: in_app_def)

lemma in_app_same [simp]: "in_app (a\<lparr>ap_world := w\<rparr>) r = in_app a r"
  by (simp add: in_app_def split: option.split)

lemma alone_single: "alone (single f) a = in_app a (f (ap_world a))"
  by (simp add: single_def alone_call in_app_def split: option.split)

lemma alone_map: "alone (map_process g p) a = (case alone p a of None \<Rightarrow> None | Some (x, b) \<Rightarrow> Some (g x, b))"
proof (induction p arbitrary: a)
  case (Section f)
  show ?case
  proof (cases "f a")
    case (Some pb)
    obtain p b where pb: "pb = (p, b)" by fastforce
    have "alone (map_process g p) b = (case alone p b of None \<Rightarrow> None | Some (x, c) \<Rightarrow> Some (g x, c))"
      by (rule Section.IH [of "Some (p, b)"]) (use Some pb in \<open>auto intro: range_eqI [of _ f a]\<close>)
    then show ?thesis using Some pb by (simp add: alone_section)
  qed (simp add: alone_section)
qed simp

lemma alone_case [simp]:
  "alone (case s of Inl e \<Rightarrow> p e | Inr x \<Rightarrow> q x) a = (case s of Inl e \<Rightarrow> alone (p e) a | Inr x \<Rightarrow> alone (q x) a)"
  "alone (case v of None \<Rightarrow> p' | Some y \<Rightarrow> q' y) a = (case v of None \<Rightarrow> alone p' a | Some y \<Rightarrow> alone (q' y) a)"
  "alone (if b then p' else p'') a = (if b then alone p' a else alone p'' a)"
  by (simp_all split: sum.split option.split)

lemma retry_alone: "alone (retry_process E i) a = in_app a (retry_history_handler E i (ap_world a))"
  by (auto simp: retry_process_def retry_history_handler_def alone_call split: option.splits sum.splits)

lemma list_alone: "alone (list_process E p s st) a = in_app a (list_history_handler E p s st (ap_world a))"
  by (auto simp: list_process_def list_history_handler_def alone_call alone_single Let_def split: option.splits sum.splits)

lemma health_alone: "alone (health_process E) a = in_app a (health_handler E (ap_world a))"
  by (auto simp: health_process_def health_handler_def alone_call observing_def Let_def split: option.splits sum.splits)

lemma create_alone: "alone (create_process E d) a =
    (case create_employee E d (ap_world a) (hub_broker (ap_hub a)) of None \<Rightarrow> None
     | Some (r, w, b) \<Rightarrow> Some (r, \<lparr>ap_world = w, ap_hub = (ap_hub a)\<lparr>hub_broker := b\<rparr>\<rparr>))"
  by (cases a) (auto simp: create_process_def create_employee_def alone_call publishing_def alone_section
      split: option.splits sum.splits)

lemma update_alone: "alone (update_process E k d) a = in_app a (update_employee E k d (ap_world a))"
  by (auto simp: update_process_def update_writing_def update_employee_def alone_call alone_single split: option.splits sum.splits)


lemma mark_idle:
  "mark_history_failed E k s w = Some w' \<Longrightarrow> conn w' = Idle"
  "mark_history_successful E k w = Some w' \<Longrightarrow> conn w' = Idle"
  by (auto simp: mark_history_failed_def mark_history_successful_def db_exec_def split: if_split_asm
      dest!: arg_cong [where f = "\<lambda>x. conn (snd x)"])

lemma sync_alone: "alone (sync_process E req) a = in_app a (sync_handler E req (ap_world a))"
proof -
  have tx: "alone (tx_process E model data hist) b = in_app b (sync_transaction E model data hist (ap_world b))" for model data hist b
  proof (cases "begin_tx E (ap_world b)")
    case (Some x)
    obtain r w1 where x: "x = (r, w1)" by fastforce
    show ?thesis
    proof (cases r)
      case (Inl err)
      then show ?thesis using Some x
        by (simp add: tx_process_def tx_section_def sync_transaction_def finishing_def alone_call split: option.split)
    next
      case (Inr u)
      show ?thesis
      proof (cases "process_items E model data [] w1")
        case None
        then show ?thesis using Some x Inr by (simp add: tx_process_def tx_section_def sync_transaction_def alone_call)
      next
        case run: (Some y)
        obtain q w2 where y: "y = (q, w2)" by fastforce
        show ?thesis using Some x Inr run y
          by (cases q)
             (auto simp: tx_process_def tx_section_def sync_transaction_def sync_failed_def sync_commit_def finishing_def
               alone_call Let_def mark_idle bind_eq_None_conv split: option.splits sum.splits prod.splits)
      qed
    qed
  qed (simp add: tx_process_def tx_section_def sync_transaction_def alone_call)
  show ?thesis
    by (auto simp: sync_process_def sync_handler_def alone_call tx Let_def split: option.splits sum.splits)
qed

lemma answered_alone:
  "alone p a = in_app a run \<Longrightarrow> alone (map_process Answer p) a = in_app a (answered run)"
  by (cases run) (auto simp: alone_map answered_def)

lemma serve_alone: "alone (serve_process E tok q) a = in_app a (serve E tok q (ap_world a))"
proof -
  note parts = sync_alone retry_alone list_alone health_alone alone_single
  have "alone (handle_process E q r) a = in_app a (handle E q r (ap_world a))" for r
    by (cases r) (simp_all add: handle_process_def handle_def answered_alone [OF parts(1)] answered_alone [OF parts(2)]
        answered_alone [OF parts(3)] answered_alone [OF parts(4)] answered_alone [OF parts(5)])
  then show ?thesis by (simp add: serve_process_def serve_def split: option.split)
qed



section \<open>All calls, run alone\<close>

definition returning :: "('a \<Rightarrow> 'b) \<Rightarrow> ('a \<times> app) option \<Rightarrow> ('b \<times> app) option" where
  "returning g r = (case r of None \<Rightarrow> None | Some (x, b) \<Rightarrow> Some (g x, b))"

definition in_one_go :: "env \<Rightarrow> string \<Rightarrow> service_call \<Rightarrow> app \<Rightarrow> (result \<times> app) option" where
  "in_one_go E tok c a = (case c of
      Rest q \<Rightarrow> returning Replied (in_app a (serve E tok q (ap_world a)))
    | Create d \<Rightarrow> returning Created
        (case create_employee E d (ap_world a) (hub_broker (ap_hub a)) of None \<Rightarrow> None
         | Some (r, w, b) \<Rightarrow> Some (r, \<lparr>ap_world = w, ap_hub = (ap_hub a)\<lparr>hub_broker := b\<rparr>\<rparr>))
    | Update k d \<Rightarrow> returning Changed (in_app a (update_employee E k d (ap_world a)))
    | Remove k \<Rightarrow> returning Removed (in_app a (delete_employee E k (ap_world a)))
    | Lookup k \<Rightarrow> returning Changed (in_app a (get_employee_by_id E k (ap_world a)))
    | List_Employees offset limit \<Rightarrow> returning Listed (in_app a (employees_query E offset limit (ap_world a)))
    | Search_Employees s offset limit \<Rightarrow> returning Listed (in_app a (search_employees E s offset limit (ap_world a))))"

lemma uninterrupted_call: "alone (process_of E tok c) a = in_one_go E tok c a"
proof -
  have go: "alone (map_process g p) a = returning g r" if "alone p a = r" for g and p :: "(app, 'a) process" and r
    using that by (simp add: alone_map returning_def)
  show ?thesis
    by (cases c) (simp_all add: process_of_def in_one_go_def go [OF serve_alone] go [OF create_alone]
        go [OF update_alone] go [OF alone_single])
qed

end
