(* ===== verification/Concurrent.thy ===== *)
theory Concurrent
  imports Interleaving
begin

text \<open>
  The service with any number of calls in flight. Calls arrive, and each takes its next section whenever
  it gets the connection; between two sections any other call, subscription or change of the
  connection may come. A call stays on the list with its answer once it has one. What the service
  guarantees between whole requests holds here between sections as well.
\<close>

record system =
  sy_app :: app
  sy_calls :: "(service_call \<times> (app, result) process) list"

datatype move = Arrive service_call | Advance nat | Hub_Event "employee event" | Recycle

inductive sys_step :: "env \<Rightarrow> string \<Rightarrow> system \<Rightarrow> move \<Rightarrow> system \<Rightarrow> bool" for E tok where
  arrive: "sys_step E tok s (Arrive c) (s\<lparr>sy_calls := sy_calls s @ [(c, process_of E tok c)]\<rparr>)"
| advance: "i < length (sy_calls s) \<Longrightarrow> sy_calls s ! i = (c, Section f) \<Longrightarrow> f (sy_app s) = Some (p, a) \<Longrightarrow>
     sys_step E tok s (Advance i) \<lparr>sy_app = a, sy_calls = (sy_calls s)[i := (c, p)]\<rparr>"
| subscription: "hub_step (ap_hub (sy_app s)) ev (Some h) \<Longrightarrow>
     sys_step E tok s (Hub_Event ev) (s\<lparr>sy_app := (sy_app s)\<lparr>ap_hub := h\<rparr>\<rparr>)"
| recycle: "sys_step E tok s Recycle (s\<lparr>sy_app := (sy_app s)\<lparr>ap_world := conn_recycled (ap_world (sy_app s))\<rparr>\<rparr>)"

inductive sys_run :: "env \<Rightarrow> string \<Rightarrow> system \<Rightarrow> move list \<Rightarrow> system \<Rightarrow> bool" for E tok s where
  nil: "sys_run E tok s [] s"
| snoc: "sys_run E tok s ms t \<Longrightarrow> sys_step E tok t m u \<Longrightarrow> sys_run E tok s (ms @ [m]) u"

inductive_cases arriveE: "sys_step E tok s (Arrive c) t"
inductive_cases advanceE: "sys_step E tok s (Advance i) t"

definition launch :: "app \<Rightarrow> system" where
  "launch a = \<lparr>sy_app = a, sy_calls = []\<rparr>"

section \<open>Safe processes\<close>

text \<open>
  From any state with property \<open>J\<close>, a section of the process returns, keeps \<open>J\<close>, and leaves a process
  that is safe again; the number bounds the sections there can be.
\<close>

inductive safe :: "(app \<Rightarrow> bool) \<Rightarrow> nat \<Rightarrow> (app, 'a) process \<Rightarrow> bool" for J where
  answered: "safe J n (Answered x)"
| sectioned: "(\<And>a. J a \<Longrightarrow> \<exists>p b. f a = Some (p, b) \<and> J b \<and> safe J n p) \<Longrightarrow> safe J (Suc n) (Section f)"

inductive_simps safe_Section: "safe J n (Section f)"

lemma safe_Answered [simp, intro]: "safe J n (Answered x)"
  by (rule safe.answered)

lemma safe_more: "safe J n p \<Longrightarrow> n \<le> m \<Longrightarrow> safe J m p"
proof (induction arbitrary: m rule: safe.induct)
  case (sectioned f n)
  then obtain m' where m: "m = Suc m'" "n \<le> m'" by (cases m) auto
  show ?case unfolding m by (rule safe.sectioned) (use sectioned.IH m(2) in blast)
qed auto

lemma safe_map [intro]: "safe J n p \<Longrightarrow> safe J n (map_process g p)"
proof (induction rule: safe.induct)
  case (sectioned f n)
  show ?case unfolding process.map
    by (rule safe.sectioned) (use sectioned.IH in fastforce)
qed auto

lemma safe_call:
  assumes "\<And>a. J a \<Longrightarrow> \<exists>x w. f (ap_world a) = Some (x, w) \<and> J (a\<lparr>ap_world := w\<rparr>) \<and> safe J n (k x)"
  shows "safe J (Suc n) (call f k)"
  unfolding call_def by (rule safe.sectioned) (use assms in fastforce)

lemma safe_single:
  "(\<And>a. J a \<Longrightarrow> \<exists>x w. f (ap_world a) = Some (x, w) \<and> J (a\<lparr>ap_world := w\<rparr>)) \<Longrightarrow> safe J (Suc n) (single f)"
  unfolding single_def by (rule safe_call) auto


section \<open>Every call is safe\<close>

text \<open>Counting changes neither the database nor the connection.\<close>

definition only_counts :: "(sync_world \<Rightarrow> sync_world) \<Rightarrow> bool" where
  "only_counts g \<longleftrightarrow> (\<forall>w. wdb (g w) = wdb w \<and> conn (g w) = conn w \<and> pragma_fk (g w) = pragma_fk w)"

lemma counting [simp]: "only_counts (\<lambda>w. w)" "only_counts (count_failure cls model secs)" "only_counts (count_success model secs)"
  by (simp_all add: only_counts_def)

lemma finishing_run:
  "conn w = Idle \<Longrightarrow> finishing (mark_history_failed E k m) g w =
     Some ((), g (snd (run_stmt E (history_mark_failed (truncate_reason m) k) w)))"
  "conn w = Idle \<Longrightarrow> finishing (mark_history_successful E k) g w =
     Some ((), g (snd (run_stmt E (history_mark_successful k) w)))"
  by (simp_all add: finishing_def mark_failed_run mark_successful_run)

context app_invariant
begin

text \<open>A call on the database that answers, keeps \<open>P\<close> and gives the connection back is a safe section.\<close>

definition clean :: "(sync_world \<Rightarrow> ('x \<times> sync_world) option) \<Rightarrow> bool" where
  "clean f \<longleftrightarrow> (\<forall>w. conn w = Idle \<longrightarrow> (\<exists>x w'. f w = Some (x, w') \<and> conn w' = Idle \<and> kept P w w'))"

lemma cleanI: "(\<And>w. conn w = Idle \<Longrightarrow> \<exists>x w'. f w = Some (x, w') \<and> conn w' = Idle) \<Longrightarrow>
    (\<And>w x w'. f w = Some (x, w') \<Longrightarrow> kept P w w') \<Longrightarrow> clean f"
  unfolding clean_def by blast

lemma clean_section: "clean f \<Longrightarrow> app_ok a \<Longrightarrow> \<exists>x w. f (ap_world a) = Some (x, w) \<and> app_ok (a\<lparr>ap_world := w\<rparr>)"
  unfolding clean_def by (fastforce simp: app_ok_def kept_def)

lemma safe_calls:
  "clean f \<Longrightarrow> (\<And>x. safe app_ok n (k x)) \<Longrightarrow> safe app_ok (Suc n) (call f k)"
  "clean g \<Longrightarrow> safe app_ok (Suc n) (single g)"
  by (rule safe_call safe_single; use clean_section in blast)+

lemma clean_exec: "stmt_keeps P s \<Longrightarrow> clean (db_exec E s)"
  by (rule cleanI) (use db_exec_answers kept_exec in blast)+

lemma clean_row: "clean (query_row E q f)"
  by (rule cleanI) (auto simp: query_row_def intro: kept_query_row)

lemma clean_observing: "clean f \<Longrightarrow> clean (observing g f)"
  unfolding clean_def by (fastforce simp: observing_def)

lemma clean_get: "clean (get_employee_by_id E k)"
  by (rule cleanI) (use get_employee_answers get_employee_kept in blast)+

lemma clean_query:
  "(\<And>xs (w :: sync_world). \<exists>y. g xs w = (y, rows_close w)) \<Longrightarrow>
     clean (\<lambda>w. do { (q, w1) \<leftarrow> db_query E sel w; Some (case q of Inl e \<Rightarrow> (f e, w1) | Inr xs \<Rightarrow> g xs w1) })"
proof (rule cleanI)
  fix w :: sync_world
  assume g: "\<And>xs (w :: sync_world). \<exists>y. g xs w = (y, rows_close w)"
  show "\<exists>x w'. (do { (q, w1) \<leftarrow> db_query E sel w; Some (case q of Inl e \<Rightarrow> (f e, w1) | Inr xs \<Rightarrow> g xs w1) }) = Some (x, w')
      \<and> conn w' = Idle" if w: "conn w = Idle"
  proof (cases "fault E (calls w)")
    case None
    obtain xs where "db_query E sel w = Some (Inr xs, (tick w)\<lparr>conn := In_Rows\<rparr>)"
      using w None by (simp add: db_query_def)
    then show ?thesis using g [of xs "(tick w)\<lparr>conn := In_Rows\<rparr>"] by auto
  qed (use w in \<open>simp add: db_query_def\<close>)
  fix x w'
  assume run: "(do { (q, w1) \<leftarrow> db_query E sel w; Some (case q of Inl e \<Rightarrow> (f e, w1) | Inr xs \<Rightarrow> g xs w1) }) = Some (x, w')"
  then obtain q w1 where q: "db_query E sel w = Some (q, w1)" by (auto simp: bind_Some_iff)
  then have "w' = w1 \<or> w' = rows_close w1"
  proof (cases q)
    case (Inr xs)
    then show ?thesis using run q g [of xs w1] by auto
  qed (use run q in auto)
  then show "kept P w w'" using kept_db_query [OF q] by blast
qed

lemma clean_list: "clean (list_query E Q offset limit)"
  by (rule cleanI) (use list_query_answers list_query_kept in blast)+

text \<open>The entry a sync inserts is its own.\<close>

lemma pending_section_own:
  assumes ok: "app_ok a"
  shows "\<exists>h w. create_pending_history E p (ap_world a) = Some (h, w) \<and> app_ok (a\<lparr>ap_world := w\<rparr>) \<and> (\<forall>k. h = Inr k \<longrightarrow> own k)"
proof -
  let ?r = "run_stmt E (history_insert p) (ap_world a)"
  have run: "db_exec E (history_insert p) (ap_world a) = Some ?r" using ok by (simp add: db_exec_def app_ok_def)
  have "kept P (ap_world a) (snd ?r)" by (rule kept_exec [OF history_insert, of E p _ "fst ?r"]) (simp add: run)
  then have "app_ok (a\<lparr>ap_world := snd ?r\<rparr>)" using ok by (simp add: app_ok_def kept_def)
  moreover have "own (er_last_id r)" if "fst ?r = Inr r" for r
    using logged_own [OF _ that] ok by (simp add: app_ok_def)
  ultimately show ?thesis
    using run by (cases "fst ?r"; cases ?r) (auto simp: create_pending_history_def last_insert_id_def split: option.split)
qed

lemma kept_run: "stmt_keeps P s \<Longrightarrow> only_counts g \<Longrightarrow> kept P w (g (snd (run_stmt E s w)))"
  using run_stmt_keeps [of P s w E] by (simp add: kept_def only_counts_def)

lemma clean_finishing:
  assumes "own k" and "only_counts g"
  shows "clean (finishing (mark_history_failed E k m) g)" and "clean (finishing (mark_history_successful E k) g)"
proof -
  have "stmt_keeps P (history_mark_failed (truncate_reason m) k)"
    by (rule history_mark_failed [OF assms(1)]) (simp add: truncate_reason_def)
  then show "clean (finishing (mark_history_failed E k m) g)"
    using assms kept_run [OF _ assms(2)] by (simp add: clean_def finishing_run only_counts_def)
  show "clean (finishing (mark_history_successful E k) g)"
    using assms kept_run [OF history_mark_successful [OF assms(1)] assms(2)] by (simp add: clean_def finishing_run only_counts_def)
qed

lemma clean_tx:
  assumes V: "struct_validator (validate E)"
  shows "clean (tx_section E model data)"
  unfolding clean_def
proof (intro allI impI)
  fix w :: sync_world
  assume w: "conn w = Idle"
  have "begin_tx E w \<noteq> None" using w by (simp add: begin_tx_def)
  then obtain b w1 where b: "begin_tx E w = Some (b, w1)" by force
  show "\<exists>x w'. tx_section E model data w = Some (x, w') \<and> conn w' = Idle \<and> kept P w w'"
  proof (cases b)
    case (Inl err)
    then show ?thesis using tx_after_begin_error [OF w, of E err w1] b w by (simp add: tx_section_def kept_def)
  next
    case (Inr u)
    note w1 = tx_after_begin [OF w, of E u w1]
    obtain r w2 where r: "process_items E model data [] w1 = Some (r, w2)"
      using process_items_total [OF V] by force
    have w2: "conn w2 = In_Tx (wdb w)" "kept P w w2"
      using items_step [OF r] w1 b Inr by (simp_all add: tx_step_def kept_def)
    obtain c w3 where c: "tx_commit E w2 = (c, w3)" by fastforce
    have "kept P w (tx_rollback w2)" "kept P w w3"
      using w2 rollback_back [OF w2(1)] commit_run(2,6) [OF w2(1) c] by (auto simp: kept_def)
    then show ?thesis
      using b Inr r c rollback_back [OF w2(1)] commit_run(1) [OF w2(1) c]
      by (cases r; cases c) (simp_all add: tx_section_def Let_def)
  qed
qed

text \<open>Each handler needs at most three sections.\<close>

lemmas safe_parts = safe_calls clean_exec clean_row clean_observing clean_get clean_list clean_finishing

lemma sync_safe:
  assumes V: "struct_validator (validate E)"
  shows "safe app_ok 3 (sync_process E req)"
proof -
  have tx: "safe app_ok (Suc (Suc 0)) (tx_process E model data hist)" if "own hist" for model data hist
    unfolding tx_process_def
    by (rule safe_calls [OF clean_tx [OF V]]) (use that in \<open>auto split: tx_outcome.split intro!: safe_parts\<close>)
  have "safe app_ok 3 (call (create_pending_history E p) (\<lambda>h. case h of
      Inl err \<Rightarrow> Answered (answer_message 500 (error_text err)) | Inr hist \<Rightarrow> tx_process E model data hist))" for p model data
    unfolding numeral_3_eq_3
  proof (rule safe_call)
    fix a assume "app_ok a"
    then obtain h w where "create_pending_history E p (ap_world a) = Some (h, w)" "app_ok (a\<lparr>ap_world := w\<rparr>)"
      "\<forall>k. h = Inr k \<longrightarrow> own k" using pending_section_own by blast
    then show "\<exists>h w. create_pending_history E p (ap_world a) = Some (h, w) \<and> app_ok (a\<lparr>ap_world := w\<rparr>)
        \<and> safe app_ok (Suc (Suc 0)) (case h of Inl err \<Rightarrow> Answered (answer_message 500 (error_text err))
          | Inr hist \<Rightarrow> tx_process E model data hist)"
      using tx by (intro exI [of _ h] exI [of _ w]) (simp split: sum.split)
  qed
  then show ?thesis by (simp add: sync_process_def Let_def split: option.split)
qed

lemma retry_safe: "safe app_ok 3 (retry_process E i)"
  unfolding numeral_3_eq_3 retry_process_def
  by (auto split: option.split sum.split intro!: safe_parts history_mark_retry)

lemma list_safe: "safe app_ok 3 (list_process E p s st)"
proof -
  have rows: "\<exists>y. (case scan_rows (history_scan E) xs [] of Inl e \<Rightarrow> (f e, rows_close w)
      | Inr ys \<Rightarrow> (g ys, rows_close w)) = (y, rows_close w)"
    for f xs and g :: "sync_history_row list \<Rightarrow> response" and w :: sync_world
    by (simp split: sum.split)
  show ?thesis
    unfolding numeral_3_eq_3 list_process_def Let_def
    by (auto split: sum.split intro!: safe_calls clean_row clean_query rows)
qed

lemma health_safe: "safe app_ok 3 (health_process E)"
  unfolding numeral_3_eq_3 health_process_def Let_def
  by (auto split: option.split sum.split intro!: safe_parts health_insert health_delete)

lemma clean_answering:
  "(\<And>w. conn w = Idle \<Longrightarrow> answers (f w)) \<Longrightarrow> (\<And>w x w'. f w = Some (x, w') \<Longrightarrow> kept P w w') \<Longrightarrow> clean f"
  unfolding answers_def by (rule cleanI) blast+

lemma history_clean:
  "clean (stats_handler E)" "clean (get_history_handler E i)" "clean (delete_history_handler E i)"
  by (rule clean_answering [OF stats_answers stats_kept] clean_answering [OF get_answers get_kept]
      clean_answering [OF delete_answers delete_kept]; assumption)+

lemma serve_safe:
  assumes V: "struct_validator (validate E)"
  shows "safe app_ok 3 (serve_process E tok q)"
proof -
  have one: "safe app_ok 3 (single f)" if "clean f" for f :: "sync_world \<Rightarrow> (response \<times> sync_world) option"
    unfolding numeral_3_eq_3 using that by (rule safe_calls)
  have "safe app_ok 3 (handle_process E q r)" for r
    by (cases r) (simp_all add: handle_process_def safe_map sync_safe [OF V] retry_safe list_safe health_safe
        one [OF history_clean(1)] one [OF history_clean(2)] one [OF history_clean(3)])
  then show ?thesis by (simp add: serve_process_def split: option.split)
qed

lemma publishing_safe: "safe app_ok (Suc n) (publishing emp)"
  unfolding publishing_def
proof (rule safe.sectioned)
  fix a
  assume a: "app_ok a"
  then have h: "hub_ok (ap_hub a)" by (simp add: app_ok_def)
  obtain b where b: "publish emp (hub_broker (ap_hub a)) = Some b" using hub_publishes [OF h] by blast
  then have "hub_ok ((ap_hub a)\<lparr>hub_broker := b\<rparr>)" by (intro hub_ok_publish [OF h]) blast
  then have "app_ok (a\<lparr>ap_hub := (ap_hub a)\<lparr>hub_broker := b\<rparr>\<rparr>)" using a by (simp add: app_ok_def)
  then show "\<exists>p c. (case publish emp (hub_broker (ap_hub a)) of None \<Rightarrow> None
      | Some b \<Rightarrow> Some (Answered (Inr emp), a\<lparr>ap_hub := (ap_hub a)\<lparr>hub_broker := b\<rparr>\<rparr>)) = Some (p, c)
      \<and> app_ok c \<and> safe app_ok n (p :: (app, employee answer) process)"
    by (simp add: b)
qed

lemma employee_safe:
  "safe app_ok 3 (create_process E d)" "safe app_ok 3 (update_process E k u)"
  unfolding numeral_3_eq_3 create_process_def update_process_def update_writing_def
  by (auto split: option.split sum.split intro!: safe_parts employee_create employee_update publishing_safe)

lemma process_safe:
  assumes V: "struct_validator (validate E)"
  shows "safe app_ok 3 (process_of E tok c)"
proof -
  have one: "safe app_ok 3 (single f)" if "clean f" for f :: "sync_world \<Rightarrow> ('a \<times> sync_world) option"
    unfolding numeral_3_eq_3 using that by (rule safe_calls)
  have del: "clean (delete_employee E k)" for k
    by (rule cleanI) (use delete_employee_answers delete_employee_kept in blast)+
  have all: "clean (employees_query E offset limit)" "clean (search_employees E s offset limit)" for s offset limit
    unfolding employees_query_def [abs_def] search_employees_def [abs_def] by (rule clean_list)+
  show ?thesis
    by (cases c) (auto simp: process_of_def intro!: safe_map serve_safe [OF V] employee_safe one del clean_get all)
qed

end

end
