(* ===== verification/Concurrent_Runs.thy ===== *)
theory Concurrent_Runs
  imports Concurrent
begin

text \<open>
  Runs of the service with calls in flight: the invariants of \<open>Service\<close> hold between any two sections,
  every call is answered after at most three sections of its own, and the runs of \<open>Service\<close>, one whole
  request after the other, are among them.
\<close>

section \<open>Runs\<close>

lemma sys_run_append: "sys_run E tok t ns u \<Longrightarrow> sys_run E tok s ms t \<Longrightarrow> sys_run E tok s (ms @ ns) u"
proof (induction rule: sys_run.induct)
  case (snoc ns v m u)
  then show ?case using sys_run.snoc [of E tok s "ms @ ns" v m u] by simp
qed simp

lemma sys_run_one: "sys_step E tok s m t \<Longrightarrow> sys_run E tok s [m] t"
  using sys_run.snoc [OF sys_run.nil] by simp

text \<open>A run of known moves, step by step from its front.\<close>

lemma sys_run_front: "sys_step E tok s m t \<Longrightarrow> sys_run E tok t ms u \<Longrightarrow> sys_run E tok s (m # ms) u"
  using sys_run_append [OF _ sys_run_one] by fastforce

section \<open>Invariants of runs\<close>

lemma count_snoc [simp]: "count_list (ms @ [m]) x = count_list ms x + (if m = x then 1 else 0)"
  by (induction ms) auto

context app_invariant
begin

text \<open>Every call has sections left within its three.\<close>

definition sys_ok :: "move list \<Rightarrow> system \<Rightarrow> bool" where
  "sys_ok ms s \<longleftrightarrow> app_ok (sy_app s)
     \<and> (\<forall>i < length (sy_calls s). \<exists>n. n + count_list ms (Advance i) \<le> 3 \<and> safe app_ok n (snd (sy_calls s ! i)))
     \<and> (\<forall>i \<ge> length (sy_calls s). count_list ms (Advance i) = 0)"

lemma sys_ok_launch: "app_ok a \<Longrightarrow> sys_ok [] (launch a)"
  by (simp add: sys_ok_def launch_def)

lemma sys_ok_app: "sys_ok ms s \<Longrightarrow> app_ok b \<Longrightarrow> (\<And>i. m \<noteq> Advance i) \<Longrightarrow> sys_ok (ms @ [m]) (s\<lparr>sy_app := b\<rparr>)"
  by (simp add: sys_ok_def)

lemma sys_step_ok:
  assumes V: "struct_validator (validate E)" and ok: "sys_ok ms s" and step: "sys_step E tok s m t"
  shows "sys_ok (ms @ [m]) t"
  using step
proof cases
  case (arrive c)
  have "\<exists>n. n + count_list ms (Advance i) \<le> 3 \<and> safe app_ok n (snd ((sy_calls s @ [(c, process_of E tok c)]) ! i))"
    if "i < Suc (length (sy_calls s))" for i
  proof (cases "i = length (sy_calls s)")
    case True
    then have "count_list ms (Advance i) = 0" using ok by (simp add: sys_ok_def)
    then show ?thesis using True process_safe [OF V] by (auto intro!: exI [of _ 3])
  next
    case False
    then show ?thesis using that ok by (simp add: sys_ok_def nth_append)
  qed
  then show ?thesis using ok arrive by (simp add: sys_ok_def)
next
  case (advance i c f p b)
  obtain n where n: "n + count_list ms (Advance i) \<le> 3" "safe app_ok n (Section f)"
    using ok advance(3,4) by (auto simp: sys_ok_def dest: spec [of _ i])
  then obtain k where k: "n = Suc k" "app_ok b" "safe app_ok k p"
    using advance(5) ok by (auto simp: safe_Section sys_ok_def)
  have "\<exists>n. n + count_list (ms @ [m]) (Advance j) \<le> 3 \<and> safe app_ok n (snd ((sy_calls s)[i := (c, p)] ! j))"
    if "j < length (sy_calls s)" for j
    using that ok k n(1) advance(1) by (cases "j = i") (auto simp: sys_ok_def intro!: exI [of _ k])
  then show ?thesis using ok k advance(1,2,3) by (auto simp: sys_ok_def)
next
  case (subscription ev h)
  have "app_ok ((sy_app s)\<lparr>ap_hub := h\<rparr>)"
    by (rule step_ok [OF V _ app_step.subscription [where tok = tok], OF _ subscription(3)]) (use ok in \<open>simp add: sys_ok_def\<close>)
  then show ?thesis using sys_ok_app [OF ok] subscription by simp
next
  case recycle
  have "app_ok ((sy_app s)\<lparr>ap_world := conn_recycled (ap_world (sy_app s))\<rparr>)"
    by (rule step_ok [OF V _ app_step.recycle [where E = E and tok = tok]]) (use ok in \<open>simp add: sys_ok_def\<close>)
  then show ?thesis using sys_ok_app [OF ok] recycle by simp
qed

lemma sys_run_ok:
  assumes V: "struct_validator (validate E)" and a: "app_ok a" and run: "sys_run E tok (launch a) ms s"
  shows "sys_ok ms s"
  using run by induction (simp_all add: sys_ok_launch a sys_step_ok [OF V])

lemma sys_run_app_ok:
  "struct_validator (validate E) \<Longrightarrow> app_ok a \<Longrightarrow> sys_run E tok (launch a) ms s \<Longrightarrow> app_ok (sy_app s)"
  using sys_run_ok by (auto simp: sys_ok_def)

lemma sys_ok_advances:
  assumes ok: "sys_ok ms s" and i: "i < length (sy_calls s)"
  shows "count_list ms (Advance i) \<le> 3 \<and> ((\<exists>r. snd (sy_calls s ! i) = Answered r)
    \<or> count_list ms (Advance i) < 3 \<and> (\<exists>t. sys_step E tok s (Advance i) t))"
proof -
  obtain n where n: "n + count_list ms (Advance i) \<le> 3" "safe app_ok n (snd (sy_calls s ! i))"
    using ok i by (auto simp: sys_ok_def)
  obtain c p where cp: "sy_calls s ! i = (c, p)" by fastforce
  show ?thesis
  proof (cases p)
    case (Section f)
    then obtain k q b where k: "n = Suc k" "f (sy_app s) = Some (q, b)"
      using n(2) cp ok by (auto simp: safe_Section sys_ok_def)
    have "\<exists>t. sys_step E tok s (Advance i) t" using sys_step.advance [OF i cp [unfolded Section] k(2)] by blast
    then show ?thesis using n(1) k(1) by simp
  qed (use n(1) cp in simp)
qed

end

section \<open>The service as started\<close>

lemma start_ok:
  assumes "start open E getenv = Inr a" and "stored_sound open"
  shows "consistent.app_ok a" and "logs.app_ok a"
  using start_world [OF assms] by (simp_all add: consistent.app_ok_def logs.app_ok_def enforced_def)

text \<open>Two employees' updates in flight at once, from the service as started.\<close>

lemma arrivals:
  "sys_run E tok (launch a) [Arrive c, Arrive d]
     \<lparr>sy_app = a, sy_calls = [(c, process_of E tok c), (d, process_of E tok d)]\<rparr>"
  using sys_step.arrive [of E tok "launch a" c]
    sys_step.arrive [of E tok "(launch a)\<lparr>sy_calls := [(c, process_of E tok c)]\<rparr>" d]
  by (intro sys_run_front [OF _ sys_run_one]) (auto simp: launch_def)

text \<open>With any number of calls in flight, each overtaken by others between its sections, and with any
  faults of the driver: as long as the pool has not replaced the connection, the database is
  consistent between any two sections.\<close>

theorem overlapping_calls_stay_consistent:
  assumes "struct_validator (validate E)" and "start open E getenv = Inr a" and "stored_sound open"
    and "sys_run E tok (launch a) ms s" and "pragma_fk (ap_world (sy_app s))"
  shows "integrity (wdb (ap_world (sy_app s)))"
  using consistent.sys_run_app_ok [OF assms(1) start_ok(1) [OF assms(2,3)] assms(4)] assms(5)
  by (simp add: consistent.app_ok_def enforced_def)

theorem overlapping_calls_stay_consistent_witness:
  "integrity (wdb (ap_world (sy_app \<lparr>sy_app = fresh_app, sy_calls =
     [(Rest orphan_request, process_of calm ''key'' (Rest orphan_request)), (Lookup 5, process_of calm ''key'' (Lookup 5))]\<rparr>)))"
  by (rule overlapping_calls_stay_consistent [OF calm_validator fresh_start no_files_sound arrivals])
     (simp add: fresh_app_def)

text \<open>C7: A call in flight is answered or can take its next section at once, whatever the others have done
  in between; it takes at most three sections. No call ever waits for a connection that is not given
  back, and none panics.\<close>

theorem calls_in_flight_advance:
  assumes "struct_validator (validate E)" and "start open E getenv = Inr a" and "stored_sound open"
    and "sys_run E tok (launch a) ms s" and "i < length (sy_calls s)"
  shows "count_list ms (Advance i) \<le> 3 \<and> ((\<exists>r. snd (sy_calls s ! i) = Answered r)
    \<or> count_list ms (Advance i) < 3 \<and> (\<exists>t. sys_step E tok s (Advance i) t))"
  by (rule logs.sys_ok_advances [OF logs.sys_run_ok [OF assms(1) start_ok(2) [OF assms(2,3)] assms(4)] assms(5)])

theorem calls_in_flight_advance_witness:
  "\<exists>t. sys_step calm ''key'' \<lparr>sy_app = fresh_app, sy_calls =
     [(Remove 4, process_of calm ''key'' (Remove 4)), (Lookup 5, process_of calm ''key'' (Lookup 5))]\<rparr> (Advance 1) t"
  using calls_in_flight_advance [OF calm_validator fresh_start no_files_sound arrivals
      [of calm "''key''" fresh_app "Remove 4" "Lookup 5"], of 1]
  by (simp add: process_of_def single_def call_def)

section \<open>One request after the other\<close>

definition all_answered :: "system \<Rightarrow> bool" where
  "all_answered s \<longleftrightarrow> (\<forall>(c, p) \<in> set (sy_calls s). \<exists>x. p = Answered x)"

lemma run_alone:
  "alone p (sy_app s) = Some (x, b) \<Longrightarrow> i < length (sy_calls s) \<Longrightarrow> sy_calls s ! i = (c, p) \<Longrightarrow>
     \<exists>ms. sys_run E tok s ms \<lparr>sy_app = b, sy_calls = (sy_calls s)[i := (c, Answered x)]\<rparr>"
proof (induction p arbitrary: s)
  case (Answered y)
  then have "\<lparr>sy_app = b, sy_calls = (sy_calls s)[i := (c, Answered x)]\<rparr> = s"
    using list_update_id [of "sy_calls s" i] by (cases s) auto
  then show ?case using sys_run.nil [of E tok s] by metis
next
  case (Section f)
  obtain q d where f: "f (sy_app s) = Some (q, d)" and q: "alone q d = Some (x, b)"
    using Section.prems(1) by (auto simp: alone_section split: option.splits)
  let ?t = "\<lparr>sy_app = d, sy_calls = (sy_calls s)[i := (c, q)]\<rparr>"
  have step: "sys_step E tok s (Advance i) ?t" by (rule sys_step.advance [OF Section.prems(2,3) f])
  have r: "Some (q, d) \<in> range f" using f by (metis rangeI)
  have "\<exists>ms. sys_run E tok ?t ms \<lparr>sy_app = b, sy_calls = (sy_calls ?t)[i := (c, Answered x)]\<rparr>"
    by (rule Section.IH [OF r, of "(q, d)" q ?t]) (use q Section.prems(2) in simp_all)
  then show ?case using sys_run_front [OF step] by fastforce
qed

text \<open>A call on its own, on a service where all are answered.\<close>

lemma run_call:
  assumes s: "all_answered s" and go: "in_one_go E tok c (sy_app s) = Some (x, b)"
  shows "\<exists>ms t. sys_run E tok s ms t \<and> sy_app t = b \<and> all_answered t"
proof -
  let ?n = "length (sy_calls s)"
  let ?s = "s\<lparr>sy_calls := sy_calls s @ [(c, process_of E tok c)]\<rparr>"
  obtain ms where ms: "sys_run E tok ?s ms \<lparr>sy_app = b, sy_calls = (sy_calls ?s)[?n := (c, Answered x)]\<rparr>"
    using run_alone [of "process_of E tok c" ?s x b ?n c E tok] go by (auto simp: uninterrupted_call)
  have "all_answered \<lparr>sy_app = b, sy_calls = (sy_calls ?s)[?n := (c, Answered x)]\<rparr>"
    using s by (auto simp: all_answered_def)
  then show ?thesis using sys_run_front [OF sys_step.arrive ms] by fastforce
qed

lemma list_query_state:
  "list_query E P offset limit w = Some (r, w') \<Longrightarrow> \<exists>r'. list_query E Q offset limit w = Some (r', w')"
  by (auto simp: list_query_def db_query_def split: if_split_asm option.splits)

lemma app_step_moves:
  assumes s: "all_answered s" and step: "app_step E tok (sy_app s) b"
  shows "\<exists>ms t. sys_run E tok s ms t \<and> sy_app t = b \<and> all_answered t"
  using step
proof cases
  case (rest q rep w)
  then show ?thesis using run_call [OF s, of E tok "Rest q"] by (simp add: in_one_go_def returning_def)
next
  case (create d r w b')
  then show ?thesis using run_call [OF s, of E tok "Create d"] by (simp add: in_one_go_def returning_def)
next
  case (update k u r w)
  then show ?thesis using run_call [OF s, of E tok "Update k u"] by (simp add: in_one_go_def returning_def)
next
  case (delete k r w)
  then show ?thesis using run_call [OF s, of E tok "Remove k"] by (simp add: in_one_go_def returning_def)
next
  case (lookup k r w)
  then show ?thesis using run_call [OF s, of E tok "Lookup k"] by (simp add: in_one_go_def returning_def)
next
  case (listing Q offset limit r w)
  obtain r' where "employees_query E offset limit (ap_world (sy_app s)) = Some (r', w)"
    using list_query_state [OF listing(2)] unfolding employees_query_def by blast
  then show ?thesis using run_call [OF s, of E tok "List_Employees offset limit"] listing(1)
    by (simp add: in_one_go_def returning_def)
next
  case (subscription ev h)
  then show ?thesis using sys_run_one [OF sys_step.subscription [OF subscription(2)]] s
    by (fastforce simp: all_answered_def)
next
  case recycle
  then show ?thesis using sys_run_one [OF sys_step.recycle [of E tok s]] s by (fastforce simp: all_answered_def)
qed

lemma reachable_moves:
  assumes "reachable E tok a b"
  shows "\<exists>ms s. sys_run E tok (launch a) ms s \<and> sy_app s = b \<and> all_answered s"
  using assms
proof induction
  case here
  have "all_answered (launch a)" "sy_app (launch a) = a" by (simp_all add: all_answered_def launch_def)
  then show ?case using sys_run.nil by blast
next
  case (more b c)
  then obtain ms s where "sys_run E tok (launch a) ms s" "sy_app s = b" "all_answered s" by blast
  then show ?case using app_step_moves [of s E tok c] more.hyps(2) sys_run_append by blast
qed

text \<open>Every state a service reaches that handles its requests one after the other is reached with calls
  that are cut into their sections too, all of them answered: the interleaved service has at least the
  behaviours of the sequential one.\<close>

theorem sequential_service_is_a_run:
  assumes "reachable E tok a b"
  shows "\<exists>ms s. sys_run E tok (launch a) ms s \<and> sy_app s = b \<and> all_answered s"
  using assms by (rule reachable_moves)

theorem sequential_service_is_a_run_witness:
  "\<exists>ms s. sys_run calm ''key'' (launch fresh_app) ms s \<and> pragma_fk (ap_world (sy_app s)) = False"
  using sequential_service_is_a_run [OF reachable.more [OF reachable.here app_step.recycle], of calm "''key''" fresh_app]
  by (fastforce simp: conn_recycled_def fresh_app_def)

section \<open>The log\<close>

text \<open>Between any two sections of the calls in flight, each log entry is PENDING_RETRY, FAILED or
  SUCCESSFUL, its reason has at most 255 bytes, and it counts no retries.\<close>

theorem overlapping_calls_keep_log:
  assumes "struct_validator (validate E)" and "start open E getenv = Inr a" and "stored_sound open"
    and "sys_run E tok (launch a) ms s" and "tlookup k (sync_history (wdb (ap_world (sy_app s)))) = Some r"
  shows "entry_sound r"
  using logs.sys_run_app_ok [OF assms(1) start_ok(2) [OF assms(2,3)] assms(4)] assms(5)
  by (simp add: logs.app_ok_def log_sound_def)

theorem overlapping_calls_keep_log_witness:
  "\<exists>ms s r. sys_run calm ''key'' (launch fresh_app) ms s
    \<and> tlookup 1 (sync_history (wdb (ap_world (sy_app s)))) = Some r \<and> h_status r \<in> set known_statuses"
proof -
  obtain b r where b: "reachable calm ''key'' fresh_app b" and r: "tlookup 1 (sync_history (wdb (ap_world b))) = Some r"
    using log_stays_sound_witness by blast
  obtain ms s where s: "sys_run calm ''key'' (launch fresh_app) ms s" "sy_app s = b"
    using reachable_moves [OF b] by blast
  have "entry_sound r" using overlapping_calls_keep_log [OF calm_validator fresh_start no_files_sound s(1)] r s(2) by simp
  then show ?thesis using s r by (auto simp: entry_sound_def)
qed

end
