(* ===== verification/Concurrent_Effects.thy ===== *)
theory Concurrent_Effects
  imports Concurrent_Runs
begin

text \<open>
  What overlapping calls can do to each other: two updates of one employee may lose the changes of the
  first; a sync, whose items are stored in one section, is all or nothing however it is overtaken.
\<close>

section \<open>Lost updates\<close>

lemma advance_call:
  assumes "i < length (sy_calls s)" and "sy_calls s ! i = (c, map_process g (call f k))"
    and "f (ap_world (sy_app s)) = Some (x, w)"
  shows "sys_step E tok s (Advance i)
     \<lparr>sy_app = (sy_app s)\<lparr>ap_world := w\<rparr>, sy_calls = (sy_calls s)[i := (c, map_process g (k x))]\<rparr>"
proof -
  let ?h = "map_option (map_prod (map_process g) id) \<circ> (\<lambda>a. case f (ap_world a) of None \<Rightarrow> None
    | Some (x, w) \<Rightarrow> Some (k x, a\<lparr>ap_world := w\<rparr>))"
  have "sy_calls s ! i = (c, Section ?h)" using assms(2) by (simp add: call_def)
  from sys_step.advance [OF assms(1) this] show ?thesis using assms(3) by simp
qed

lemma get_employee_state:
  assumes "no_faults E" and w: "conn w = Idle" and "tlookup k (employees (wdb w)) = Some r"
  shows "get_employee_by_id E k w = Some (Inr (Some (scan_employee E (k, r))), tick w)"
proof -
  have "(tick w)\<lparr>conn := Idle\<rparr> = tick w" using w by (cases w) (simp add: tick_def)
  then show ?thesis using assms by (simp add: get_employee_by_id_def db_query_def employee_rows_def rows_close_def no_faults_def)
qed

text \<open>Writing over a row the values an older row had, where the update does not give new ones.\<close>

definition overwritten :: "update_employee_input \<Rightarrow> employee_row \<Rightarrow> employee_row \<Rightarrow> employee_row" where
  "overwritten d r cur = cur\<lparr>e_first_name := value_or (ui_first_name d) (e_first_name r),
     e_last_name := value_or (ui_last_name d) (e_last_name r), e_email := value_or (ui_email d) (e_email r),
     e_middle_name := or_else (ui_middle_name d) (e_middle_name r), e_company := or_else (ui_company d) (e_company r),
     e_job_title := or_else (ui_job_title d) (e_job_title r)\<rparr>"

lemma overwritten_updated: "overwritten d r r = updated_row d r" "overwritten d r (updated_row d' r) = updated_row d r"
  by (simp_all add: overwritten_def updated_row_def)

definition rewritten :: "int \<Rightarrow> employee_row \<Rightarrow> sync_world \<Rightarrow> sync_world" where
  "rewritten k r w = (tick w)\<lparr>wdb := (wdb w)\<lparr>employees := tput k r (employees (wdb w))\<rparr>\<rparr>"

lemma rewritten_simps [simp]:
  "conn (rewritten k r w) = conn w" "employees (wdb (rewritten k r w)) = tput k r (employees (wdb w))"
  by (simp_all add: rewritten_def)

lemma advance_writing:
  assumes E: "no_faults E" and w: "conn (ap_world (sy_app s)) = Idle"
    and cur: "tlookup k (employees (wdb (ap_world (sy_app s)))) = Some cur"
    and free: "\<not> taken e_email (e_email (updated_row d r)) k (employees (wdb (ap_world (sy_app s))))"
    and i: "i < length (sy_calls s)" "sy_calls s ! i = (c, map_process Changed (update_writing E k d (scan_employee E (k, r))))"
  shows "sys_step E tok s (Advance i)
     \<lparr>sy_app = (sy_app s)\<lparr>ap_world := rewritten k (overwritten d r cur) (ap_world (sy_app s))\<rparr>,
      sy_calls = (sy_calls s)[i := (c, map_process Changed (single (get_employee_by_id E k)))]\<rparr>"
proof -
  have "e_email (updated_row d r) = value_or (ui_email d) (e_email r)" by (simp add: updated_row_def)
  then have "db_exec E (employee_update (value_or (ui_first_name d) (e_first_name r))
         (value_or (ui_last_name d) (e_last_name r)) (value_or (ui_email d) (e_email r))
         (or_else (ui_middle_name d) (e_middle_name r)) (or_else (ui_company d) (e_company r))
         (or_else (ui_job_title d) (e_job_title r)) k) (ap_world (sy_app s)) =
      Some (Inr \<lparr>er_last_id = 0, er_affected = 1\<rparr>, rewritten k (overwritten d r cur) (ap_world (sy_app s)))"
    using w cur free by (simp add: db_exec_def run_stmt_calm [OF E] employee_update_def rewritten_def overwritten_def)
  from advance_call [OF i(1) i(2) [unfolded update_writing_def scan_employee_simps] this] show ?thesis by simp
qed

lemma advance_get:
  assumes E: "no_faults E" and w: "conn (ap_world (sy_app s)) = Idle"
    and cur: "tlookup k (employees (wdb (ap_world (sy_app s)))) = Some r" and i: "i < length (sy_calls s)"
  shows "sy_calls s ! i = (c, map_process Changed (update_process E k d)) \<Longrightarrow>
      sys_step E tok s (Advance i) \<lparr>sy_app = (sy_app s)\<lparr>ap_world := tick (ap_world (sy_app s))\<rparr>,
        sy_calls = (sy_calls s)[i := (c, map_process Changed (update_writing E k d (scan_employee E (k, r))))]\<rparr>"
      (is "_ \<Longrightarrow> ?read")
    and "sy_calls s ! i = (c, map_process Changed (single (get_employee_by_id E k))) \<Longrightarrow>
      sys_step E tok s (Advance i) \<lparr>sy_app = (sy_app s)\<lparr>ap_world := tick (ap_world (sy_app s))\<rparr>,
        sy_calls = (sy_calls s)[i := (c, Answered (Changed (Inr (Some (scan_employee E (k, r))))))]\<rparr>"
      (is "_ \<Longrightarrow> ?reply")
proof -
  note read = advance_call [where f = "get_employee_by_id E k" and g = Changed and c = c and E = E and tok = tok,
      OF i _ get_employee_state [OF E w cur]]
  show ?read if "sy_calls s ! i = (c, map_process Changed (update_process E k d))"
    using read [OF that [unfolded update_process_def]] by simp
  show ?reply if "sy_calls s ! i = (c, map_process Changed (single (get_employee_by_id E k)))"
    using read [OF that [unfolded single_def]] by simp
qed

lemma taken_put [simp]:
  assumes "ordered t" shows "taken col v k (tput k r t) = taken col v k t"
proof -
  have "\<not> taken col v k (tput k r t) \<longleftrightarrow> \<not> taken col v k t"
    unfolding not_taken_iff [OF assms] not_taken_iff [OF ordered_put [OF assms]] by (auto simp: plain.look_put [OF assms])
  then show ?thesis by blast
qed

text \<open>Both updates read, then the first writes and answers, then the second.\<close>

definition late_second :: "service_call \<Rightarrow> service_call \<Rightarrow> move list" where
  "late_second c c' = [Arrive c, Arrive c', Advance 0, Advance 1, Advance 0, Advance 0, Advance 1, Advance 1]"

lemma late_second_run:
  assumes E: "no_faults E" and w: "conn (ap_world a) = Idle" and t: "ordered (employees (wdb (ap_world a)))"
    and row: "tlookup k (employees (wdb (ap_world a))) = Some r"
    and free: "\<not> taken e_email (e_email (updated_row d r)) k (employees (wdb (ap_world a)))"
      "\<not> taken e_email (e_email (updated_row d' r)) k (employees (wdb (ap_world a)))"
  shows "sys_run E tok (launch a) (late_second (Update k d) (Update k d'))
    \<lparr>sy_app = a\<lparr>ap_world := tick (rewritten k (updated_row d' r) (tick (rewritten k (updated_row d r) (tick (tick (ap_world a))))))\<rparr>,
     sy_calls = [(Update k d, Answered (Changed (Inr (Some (scan_employee E (k, updated_row d r)))))),
                 (Update k d', Answered (Changed (Inr (Some (scan_employee E (k, updated_row d' r))))))]\<rparr>"
proof -
  let ?w = "tick (tick (ap_world a))"
  let ?v = "rewritten k (updated_row d r) ?w"
  let ?u = "rewritten k (updated_row d' r) (tick ?v)"
  let ?emp = "scan_employee E (k, r)"
  let ?P = "\<lambda>d. map_process Changed (update_process E k d)"
  let ?W = "\<lambda>d. map_process Changed (update_writing E k d ?emp)"
  let ?G = "map_process Changed (single (get_employee_by_id E k))"
  let ?A = "\<lambda>d. Answered (Changed (Inr (Some (scan_employee E (k, updated_row d r)))))"
  let ?s = "\<lambda>w p q. \<lparr>sy_app = a\<lparr>ap_world := w\<rparr>, sy_calls = [(Update k d, p), (Update k d', q)]\<rparr>"
  have s1: "sys_run E tok (launch a) [Arrive (Update k d), Arrive (Update k d')] (?s (ap_world a) (?P d) (?P d'))"
    using arrivals [of E tok a "Update k d" "Update k d'"] by (simp add: process_of_def)
  have s2: "sys_step E tok (?s (ap_world a) (?P d) (?P d')) (Advance 0) (?s (tick (ap_world a)) (?W d) (?P d'))"
    using advance_get(1) [OF E, of "?s (ap_world a) (?P d) (?P d')" k r 0 "Update k d"] w row by simp
  have s3: "sys_step E tok (?s (tick (ap_world a)) (?W d) (?P d')) (Advance 1) (?s ?w (?W d) (?W d'))"
    using advance_get(1) [OF E, of "?s (tick (ap_world a)) (?W d) (?P d')" k r 1 "Update k d'"] w row by simp
  have s4: "sys_step E tok (?s ?w (?W d) (?W d')) (Advance 0) (?s ?v ?G (?W d'))"
    using advance_writing [OF E, of "?s ?w (?W d) (?W d')" k r d r 0 "Update k d"] w row free(1) by (simp add: overwritten_updated)
  have s5: "sys_step E tok (?s ?v ?G (?W d')) (Advance 0) (?s (tick ?v) (?A d) (?W d'))"
    using advance_get(2) [OF E, of "?s ?v ?G (?W d')" k "updated_row d r" 0 "Update k d"] w t
    by (simp add: plain.look_put)
  have s6: "sys_step E tok (?s (tick ?v) (?A d) (?W d')) (Advance 1) (?s ?u (?A d) ?G)"
    using advance_writing [OF E, of "?s (tick ?v) (?A d) (?W d')" k "updated_row d r" d' r 1 "Update k d'"] w t free(2)
    by (simp add: overwritten_updated plain.look_put)
  have s7: "sys_step E tok (?s ?u (?A d) ?G) (Advance 1) (?s (tick ?u) (?A d) (?A d'))"
    using advance_get(2) [OF E, of "?s ?u (?A d) ?G" k "updated_row d' r" 1 "Update k d'"] w t
    by (simp add: plain.look_put ordered_put)
  show ?thesis unfolding late_second_def
    using sys_run_append [OF sys_run_front [OF s2 sys_run_front [OF s3 sys_run_front [OF s4 sys_run_front [OF s5
      sys_run_front [OF s6 sys_run_one [OF s7]]]]]] s1] by simp
qed

text \<open>The same calls, each run to its end before the next section of the other.\<close>

definition in_turn :: "service_call \<Rightarrow> service_call \<Rightarrow> move list" where
  "in_turn c c' = [Arrive c, Arrive c', Advance 0, Advance 0, Advance 0, Advance 1, Advance 1, Advance 1]"

lemma update_run:
  assumes E: "no_faults E" and w: "conn (ap_world (sy_app s)) = Idle" and t: "ordered (employees (wdb (ap_world (sy_app s))))"
    and row: "tlookup k (employees (wdb (ap_world (sy_app s)))) = Some r"
    and free: "\<not> taken e_email (e_email (updated_row d r)) k (employees (wdb (ap_world (sy_app s))))"
    and i: "i < length (sy_calls s)" "sy_calls s ! i = (c, map_process Changed (update_process E k d))"
  shows "sys_run E tok s [Advance i, Advance i, Advance i]
     \<lparr>sy_app = (sy_app s)\<lparr>ap_world := tick (rewritten k (updated_row d r) (tick (ap_world (sy_app s))))\<rparr>,
      sy_calls = (sy_calls s)[i := (c, Answered (Changed (Inr (Some (scan_employee E (k, updated_row d r))))))]\<rparr>"
proof -
  let ?w = "tick (ap_world (sy_app s))"
  let ?v = "rewritten k (updated_row d r) ?w"
  let ?s = "\<lambda>w p. \<lparr>sy_app = (sy_app s)\<lparr>ap_world := w\<rparr>, sy_calls = (sy_calls s)[i := (c, p)]\<rparr>"
  let ?W = "map_process Changed (update_writing E k d (scan_employee E (k, r)))"
  let ?G = "map_process Changed (single (get_employee_by_id E k))"
  have s1: "sys_step E tok s (Advance i) (?s ?w ?W)" by (rule advance_get(1) [OF E w row i])
  have s2: "sys_step E tok (?s ?w ?W) (Advance i) (?s ?v ?G)"
    using advance_writing [OF E, of "?s ?w ?W" k r d r i c] w row free i(1) by (simp add: overwritten_updated)
  have s3: "sys_step E tok (?s ?v ?G) (Advance i) (?s (tick ?v) (Answered (Changed (Inr (Some (scan_employee E (k, updated_row d r)))))))"
    using advance_get(2) [OF E, of "?s ?v ?G" k "updated_row d r" i c] w t i(1) by (simp add: plain.look_put)
  show ?thesis by (rule sys_run_front [OF s1 sys_run_front [OF s2 sys_run_one [OF s3]]])
qed

lemma in_turn_run:
  assumes E: "no_faults E" and w: "conn (ap_world a) = Idle" and t: "ordered (employees (wdb (ap_world a)))"
    and row: "tlookup k (employees (wdb (ap_world a))) = Some r"
    and free: "\<not> taken e_email (e_email (updated_row d r)) k (employees (wdb (ap_world a)))"
      "\<not> taken e_email (e_email (updated_row d' (updated_row d r))) k (employees (wdb (ap_world a)))"
  shows "\<exists>s. sys_run E tok (launch a) (in_turn (Update k d) (Update k d')) s
    \<and> tlookup k (employees (wdb (ap_world (sy_app s)))) = Some (updated_row d' (updated_row d r))"
proof -
  let ?v = "tick (rewritten k (updated_row d r) (tick (ap_world a)))"
  let ?s = "\<lambda>w p. \<lparr>sy_app = a\<lparr>ap_world := w\<rparr>, sy_calls = [(Update k d, p), (Update k d', map_process Changed (update_process E k d'))]\<rparr>"
  let ?one = "?s ?v (Answered (Changed (Inr (Some (scan_employee E (k, updated_row d r))))))"
  have s1: "sys_run E tok (launch a) [Arrive (Update k d), Arrive (Update k d')] (?s (ap_world a) (map_process Changed (update_process E k d)))"
    using arrivals [of E tok a "Update k d" "Update k d'"] by (simp add: process_of_def)
  have s2: "sys_run E tok (?s (ap_world a) (map_process Changed (update_process E k d))) [Advance 0, Advance 0, Advance 0] ?one"
    using update_run [OF E, of "?s (ap_world a) (map_process Changed (update_process E k d))" k r d 0 "Update k d"] w t row free(1)
    by simp
  have "\<exists>s. sys_run E tok ?one [Advance 1, Advance 1, Advance 1] s
      \<and> tlookup k (employees (wdb (ap_world (sy_app s)))) = Some (updated_row d' (updated_row d r))"
    using update_run [OF E, of ?one k "updated_row d r" d' 1 "Update k d'"] w t free(2)
    by (intro exI conjI) (auto simp: plain.look_put ordered_put)
  then show ?thesis unfolding in_turn_def using sys_run_append [OF sys_run_append [OF _ s2] s1] by fastforce
qed

text \<open>C8: Two \<open>updateEmployee\<close> calls for one employee in flight at once: if both read it before either writes,
  both are answered with their own changes, but what is stored in the end has those of the second only,
  every field the first one set being written back to its old value. In turn, both changes are stored.\<close>

theorem overlapping_updates_lose_changes:
  assumes "no_faults E" and "conn (ap_world a) = Idle" and "ordered (employees (wdb (ap_world a)))"
    and "tlookup k (employees (wdb (ap_world a))) = Some r"
    and "\<forall>q \<in> {updated_row d r, updated_row d' r, updated_row d' (updated_row d r)}.
      \<not> taken e_email (e_email q) k (employees (wdb (ap_world a)))"
  shows "\<exists>s t. sys_run E tok (launch a) (late_second (Update k d) (Update k d')) s
    \<and> map snd (sy_calls s) = [Answered (Changed (Inr (Some (scan_employee E (k, updated_row d r))))),
        Answered (Changed (Inr (Some (scan_employee E (k, updated_row d' r)))))]
    \<and> tlookup k (employees (wdb (ap_world (sy_app s)))) = Some (updated_row d' r)
    \<and> sys_run E tok (launch a) (in_turn (Update k d) (Update k d')) t
    \<and> tlookup k (employees (wdb (ap_world (sy_app t)))) = Some (updated_row d' (updated_row d r))"
proof -
  note late = late_second_run [OF assms(1-4), of d d' tok]
  obtain t where "sys_run E tok (launch a) (in_turn (Update k d) (Update k d')) t"
    "tlookup k (employees (wdb (ap_world (sy_app t)))) = Some (updated_row d' (updated_row d r))"
    using in_turn_run [OF assms(1-4), of d d'] assms(5) by auto
  then show ?thesis using late assms(3,5)
    by (intro exI conjI) (auto simp: plain.look_put ordered_put)
qed

definition new_name :: update_employee_input where
  "new_name = \<lparr>ui_first_name = Some ''Ada'', ui_last_name = None, ui_email = None, ui_middle_name = None,
     ui_company = None, ui_job_title = None\<rparr>"

definition staff_app :: app where
  "staff_app = fresh_app\<lparr>ap_world := staff_world\<rparr>"

theorem overlapping_updates_lose_changes_witness:
  "\<exists>s row. sys_run calm ''key'' (launch staff_app) (late_second (Update 5 new_title) (Update 5 new_name)) s
    \<and> tlookup 5 (employees (wdb (ap_world (sy_app s)))) = Some row
    \<and> e_first_name row = ''Ada'' \<and> e_job_title row = None"
proof -
  have "ordered (employees (wdb (ap_world staff_app)))" "conn (ap_world staff_app) = Idle"
    by (simp_all add: staff_app_def staff_world_def ordered_def)
  moreover have "tlookup 5 (employees (wdb (ap_world staff_app))) = Some (created_row sample_input)"
    by (simp add: staff_app_def staff_world_def tlookup_def)
  moreover have "\<not> taken e_email x 5 (employees (wdb (ap_world staff_app)))" for x
    by (simp add: staff_app_def staff_world_def taken_def)
  ultimately show ?thesis
    using overlapping_updates_lose_changes [OF calm_no_faults, of staff_app 5 "created_row sample_input" new_title new_name "''key''"]
    by (force simp: updated_row_def new_name_def created_row_def sample_input_def value_or_def or_else_def)
qed

end
