(* ===== verification/Concurrent_Sync.thy ===== *)
theory Concurrent_Sync
  imports Concurrent_Effects
begin

text \<open>
  A sync between other calls: its sections leave the tables alone until one section stores all items,
  and then the answer is 200 with their results; or no section does, and the answer is another.
\<close>

section \<open>All or nothing\<close>

text \<open>Every section still to come relates its states by \<open>R\<close>, and the answer will satisfy \<open>Q\<close>.\<close>

inductive will :: "('w \<Rightarrow> 'w \<Rightarrow> bool) \<Rightarrow> ('a \<Rightarrow> bool) \<Rightarrow> ('w, 'a) process \<Rightarrow> bool" for R Q where
  answer: "Q x \<Longrightarrow> will R Q (Answered x)"
| proceed: "(\<And>a p b. f a = Some (p, b) \<Longrightarrow> R a b \<and> will R Q p) \<Longrightarrow> will R Q (Section f)"

text \<open>
  Sections relate their states by \<open>R\<close> until, if ever, one relates them by \<open>S y\<close>; after it they do so by \<open>R\<close>
  again and the answer satisfies \<open>Q y\<close>. If none does, the answer satisfies \<open>N\<close>.
\<close>

inductive all_or_nothing ::
  "('w \<Rightarrow> 'w \<Rightarrow> bool) \<Rightarrow> ('y \<Rightarrow> 'w \<Rightarrow> 'w \<Rightarrow> bool) \<Rightarrow> ('y \<Rightarrow> 'a \<Rightarrow> bool) \<Rightarrow> ('a \<Rightarrow> bool) \<Rightarrow> ('w, 'a) process \<Rightarrow> bool"
  for R S Q N where
  nothing: "N x \<Longrightarrow> all_or_nothing R S Q N (Answered x)"
| sectioned: "(\<And>a p b. f a = Some (p, b) \<Longrightarrow> R a b \<and> all_or_nothing R S Q N p \<or> (\<exists>y. S y a b \<and> will R (Q y) p)) \<Longrightarrow>
     all_or_nothing R S Q N (Section f)"

inductive_simps will_simps [simp]: "will R Q (Answered x)" "will R Q (Section f)"
inductive_simps all_or_nothing_simps [simp]: "all_or_nothing R S Q N (Answered x)" "all_or_nothing R S Q N (Section f)"

lemma will_map: "will R (\<lambda>x. Q (g x)) p \<Longrightarrow> will R Q (map_process g p)"
proof (induction rule: will.induct)
  case (proceed f)
  then show ?case by fastforce
qed simp

lemma all_or_nothing_map:
  "all_or_nothing R S (\<lambda>y x. Q y (g x)) (\<lambda>x. N (g x)) p \<Longrightarrow> all_or_nothing R S Q N (map_process g p)"
proof (induction rule: all_or_nothing.induct)
  case (sectioned f)
  then show ?case using will_map [of R _ g] by (fastforce simp: will_map)
qed simp

section \<open>The sync as a process\<close>

definition tables_kept :: "app \<Rightarrow> app \<Rightarrow> bool" where
  "tables_kept a b \<longleftrightarrow> same_targets (wdb (ap_world a)) (wdb (ap_world b))"

text \<open>The items of the payload run, without error, on the tables as they are, and what they make is stored.\<close>

definition items_stored :: "env \<Rightarrow> json option \<Rightarrow> sync_result list \<Rightarrow> app \<Rightarrow> app \<Rightarrow> bool" where
  "items_stored E req results a b \<longleftrightarrow> (\<exists>payload (w1 :: sync_world) (w2 :: sync_world). accepted E req = Some payload
     \<and> process_items E (sr_model payload) (items_of payload) [] w1 = Some (Inr results, w2)
     \<and> length results = length (items_of payload)
     \<and> wdb w1 = wdb (ap_world a) \<and> wdb (ap_world b) = wdb w2)"

definition synced :: "sync_result list \<Rightarrow> response" where
  "synced results = \<lparr>code = 200, body = Sync_Results ''Sync completed successfully'' results\<rparr>"

abbreviation sync_atomic :: "env \<Rightarrow> json option \<Rightarrow> (app, response) process \<Rightarrow> bool" where
  "sync_atomic E req \<equiv> all_or_nothing tables_kept (items_stored E req) (\<lambda>y x. x = synced y) (\<lambda>x. code x \<noteq> 200)"

lemma finishing_kept:
  assumes "only_counts g"
  shows "finishing (mark_history_failed E k m) g w = Some (u, w') \<Longrightarrow> same_targets (wdb w) (wdb w')"
    and "finishing (mark_history_successful E k) g w = Some (u, w') \<Longrightarrow> same_targets (wdb w) (wdb w')"
proof -
  have g: "wdb (g v) = wdb v" for v using assms by (simp add: only_counts_def)
  show "same_targets (wdb w) (wdb w')" if run: "finishing (mark_history_failed E k m) g w = Some (u, w')"
  proof -
    have idle: "conn w = Idle" using run
      by (cases "conn w = Idle") (simp_all add: finishing_def mark_history_failed_def db_exec_def)
    show ?thesis using run unfolding finishing_run(1) [OF idle] by (auto simp: g history_runs_same_targets)
  qed
  show "same_targets (wdb w) (wdb w')" if run: "finishing (mark_history_successful E k) g w = Some (u, w')"
  proof -
    have idle: "conn w = Idle" using run
      by (cases "conn w = Idle") (simp_all add: finishing_def mark_history_successful_def db_exec_def)
    show ?thesis using run unfolding finishing_run(2) [OF idle] by (auto simp: g history_runs_same_targets)
  qed
qed

lemma atomic_finish:
  assumes "only_counts g" and "code x \<noteq> 200"
  shows "sync_atomic E req (call (finishing (mark_history_failed E k m) g) (\<lambda>u. Answered x))"
  using assms finishing_kept(1) [OF assms(1)] by (auto simp: call_def tables_kept_def split: option.splits)

lemma stored_finish:
  "only_counts g \<Longrightarrow> will tables_kept (\<lambda>y. y = x) (call (finishing (mark_history_successful E k) g) (\<lambda>u. Answered x))"
  using finishing_kept(2) by (auto simp: call_def tables_kept_def split: option.splits)

text \<open>What the transaction can come to.\<close>

lemma tx_section_outcome:
  assumes E: "commits_clean E" and run: "tx_section E model data w = Some (out, w')"
  shows "case out of
      Not_Begun_Tx err \<Rightarrow> wdb w' = wdb w
    | Undone appErr cls secs \<Rightarrow> wdb w' = wdb w \<and> ae_status appErr \<noteq> 200
    | Stored_All results secs \<Rightarrow> (\<exists>(w1 :: sync_world) (w2 :: sync_world). process_items E model data [] w1 = Some (Inr results, w2)
        \<and> wdb w1 = wdb w \<and> wdb w' = wdb w2)"
proof -
  obtain b w1 where b: "begin_tx E w = Some (b, w1)" using run by (auto simp: tx_section_def bind_Some_iff)
  then have w: "conn w = Idle" by (simp add: begin_tx_def split: if_split_asm)
  show ?thesis
  proof (cases b)
    case (Inl err)
    then show ?thesis using run b tx_after_begin_error [OF w, of E err w1] by (auto simp: tx_section_def)
  next
    case (Inr u)
    note w1 = tx_after_begin [OF w, of E u w1]
    obtain r w2 where r: "process_items E model data [] w1 = Some (r, w2)"
      using run b Inr by (auto simp: tx_section_def bind_Some_iff)
    have w2: "conn w2 = In_Tx (wdb w)" using items_frame [OF r] w1 b Inr by simp
    show ?thesis
    proof (cases r)
      case err: (Inl err)
      have "ae_status (as_app_error E err) \<noteq> 200" using as_app_error_status [OF process_items_error [OF r [unfolded err]], of E] by auto
      then show ?thesis using run b Inr r err rollback_back [OF w2] by (auto simp: tx_section_def Let_def)
    next
      case (Inr results)
      obtain c w3 where c: "tx_commit E w2 = (c, w3)" by fastforce
      show ?thesis
      proof (cases c)
        case (Inl e)
        have "ae_status (handle_db_error (uni_upper E) (Some e)) \<in> {400, 409, 500}" by (simp add: handle_db_error_status)
        then have "ae_status (handle_db_error (uni_upper E) (Some e)) \<noteq> 200" by auto
        then show ?thesis using run b \<open>b = Inr u\<close> r Inr c Inl commit_run(5) [OF w2 c Inl E] by (auto simp: tx_section_def Let_def)
      next
        case ok: (Inr v)
        have "out = Stored_All results (elapsed E (calls w2))" "w' = w3"
          using run b \<open>b = Inr u\<close> r Inr c ok by (auto simp: tx_section_def Let_def)
        then show ?thesis using commit_run(4) [OF w2 c ok] r Inr w1 b \<open>b = Inr u\<close> by auto
      qed
    qed
  qed
qed

lemma atomic_call:
  "(\<And>a x w. f (ap_world a) = Some (x, w) \<Longrightarrow> tables_kept a (a\<lparr>ap_world := w\<rparr>) \<and> sync_atomic E req (k x)
      \<or> (\<exists>y. items_stored E req y a (a\<lparr>ap_world := w\<rparr>) \<and> will tables_kept (\<lambda>r. r = synced y) (k x))) \<Longrightarrow>
     sync_atomic E req (call f k)"
  by (simp add: call_def split: option.split)

lemma pending_kept: "create_pending_history E p w = Some (h, w') \<Longrightarrow> same_targets (wdb w) (wdb w')"
  using history_runs_same_targets(1) [of w E p]
  by (auto simp: create_pending_history_def db_exec_def split: if_split_asm sum.split_asm prod.split_asm)

lemma tx_is_atomic:
  assumes E: "commits_clean E" and a: "accepted E req = Some payload"
  shows "sync_atomic E req (tx_process E (sr_model payload) (items_of payload) hist)"
  unfolding tx_process_def
proof (rule atomic_call)
  fix a :: app and out w
  assume run: "tx_section E (sr_model payload) (items_of payload) (ap_world a) = Some (out, w)"
  let ?k = "\<lambda>out. case out of
       Not_Begun_Tx err \<Rightarrow> call (finishing (mark_history_failed E hist (ae_message (new_internal_error err))) (\<lambda>w. w))
         (\<lambda>u. Answered (answer_error (new_internal_error err)))
     | Undone appErr cls secs \<Rightarrow> call (finishing (mark_history_failed E hist (ae_message appErr)) (count_failure cls (sr_model payload) secs))
         (\<lambda>u. Answered (answer_error appErr))
     | Stored_All results secs \<Rightarrow> call (finishing (mark_history_successful E hist) (count_success (sr_model payload) secs))
         (\<lambda>u. Answered \<lparr>code = 200, body = Sync_Results ''Sync completed successfully'' results\<rparr>)"
  note out = tx_section_outcome [OF E run]
  show "tables_kept a (a\<lparr>ap_world := w\<rparr>) \<and> sync_atomic E req (?k out)
      \<or> (\<exists>y. items_stored E req y a (a\<lparr>ap_world := w\<rparr>) \<and> will tables_kept (\<lambda>r. r = synced y) (?k out))"
  proof (cases out)
    case (Not_Begun_Tx err)
    then show ?thesis using out by (simp add: tables_kept_def atomic_finish new_internal_error_def answer_error_def)
  next
    case (Undone appErr cls secs)
    then show ?thesis using out by (simp add: tables_kept_def atomic_finish answer_error_def)
  next
    case (Stored_All results secs)
    then have "items_stored E req results a (a\<lparr>ap_world := w\<rparr>)"
      using out a process_items_length by (fastforce simp: items_stored_def)
    then show ?thesis using Stored_All stored_finish [of "count_success (sr_model payload) secs" "synced results" E hist]
      by (auto simp: synced_def)
  qed
qed

lemma sync_is_atomic:
  assumes E: "commits_clean E"
  shows "sync_atomic E req (sync_process E req)"
proof (cases "Option.bind req decode_sync_request")
  case None
  then show ?thesis by (simp add: sync_process_def answer_message_def)
next
  case (Some payload)
  show ?thesis
  proof (cases "validate_struct (validate E) (sync_request_fields payload)")
    case None
    then have "accepted E req = Some payload" using Some by (simp add: accepted_def)
    from tx_is_atomic [OF E this] show ?thesis
      using Some None pending_kept by (auto simp: sync_process_def Let_def answer_message_def tables_kept_def items_of_def
          intro!: atomic_call split: sum.split)
  next
    case ve: (Some ve)
    then show ?thesis using Some by (simp add: sync_process_def answer_error_def)
  qed
qed

section \<open>A sync in a run\<close>

text \<open>A run in which the sections of call \<open>i\<close> leave the tables alone, whatever the other moves do.\<close>

inductive quiet_run :: "env \<Rightarrow> string \<Rightarrow> nat \<Rightarrow> system \<Rightarrow> move list \<Rightarrow> system \<Rightarrow> bool" for E tok i s where
  nil: "quiet_run E tok i s [] s"
| snoc: "quiet_run E tok i s ms t \<Longrightarrow> sys_step E tok t m u \<Longrightarrow> (m = Advance i \<Longrightarrow> tables_kept (sy_app t) (sy_app u)) \<Longrightarrow>
     quiet_run E tok i s (ms @ [m]) u"

definition refused :: "result \<Rightarrow> bool" where
  "refused x \<longleftrightarrow> (\<forall>r. x = Replied (Answer r) \<longrightarrow> code r \<noteq> 200)"

abbreviation unsynced :: "env \<Rightarrow> request \<Rightarrow> (app, result) process \<Rightarrow> bool" where
  "unsynced E q \<equiv> all_or_nothing tables_kept (items_stored E (rq_json q)) (\<lambda>y x. x = Replied (Answer (synced y))) refused"

abbreviation synced_with :: "sync_result list \<Rightarrow> (app, result) process \<Rightarrow> bool" where
  "synced_with y \<equiv> will tables_kept (\<lambda>x. x = Replied (Answer (synced y)))"

definition sync_call :: "request \<Rightarrow> bool" where
  "sync_call q \<longleftrightarrow> route_of (rq_method q) (rq_path q) = Some R_Sync"

lemma sync_call_unsynced:
  assumes "commits_clean E" and "sync_call q"
  shows "unsynced E q (process_of E tok (Rest q))"
proof -
  have "all_or_nothing tables_kept (items_stored E (rq_json q)) (\<lambda>y x. x = Answer (synced y)) (\<lambda>x. refused (Replied x))
      (map_process Answer (sync_process E (rq_json q)))"
    by (rule all_or_nothing_map) (use sync_is_atomic [OF assms(1)] in \<open>simp add: refused_def\<close>)
  then have "all_or_nothing tables_kept (items_stored E (rq_json q)) (\<lambda>y x. x = Answer (synced y)) (\<lambda>x. refused (Replied x))
      (serve_process E tok q)"
    using assms(2) by (simp add: serve_process_def handle_process_def sync_call_def refused_def access_denied_def answer_message_def)
  then show ?thesis by (simp add: process_of_def all_or_nothing_map)
qed

text \<open>How far call \<open>i\<close> is: nothing stored yet, or everything, in one section.\<close>

definition stored_in :: "env \<Rightarrow> string \<Rightarrow> nat \<Rightarrow> request \<Rightarrow> sync_result list \<Rightarrow> system \<Rightarrow> move list \<Rightarrow> system \<Rightarrow> bool" where
  "stored_in E tok i q y s0 ms u \<longleftrightarrow> (\<exists>ms1 s t ms2. ms = ms1 @ Advance i # ms2 \<and> quiet_run E tok i s0 ms1 s
     \<and> sys_step E tok s (Advance i) t \<and> items_stored E (rq_json q) y (sy_app s) (sy_app t) \<and> quiet_run E tok i t ms2 u)"

definition sync_progress :: "env \<Rightarrow> string \<Rightarrow> nat \<Rightarrow> request \<Rightarrow> (app, result) process \<Rightarrow> system \<Rightarrow> move list \<Rightarrow> system \<Rightarrow> bool" where
  "sync_progress E tok i q p s0 ms u \<longleftrightarrow> unsynced E q p \<and> quiet_run E tok i s0 ms u
     \<or> (\<exists>y. synced_with y p \<and> stored_in E tok i q y s0 ms u)"

lemma stored_in_more:
  assumes "stored_in E tok i q y s0 ms u" and "sys_step E tok u m v" and "m = Advance i \<Longrightarrow> tables_kept (sy_app u) (sy_app v)"
  shows "stored_in E tok i q y s0 (ms @ [m]) v"
  using assms(1) quiet_run.snoc [OF _ assms(2,3)] unfolding stored_in_def by fastforce

lemma progress_other:
  "sync_progress E tok i q p s0 ms u \<Longrightarrow> sys_step E tok u m v \<Longrightarrow> m \<noteq> Advance i \<Longrightarrow> sync_progress E tok i q p s0 (ms @ [m]) v"
  unfolding sync_progress_def using quiet_run.snoc stored_in_more by blast

lemma progress_own:
  assumes p: "sync_progress E tok i q (Section f) s0 ms u" and f: "f (sy_app u) = Some (p, sy_app v)"
    and step: "sys_step E tok u (Advance i) v"
  shows "sync_progress E tok i q p s0 (ms @ [Advance i]) v"
  using p unfolding sync_progress_def
proof (elim disjE exE conjE)
  assume "unsynced E q (Section f)" and quiet: "quiet_run E tok i s0 ms u"
  then consider "tables_kept (sy_app u) (sy_app v)" "unsynced E q p"
    | y where "items_stored E (rq_json q) y (sy_app u) (sy_app v)" "synced_with y p"
    using f unfolding all_or_nothing_simps by blast
  then show "unsynced E q p \<and> quiet_run E tok i s0 (ms @ [Advance i]) v
      \<or> (\<exists>y. synced_with y p \<and> stored_in E tok i q y s0 (ms @ [Advance i]) v)"
  proof cases
    case (2 y)
    then have "stored_in E tok i q y s0 (ms @ [Advance i]) v"
      unfolding stored_in_def using quiet step quiet_run.nil by blast
    then show ?thesis using 2 by blast
  qed (use quiet_run.snoc [OF quiet step] in blast)
next
  fix y
  assume y: "synced_with y (Section f)" and s: "stored_in E tok i q y s0 ms u"
  have "tables_kept (sy_app u) (sy_app v) \<and> synced_with y p" using y f unfolding will_simps by blast
  then show "unsynced E q p \<and> quiet_run E tok i s0 (ms @ [Advance i]) v
      \<or> (\<exists>y. synced_with y p \<and> stored_in E tok i q y s0 (ms @ [Advance i]) v)"
    using stored_in_more [OF s step] by blast
qed

lemma sync_run_progress:
  assumes E: "commits_clean E" and run: "sys_run E tok (launch a) ms u"
  shows "(\<forall>i \<ge> length (sy_calls u). quiet_run E tok i (launch a) ms u)
    \<and> (\<forall>i < length (sy_calls u). \<forall>q p. sy_calls u ! i = (Rest q, p) \<and> sync_call q \<longrightarrow> sync_progress E tok i q p (launch a) ms u)"
  using run
proof induction
  case nil
  then show ?case by (simp add: quiet_run.nil launch_def)
next
  case (snoc ms u m v)
  note new = snoc.IH [THEN conjunct1, rule_format] and old = snoc.IH [THEN conjunct2, rule_format, OF _ conjI]
  from snoc.hyps(2) show ?case
  proof cases
    case (arrive c)
    have quiet: "quiet_run E tok i (launch a) (ms @ [m]) v" if "length (sy_calls u) \<le> i" for i
      using quiet_run.snoc [OF new [OF that] snoc.hyps(2)] arrive(1) by simp
    have "sync_progress E tok i q p (launch a) (ms @ [m]) v"
      if "i < length (sy_calls v)" "sy_calls v ! i = (Rest q, p)" "sync_call q" for i q p
    proof (cases "i = length (sy_calls u)")
      case True
      then show ?thesis using quiet [of i] that(2) arrive(2) sync_call_unsynced [OF E that(3), of tok]
        by (auto simp: sync_progress_def)
    next
      case False
      then show ?thesis using that arrive progress_other [OF old snoc.hyps(2)] by (auto simp: nth_append)
    qed
    then show ?thesis using quiet arrive(2) by simp
  next
    case (advance i c f p b)
    have quiet: "quiet_run E tok j (launch a) (ms @ [m]) v" if "length (sy_calls u) \<le> j" for j
      using quiet_run.snoc [OF new [OF that] snoc.hyps(2)] advance(1,3) that by auto
    have "sync_progress E tok j q p' (launch a) (ms @ [m]) v"
      if "j < length (sy_calls u)" "sy_calls v ! j = (Rest q, p')" "sync_call q" for j q p'
    proof (cases "j = i")
      case True
      then have "c = Rest q" "p' = p" using that(2) advance(2,3) by auto
      then show ?thesis using progress_own [of E tok i q f "launch a" ms u p v] old [of i q "Section f"] advance that(3) snoc.hyps(2) True
        by auto
    next
      case False
      then show ?thesis using that advance progress_other [OF old snoc.hyps(2)] by auto
    qed
    then show ?thesis using quiet advance(2) by simp
  next
    case (subscription ev h)
    then show ?thesis using quiet_run.snoc [OF new snoc.hyps(2)] progress_other [OF old snoc.hyps(2)] by auto
  next
    case recycle
    then show ?thesis using quiet_run.snoc [OF new snoc.hyps(2)] progress_other [OF old snoc.hyps(2)] by auto
  qed
qed

text \<open>C6: A sync answered among overlapping calls, where a failed commit has no effect: either its answer is not
  200 and none of its sections has changed the tables, or it is 200 and exactly one has: that section ran
  all items of the payload on the tables as it found them, and the answer lists its results.\<close>

theorem overlapped_sync_is_all_or_nothing:
  assumes "commits_clean E" and "sys_run E tok (launch a) ms u" and "i < length (sy_calls u)"
    and "sy_calls u ! i = (Rest q, Answered x)" and "sync_call q"
  shows "refused x \<and> quiet_run E tok i (launch a) ms u
    \<or> (\<exists>y. x = Replied (Answer (synced y)) \<and> stored_in E tok i q y (launch a) ms u)"
proof -
  have "sync_progress E tok i q (Answered x) (launch a) ms u"
    using sync_run_progress [OF assms(1,2)] assms(3-5) by blast
  then show ?thesis by (auto simp: sync_progress_def)
qed

theorem overlapped_sync_is_all_or_nothing_witness:
  "\<exists>ms u x. sys_run calm ''key'' (launch fresh_app) ms u \<and> sy_calls u = [(Rest orphan_request, Answered x)]
    \<and> refused x \<and> quiet_run calm ''key'' 0 (launch fresh_app) ms u"
proof -
  let ?c = "Rest orphan_request"
  let ?s = "(launch fresh_app)\<lparr>sy_calls := [(?c, process_of calm ''key'' ?c)]\<rparr>"
  obtain resp w where w: "serve calm ''key'' orphan_request (ap_world fresh_app) = Some (Answer resp, w)" "code resp = 500"
    using orphan_refused by (auto split: option.split_asm prod.split_asm reply.split_asm)
  have "in_one_go calm ''key'' ?c fresh_app = Some (Replied (Answer resp), fresh_app\<lparr>ap_world := w\<rparr>)"
    using w(1) by (simp add: in_one_go_def returning_def)
  then obtain ms where "sys_run calm ''key'' ?s ms \<lparr>sy_app = fresh_app\<lparr>ap_world := w\<rparr>, sy_calls = [(?c, Answered (Replied (Answer resp)))]\<rparr>"
    using run_alone [of "process_of calm ''key'' ?c" ?s "Replied (Answer resp)" "fresh_app\<lparr>ap_world := w\<rparr>" 0 ?c calm "''key''"]
    by (auto simp: uninterrupted_call launch_def)
  then have run: "sys_run calm ''key'' (launch fresh_app) (Arrive ?c # ms)
      \<lparr>sy_app = fresh_app\<lparr>ap_world := w\<rparr>, sy_calls = [(?c, Answered (Replied (Answer resp)))]\<rparr>" (is "sys_run _ _ _ _ ?u")
    using sys_run_front [OF sys_step.arrive [of calm "''key''" "launch fresh_app" ?c]] by (simp add: launch_def)
  have "sync_call orphan_request" by code_simp
  then have "refused (Replied (Answer resp)) \<and> quiet_run calm ''key'' 0 (launch fresh_app) (Arrive ?c # ms) ?u"
    using overlapped_sync_is_all_or_nothing [OF calm_commits_clean run, of 0 orphan_request "Replied (Answer resp)"] w(2)
    by (auto simp: synced_def)
  then show ?thesis using run by (intro exI conjI) auto
qed

end
