(* ===== verification/Lifecycle.thy ===== *)
theory Lifecycle
  imports Concurrent_Sync
begin

text \<open>
  The life of the server process, as \<open>main\<close> of \<open>cmd/server/main.go\<close> runs it: it serves until a signal comes,
  then lets the calls in flight finish for at most five seconds, and exits; the next start finds what
  the last one has left in its database file.
\<close>

section \<open>One life\<close>

datatype lifetime =
    Serving (system_of: system)
  | Draining nat (system_of: system)
  | Exited int (system_of: system)

datatype life_event = Moved move | Listen_Failed | Signal | Second | Drained | Deadline

text \<open>
  \<open>Shutdown\<close> waits for the calls that came over HTTP (\<open>tracked\<close>); it does not know those that come over a
  websocket, whose connection the server has given away. Its context ends five seconds after the
  signal; \<open>Draining k\<close> counts the seconds that have passed, of which the calls may take turns in any
  number. Requests may still arrive while it waits, over
  websockets or connections accepted before. A clean end returns from \<open>main\<close>; \<open>log.Fatalf\<close> exits with 1 at
  once. What it interrupts has not returned from its section: a transaction that is not committed is
  rolled back when the database is opened again, so that the state before the section is what is left.
\<close>

inductive life_step :: "env \<Rightarrow> string \<Rightarrow> (nat \<Rightarrow> bool) \<Rightarrow> lifetime \<Rightarrow> life_event \<Rightarrow> lifetime \<Rightarrow> bool" for E tok tracked where
  serving: "sys_step E tok s m t \<Longrightarrow> life_step E tok tracked (Serving s) (Moved m) (Serving t)"
| listen_failed: "life_step E tok tracked (Serving s) Listen_Failed (Exited 1 s)"
| signal: "life_step E tok tracked (Serving s) Signal (Draining 0 s)"
| draining: "sys_step E tok s m t \<Longrightarrow> life_step E tok tracked (Draining k s) (Moved m) (Draining k t)"
| second: "k < 5 \<Longrightarrow> life_step E tok tracked (Draining k s) Second (Draining (Suc k) s)"
| drained: "\<forall>i < length (sy_calls s). tracked i \<longrightarrow> (\<exists>x. snd (sy_calls s ! i) = Answered x) \<Longrightarrow>
     life_step E tok tracked (Draining k s) Drained (Exited 0 s)"
| deadline: "life_step E tok tracked (Draining 5 s) Deadline (Exited 1 s)"

inductive life_run :: "env \<Rightarrow> string \<Rightarrow> (nat \<Rightarrow> bool) \<Rightarrow> lifetime \<Rightarrow> life_event list \<Rightarrow> lifetime \<Rightarrow> bool" for E tok tracked l where
  begun: "life_run E tok tracked l [] l"
| lived: "life_run E tok tracked l evs l' \<Longrightarrow> life_step E tok tracked l' ev l'' \<Longrightarrow> life_run E tok tracked l (evs @ [ev]) l''"

inductive_cases exitE: "life_step E tok tracked l ev (Exited c s)"
inductive_cases drainingE: "life_step E tok tracked (Draining k s) ev l"

text \<open>What is in the database file when the process is gone.\<close>

definition left_behind :: "lifetime \<Rightarrow> database" where
  "left_behind l = wdb (ap_world (sy_app (system_of l)))"

definition moves_of :: "life_event list \<Rightarrow> move list" where
  "moves_of evs = concat (map (\<lambda>ev. case ev of Moved m \<Rightarrow> [m] | _ \<Rightarrow> []) evs)"

lemma moves_of_simps [simp]:
  "moves_of [] = []" "moves_of (evs @ evs') = moves_of evs @ moves_of evs'" "moves_of [Moved m] = [m]"
  "moves_of [Listen_Failed] = []" "moves_of [Signal] = []" "moves_of [Second] = []" "moves_of [Drained] = []" "moves_of [Deadline] = []"
  by (simp_all add: moves_of_def)

lemma moves_of_moved [simp]: "moves_of (map (\<lambda>x. Moved (f x)) xs) = map f xs"
  by (induction xs) (simp_all add: moves_of_def)

text \<open>A life is a run of the service.\<close>

lemma life_run_moves:
  "life_run E tok tracked l evs l' \<Longrightarrow> sys_run E tok (system_of l) (moves_of evs) (system_of l')"
proof (induction rule: life_run.induct)
  case (lived evs l' ev l'')
  from lived.hyps(2) show ?case using lived.IH by cases (auto intro: sys_run.snoc)
qed (simp add: sys_run.nil)

lemma life_moves: "life_run E tok tracked (Serving s) evs l \<Longrightarrow> sys_run E tok s (moves_of evs) (system_of l)"
  using life_run_moves [of E tok tracked "Serving s" evs l] by simp

lemma life_run_step: "life_step E tok tracked l ev l' \<Longrightarrow> life_run E tok tracked l [ev] l'"
  using life_run.lived [OF life_run.begun] by fastforce

lemma serving_run: "sys_run E tok s ms t \<Longrightarrow> life_run E tok tracked (Serving s) (map Moved ms) (Serving t)"
  by (induction rule: sys_run.induct) (auto intro: life_run.intros life_step.serving)

section \<open>Shutting down\<close>

fun turns :: "move list \<Rightarrow> nat list" where
  "turns [] = []"
| "turns (Advance i # ms) = i # turns ms"
| "turns (m # ms) = turns ms"

lemma turns_snoc: "turns (ms @ [m]) = turns ms @ turns [m]"
  by (induction ms rule: turns.induct) simp_all

lemma count_turns: "count_list (turns ms) i = count_list ms (Advance i)"
  by (induction ms rule: turns.induct) auto

lemma count_append [simp]: "count_list (xs @ ys) x = count_list xs x + count_list ys x"
  by (induction xs) auto

lemma turns_known:
  "sys_run E tok s ms t \<Longrightarrow> (\<forall>c. Arrive c \<notin> set ms) \<Longrightarrow>
     length (sy_calls t) = length (sy_calls s) \<and> set (turns ms) \<subseteq> {..<length (sy_calls s)}"
proof (induction rule: sys_run.induct)
  case (snoc ms t m u)
  from snoc.hyps(2) show ?case using snoc.IH snoc.prems by cases (auto simp: turns_snoc)
qed simp

text \<open>However the calls in flight take their turns.\<close>

lemma drain_bound:
  assumes V: "struct_validator (validate E)" and s: "start open E getenv = Inr a" "stored_sound open"
    and run: "sys_run E tok (launch a) ms s" and drain: "sys_run E tok s ns t" and closed: "\<forall>c. Arrive c \<notin> set ns"
  shows "length (turns ns) \<le> 3 * length (sy_calls s)"
    and "(\<forall>i < length (sy_calls t). \<exists>x. snd (sy_calls t ! i) = Answered x) \<or> (\<exists>i u. sys_step E tok t (Advance i) u)"
proof -
  let ?n = "length (sy_calls s)"
  have known: "length (sy_calls t) = ?n" "set (turns ns) \<subseteq> {..<?n}" using turns_known [OF drain closed] by auto
  have ok: "logs.sys_ok (ms @ ns) t" by (rule logs.sys_run_ok [OF V start_ok(2) [OF s] sys_run_append [OF drain run]])
  have each: "count_list (turns ns) i \<le> 3" if "i < ?n" for i
    using logs.sys_ok_advances [OF ok] that known(1) by (fastforce simp: count_turns)
  have "length (turns ns) = (\<Sum>i<?n. count_list (turns ns) i)" using sum_count_set [OF known(2)] by simp
  also have "\<dots> \<le> (\<Sum>i<?n. 3)" by (rule sum_mono) (use each in simp)
  finally show "length (turns ns) \<le> 3 * ?n" by simp
  show "(\<forall>i < length (sy_calls t). \<exists>x. snd (sy_calls t ! i) = Answered x) \<or> (\<exists>i u. sys_step E tok t (Advance i) u)"
    using logs.sys_ok_advances [OF ok] by blast
qed

text \<open>The answers \<open>Shutdown\<close> waits for.\<close>

definition http_answered :: "(nat \<Rightarrow> bool) \<Rightarrow> system \<Rightarrow> bool" where
  "http_answered tracked s \<longleftrightarrow> (\<forall>i < length (sy_calls s). tracked i \<longrightarrow> (\<exists>x. snd (sy_calls s ! i) = Answered x))"

text \<open>Where the clock stands, and what an exit takes.\<close>

lemma drain_clock:
  "life_run E tok tracked (Draining 0 s) evs l \<Longrightarrow> (case l of
      Serving t \<Rightarrow> False
    | Draining k t \<Rightarrow> count_list evs Second = k \<and> k \<le> 5
    | Exited c t \<Rightarrow> c = 0 \<and> http_answered tracked t \<or> c = 1 \<and> count_list evs Second = 5)"
proof (induction rule: life_run.induct)
  case (lived evs l' ev l'')
  from lived.hyps(2) show ?case using lived.IH by cases (auto simp: http_answered_def)
qed simp

lemma arrivals_of: "Arrive c \<in> set (moves_of evs) \<Longrightarrow> Moved (Arrive c) \<in> set evs"
  by (auto simp: moves_of_def split: life_event.splits)

text \<open>C10: Once a signal has come and no further calls arrive, the calls in flight take at most three sections
  each, in whatever order. While the server waits, at most five seconds have passed, and it can exit
  cleanly or one of the calls can go on. It exits with 0 only when all calls over HTTP are answered, and
  with 1 only after five seconds; calls that come over a websocket may be cut off by either.\<close>

theorem shutdown_drains:
  assumes "struct_validator (validate E)" and "start open E getenv = Inr a" and "stored_sound open"
    and "life_run E tok tracked (Serving (launch a)) evs (Draining 0 s)"
    and "life_run E tok tracked (Draining 0 s) evs' l" and "\<forall>c. Moved (Arrive c) \<notin> set evs'"
  shows "length (turns (moves_of evs')) \<le> 3 * length (sy_calls s) \<and> (case l of
      Serving t \<Rightarrow> False
    | Draining k t \<Rightarrow> count_list evs' Second = k \<and> k \<le> 5
        \<and> (life_step E tok tracked l Drained (Exited 0 t)
           \<or> (\<exists>i u. life_step E tok tracked l (Moved (Advance i)) (Draining k u)))
    | Exited c t \<Rightarrow> c = 0 \<and> http_answered tracked t \<or> c = 1 \<and> count_list evs' Second = 5)"
proof -
  have run: "sys_run E tok (launch a) (moves_of evs) s" using life_moves [OF assms(4)] by simp
  have drain: "sys_run E tok s (moves_of evs') (system_of l)" using life_run_moves [OF assms(5)] by simp
  have "\<forall>c. Arrive c \<notin> set (moves_of evs')" using arrivals_of assms(6) by blast
  note bound = drain_bound [OF assms(1-3) run drain this]
  show ?thesis
  proof (cases l)
    case (Draining k t)
    have "life_step E tok tracked (Draining k t) Drained (Exited 0 t)
        \<or> (\<exists>i u. life_step E tok tracked (Draining k t) (Moved (Advance i)) (Draining k u))"
      using bound(2) life_step.drained [of t tracked E tok k] life_step.draining [of E tok t] unfolding Draining lifetime.sel
      by blast
    then show ?thesis using bound(1) drain_clock [OF assms(5)] by (simp add: Draining)
  qed (use bound drain_clock [OF assms(5)] in auto)
qed

lemma two_in_flight:
  "life_run E tok tracked (Serving (launch a)) [Moved (Arrive c), Moved (Arrive d), Signal]
     (Draining 0 \<lparr>sy_app = a, sy_calls = [(c, process_of E tok c), (d, process_of E tok d)]\<rparr>)"
  using life_run.lived [OF serving_run [OF arrivals] life_step.signal] by fastforce

theorem shutdown_drains_witness:
  "\<exists>i u. life_step calm ''key'' (\<lambda>i. True) (Draining 1 \<lparr>sy_app = fresh_app, sy_calls =
     [(Remove 4, process_of calm ''key'' (Remove 4)), (Lookup 5, process_of calm ''key'' (Lookup 5))]\<rparr>) (Moved (Advance i)) (Draining 1 u)"
proof -
  let ?s = "\<lparr>sy_app = fresh_app, sy_calls =
     [(Remove 4, process_of calm ''key'' (Remove 4)), (Lookup 5, process_of calm ''key'' (Lookup 5))]\<rparr>"
  have "life_step calm ''key'' (\<lambda>i. True) (Draining 0 ?s) Second (Draining 1 ?s)"
    using life_step.second [of 0] by simp
  note shutdown_drains [OF calm_validator fresh_start no_files_sound two_in_flight life_run_step [OF this]]
  moreover have "\<not> life_step calm ''key'' (\<lambda>i. True) (Draining 1 ?s) Drained (Exited 0 ?s)"
    by (auto elim!: exitE simp: process_of_def single_def call_def)
  ultimately show ?thesis by simp
qed

section \<open>One life after the other\<close>

text \<open>What can be opened after a life: what could be before, or what it has left behind.\<close>

definition reopens :: "(string \<Rightarrow> string + database option) \<Rightarrow> database \<Rightarrow> (string \<Rightarrow> string + database option) \<Rightarrow> bool" where
  "reopens open db open' \<longleftrightarrow> (\<forall>path found. open' path = Inr (Some found) \<longrightarrow> open path = Inr (Some found) \<or> found = db)"

text \<open>
  Any number of lives, each with an environment and settings of its own and each ended in one of the
  ways above; in none of them has the pool replaced the connection.
\<close>

inductive lives :: "(string \<Rightarrow> string + database option) \<Rightarrow> (string \<Rightarrow> string + database option) \<Rightarrow> bool" for disk where
  first: "lives disk disk"
| again: "lives disk open \<Longrightarrow> struct_validator (validate E) \<Longrightarrow> start open E getenv = Inr a \<Longrightarrow>
     life_run E tok tracked (Serving (launch a)) evs (Exited c s) \<Longrightarrow> pragma_fk (ap_world (sy_app s)) \<Longrightarrow>
     reopens open (left_behind (Exited c s)) open' \<Longrightarrow> lives disk open'"

lemma life_sound:
  assumes V: "struct_validator (validate E)" and a: "start open E getenv = Inr a" "stored_sound open"
    and run: "life_run E tok tracked (Serving (launch a)) evs l" and fk: "pragma_fk (ap_world (sy_app (system_of l)))"
  shows "integrity (left_behind l) \<and> log_sound True (left_behind l)"
proof -
  note moves = life_moves [OF run]
  show ?thesis
    using consistent.sys_run_app_ok [OF V start_ok(1) [OF a] moves] logs.sys_run_app_ok [OF V start_ok(2) [OF a] moves] fk
    by (simp add: consistent.app_ok_def logs.app_ok_def enforced_def left_behind_def)
qed

lemma lives_sound: "lives disk open \<Longrightarrow> stored_sound disk \<Longrightarrow> stored_sound open"
proof (induction rule: lives.induct)
  case (again opn E getenv a tok tracked evs c s open')
  have "integrity (left_behind (Exited c s)) \<and> log_sound True (left_behind (Exited c s))"
    by (rule life_sound [OF again.hyps(2,3) again.IH again.hyps(4)]) (use again in simp_all)
  then show ?case using again unfolding stored_sound_def reopens_def by blast
qed

text \<open>C9: Through any number of restarts, after clean and forced exits with calls in flight, the service finds
  a consistent database with a sound log and keeps it so, at every moment between two sections, as long
  as the pool has in no life replaced the connection that had foreign keys switched on.\<close>

theorem restarts_stay_consistent:
  assumes "stored_sound disk" and "lives disk open" and "struct_validator (validate E)" and "start open E getenv = Inr a"
    and "life_run E tok tracked (Serving (launch a)) evs l" and "pragma_fk (ap_world (sy_app (system_of l)))"
  shows "integrity (left_behind l) \<and> log_sound True (left_behind l)"
  by (rule life_sound [OF assms(3,4) lives_sound [OF assms(2,1)] assms(5,6)])

text \<open>The database file of a life that was cut off, where it is opened again.\<close>

definition found_again :: "database \<Rightarrow> string \<Rightarrow> string + database option" where
  "found_again db path = Inr (Some db)"

lemma found_again_reopens: "reopens open db (found_again db)"
  by (simp add: reopens_def found_again_def)

lemma found_again_start: "start (found_again empty_database) calm (\<lambda>k. []) = Inr fresh_app"
  by (simp add: start_def init_db_def found_again_def fresh_app_def)

lemma time_up:
  assumes "life_run E tok tracked l evs (Draining 0 s)"
  shows "life_run E tok tracked l (evs @ replicate 5 Second @ [Deadline]) (Exited 1 s)"
proof -
  have "life_run E tok tracked l (evs @ replicate k Second) (Draining k s)" if "k \<le> 5" for k
    using that
  proof (induction k)
    case (Suc k)
    then show ?case
      using life_run.lived [OF _ life_step.second [of k E tok tracked s]] by (simp add: replicate_append_same flip: append_assoc replicate_append_same)
  qed (use assms in simp)
  from life_run.lived [OF this [of 5] life_step.deadline] show ?thesis by simp
qed

lemma cut_off_at_once: "lives no_files (found_again empty_database)"
proof -
  have "life_run calm ''key'' (\<lambda>i. True) (Serving (launch fresh_app)) ([Signal] @ replicate 5 Second @ [Deadline])
      (Exited 1 (launch fresh_app))"
    using time_up [OF life_run_step [OF life_step.signal]] by fastforce
  then show ?thesis
    by (rule lives.again [OF lives.first calm_validator fresh_start])
      (simp_all add: launch_def fresh_app_def left_behind_def found_again_reopens)
qed

theorem restarts_stay_consistent_witness:
  "integrity (left_behind (Draining 0 \<lparr>sy_app = fresh_app, sy_calls =
     [(Rest orphan_request, process_of calm ''key'' (Rest orphan_request)), (Lookup 5, process_of calm ''key'' (Lookup 5))]\<rparr>))"
  by (rule restarts_stay_consistent [OF no_files_sound cut_off_at_once calm_validator found_again_start two_in_flight, THEN conjunct1])
     (simp add: fresh_app_def)

section \<open>An entry nothing takes up\<close>

text \<open>The log has given out the rowid \<open>k\<close>, and its entry says PENDING_RETRY if it is still there.\<close>

definition still_pending :: "int \<Rightarrow> bool \<Rightarrow> database \<Rightarrow> bool" where
  "still_pending k fk db \<longleftrightarrow> ordered (sync_history db) \<and> k \<le> seq (sync_history db)
     \<and> (\<forall>r. tlookup k (sync_history db) = Some r \<longrightarrow> h_status r = ''PENDING_RETRY'')"

lemma seq_auto_put: "seq (auto_put k r t) = max (seq t) k"
  by (simp add: auto_put_def)

lemma still_pending_untouched:
  "(\<And>c db r db'. s c db = Inr (r, db') \<Longrightarrow> sync_history db' = sync_history db) \<Longrightarrow> stmt_keeps (still_pending k) s"
  by (auto simp: stmt_keeps_def still_pending_def)

lemma still_pending_insert: "stmt_keeps (still_pending k) (history_insert p)"
proof (rule stmt_keepsI)
  fix c db r db'
  assume db: "still_pending k (fk_on c) db" and s: "history_insert p c db = Inr (r, db')"
  then obtain j row where j: "new_rowid (sync_history db) = Some j" "sync_history db' = auto_put j row (sync_history db)"
    by (auto simp: history_insert_def split: option.split_asm)
  have "k < j" using new_rowid_fresh(2) [OF _ j(1)] db by (simp add: still_pending_def)
  then show "still_pending k (fk_on c) db'" using db by (auto simp: still_pending_def j(2) seq_auto_put auto.look_put)
qed

lemma still_pending_update:
  assumes "j = k \<Longrightarrow> \<forall>r. h_status (f r) = ''PENDING_RETRY''" and "still_pending k fk db"
    and "history_update j f db = Inr (x, db')"
  shows "still_pending k fk db'"
proof -
  have "seq (tput i r t) = seq t" for i r and t :: "history_row table" by (simp add: tput_def)
  then show ?thesis using assms
    by (auto simp: still_pending_def history_update_def plain.look_put split: option.split_asm if_split_asm)
qed

lemma still_pending_marks:
  "k < j \<Longrightarrow> stmt_keeps (still_pending k) (history_mark_failed reason j)"
  "k < j \<Longrightarrow> stmt_keeps (still_pending k) (history_mark_successful j)"
  "stmt_keeps (still_pending k) (history_mark_retry j)"
  unfolding history_mark_failed_def history_mark_successful_def history_mark_retry_def
  by (rule stmt_keepsI, rule still_pending_update; simp)+

lemma still_pending_delete: "stmt_keeps (still_pending k) (history_delete j)"
proof -
  have "seq (tdelete P t) = seq t" for P and t :: "history_row table" by (simp add: tdelete_def)
  then show ?thesis
    by (auto simp: stmt_keeps_def still_pending_def history_delete_def plain.look_del split: option.split_asm if_split_asm)
qed

interpretation pending: app_invariant "still_pending k" "\<lambda>j. k < j" for k
proof unfold_locales
  show "stmt_keeps (still_pending k) (health_insert em)" for em
    unfolding health_insert_def by (rule still_pending_untouched) (rule statements_leave_log)
  show "stmt_keeps (still_pending k) (employee_create i eid fn mn ln em co jt)" for i eid fn mn ln em co jt
    unfolding employee_create_def by (rule still_pending_untouched) (rule statements_leave_log)
  show "still_pending k fk db \<Longrightarrow> new_rowid (sync_history db) = Some j \<Longrightarrow> k < j" for fk db j
    using new_rowid_fresh(2) [of "sync_history db" j] by (simp add: still_pending_def)
qed (simp_all add: still_pending_insert still_pending_marks still_pending_delete still_pending_untouched [OF statements_leave_log(1)]
  still_pending_untouched [OF statements_leave_log(2)] still_pending_untouched [OF statements_leave_log(3)]
  still_pending_untouched [OF statements_leave_log(4)] still_pending_untouched [OF statements_leave_log(5)]
  still_pending_untouched [OF statements_leave_log(6)] still_pending_untouched [OF statements_leave_log(7)]
  still_pending_untouched [OF statements_leave_log(8)] still_pending_untouched [OF statements_leave_log(9)]
  still_pending_untouched [OF statements_leave_log(10)] still_pending_untouched [OF statements_leave_log(11)]
  still_pending_untouched [OF statements_leave_log(12)] still_pending_untouched [OF statements_leave_log(13)],
  simp add: still_pending_def)

text \<open>What a database becomes in any number of lives begun on it, each left at any moment.\<close>

inductive later_on :: "database \<Rightarrow> database \<Rightarrow> bool" for db where
  at_once: "later_on db db"
| in_life: "later_on db db1 \<Longrightarrow> struct_validator (validate E) \<Longrightarrow> start open E getenv = Inr a \<Longrightarrow> wdb (ap_world a) = db1 \<Longrightarrow>
     life_run E tok tracked (Serving (launch a)) evs l \<Longrightarrow> later_on db (left_behind l)"

lemma start_fresh: "start open E getenv = Inr a \<Longrightarrow> conn (ap_world a) = Idle \<and> ap_hub a = \<lparr>hub_broker = new_broker, live = []\<rparr>"
  by (auto simp: start_def init_db_def split: sum.split_asm option.split_asm)

lemma later_pending: "later_on db db' \<Longrightarrow> still_pending k True db \<Longrightarrow> still_pending k True db'"
proof (induction rule: later_on.induct)
  case (in_life db1 E opn getenv a tok tracked evs l)
  have "still_pending k fk (wdb (ap_world a))" for fk
    using in_life.IH [OF in_life.prems] in_life.hyps(4) by (simp add: still_pending_def)
  then have "pending.app_ok k a"
    using start_fresh [OF in_life.hyps(3)] by (simp add: pending.app_ok_def hub_ok_def new_broker_def)
  then have "pending.app_ok k (sy_app (system_of l))"
    by (rule pending.sys_run_app_ok [OF in_life.hyps(2) _ life_moves [OF in_life.hyps(5)]])
  then show ?case by (simp add: pending.app_ok_def left_behind_def still_pending_def)
qed simp

section \<open>A sync that is cut off\<close>

lemma sync_process_accepted:
  assumes "accepted E req = Some payload"
  shows "sync_process E req = call (create_pending_history E (payload_text (items_of payload))) (\<lambda>h. case h of
      Inl err \<Rightarrow> Answered (answer_message 500 (error_text err))
    | Inr hist \<Rightarrow> tx_process E (sr_model payload) (items_of payload) hist)"
  using assms by (auto simp: accepted_def sync_process_def items_of_def Let_def split: option.split_asm if_split_asm)

lemma pending_section:
  assumes "no_faults E" and "conn w = Idle" and "new_rowid (sync_history (wdb w)) = Some k"
  shows "create_pending_history E (payload_text (items_of p)) w = Some (Inr k, snd (logged E p w))"
    and "sync_history (wdb (snd (logged E p w))) = auto_put k \<lparr>h_payload = payload_text (items_of p), h_status = ''PENDING_RETRY'',
      h_failure_reason = None, h_retries = 0, h_created_at = clock E (calls w), h_updated_at = clock E (calls w)\<rparr> (sync_history (wdb w))"
  using assms by (simp_all add: create_pending_history_def db_exec_def logged_def run_stmt_calm history_insert_def ctx_of_def
      last_insert_id_def no_faults_simps)

lemma committed_section:
  assumes w: "conn w = Idle" and x: "ends E model data hist w (Committed results) resp w'"
  shows "\<exists>w3 secs. tx_section E model data w = Some (Stored_All results secs, w3)
    \<and> sync_history (wdb w3) = sync_history (wdb w) \<and> same_targets (wdb w') (wdb w3)"
proof -
  obtain w1 w2 w3 where path: "begin_tx E w = Some (Inr (), w1)"
    "process_items E model data [] w1 = Some (Inr results, w2)" "tx_commit E w2 = (Inr (), w3)"
    and w': "wdb w' = mark_run E (history_mark_successful hist) w3" using x by (auto simp: ends_def)
  note w1 = tx_after_begin [OF w path(1)]
  have "wdb w3 = wdb w2" using commit_run(4) [OF _ path(3)] items_frame [OF path(2)] w1 by simp
  then have "sync_history (wdb w3) = sync_history (wdb w)" using items_history [OF path(2)] w1 by simp
  moreover have "same_targets (wdb w') (wdb w3)" using w' mark_run_targets(2) by (metis same_targets_def)
  ultimately show ?thesis using path by (simp add: tx_section_def Let_def)
qed

text \<open>The moment after the transaction, and a signal with the five seconds over.\<close>

definition cut_after_commit :: "request \<Rightarrow> life_event list" where
  "cut_after_commit q = [Moved (Arrive (Rest q)), Moved (Advance 0), Moved (Advance 0), Signal] @ replicate 5 Second @ [Deadline]"

lemma cut_run:
  assumes "sys_run E tok (launch a) [Arrive (Rest q), Advance 0, Advance 0] s"
  shows "life_run E tok tracked (Serving (launch a)) (cut_after_commit q) (Exited 1 s)"
  using time_up [OF life_run.lived [OF serving_run [OF assms] life_step.signal]]
  by (simp add: cut_after_commit_def)

lemma pending_refused:
  assumes "still_pending k True (wdb v)" and "conn v = Idle" and "fault E (calls v) = None" and "parse_int idp = Some k"
  shows "retry_history_handler E idp v = Some (if tlookup k (sync_history (wdb v)) = None then history_missing
    else answer_error (new_bad_request_error ''Only failed syncs can be retried''), tick v)"
  using assms upper_known [of "''PENDING_RETRY''"]
  by (auto simp: still_pending_def retry_history_handler_def query_row_def history_by_id_def known_statuses_def
      missing_or_error_def history_missing_def)

lemma sync_cut:
  assumes E: "no_faults E" and w: "conn (ap_world a) = Idle" and acc: "accepted E (rq_json q) = Some payload"
    and k: "new_rowid (sync_history (wdb (ap_world a))) = Some k" and q: "sync_call q"
    and pass: "auth_passes tok (rq_method q) (rq_path q) (rq_token q) (rq_text q)"
    and tx: "tx_section E (sr_model payload) (items_of payload) (snd (logged E payload (ap_world a))) = Some (out, v)"
  shows "\<exists>p. sys_run E tok (launch a) [Arrive (Rest q), Advance 0, Advance 0]
    \<lparr>sy_app = a\<lparr>ap_world := v\<rparr>, sy_calls = [(Rest q, p)]\<rparr>"
proof -
  let ?g = "\<lambda>p. map_process (Replied \<circ> Answer) p" and ?s = "\<lambda>w p. \<lparr>sy_app = a\<lparr>ap_world := w\<rparr>, sy_calls = [(Rest q, p)]\<rparr>"
  let ?w0 = "snd (logged E payload (ap_world a))"
  let ?k = "\<lambda>h. case h of Inl err \<Rightarrow> Answered (answer_message 500 (error_text err))
    | Inr hist \<Rightarrow> tx_process E (sr_model payload) (items_of payload) hist"
  have p: "process_of E tok (Rest q) = ?g (sync_process E (rq_json q))"
    using q pass by (simp add: process_of_def serve_process_def handle_process_def sync_call_def process.map_comp)
  have "sys_step E tok (launch a) (Arrive (Rest q)) (?s (ap_world a) (?g (sync_process E (rq_json q))))"
    using sys_step.arrive [of E tok "launch a" "Rest q"] p by (simp add: launch_def)
  moreover have "sys_step E tok (?s (ap_world a) (?g (sync_process E (rq_json q)))) (Advance 0)
      (?s ?w0 (?g (tx_process E (sr_model payload) (items_of payload) k)))"
    unfolding sync_process_accepted [OF acc]
    using advance_call [of 0 "?s (ap_world a) (?g (call (create_pending_history E (payload_text (items_of payload))) ?k))"
        "Rest q" "Replied \<circ> Answer" "create_pending_history E (payload_text (items_of payload))" ?k "Inr k" ?w0 E tok]
      pending_section(1) [OF E w k, of payload]
    by simp
  moreover obtain p' where "sys_step E tok (?s ?w0 (?g (tx_process E (sr_model payload) (items_of payload) k))) (Advance 0) (?s v p')"
    using advance_call [where s = "?s ?w0 (?g (tx_process E (sr_model payload) (items_of payload) k))" and i = 0] tx
    unfolding tx_process_def by fastforce
  ultimately show ?thesis by (blast intro: sys_run_front sys_run_one)
qed

text \<open>C11: A sync whose calls succeed and whose server is made to exit between its commit and its last statement has stored all its
  items, as the sync answered 200 would have, but its log entry says PENDING_RETRY. Nothing takes up such
  entries: at every moment of every later life, whatever is called in it and however it ends, the entry
  still says PENDING_RETRY unless it has been deleted, and a retry of it is answered with 400, or 404 once it is
  deleted.\<close>

theorem interrupted_sync_stays_pending:
  assumes "no_faults E" and "conn (ap_world a) = Idle" and "ordered (sync_history (wdb (ap_world a)))"
    and "new_rowid (sync_history (wdb (ap_world a))) = Some k" and "sync_call q"
    and "auth_passes tok (rq_method q) (rq_path q) (rq_token q) (rq_text q)"
    and "sync_handler E (rq_json q) (ap_world a) = Some (resp, w')" and "code resp = 200"
  shows "\<exists>s row. life_run E tok tracked (Serving (launch a)) (cut_after_commit q) (Exited 1 s)
    \<and> same_targets (wdb w') (left_behind (Exited 1 s))
    \<and> tlookup k (sync_history (left_behind (Exited 1 s))) = Some row \<and> h_status row = ''PENDING_RETRY''
    \<and> (\<forall>db. later_on (left_behind (Exited 1 s)) db \<longrightarrow>
        (\<forall>r. tlookup k (sync_history db) = Some r \<longrightarrow> h_status r = ''PENDING_RETRY'')
        \<and> (\<forall>E' idp (v :: sync_world). wdb v = db \<and> conn v = Idle \<and> fault E' (calls v) = None \<and> parse_int idp = Some k \<longrightarrow>
            retry_history_handler E' idp v = Some (if tlookup k (sync_history db) = None then history_missing
              else answer_error (new_bad_request_error ''Only failed syncs can be retried''), tick v)))"
  using assms(2,7)
proof (cases rule: handler_cases)
  case (ended payload hist x)
  let ?w0 = "snd (logged E payload (ap_world a))"
  obtain results where "x = Committed results" using ends_code(2) [OF ended(2)] assms(8) by blast
  with committed_section [of ?w0] ended(2) assms(2) obtain v secs where
    v: "tx_section E (sr_model payload) (items_of payload) ?w0 = Some (Stored_All results secs, v)"
    "sync_history (wdb v) = sync_history (wdb ?w0)" "same_targets (wdb w') (wdb v)" by fastforce
  obtain p where run: "sys_run E tok (launch a) [Arrive (Rest q), Advance 0, Advance 0]
      \<lparr>sy_app = a\<lparr>ap_world := v\<rparr>, sy_calls = [(Rest q, p)]\<rparr>" (is "sys_run _ _ _ _ ?s")
    using sync_cut [OF assms(1,2) ended(1) assms(4-6) v(1)] by blast
  have db: "left_behind (Exited 1 ?s) = wdb v" by (simp add: left_behind_def)
  obtain row where row: "tlookup k (sync_history (wdb v)) = Some row" "h_status row = ''PENDING_RETRY''"
    using pending_section(2) [OF assms(1,2,4), of payload] v(2) auto.look_put [OF assms(3)] by simp
  have "still_pending k True (wdb v)"
    using pending_section(2) [OF assms(1,2,4), of payload] v(2) row assms(3) by (simp add: still_pending_def ordered_auto_put seq_auto_put)
  then have later: "still_pending k True db" if "later_on (wdb v) db" for db using later_pending that by blast
  have never: "\<forall>r. tlookup k (sync_history db) = Some r \<longrightarrow> h_status r = ''PENDING_RETRY''" if "later_on (wdb v) db" for db
    using later [OF that] by (simp add: still_pending_def)
  have refused: "retry_history_handler E' idp u = Some (if tlookup k (sync_history db) = None then history_missing
      else answer_error (new_bad_request_error ''Only failed syncs can be retried''), tick u)"
    if "later_on (wdb v) db" "wdb u = db \<and> conn u = Idle \<and> fault E' (calls u) = None \<and> parse_int idp = Some k"
    for db E' idp and u :: sync_world
    using pending_refused [of k u E' idp] later [OF that(1)] that(2) by simp
  show ?thesis
    by (rule exI [of _ ?s], rule exI [of _ row], unfold db, intro conjI allI impI; (rule cut_run [OF run] v(3) row never [rule_format] refused)?; assumption?)
qed (use assms(8) in simp_all)

definition customers_request :: request where
  "customers_request = (sample_request ''POST'' ''/api/v1/sync'' ''key'')\<lparr>rq_json := two_customers\<rparr>"

lemma customers_synced: "code_of (sync_handler calm (rq_json customers_request) (ap_world fresh_app)) = Some 200"
  by code_simp

theorem interrupted_sync_stays_pending_witness:
  "\<exists>s row (v :: sync_world). life_run calm ''key'' (\<lambda>i. True) (Serving (launch fresh_app)) (cut_after_commit customers_request) (Exited 1 s)
    \<and> tlookup 1 (sync_history (left_behind (Exited 1 s))) = Some row \<and> h_status row = ''PENDING_RETRY''
    \<and> wdb v = left_behind (Exited 1 s) \<and> retry_history_handler calm ''1'' v =
        Some (answer_error (new_bad_request_error ''Only failed syncs can be retried''), tick v)"
proof -
  have k: "new_rowid (sync_history (wdb (ap_world fresh_app))) = Some 1" by code_simp
  have q: "sync_call customers_request" by code_simp
  have pass: "auth_passes ''key'' (rq_method customers_request) (rq_path customers_request) (rq_token customers_request)
      (rq_text customers_request)" by code_simp
  have w: "conn (ap_world fresh_app) = Idle" "ordered (sync_history (wdb (ap_world fresh_app)))"
    by (simp_all add: fresh_app_def empty_database_def)
  have one: "parse_int ''1'' = Some 1" by code_simp
  obtain resp w' where run: "sync_handler calm (rq_json customers_request) (ap_world fresh_app) = Some (resp, w')" "code resp = 200"
    using code_ofD [OF customers_synced] by blast
  from interrupted_sync_stays_pending [OF calm_no_faults w k q pass run] obtain s row where
    s: "life_run calm ''key'' (\<lambda>i. True) (Serving (launch fresh_app)) (cut_after_commit customers_request) (Exited 1 s)"
      "tlookup 1 (sync_history (left_behind (Exited 1 s))) = Some row" "h_status row = ''PENDING_RETRY''"
    and later: "\<And>E' idp (v :: sync_world). wdb v = left_behind (Exited 1 s) \<and> conn v = Idle \<and> fault E' (calls v) = None
      \<and> parse_int idp = Some 1 \<Longrightarrow> retry_history_handler E' idp v = Some
        (if tlookup 1 (sync_history (left_behind (Exited 1 s))) = None then history_missing
         else answer_error (new_bad_request_error ''Only failed syncs can be retried''), tick v)"
    using later_on.at_once by blast
  have refused: "retry_history_handler calm ''1'' v =
      Some (answer_error (new_bad_request_error ''Only failed syncs can be retried''), tick v)"
    if "wdb v = left_behind (Exited 1 s)" "conn v = Idle" for v :: sync_world
    using later [of v calm "''1''"] that one s(2) no_faults_simps(1) [OF calm_no_faults] by simp
  let ?v = "(ap_world fresh_app)\<lparr>wdb := left_behind (Exited 1 s)\<rparr>"
  have v: "wdb ?v = left_behind (Exited 1 s)" "conn ?v = Idle" using w(1) by simp_all
  from s v(1) refused [OF v] show ?thesis by blast
qed

end
