(* ===== verification/Api_Document.thy ===== *)
theory Api_Document
  imports Json_Values
begin

text \<open>
  \<open>docs/docs.go\<close>: the Swagger 2.0 document the service publishes, as a JSON value with one definition for
  each path and each schema, in the order of the template, and the \<open>swag.Spec\<close> it is registered with (its template aside).
\<close>

section \<open>Paths and schemas\<close>

definition doc_healthz :: json where
  "doc_healthz = JObj [
    (''get'', JObj [
      (''description'', JStr ''Verifies basic server operation and database read/write capabilities''),
      (''produces'', JArr [JStr ''application/json'']),
      (''tags'', JArr [JStr ''system'']),
      (''summary'', JStr ''System health check''),
      (''responses'', JObj [
        (''200'', JObj [
          (''description'', JStr ''OK''),
          (''schema'', JObj [
            (''$ref'', JStr ''#/definitions/handlers.HealthResponse'')])]),
        (''503'', JObj [
          (''description'', JStr ''Service Unavailable''),
          (''schema'', JObj [
            (''$ref'', JStr ''#/definitions/handlers.HealthResponse'')])])])])]"

definition doc_sync :: json where
  "doc_sync = JObj [
    (''post'', JObj [
      (''security'', JArr [
        JObj [
          (''ApiKeyAuth'', JArr [])]]),
      (''description'', JStr (''Syncs data payload items (customers, products, orders, employees) transactionally. If one fails, the target database modifications roll back, but the execution log is committed to sync_history with '' @ [CHR 0x27] @ ''FAILED'' @ [CHR 0x27] @ '' status.'')),
      (''consumes'', JArr [JStr ''application/json'']),
      (''produces'', JArr [JStr ''application/json'']),
      (''tags'', JArr [JStr ''sync'']),
      (''summary'', JStr ''Synchronize data payload''),
      (''parameters'', JArr [
        JObj [
          (''description'', JStr ''Data Payload to synchronize''),
          (''name'', JStr ''payload''),
          (''in'', JStr ''body''),
          (''required'', JBool True),
          (''schema'', JObj [
            (''$ref'', JStr ''#/definitions/dto.SyncRequest'')])]]),
      (''responses'', JObj [
        (''200'', JObj [
          (''description'', JStr ''OK''),
          (''schema'', JObj [
            (''$ref'', JStr ''#/definitions/handlers.SyncResponse'')])]),
        (''400'', JObj [
          (''description'', JStr ''Validation failed or invalid JSON''),
          (''schema'', JObj [
            (''$ref'', JStr ''#/definitions/errors.AppError'')])]),
        (''401'', JObj [
          (''description'', JStr ''Access Denied''),
          (''schema'', JObj [
            (''$ref'', JStr ''#/definitions/errors.AppError'')])]),
        (''409'', JObj [
          (''description'', JStr ''Data Integrity Violation (Conflict)''),
          (''schema'', JObj [
            (''$ref'', JStr ''#/definitions/errors.AppError'')])]),
        (''500'', JObj [
          (''description'', JStr ''Internal server error''),
          (''schema'', JObj [
            (''$ref'', JStr ''#/definitions/errors.AppError'')])])])])]"

definition doc_list :: json where
  "doc_list = JObj [
    (''get'', JObj [
      (''security'', JArr [
        JObj [
          (''ApiKeyAuth'', JArr [])]]),
      (''description'', JStr ''Retrieves a paginated list of sync history logs, optionally filtered by status.''),
      (''produces'', JArr [JStr ''application/json'']),
      (''tags'', JArr [JStr ''history'']),
      (''summary'', JStr ''List sync history''),
      (''parameters'', JArr [
        JObj [
          (''type'', JStr ''integer''),
          (''default'', JNum ''1''),
          (''description'', JStr ''Page number (1-based)''),
          (''name'', JStr ''page''),
          (''in'', JStr ''query'')],
        JObj [
          (''type'', JStr ''integer''),
          (''default'', JNum ''15''),
          (''description'', JStr ''Page size''),
          (''name'', JStr ''size''),
          (''in'', JStr ''query'')],
        JObj [
          (''type'', JStr ''string''),
          (''description'', JStr ''Filter by status (SUCCESSFUL, FAILED, PENDING_RETRY, INVALID)''),
          (''name'', JStr ''status''),
          (''in'', JStr ''query'')]]),
      (''responses'', JObj [
        (''200'', JObj [
          (''description'', JStr ''OK''),
          (''schema'', JObj [
            (''$ref'', JStr ''#/definitions/handlers.ListHistoryResponse'')])]),
        (''401'', JObj [
          (''description'', JStr ''Access Denied''),
          (''schema'', JObj [
            (''$ref'', JStr ''#/definitions/errors.AppError'')])]),
        (''500'', JObj [
          (''description'', JStr ''Internal server error''),
          (''schema'', JObj [
            (''$ref'', JStr ''#/definitions/errors.AppError'')])])])])]"

definition doc_retry :: json where
  "doc_retry = JObj [
    (''post'', JObj [
      (''security'', JArr [
        JObj [
          (''ApiKeyAuth'', JArr [])]]),
      (''description'', JStr ''Triggers a retry operation on a failed sync history by resetting its status to PENDING_RETRY.''),
      (''produces'', JArr [JStr ''application/json'']),
      (''tags'', JArr [JStr ''history'']),
      (''summary'', JStr ''Retry failed sync history''),
      (''parameters'', JArr [
        JObj [
          (''type'', JStr ''integer''),
          (''description'', JStr ''Sync History ID''),
          (''name'', JStr ''id''),
          (''in'', JStr ''path''),
          (''required'', JBool True)]]),
      (''responses'', JObj [
        (''200'', JObj [
          (''description'', JStr ''OK''),
          (''schema'', JObj [
            (''$ref'', JStr ''#/definitions/handlers.RetryHistoryResponse'')])]),
        (''400'', JObj [
          (''description'', JStr ''Invalid sync history ID or only failed syncs can be retried''),
          (''schema'', JObj [
            (''$ref'', JStr ''#/definitions/errors.AppError'')])]),
        (''401'', JObj [
          (''description'', JStr ''Access Denied''),
          (''schema'', JObj [
            (''$ref'', JStr ''#/definitions/errors.AppError'')])]),
        (''404'', JObj [
          (''description'', JStr ''Sync history not found''),
          (''schema'', JObj [
            (''$ref'', JStr ''#/definitions/errors.AppError'')])]),
        (''500'', JObj [
          (''description'', JStr ''Internal server error''),
          (''schema'', JObj [
            (''$ref'', JStr ''#/definitions/errors.AppError'')])])])])]"

definition doc_entry :: json where
  "doc_entry = JObj [
    (''get'', JObj [
      (''security'', JArr [
        JObj [
          (''ApiKeyAuth'', JArr [])]]),
      (''description'', JStr ''Fetches a single sync history record by its database ID.''),
      (''produces'', JArr [JStr ''application/json'']),
      (''tags'', JArr [JStr ''history'']),
      (''summary'', JStr ''Get sync history details''),
      (''parameters'', JArr [
        JObj [
          (''type'', JStr ''integer''),
          (''description'', JStr ''Sync History ID''),
          (''name'', JStr ''id''),
          (''in'', JStr ''path''),
          (''required'', JBool True)]]),
      (''responses'', JObj [
        (''200'', JObj [
          (''description'', JStr ''OK''),
          (''schema'', JObj [
            (''$ref'', JStr ''#/definitions/handlers.GetHistoryResponse'')])]),
        (''400'', JObj [
          (''description'', JStr ''Invalid sync history ID''),
          (''schema'', JObj [
            (''$ref'', JStr ''#/definitions/errors.AppError'')])]),
        (''401'', JObj [
          (''description'', JStr ''Access Denied''),
          (''schema'', JObj [
            (''$ref'', JStr ''#/definitions/errors.AppError'')])]),
        (''404'', JObj [
          (''description'', JStr ''Sync history not found''),
          (''schema'', JObj [
            (''$ref'', JStr ''#/definitions/errors.AppError'')])]),
        (''500'', JObj [
          (''description'', JStr ''Internal server error''),
          (''schema'', JObj [
            (''$ref'', JStr ''#/definitions/errors.AppError'')])])])]),
    (''delete'', JObj [
      (''security'', JArr [
        JObj [
          (''ApiKeyAuth'', JArr [])]]),
      (''description'', JStr ''Deletes a sync history log entry from the database by its ID.''),
      (''produces'', JArr [JStr ''application/json'']),
      (''tags'', JArr [JStr ''history'']),
      (''summary'', JStr ''Delete sync history''),
      (''parameters'', JArr [
        JObj [
          (''type'', JStr ''integer''),
          (''description'', JStr ''Sync History ID''),
          (''name'', JStr ''id''),
          (''in'', JStr ''path''),
          (''required'', JBool True)]]),
      (''responses'', JObj [
        (''204'', JObj [
          (''description'', JStr ''No Content'')]),
        (''400'', JObj [
          (''description'', JStr ''Invalid sync history ID''),
          (''schema'', JObj [
            (''$ref'', JStr ''#/definitions/errors.AppError'')])]),
        (''401'', JObj [
          (''description'', JStr ''Access Denied''),
          (''schema'', JObj [
            (''$ref'', JStr ''#/definitions/errors.AppError'')])]),
        (''404'', JObj [
          (''description'', JStr ''Sync history not found''),
          (''schema'', JObj [
            (''$ref'', JStr ''#/definitions/errors.AppError'')])]),
        (''500'', JObj [
          (''description'', JStr ''Internal server error''),
          (''schema'', JObj [
            (''$ref'', JStr ''#/definitions/errors.AppError'')])])])])]"

definition doc_stats :: json where
  "doc_stats = JObj [
    (''get'', JObj [
      (''security'', JArr [
        JObj [
          (''ApiKeyAuth'', JArr [])]]),
      (''description'', JStr ''Emits aggregated counts of sync histories grouped by status type (SUCCESSFUL, FAILED, PENDING_RETRY, INVALID)''),
      (''produces'', JArr [JStr ''application/json'']),
      (''tags'', JArr [JStr ''history'']),
      (''summary'', JStr ''Get sync statistics''),
      (''responses'', JObj [
        (''200'', JObj [
          (''description'', JStr ''OK''),
          (''schema'', JObj [
            (''$ref'', JStr ''#/definitions/handlers.StatsResponse'')])]),
        (''401'', JObj [
          (''description'', JStr ''Access Denied''),
          (''schema'', JObj [
            (''$ref'', JStr ''#/definitions/errors.AppError'')])]),
        (''500'', JObj [
          (''description'', JStr ''Internal server error''),
          (''schema'', JObj [
            (''$ref'', JStr ''#/definitions/errors.AppError'')])])])])]"

definition schema_sync_request :: json where
  "schema_sync_request = JObj [
    (''type'', JStr ''object''),
    (''required'', JArr [JStr ''data'', JStr ''model'']),
    (''properties'', JObj [
      (''data'', JObj [
        (''type'', JStr ''array''),
        (''minItems'', JNum ''1''),
        (''items'', JObj [
          (''type'', JStr ''object'')])]),
      (''model'', JObj [
        (''type'', JStr ''string''),
        (''enum'', JArr [JStr ''customers'', JStr ''products'', JStr ''orders'', JStr ''employees''])])])]"

definition schema_app_error :: json where
  "schema_app_error = JObj [
    (''type'', JStr ''object''),
    (''properties'', JObj [
      (''errors'', JObj [
        (''type'', JStr ''object''),
        (''additionalProperties'', JObj [
          (''type'', JStr ''string'')])]),
      (''message'', JObj [
        (''type'', JStr ''string'')]),
      (''status'', JObj [
        (''type'', JStr ''integer'')])])]"

definition schema_get_history_response :: json where
  "schema_get_history_response = JObj [
    (''type'', JStr ''object''),
    (''properties'', JObj [
      (''data'', JObj [
        (''$ref'', JStr ''#/definitions/handlers.SyncHistoryRow'')]),
      (''message'', JObj [
        (''type'', JStr ''string''),
        (''example'', JStr ''Sync history retrieved successfully'')]),
      (''status'', JObj [
        (''type'', JStr ''integer''),
        (''example'', JNum ''200'')])])]"

definition schema_health_check_data :: json where
  "schema_health_check_data = JObj [
    (''type'', JStr ''object''),
    (''properties'', JObj [
      (''read'', JObj [
        (''type'', JStr ''boolean''),
        (''example'', JBool True)]),
      (''timestamp'', JObj [
        (''type'', JStr ''string''),
        (''example'', JStr ''2026-06-03T07:46:58Z'')]),
      (''write'', JObj [
        (''type'', JStr ''boolean''),
        (''example'', JBool True)])])]"

definition schema_health_response :: json where
  "schema_health_response = JObj [
    (''type'', JStr ''object''),
    (''properties'', JObj [
      (''data'', JObj [
        (''$ref'', JStr ''#/definitions/handlers.HealthCheckData'')]),
      (''message'', JObj [
        (''type'', JStr ''string''),
        (''example'', JStr ''Service is healthy'')]),
      (''status'', JObj [
        (''type'', JStr ''integer''),
        (''example'', JNum ''200'')])])]"

definition schema_list_history_data :: json where
  "schema_list_history_data = JObj [
    (''type'', JStr ''object''),
    (''properties'', JObj [
      (''content'', JObj [
        (''type'', JStr ''array''),
        (''items'', JObj [
          (''$ref'', JStr ''#/definitions/handlers.SyncHistoryRow'')])]),
      (''empty'', JObj [
        (''type'', JStr ''boolean''),
        (''example'', JBool False)]),
      (''first'', JObj [
        (''type'', JStr ''boolean''),
        (''example'', JBool True)]),
      (''last'', JObj [
        (''type'', JStr ''boolean''),
        (''example'', JBool False)]),
      (''number'', JObj [
        (''type'', JStr ''integer''),
        (''example'', JNum ''0'')]),
      (''numberOfElements'', JObj [
        (''type'', JStr ''integer''),
        (''example'', JNum ''15'')]),
      (''pageable'', JObj [
        (''$ref'', JStr ''#/definitions/handlers.PageableInfo'')]),
      (''size'', JObj [
        (''type'', JStr ''integer''),
        (''example'', JNum ''15'')]),
      (''totalElements'', JObj [
        (''type'', JStr ''integer''),
        (''example'', JNum ''25'')]),
      (''totalPages'', JObj [
        (''type'', JStr ''integer''),
        (''example'', JNum ''2'')])])]"

definition schema_list_history_response :: json where
  "schema_list_history_response = JObj [
    (''type'', JStr ''object''),
    (''properties'', JObj [
      (''data'', JObj [
        (''$ref'', JStr ''#/definitions/handlers.ListHistoryData'')]),
      (''message'', JObj [
        (''type'', JStr ''string''),
        (''example'', JStr ''Sync histories retrieved successfully'')]),
      (''status'', JObj [
        (''type'', JStr ''integer''),
        (''example'', JNum ''200'')])])]"

definition schema_pageable_info :: json where
  "schema_pageable_info = JObj [
    (''type'', JStr ''object''),
    (''properties'', JObj [
      (''offset'', JObj [
        (''type'', JStr ''integer''),
        (''example'', JNum ''0'')]),
      (''pageNumber'', JObj [
        (''type'', JStr ''integer''),
        (''example'', JNum ''0'')]),
      (''pageSize'', JObj [
        (''type'', JStr ''integer''),
        (''example'', JNum ''15'')]),
      (''paged'', JObj [
        (''type'', JStr ''boolean''),
        (''example'', JBool True)]),
      (''sort'', JObj [
        (''$ref'', JStr ''#/definitions/handlers.SortInfo'')]),
      (''unpaged'', JObj [
        (''type'', JStr ''boolean''),
        (''example'', JBool False)])])]"

definition schema_retry_history_response :: json where
  "schema_retry_history_response = JObj [
    (''type'', JStr ''object''),
    (''properties'', JObj [
      (''data'', JObj [
        (''$ref'', JStr ''#/definitions/handlers.SyncHistoryRow'')]),
      (''message'', JObj [
        (''type'', JStr ''string''),
        (''example'', JStr ''Sync history will be retried'')]),
      (''status'', JObj [
        (''type'', JStr ''integer''),
        (''example'', JNum ''200'')])])]"

definition schema_sort_info :: json where
  "schema_sort_info = JObj [
    (''type'', JStr ''object''),
    (''properties'', JObj [
      (''empty'', JObj [
        (''type'', JStr ''boolean''),
        (''example'', JBool False)]),
      (''sorted'', JObj [
        (''type'', JStr ''boolean''),
        (''example'', JBool True)]),
      (''unsorted'', JObj [
        (''type'', JStr ''boolean''),
        (''example'', JBool False)])])]"

definition schema_stats_data :: json where
  "schema_stats_data = JObj [
    (''type'', JStr ''object''),
    (''properties'', JObj [
      (''failed'', JObj [
        (''type'', JStr ''integer''),
        (''example'', JNum ''2'')]),
      (''invalid'', JObj [
        (''type'', JStr ''integer''),
        (''example'', JNum ''0'')]),
      (''pending_retry'', JObj [
        (''type'', JStr ''integer''),
        (''example'', JNum ''1'')]),
      (''successful'', JObj [
        (''type'', JStr ''integer''),
        (''example'', JNum ''10'')]),
      (''total'', JObj [
        (''type'', JStr ''integer''),
        (''example'', JNum ''13'')])])]"

definition schema_stats_response :: json where
  "schema_stats_response = JObj [
    (''type'', JStr ''object''),
    (''properties'', JObj [
      (''data'', JObj [
        (''$ref'', JStr ''#/definitions/handlers.StatsData'')]),
      (''message'', JObj [
        (''type'', JStr ''string''),
        (''example'', JStr ''Stats retrieved successfully'')]),
      (''status'', JObj [
        (''type'', JStr ''integer''),
        (''example'', JNum ''200'')])])]"

definition schema_sync_history_row :: json where
  "schema_sync_history_row = JObj [
    (''type'', JStr ''object''),
    (''properties'', JObj [
      (''createdAt'', JObj [
        (''type'', JStr ''string''),
        (''example'', JStr ''2026-06-03T07:46:58.000Z'')]),
      (''failureReason'', JObj [
        (''type'', JStr ''string''),
        (''example'', JStr (''Duplicate entry: field '' @ [CHR 0x27] @ ''EMAIL'' @ [CHR 0x27] @ '' already exists''))]),
      (''id'', JObj [
        (''type'', JStr ''integer''),
        (''example'', JNum ''1'')]),
      (''payload'', JObj [
        (''type'', JStr ''string''),
        (''example'', JStr (''[{'' @ [CHR 0x5C] @ [CHR 0x22] @ ''email'' @ [CHR 0x5C] @ [CHR 0x22] @ '':'' @ [CHR 0x5C] @ [CHR 0x22] @ ''john.doe@example.com'' @ [CHR 0x5C] @ [CHR 0x22] @ ''}]''))]),
      (''retries'', JObj [
        (''type'', JStr ''integer''),
        (''example'', JNum ''0'')]),
      (''status'', JObj [
        (''type'', JStr ''string''),
        (''example'', JStr ''FAILED'')]),
      (''updatedAt'', JObj [
        (''type'', JStr ''string''),
        (''example'', JStr ''2026-06-03T07:46:58.000Z'')])])]"

definition schema_sync_response :: json where
  "schema_sync_response = JObj [
    (''type'', JStr ''object''),
    (''properties'', JObj [
      (''data'', JObj [
        (''$ref'', JStr ''#/definitions/handlers.SyncResponseData'')]),
      (''message'', JObj [
        (''type'', JStr ''string''),
        (''example'', JStr ''Sync completed successfully'')]),
      (''status'', JObj [
        (''type'', JStr ''integer''),
        (''example'', JNum ''200'')])])]"

definition schema_sync_response_data :: json where
  "schema_sync_response_data = JObj [
    (''type'', JStr ''object''),
    (''properties'', JObj [
      (''results'', JObj [
        (''type'', JStr ''array''),
        (''items'', JObj [
          (''$ref'', JStr ''#/definitions/handlers.SyncResult'')])])])]"

definition schema_sync_result :: json where
  "schema_sync_result = JObj [
    (''type'', JStr ''object''),
    (''properties'', JObj [
      (''id'', JObj [
        (''type'', JStr ''integer''),
        (''example'', JNum ''101'')]),
      (''status'', JObj [
        (''type'', JStr ''string''),
        (''example'', JStr ''created'')])])]"

definition doc_security :: json where
  "doc_security = JObj [
    (''ApiKeyAuth'', JObj [
      (''type'', JStr ''apiKey''),
      (''name'', JStr ''x-auth-token''),
      (''in'', JStr ''header'')])]"

definition doc_paths :: json where
  "doc_paths = JObj [
     (''/api/v1/healthz'', doc_healthz),
     (''/api/v1/sync'', doc_sync),
     (''/api/v1/sync-history'', doc_list),
     (''/api/v1/sync-history/retry/{id}'', doc_retry),
     (''/api/v1/sync-history/{id}'', doc_entry),
     (''/api/v1/sync/stats'', doc_stats)]"

definition doc_definitions :: json where
  "doc_definitions = JObj [
     (''dto.SyncRequest'', schema_sync_request),
     (''errors.AppError'', schema_app_error),
     (''handlers.GetHistoryResponse'', schema_get_history_response),
     (''handlers.HealthCheckData'', schema_health_check_data),
     (''handlers.HealthResponse'', schema_health_response),
     (''handlers.ListHistoryData'', schema_list_history_data),
     (''handlers.ListHistoryResponse'', schema_list_history_response),
     (''handlers.PageableInfo'', schema_pageable_info),
     (''handlers.RetryHistoryResponse'', schema_retry_history_response),
     (''handlers.SortInfo'', schema_sort_info),
     (''handlers.StatsData'', schema_stats_data),
     (''handlers.StatsResponse'', schema_stats_response),
     (''handlers.SyncHistoryRow'', schema_sync_history_row),
     (''handlers.SyncResponse'', schema_sync_response),
     (''handlers.SyncResponseData'', schema_sync_response_data),
     (''handlers.SyncResult'', schema_sync_result)]"

section \<open>The document\<close>

record swagger_spec =
  sp_version :: string
  sp_host :: string
  sp_base_path :: string
  sp_schemes :: "string list"
  sp_title :: string
  sp_description :: string
  sp_instance :: string
  sp_left_delim :: string
  sp_right_delim :: string

definition swagger_info :: swagger_spec where
  "swagger_info = \<lparr>sp_version = ''1.0'', sp_host = ''localhost:3000'', sp_base_path = ''/'', sp_schemes = [],
     sp_title = ''Sync Bridge Go API'',
     sp_description = ''Transactional data synchronization API for SQLite target databases.'',
     sp_instance = ''swagger'', sp_left_delim = ''{{'', sp_right_delim = ''}}''\<rparr>"

text \<open>The template with its holes filled: \<open>marshal\<close> and \<open>escape\<close> are functions of the package \<open>swag\<close>.\<close>

definition doc_template :: "(string list \<Rightarrow> json) \<Rightarrow> (string \<Rightarrow> string) \<Rightarrow> swagger_spec \<Rightarrow> json" where
  "doc_template marshal escape s = JObj [
     (''schemes'', marshal (sp_schemes s)),
     (''swagger'', JStr ''2.0''),
     (''info'', JObj [
       (''description'', JStr (escape (sp_description s))),
       (''title'', JStr (sp_title s)),
       (''contact'', JObj []),
       (''version'', JStr (sp_version s))]),
     (''host'', JStr (sp_host s)),
     (''basePath'', JStr (sp_base_path s)),
     (''paths'', doc_paths),
     (''definitions'', doc_definitions),
     (''securityDefinitions'', doc_security)]"

end
