(* ===== verification/Api_Schema.thy ===== *)
theory Api_Schema
  imports Api_Document
begin

text \<open>
  What the document of \<open>docs/docs.go\<close> promises, read out of it: its operations with their responses,
  and which JSON values a schema describes (Swagger 2.0, for the keywords the document uses).
\<close>

section \<open>Members\<close>

definition member :: "string \<Rightarrow> json \<Rightarrow> json option" where
  "member k v = (case v of JObj ms \<Rightarrow> map_of ms k | _ \<Rightarrow> None)"

definition members :: "json \<Rightarrow> (string \<times> json) list" where
  "members v = (case v of JObj ms \<Rightarrow> ms | _ \<Rightarrow> [])"

definition elements :: "json \<Rightarrow> json list" where
  "elements v = (case v of JArr xs \<Rightarrow> xs | _ \<Rightarrow> [])"

definition literal :: "json \<Rightarrow> string" where
  "literal v = (case v of JStr s \<Rightarrow> s | JNum n \<Rightarrow> n | _ \<Rightarrow> [])"

section \<open>Schemas\<close>

datatype schema =
    Any_Object
  | Text
  | Choice "string list"
  | Whole
  | Truth
  | Items nat schema
  | Map_Of schema
  | Fields "string list" "(string \<times> schema) list"

definition definition_name :: "string \<Rightarrow> string" where
  "definition_name ref = drop (length ''#/definitions/'') ref"

text \<open>
  Reading a schema: a reference stands for the definition it names, so that the depth of nested references
  needs fuel. What has no type or an unknown one is no schema.
\<close>

fun read_schema :: "nat \<Rightarrow> json \<Rightarrow> schema option"
  and read_fields :: "nat \<Rightarrow> (string \<times> json) list \<Rightarrow> (string \<times> schema) list option" where
  "read_schema 0 v = None"
| "read_schema (Suc n) v =
     (case member ''$ref'' v of
        Some r \<Rightarrow> Option.bind (member (definition_name (literal r)) doc_definitions) (read_schema n)
      | None \<Rightarrow>
         (case map_option literal (member ''type'' v) of
            None \<Rightarrow> None
          | Some ty \<Rightarrow>
              if ty = ''string'' then Some (case member ''enum'' v of None \<Rightarrow> Text | Some xs \<Rightarrow> Choice (map literal (elements xs)))
              else if ty = ''integer'' then Some Whole
              else if ty = ''boolean'' then Some Truth
              else if ty = ''array'' then
                (case Option.bind (member ''items'' v) (read_schema n) of
                   None \<Rightarrow> None
                 | Some s \<Rightarrow> Some (Items (case map_option literal (member ''minItems'' v) of None \<Rightarrow> 0 | Some k \<Rightarrow> nat (the (parse_int k))) s))
              else if ty = ''object'' then
                (case (member ''properties'' v, member ''additionalProperties'' v) of
                   (Some ps, _) \<Rightarrow> map_option (Fields (case member ''required'' v of None \<Rightarrow> [] | Some xs \<Rightarrow> map literal (elements xs)))
                      (read_fields n (members ps))
                 | (None, Some s) \<Rightarrow> map_option Map_Of (read_schema n s)
                 | (None, None) \<Rightarrow> Some Any_Object)
              else None))"
| "read_fields n [] = Some []"
| "read_fields 0 (p # ps) = None"
| "read_fields (Suc n) ((k, v) # ps) =
     (case (read_schema n v, read_fields (Suc n) ps) of (Some s, Some fs) \<Rightarrow> Some ((k, s) # fs) | _ \<Rightarrow> None)"

definition is_whole :: "string \<Rightarrow> bool" where
  "is_whole s \<longleftrightarrow> (let t = (case s of c # r \<Rightarrow> if c = CHR ''-'' then r else s | [] \<Rightarrow> []) in t \<noteq> [] \<and> list_all is_digit t)"

text \<open>
  Every required member of an object has to be there. Every member has to be a property of its schema,
  although Swagger allows others where it does not forbid them: for an answer that is the stronger
  claim, and a request with further members could name a property in another case, which Go's decoder
  would take for it.
\<close>

fun conforms :: "schema \<Rightarrow> json \<Rightarrow> bool" where
  "conforms Any_Object v = (case v of JObj ms \<Rightarrow> True | _ \<Rightarrow> False)"
| "conforms Text v = (case v of JStr s \<Rightarrow> True | _ \<Rightarrow> False)"
| "conforms (Choice xs) v = (case v of JStr s \<Rightarrow> s \<in> set xs | _ \<Rightarrow> False)"
| "conforms Whole v = (case v of JNum n \<Rightarrow> is_whole n | _ \<Rightarrow> False)"
| "conforms Truth v = (case v of JBool b \<Rightarrow> True | _ \<Rightarrow> False)"
| "conforms (Items n s) v = (case v of JArr xs \<Rightarrow> n \<le> length xs \<and> list_all (conforms s) xs | _ \<Rightarrow> False)"
| "conforms (Map_Of s) v = (case v of JObj ms \<Rightarrow> list_all (\<lambda>m. conforms s (snd m)) ms | _ \<Rightarrow> False)"
| "conforms (Fields req fs) v = (case v of
      JObj ms \<Rightarrow> list_all (\<lambda>k. k \<in> fst ` set ms) req
        \<and> list_all (\<lambda>m. list_ex (\<lambda>f. fst f = fst m \<and> conforms (snd f) (snd m)) fs) ms
    | _ \<Rightarrow> False)"


section \<open>Operations\<close>

record api_operation =
  op_path :: string
  op_method :: string
  op_secured :: bool
  op_responses :: "(string \<times> schema option) list"

text \<open>Fuel for the nesting of the schemas: twenty steps are enough for all of them.\<close>

definition read_response :: "json \<Rightarrow> schema option" where
  "read_response r = Option.bind (member ''schema'' r) (read_schema 20)"

definition read_operation :: "string \<Rightarrow> string \<times> json \<Rightarrow> api_operation" where
  "read_operation path x = (case x of (m, op) \<Rightarrow>
     \<lparr>op_path = path, op_method = map upper_char m, op_secured = (member ''security'' op \<noteq> None),
      op_responses = (case member ''responses'' op of None \<Rightarrow> [] | Some rs \<Rightarrow> map (\<lambda>(c, r). (c, read_response r)) (members rs))\<rparr>)"

definition operations :: "api_operation list" where
  "operations = concat (map (\<lambda>(path, item). map (read_operation path) (members item)) (members doc_paths))"

text \<open>A path with a parameter ends in it; the parameter stands for one segment.\<close>

definition path_matches :: "string \<Rightarrow> string \<Rightarrow> bool" where
  "path_matches t path =
     (if CHR ''{'' \<notin> set t then path = t
      else (let pre = takeWhile (\<lambda>c. c \<noteq> CHR ''{'') t; seg = drop (length pre) path in
        has_prefix path pre \<and> seg \<noteq> [] \<and> CHR ''/'' \<notin> set seg))"

definition describes :: "api_operation \<Rightarrow> string \<Rightarrow> string \<Rightarrow> bool" where
  "describes d method path \<longleftrightarrow> op_method d = method \<and> path_matches (op_path d) path"

definition response_schema :: "api_operation \<Rightarrow> int \<Rightarrow> schema option option" where
  "response_schema d c = map_of (op_responses d) (show_int c)"


section \<open>The operations, read\<close>

definition error_schema :: schema where
  "error_schema = Fields [] [(''errors'', Map_Of Text), (''message'', Text), (''status'', Whole)]"

definition envelope_schema :: "schema \<Rightarrow> schema" where
  "envelope_schema d = Fields [] [(''data'', d), (''message'', Text), (''status'', Whole)]"

definition health_schema :: schema where
  "health_schema = Fields [] [(''read'', Truth), (''timestamp'', Text), (''write'', Truth)]"

definition results_schema :: schema where
  "results_schema = Fields [] [(''results'', Items 0 (Fields [] [(''id'', Whole), (''status'', Text)]))]"

definition row_schema :: schema where
  "row_schema = Fields [] [(''createdAt'', Text), (''failureReason'', Text), (''id'', Whole), (''payload'', Text),
     (''retries'', Whole), (''status'', Text), (''updatedAt'', Text)]"

definition list_schema :: schema where
  "list_schema = Fields [] [(''content'', Items 0 row_schema), (''empty'', Truth), (''first'', Truth), (''last'', Truth),
     (''number'', Whole), (''numberOfElements'', Whole),
     (''pageable'', Fields [] [(''offset'', Whole), (''pageNumber'', Whole), (''pageSize'', Whole), (''paged'', Truth),
        (''sort'', Fields [] [(''empty'', Truth), (''sorted'', Truth), (''unsorted'', Truth)]), (''unpaged'', Truth)]),
     (''size'', Whole), (''totalElements'', Whole), (''totalPages'', Whole)]"

definition stats_schema :: schema where
  "stats_schema = Fields [] [(''failed'', Whole), (''invalid'', Whole), (''pending_retry'', Whole), (''successful'', Whole),
     (''total'', Whole)]"

definition with_errors :: "string list \<Rightarrow> (string \<times> schema option) list" where
  "with_errors cs = map (\<lambda>c. (c, Some error_schema)) cs"

lemma operations_read: "operations =
  [\<lparr>op_path = ''/api/v1/healthz'', op_method = ''GET'', op_secured = False, op_responses =
      [(''200'', Some (envelope_schema health_schema)), (''503'', Some (envelope_schema health_schema))]\<rparr>,
   \<lparr>op_path = ''/api/v1/sync'', op_method = ''POST'', op_secured = True, op_responses =
      (''200'', Some (envelope_schema results_schema)) # with_errors [''400'', ''401'', ''409'', ''500'']\<rparr>,
   \<lparr>op_path = ''/api/v1/sync-history'', op_method = ''GET'', op_secured = True, op_responses =
      (''200'', Some (envelope_schema list_schema)) # with_errors [''401'', ''500'']\<rparr>,
   \<lparr>op_path = ''/api/v1/sync-history/retry/{id}'', op_method = ''POST'', op_secured = True, op_responses =
      (''200'', Some (envelope_schema row_schema)) # with_errors [''400'', ''401'', ''404'', ''500'']\<rparr>,
   \<lparr>op_path = ''/api/v1/sync-history/{id}'', op_method = ''GET'', op_secured = True, op_responses =
      (''200'', Some (envelope_schema row_schema)) # with_errors [''400'', ''401'', ''404'', ''500'']\<rparr>,
   \<lparr>op_path = ''/api/v1/sync-history/{id}'', op_method = ''DELETE'', op_secured = True, op_responses =
      (''204'', None) # with_errors [''400'', ''401'', ''404'', ''500'']\<rparr>,
   \<lparr>op_path = ''/api/v1/sync/stats'', op_method = ''GET'', op_secured = True, op_responses =
      (''200'', Some (envelope_schema stats_schema)) # with_errors [''401'', ''500'']\<rparr>]"
  by code_simp


end
