(* ===== verification/Api_Bodies.thy ===== *)
theory Api_Bodies
  imports Http_Types Json_Values "HOL-Library.List_Lexorder" "HOL-Library.Char_ord"
begin

text \<open>
  The JSON a client receives: how \<open>c.JSON\<close> writes the values the handlers of \<open>internal/handlers\<close> pass to it.
  A Go string is written with the escapes of \<open>encoding/json\<close>; a \<open>gin.H\<close> is a map, written in the order of
  its keys; a struct is written in the order of its fields, under the names in its \<open>json\<close> tags.
\<close>

section \<open>Strings and numbers\<close>

definition hex_digit :: "nat \<Rightarrow> char" where
  "hex_digit n = (if n < 10 then char_of (48 + n) else char_of (87 + n))"

definition escape_char :: "char \<Rightarrow> string" where
  "escape_char c =
     (if c = CHR 0x22 \<or> c = CHR 0x5C then [CHR 0x5C, c]
      else if c = CHR 0x08 then [CHR 0x5C, CHR ''b''] else if c = CHR 0x0C then [CHR 0x5C, CHR ''f'']
      else if c = CHR 0x0A then [CHR 0x5C, CHR ''n''] else if c = CHR 0x0D then [CHR 0x5C, CHR ''r'']
      else if c = CHR 0x09 then [CHR 0x5C, CHR ''t'']
      else if byte c < 32 then CHR 0x5C # ''u00'' @ [hex_digit (byte c div 16), hex_digit (byte c mod 16)]
      else [c])"

function escape_text :: "string \<Rightarrow> string" where
  "escape_text [] = []"
| "escape_text (c # s) =
     (if byte c < 128 then escape_char c @ escape_text s
      else if rune_size (c # s) = 0 then CHR 0x5C # ''ufffd'' @ escape_text s
      else take (rune_size (c # s)) (c # s) @ escape_text (drop (rune_size (c # s)) (c # s)))"
  by pat_completeness auto
termination
  by (relation "measure length") auto

definition string_json :: "string \<Rightarrow> json" where
  "string_json s = JStr (html_escape (escape_text s))"

definition int_json :: "int \<Rightarrow> json" where
  "int_json n = JNum (show_int n)"

section \<open>The types of the answers\<close>

text \<open>\<open>Errors\<close> is left out when it is empty; a map is written by its keys.\<close>

definition errors_json :: "(string \<times> string) list \<Rightarrow> json" where
  "errors_json es = JObj (map (\<lambda>(f, m). (f, string_json m)) (sort_key fst es))"

definition app_error_json :: "app_error \<Rightarrow> json" where
  "app_error_json a = JObj ([(''status'', int_json (ae_status a)), (''message'', string_json (ae_message a))]
     @ (if ae_errors a = [] then [] else [(''errors'', errors_json (ae_errors a))]))"

definition sync_result_json :: "sync_result \<Rightarrow> json" where
  "sync_result_json r = JObj [(''id'', int_json (res_id r)), (''status'', string_json (res_status r))]"

definition stats_json :: "stats_data \<Rightarrow> json" where
  "stats_json d = JObj [(''failed'', int_json (st_failed d)), (''invalid'', int_json (st_invalid d)),
     (''pending_retry'', int_json (st_pending_retry d)), (''successful'', int_json (st_successful d)),
     (''total'', int_json (st_total d))]"

definition history_row_json :: "sync_history_row \<Rightarrow> json" where
  "history_row_json r = JObj [(''id'', int_json (hv_id r)), (''payload'', string_json (hv_payload r)),
     (''status'', string_json (hv_status r)),
     (''failureReason'', (case hv_failure_reason r of None \<Rightarrow> JNull | Some s \<Rightarrow> string_json s)),
     (''retries'', int_json (hv_retries r)), (''createdAt'', string_json (hv_created_at r)),
     (''updatedAt'', string_json (hv_updated_at r))]"

definition pageable_json :: "pageable_info \<Rightarrow> json" where
  "pageable_json p = JObj [(''offset'', int_json (pg_offset p)), (''pageNumber'', int_json (pg_page_number p)),
     (''pageSize'', int_json (pg_page_size p)), (''paged'', JBool (pg_paged p)),
     (''sort'', JObj [(''empty'', JBool (so_empty (pg_sort p))), (''sorted'', JBool (so_sorted (pg_sort p))),
        (''unsorted'', JBool (so_unsorted (pg_sort p)))]),
     (''unpaged'', JBool (pg_unpaged p))]"

definition list_json :: "list_history_data \<Rightarrow> json" where
  "list_json d = JObj [(''content'', JArr (map history_row_json (ld_content d))), (''empty'', JBool (ld_empty d)),
     (''first'', JBool (ld_first d)), (''last'', JBool (ld_last d)), (''number'', int_json (ld_number d)),
     (''numberOfElements'', int_json (ld_number_of_elements d)), (''pageable'', pageable_json (ld_pageable d)),
     (''size'', int_json (ld_size d)), (''totalElements'', int_json (ld_total_elements d)),
     (''totalPages'', int_json (ld_total_pages d))]"

definition health_json :: "health_check_data \<Rightarrow> json" where
  "health_json h = JObj [(''read'', JBool (hc_read h)), (''timestamp'', string_json (hc_timestamp h)),
     (''write'', JBool (hc_write h))]"

text \<open>The \<open>gin.H\<close> with data, message and status that the handlers pass.\<close>

definition envelope :: "json \<Rightarrow> string \<Rightarrow> int \<Rightarrow> json" where
  "envelope data msg st = JObj [(''data'', data), (''message'', string_json msg), (''status'', int_json st)]"

text \<open>A slice no result was appended to is nil and written as null.\<close>

definition body_json :: "response \<Rightarrow> json" where
  "body_json r = (case body r of
      Message msg \<Rightarrow> JObj [(''message'', string_json msg), (''status'', int_json (code r))]
    | Err a \<Rightarrow> app_error_json a
    | Sync_Results msg rs \<Rightarrow>
        envelope (JObj [(''results'', if rs = [] then JNull else JArr (map sync_result_json rs))]) msg (code r)
    | Stats msg d \<Rightarrow> envelope (stats_json d) msg (code r)
    | History_List msg d \<Rightarrow> envelope (list_json d) msg (code r)
    | History_Row msg h \<Rightarrow> envelope (history_row_json h) msg (code r)
    | Health msg h \<Rightarrow> envelope (health_json h) msg (code r))"

end
