(* ===== verification/Api_Contract.thy ===== *)
theory Api_Contract
  imports Api_Schema Api_Bodies Server
begin

text \<open>
  The document of \<open>docs/docs.go\<close> against the service: its operations are the routes of the REST interface,
  those it marks as secured are the ones the middleware guards, and each answer has a documented
  status and a body of the documented schema.
\<close>

section \<open>Operations and routes\<close>

definition api_route :: "route \<Rightarrow> bool" where
  "api_route r \<longleftrightarrow> sync_route r \<or> r = R_Health"

lemma path_param [simp]:
  "path_matches ''/api/v1/sync-history/{id}'' p \<longleftrightarrow> (\<exists>i. param ''/api/v1/sync-history/'' p = Some i)"
  "path_matches ''/api/v1/sync-history/retry/{id}'' p \<longleftrightarrow> (\<exists>i. param ''/api/v1/sync-history/retry/'' p = Some i)"
  "path_matches ''/api/v1/sync'' p \<longleftrightarrow> p = ''/api/v1/sync''"
  "path_matches ''/api/v1/sync/stats'' p \<longleftrightarrow> p = ''/api/v1/sync/stats''"
  "path_matches ''/api/v1/sync-history'' p \<longleftrightarrow> p = ''/api/v1/sync-history''"
  "path_matches ''/api/v1/healthz'' p \<longleftrightarrow> p = ''/api/v1/healthz''"
  by (simp_all add: path_matches_def param_def Let_def)

lemma entry_route: "param ''/api/v1/sync-history/'' p = Some i \<Longrightarrow> route_get p = Some (R_Get i)"
  using paramD [of "''/api/v1/sync-history/''" p i] by (auto simp: route_get_def has_prefix_def)

lemma retry_route: "param ''/api/v1/sync-history/retry/'' p = Some i \<Longrightarrow> route_of ''POST'' p = Some (R_Retry i)"
  using paramD [of "''/api/v1/sync-history/retry/''" p i] by (auto simp: route_of_def)

lemma described_cases:
  assumes "d \<in> set operations" and "describes d m p"
  obtains (health) "route_of m p = Some R_Health" "\<not> op_secured d"
      "op_responses d = [(''200'', Some (envelope_schema health_schema)), (''503'', Some (envelope_schema health_schema))]"
  | (sync) "route_of m p = Some R_Sync" "op_secured d"
      "op_responses d = (''200'', Some (envelope_schema results_schema)) # with_errors [''400'', ''401'', ''409'', ''500'']"
  | (listing) "route_of m p = Some R_List" "op_secured d"
      "op_responses d = (''200'', Some (envelope_schema list_schema)) # with_errors [''401'', ''500'']"
  | (retry) i where "route_of m p = Some (R_Retry i)" "op_secured d"
      "op_responses d = (''200'', Some (envelope_schema row_schema)) # with_errors [''400'', ''401'', ''404'', ''500'']"
  | (entry) i where "route_of m p = Some (R_Get i)" "op_secured d"
      "op_responses d = (''200'', Some (envelope_schema row_schema)) # with_errors [''400'', ''401'', ''404'', ''500'']"
  | (deletion) i where "route_of m p = Some (R_Delete i)" "op_secured d"
      "op_responses d = (''204'', None) # with_errors [''400'', ''401'', ''404'', ''500'']"
  | (stats) "route_of m p = Some R_Stats" "op_secured d"
      "op_responses d = (''200'', Some (envelope_schema stats_schema)) # with_errors [''401'', ''500'']"
proof -
  have fixed: "route_of ''GET'' ''/api/v1/healthz'' = Some R_Health" "route_of ''POST'' ''/api/v1/sync'' = Some R_Sync"
    "route_of ''GET'' ''/api/v1/sync-history'' = Some R_List" "route_of ''GET'' ''/api/v1/sync/stats'' = Some R_Stats"
    by code_simp+
  have get: "route_of ''GET'' p = route_get p" and del: "route_of ''DELETE'' p = map_option R_Delete (param ''/api/v1/sync-history/'' p)"
    by (simp_all add: route_of_def)
  from assms show ?thesis
    unfolding operations_read describes_def
    using health sync listing retry entry deletion stats fixed entry_route retry_route get del
    by auto
qed

lemma route_described:
  assumes "route_of m p = Some r" and "api_route r"
  shows "\<exists>d \<in> set operations. describes d m p"
proof -
  have m: "m = ''GET'' \<or> m = ''POST'' \<or> m = ''DELETE''" using assms(1) by (auto simp: route_of_def split: if_split_asm)
  have swagger: "\<not> api_route (R_Swagger s)" "\<not> api_route (R_Redirect s)" "\<not> api_route R_Metrics" "\<not> api_route R_Graphql"
    "\<not> api_route R_Playground" for s by (simp_all add: api_route_def sync_route_def)
  show ?thesis
    unfolding operations_read describes_def using assms m swagger
    by (auto simp: route_of_def route_get_def split: if_split_asm)
qed

text \<open>C14: The document describes exactly the REST interface: a request is routed to a handler of the API when,
  and only when, one of the documented operations has its method and path.\<close>

theorem documented_operations_are_routes:
  "(\<exists>r. route_of m p = Some r \<and> api_route r) \<longleftrightarrow> (\<exists>d \<in> set operations. describes d m p)"
proof
  assume "\<exists>d \<in> set operations. describes d m p"
  then obtain d where "d \<in> set operations" "describes d m p" by blast
  then show "\<exists>r. route_of m p = Some r \<and> api_route r"
    by (cases rule: described_cases) (simp_all add: api_route_def sync_route_def)
qed (use route_described in blast)

section \<open>Security\<close>

lemma described_sync_route:
  "d \<in> set operations \<Longrightarrow> describes d m p \<Longrightarrow> op_secured d \<Longrightarrow> \<exists>r. route_of m p = Some r \<and> sync_route r"
  by (erule (1) described_cases) (simp_all add: sync_route_def)

lemma open_operation:
  assumes "d \<in> set operations" and "describes d m p" and "\<not> op_secured d"
  shows "p = ''/api/v1/healthz''"
proof -
  from assms have "route_of m p = Some R_Health" by (cases rule: described_cases) simp_all
  then show ?thesis by (auto simp: route_of_def route_get_def split: if_split_asm)
qed

text \<open>The operations the document secures with the API key are those the middleware lets no request
  without the token to; the others it leaves open. The exception are paths that end in \<open>/graphql\<close>.\<close>

theorem documented_security_is_enforced:
  assumes "d \<in> set operations" and "describes d m p" and "token_fails tok hdr" and "\<not> has_suffix p ''/graphql''"
  shows "auth_passes tok m p hdr bodyStr \<longleftrightarrow> \<not> op_secured d"
proof (cases "op_secured d")
  case True
  then obtain r where "route_of m p = Some r" "sync_route r" using described_sync_route assms(1,2) by blast
  note paths = sync_route_paths [OF this]
  have "p \<noteq> ''/graphql''" using assms(4) by (auto simp: graphql_paths)
  then show ?thesis using True assms(3,4) paths by (simp add: auth_passes_def)
next
  case False
  with open_operation [OF assms(1,2)] show ?thesis by (simp add: auth_passes_def)
qed

lemma delete_described:
  "\<exists>d \<in> set operations. describes d ''DELETE'' ''/api/v1/sync-history/7'' \<and> op_secured d"
proof -
  have "param ''/api/v1/sync-history/'' ''/api/v1/sync-history/7'' = Some ''7''" by code_simp
  then show ?thesis unfolding operations_read describes_def by simp
qed

theorem documented_security_is_enforced_witness:
  "\<not> auth_passes ''key'' ''DELETE'' ''/api/v1/sync-history/7'' ''guess'' []"
proof -
  obtain d where d: "d \<in> set operations" "describes d ''DELETE'' ''/api/v1/sync-history/7''" "op_secured d"
    using delete_described by blast
  have "token_fails ''key'' ''guess''" by (simp add: token_fails_def)
  moreover have "\<not> has_suffix ''/api/v1/sync-history/7'' ''/graphql''" by code_simp
  ultimately show ?thesis using documented_security_is_enforced [OF d(1,2)] d(3) by blast
qed

section \<open>Answers and their schemas\<close>

lemma whole_show_int [simp]: "is_whole (show_int n)"
proof -
  have d: "list_all is_digit (show_nat k)" for k using show_nat_digits by (auto simp: list_all_iff)
  obtain c t where ct: "show_nat (nat n) = c # t" by (cases "show_nat (nat n)") auto
  then have "c \<noteq> CHR ''-''" using show_nat_digits [of c "nat n"] by (auto simp: is_digit_def)
  then show ?thesis using d [of "nat (- n)"] d [of "nat n"] ct by (auto simp: is_whole_def show_int_def)
qed

lemma json_cases [simp]:
  "case string_json s of JStr t \<Rightarrow> True | _ \<Rightarrow> False" "case int_json n of JNum t \<Rightarrow> is_whole t | _ \<Rightarrow> False"
  by (simp_all add: string_json_def int_json_def)

text \<open>A history row conforms when it has a failure reason: the schema knows no null.\<close>

definition reasons_given :: "body \<Rightarrow> bool" where
  "reasons_given b \<longleftrightarrow> (case b of
      History_Row msg r \<Rightarrow> hv_failure_reason r \<noteq> None
    | History_List msg d \<Rightarrow> list_all (\<lambda>r. hv_failure_reason r \<noteq> None) (ld_content d)
    | _ \<Rightarrow> True)"

lemma error_conforms: "conforms error_schema (app_error_json a)"
  by (auto simp: error_schema_def app_error_json_def errors_json_def list_all_iff)

lemma message_conforms: "conforms error_schema (JObj [(''message'', string_json m), (''status'', int_json c)])"
  by (simp add: error_schema_def)

lemma envelope_conforms: "conforms (envelope_schema s) (envelope d m c) \<longleftrightarrow> conforms s d"
  by (simp add: envelope_schema_def envelope_def)

lemma row_conforms: "conforms row_schema (history_row_json r) \<longleftrightarrow> hv_failure_reason r \<noteq> None"
  by (auto simp: row_schema_def history_row_json_def split: option.split)

lemma data_conforms:
  "conforms health_schema (health_json h)" "conforms stats_schema (stats_json st)"
  "conforms list_schema (list_json d) \<longleftrightarrow> list_all (\<lambda>r. hv_failure_reason r \<noteq> None) (ld_content d)"
  "rs \<noteq> [] \<Longrightarrow> conforms results_schema (JObj [(''results'', if rs = [] then JNull else JArr (map sync_result_json rs))])"
  by (simp_all add: health_schema_def health_json_def stats_schema_def stats_json_def list_schema_def list_json_def
      pageable_json_def list_all_iff row_conforms results_schema_def sync_result_json_def)


section \<open>What the handlers answer\<close>

text \<open>The errors of the driver other than violated constraints do not speak of UNIQUE constraints.\<close>

definition faults_plain :: "env \<Rightarrow> bool" where
  "faults_plain E \<longleftrightarrow> (\<forall>n s. fault E n = Some s \<or> result_err E n = Some s \<longrightarrow> \<not> contains s ''UNIQUE constraint failed'')"

definition plain_error :: "go_error \<Rightarrow> bool" where
  "plain_error e \<longleftrightarrow> \<not> contains (error_text e) ''UNIQUE constraint failed''"

lemma plain_db_error: "plain_error e \<Longrightarrow> code (db_error E e) = 500 \<and> (\<exists>a. body (db_error E e) = Err a)"
  by (simp add: plain_error_def db_error_def handle_db_error_status)

lemma plain_null: "plain_error (null_text_error 5 ''created_at'')" "plain_error (null_text_error 6 ''updated_at'')"
  unfolding plain_error_def by code_simp+

lemma plain_missing: "plain_error No_Rows"
  unfolding plain_error_def by code_simp

lemma plain_scan: "history_scan E x = Inl e \<Longrightarrow> plain_error e"
  using plain_null by (auto simp: history_scan_def split: prod.splits option.splits)

lemma plain_scan_rows: "scan_rows (history_scan E) xs acc = Inl e \<Longrightarrow> plain_error e"
  by (induction xs arbitrary: acc) (auto split: sum.splits dest: plain_scan)

lemma plain_row:
  assumes "faults_plain E" and "query_row E q f w = Some (Inl e, w')" and "\<And>x e. f x = Inl e \<Longrightarrow> plain_error e"
  shows "plain_error e"
  using assms plain_missing by (auto simp: query_row_def faults_plain_def plain_error_def split: if_split_asm option.splits)

lemma plain_query: "faults_plain E \<Longrightarrow> db_query E q w = Some (Inl e, w') \<Longrightarrow> plain_error e"
  by (auto simp: db_query_def faults_plain_def plain_error_def split: if_split_asm option.splits)

lemma plain_exec:
  assumes "faults_plain E" and "db_exec E s w = Some (Inl e, w')" and "\<And>c db x. s c db \<noteq> Inl x"
  shows "plain_error e"
  using assms by (auto simp: db_exec_def run_stmt_def faults_plain_def plain_error_def split: if_split_asm option.splits sum.splits prod.splits)

lemma plain_affected: "faults_plain E \<Longrightarrow> rows_affected E w r = Inl e \<Longrightarrow> plain_error e"
  by (auto simp: rows_affected_def faults_plain_def plain_error_def split: option.splits)

lemma history_never_fails: "history_mark_retry k c db \<noteq> Inl x" "history_delete k c db \<noteq> Inl x"
  by (auto simp: history_mark_retry_def history_update_def history_delete_def split: option.splits)

definition errs :: "response \<Rightarrow> int set \<Rightarrow> bool" where
  "errs r cs \<longleftrightarrow> code r \<in> cs \<and> ((\<exists>a. body r = Err a) \<or> (\<exists>m. body r = Message m))"

lemma plain_errs: "plain_error e \<Longrightarrow> 500 \<in> cs \<Longrightarrow> errs (db_error E e) cs"
  using plain_db_error [of e E] by (auto simp: errs_def)

lemma scanned_row: "faults_plain E \<Longrightarrow> query_row E q (history_scan E) w = Some (Inl e, w') \<Longrightarrow> plain_error e"
  by (rule plain_row) (auto dest: plain_scan)

lemma missing_errs: "plain_error e \<Longrightarrow> {404, 500} \<subseteq> cs \<Longrightarrow> errs (missing_or_error E e) cs"
  using plain_errs [of e cs E] by (auto simp: missing_or_error_def history_missing_def errs_def new_not_found_error_def)

lemma message_errs [simp]: "errs (answer_message c m) cs \<longleftrightarrow> c \<in> cs" "errs (answer_error a) cs \<longleftrightarrow> ae_status a \<in> cs"
  by (simp_all add: errs_def)

lemma stats_answer:
  assumes F: "faults_plain E" and run: "stats_handler E w = Some (r, w')"
  shows "errs r {500} \<or> code r = 200 \<and> (\<exists>m d. body r = Stats m d)"
  using run by (auto simp: stats_handler_def split: Option.bind_split_asm prod.split_asm sum.split_asm intro: plain_errs plain_query [OF F])

lemma list_answer:
  assumes F: "faults_plain E" and run: "list_history_handler E p s st w = Some (r, w')"
  shows "errs r {500} \<or> code r = 200 \<and> (\<exists>m d. body r = History_List m d)"
proof -
  have row: "plain_error e" if "query_row E (\<lambda>db. Some (g db)) Inr v = Some (Inl e, v')" for g :: "database \<Rightarrow> int" and v v' e
    by (rule plain_row [OF F that]) simp
  show ?thesis
    using run by (auto simp: list_history_handler_def Let_def split: Option.bind_split_asm prod.split_asm sum.split_asm
        intro: plain_errs row plain_query [OF F] plain_scan_rows)
qed

lemma get_answer:
  assumes F: "faults_plain E" and run: "get_history_handler E i w = Some (r, w')"
  shows "errs r {400, 404, 500} \<or> code r = 200 \<and> (\<exists>m h. body r = History_Row m h)"
  using run by (auto simp: get_history_handler_def invalid_id_def split: Option.bind_split_asm prod.split_asm sum.split_asm option.split_asm
      intro: missing_errs scanned_row [OF F])

lemma retry_answer:
  assumes F: "faults_plain E" and run: "retry_history_handler E i w = Some (r, w')"
  shows "errs r {400, 404, 500} \<or> code r = 200 \<and> (\<exists>m h. body r = History_Row m h)"
proof -
  have status: "plain_error e"
    if "query_row E q (\<lambda>(j, r). Inr (h_status r)) v = Some (Inl e, v')" for q :: "database \<Rightarrow> (int \<times> history_row) option" and v v' e
    by (rule plain_row [OF F that]) (auto split: prod.split_asm)
  show ?thesis
    using run by (auto simp: retry_history_handler_def invalid_id_def new_bad_request_error_def
        split: Option.bind_split_asm prod.split_asm sum.split_asm option.split_asm if_split_asm
        intro: missing_errs status scanned_row [OF F] plain_errs plain_exec [OF F _ history_never_fails(1)])
qed

lemma delete_answer:
  assumes F: "faults_plain E" and run: "delete_history_handler E i w = Some (r, w')"
  shows "errs r {400, 404, 500} \<or> code r = 204"
  using run by (auto simp: delete_history_handler_def invalid_id_def history_missing_def new_not_found_error_def
      split: Option.bind_split_asm prod.split_asm sum.split_asm option.split_asm if_split_asm
      intro: plain_errs plain_exec [OF F _ history_never_fails(2)] plain_affected [OF F])

lemma health_answer:
  assumes run: "health_handler E w = Some (r, w')"
  shows "code r \<in> {200, 503} \<and> (\<exists>m h. body r = Health m h)"
  using run by (auto simp: health_handler_def Let_def health_report_def split: Option.bind_split_asm prod.split_asm sum.split_asm if_split_asm)


lemma sync_error_bodies:
  assumes "sync_handler E req w = Some (r, w')"
  shows "errs r {code r} \<or> code r = 200"
  using assms
  by (auto simp: sync_handler_def sync_transaction_def sync_failed_def sync_commit_def Let_def errs_def
      split: Option.bind_split_asm option.split_asm sum.split_asm prod.split_asm)

lemma accepted_has_items:
  assumes "struct_validator (validate E)" and "accepted E req = Some payload"
  shows "items_of payload \<noteq> []"
proof -
  have "validate E (sync_request_fields payload) = []"
    using assms(2) by (auto simp: accepted_def split: option.split_asm if_split_asm)
  from struct_validator.required_min_slice [OF assms(1) this, of "''Data''" 1 "map_option length (sr_data payload)"]
  show ?thesis by (auto simp: sync_request_fields_def items_of_def split: option.split)
qed

lemma sync_answer:
  assumes V: "struct_validator (validate E)" and w: "conn w = Idle" and run: "sync_handler E req w = Some (r, w')"
  shows "errs r {400, 409, 500} \<or> code r = 200 \<and> (\<exists>m rs. body r = Sync_Results m rs \<and> rs \<noteq> [])"
proof (cases "code r = 200")
  case True
  from w run show ?thesis
  proof (cases rule: handler_cases)
    case (ended payload hist x)
    then obtain results where x: "x = Committed results" using ends_code(2) True by blast
    then obtain w1 w2 :: sync_world where items: "process_items E (sr_model payload) (items_of payload) [] w1 = Some (Inr results, w2)"
      and b: "body r = Sync_Results ''Sync completed successfully'' results" using ended(2) by (auto simp: ends_def)
    have "results \<noteq> []" using process_items_length [OF items] accepted_has_items [OF V ended(1)] by auto
    then show ?thesis using True b by blast
  qed (use True in simp_all)
next
  case False
  have "code r \<in> {200, 400, 409, 500}" using sync_answers_idle [OF V w, of req] run by auto
  then show ?thesis using False sync_error_bodies [OF run] by (auto simp: errs_def)
qed

section \<open>The contract\<close>

text \<open>An answer with a documented status, and with a body of its schema but for null reasons.\<close>

definition answer_documented :: "api_operation \<Rightarrow> response \<Rightarrow> bool" where
  "answer_documented d r \<longleftrightarrow> (case response_schema d (code r) of
      None \<Rightarrow> False
    | Some None \<Rightarrow> code r = 204
    | Some (Some s) \<Rightarrow> (conforms s (body_json r) \<longleftrightarrow> reasons_given (body r)))"

lemma show_codes [simp]:
  "show_int 200 = ''200''" "show_int 204 = ''204''" "show_int 400 = ''400''" "show_int 401 = ''401''"
  "show_int 404 = ''404''" "show_int 409 = ''409''" "show_int 500 = ''500''" "show_int 503 = ''503''"
  by code_simp+

lemma errs_documented:
  assumes "errs r cs" and "\<forall>c \<in> cs. response_schema d c = Some (Some error_schema)"
  shows "answer_documented d r"
  using assms error_conforms message_conforms
  by (auto simp: errs_def answer_documented_def body_json_def reasons_given_def)

lemma data_documented:
  assumes "response_schema d (code r) = Some (Some (envelope_schema s))"
  shows "body r = Stats m st \<Longrightarrow> s = stats_schema \<Longrightarrow> answer_documented d r"
    and "body r = History_List m ld \<Longrightarrow> s = list_schema \<Longrightarrow> answer_documented d r"
    and "body r = History_Row m h \<Longrightarrow> s = row_schema \<Longrightarrow> answer_documented d r"
    and "body r = Health m hc \<Longrightarrow> s = health_schema \<Longrightarrow> answer_documented d r"
    and "body r = Sync_Results m rs \<Longrightarrow> rs \<noteq> [] \<Longrightarrow> s = results_schema \<Longrightarrow> answer_documented d r"
  using assms data_conforms(4) [of rs]
  by (simp_all add: answer_documented_def body_json_def reasons_given_def envelope_conforms data_conforms row_conforms)

lemma handled_documented:
  assumes V: "struct_validator (validate E)" and F: "faults_plain E" and w: "conn w = Idle"
    and d: "d \<in> set operations" "describes d m p" and r: "route_of m p = Some r"
    and run: "handle E q r w = Some (rep, w')"
  shows "\<exists>resp. rep = Answer resp \<and> answer_documented d resp"
proof -
  have out: "\<exists>resp. rep = Answer resp \<and> f = Some (resp, w')" if "answered f = Some (rep, w')" for f :: "(response \<times> sync_world) option"
    using that by (auto simp: answered_def)
  from d show ?thesis
  proof (cases rule: described_cases)
    case health
    then obtain resp where rep: "rep = Answer resp" "health_handler E w = Some (resp, w')" using run r out by (auto simp: handle_def)
    then obtain m h where "body resp = Health m h" "code resp \<in> {200, 503}" using health_answer by blast
    then show ?thesis using rep data_documented(4) health(3) by (auto simp: response_schema_def)
  next
    case sync
    then obtain resp where rep: "rep = Answer resp" "sync_handler E (rq_json q) w = Some (resp, w')" using run r out by (auto simp: handle_def)
    from sync_answer [OF V w rep(2)] show ?thesis
      using rep(1) sync(3) errs_documented [of resp "{400, 409, 500}" d] data_documented(5)
      by (auto simp: response_schema_def with_errors_def)
  next
    case listing
    then obtain resp where rep: "rep = Answer resp"
      "list_history_handler E (rq_query q ''page'') (rq_query q ''size'') (rq_query q ''status'') w = Some (resp, w')"
      using run r out by (auto simp: handle_def)
    from list_answer [OF F rep(2)] show ?thesis
      using rep(1) listing(3) errs_documented [of resp "{500}" d] data_documented(2)
      by (auto simp: response_schema_def with_errors_def)
  next
    case (retry i)
    then obtain resp where rep: "rep = Answer resp" "retry_history_handler E i w = Some (resp, w')" using run r out by (auto simp: handle_def)
    from retry_answer [OF F rep(2)] show ?thesis
      using rep(1) retry(3) errs_documented [of resp "{400, 404, 500}" d] data_documented(3)
      by (auto simp: response_schema_def with_errors_def)
  next
    case (entry i)
    then obtain resp where rep: "rep = Answer resp" "get_history_handler E i w = Some (resp, w')" using run r out by (auto simp: handle_def)
    from get_answer [OF F rep(2)] show ?thesis
      using rep(1) entry(3) errs_documented [of resp "{400, 404, 500}" d] data_documented(3)
      by (auto simp: response_schema_def with_errors_def)
  next
    case (deletion i)
    then obtain resp where rep: "rep = Answer resp" "delete_history_handler E i w = Some (resp, w')" using run r out by (auto simp: handle_def)
    from delete_answer [OF F rep(2)] have "answer_documented d resp"
    proof
      assume "errs resp {400, 404, 500}"
      from errs_documented [OF this] show ?thesis using deletion(3) by (simp add: response_schema_def with_errors_def)
    next
      assume "code resp = 204"
      then show ?thesis using deletion(3) by (simp add: answer_documented_def response_schema_def with_errors_def)
    qed
    then show ?thesis using rep(1) by blast
  next
    case stats
    then obtain resp where rep: "rep = Answer resp" "stats_handler E w = Some (resp, w')" using run r out by (auto simp: handle_def)
    from stats_answer [OF F rep(2)] show ?thesis
      using rep(1) stats(3) errs_documented [of resp "{500}" d] data_documented(1)
      by (auto simp: response_schema_def with_errors_def)
  qed
qed


text \<open>C12: Every request for a documented operation gets an answer, and a documented one: its status is among
  those of the operation, and its JSON body conforms to the schema given there, with one exception: a
  history entry without a failure reason is sent with null for it, which the schema does not allow.
  This presupposes that the driver's failures do not mention UNIQUE constraints, as an answer 409 is
  documented for a sync only.\<close>

theorem answers_are_documented:
  assumes "struct_validator (validate E)" and "faults_plain E" and "conn w = Idle"
    and "d \<in> set operations" and "describes d (rq_method q) (rq_path q)"
  shows "\<exists>resp w'. serve E tok q w = Some (Answer resp, w') \<and> answer_documented d resp"
proof (cases "auth_passes tok (rq_method q) (rq_path q) (rq_token q) (rq_text q)")
  case True
  have "\<exists>r. route_of (rq_method q) (rq_path q) = Some r" using assms(4,5) by (cases rule: described_cases) simp_all
  then obtain r where r: "route_of (rq_method q) (rq_path q) = Some r" by blast
  obtain rep w' where run: "serve E tok q w = Some (rep, w')" using serve_idle [OF assms(1,3)] by blast
  then have "handle E q r w = Some (rep, w')" using True r by (simp add: serve_def)
  from handled_documented [OF assms r this] show ?thesis using run by blast
next
  case False
  then have "op_secured d" using open_operation [OF assms(4,5)] by (cases "op_secured d") (simp_all add: auth_passes_def)
  with assms(4,5) have "response_schema d 401 = Some (Some error_schema)"
    by (cases rule: described_cases) (simp_all add: response_schema_def with_errors_def)
  then have "answer_documented d access_denied"
    by (intro errs_documented [of _ "{401}"]) (simp_all add: access_denied_def)
  then show ?thesis using False by (simp add: serve_def)
qed

lemma calm_plain: "faults_plain calm"
  using calm_no_faults by (simp add: faults_plain_def no_faults_def)

text \<open>The first entry of a log, after a sync that has stored its items.\<close>

definition stored_log :: sync_world where
  "stored_log = fresh_world\<lparr>wdb := empty_database\<lparr>sync_history := \<lparr>rows = [(7, \<lparr>h_payload = ''[]'', h_status = ''SUCCESSFUL'',
     h_failure_reason = None, h_retries = 0, h_created_at = ''2026-06-01'', h_updated_at = ''2026-06-01''\<rparr>)], seq = 7\<rparr>\<rparr>\<rparr>"

definition entry_request :: request where
  "entry_request = sample_request ''GET'' ''/api/v1/sync-history/7'' ''key''"

theorem answers_are_documented_witness:
  "\<exists>d resp w'. d \<in> set operations \<and> describes d ''GET'' ''/api/v1/sync-history/7''
    \<and> serve calm ''key'' entry_request stored_log = Some (Answer resp, w') \<and> answer_documented d resp"
proof -
  have "route_of ''GET'' ''/api/v1/sync-history/7'' = Some (R_Get ''7'')" by code_simp
  then have "\<exists>d \<in> set operations. describes d ''GET'' ''/api/v1/sync-history/7''"
    by (rule route_described) (simp add: api_route_def sync_route_def)
  then obtain d where d: "d \<in> set operations" "describes d ''GET'' ''/api/v1/sync-history/7''" by (rule bexE)
  have q: "rq_method entry_request = ''GET''" "rq_path entry_request = ''/api/v1/sync-history/7''"
    by (simp_all add: entry_request_def sample_request_def)
  have "conn stored_log = Idle" by (simp add: stored_log_def)
  from answers_are_documented [OF calm_validator calm_plain this d(1), of entry_request "''key''"] d
  show ?thesis unfolding q by blast
qed

text \<open>C15: The documented answer to a lookup does not hold for an entry that has never failed: \<open>failureReason\<close> is
  null there, where the schema has a string. So it is for every entry of a sync that succeeded.\<close>

theorem null_reasons_break_schema:
  assumes "conn w = Idle" and "fault E (calls w) = None" and "tlookup k (sync_history (wdb w)) = Some row"
    and "h_failure_reason row = None" and "parse_int i = Some k" and "fmt_ts E (h_created_at row) \<noteq> None"
    and "fmt_ts E (h_updated_at row) \<noteq> None"
  shows "\<exists>resp w'. get_history_handler E i w = Some (resp, w') \<and> code resp = 200
    \<and> \<not> conforms (envelope_schema row_schema) (body_json resp)"
proof -
  obtain r where r: "history_scan E (k, row) = Inr r" "hv_failure_reason r = None"
    using assms(4,6,7) by (auto simp: history_scan_def)
  show ?thesis using assms(1-3,5) r
    by (simp add: get_history_handler_def query_row_def history_by_id_def body_json_def envelope_conforms row_conforms)
qed

theorem null_reasons_break_schema_witness:
  "\<exists>resp w'. get_history_handler calm ''7'' stored_log = Some (resp, w')
    \<and> \<not> conforms (envelope_schema row_schema) (body_json resp)"
proof -
  have "parse_int ''7'' = Some 7" by code_simp
  moreover have "fmt_ts calm ''2026-06-01'' \<noteq> None" "fault calm (calls stored_log) = None" by code_simp+
  ultimately show ?thesis
    using null_reasons_break_schema [of stored_log calm 7 _ "''7''"]
    by (fastforce simp: stored_log_def tlookup_def)
qed

section \<open>Requests and their schema\<close>

definition request_schema :: schema where
  "request_schema = Fields [''data'', ''model''] [(''data'', Items 1 Any_Object),
     (''model'', Choice [''customers'', ''products'', ''orders'', ''employees''])]"

lemma request_read: "read_schema 20 schema_sync_request = Some request_schema"
  by code_simp

definition documented_models :: "string set" where
  "documented_models = {''customers'', ''products'', ''orders'', ''employees''}"

lemma models_unquoted: "m \<in> documented_models \<Longrightarrow> unquote m = m"
  by (rule unquote_plain) (auto simp: documented_models_def is_ascii_def)

text \<open>The members an object of this type has.\<close>

definition request_member :: "string \<times> json \<Rightarrow> bool" where
  "request_member m \<longleftrightarrow> fst m = ''data'' \<and> (\<exists>xs. snd m = JArr xs \<and> xs \<noteq> [] \<and> list_all (conforms Any_Object) xs)
     \<or> fst m = ''model'' \<and> (\<exists>t \<in> documented_models. snd m = JStr t)"

lemma conforms_request:
  "conforms request_schema v \<Longrightarrow> \<exists>ms. v = JObj ms \<and> ''data'' \<in> fst ` set ms \<and> ''model'' \<in> fst ` set ms \<and> list_all request_member ms"
proof (cases v)
  case (JObj ms)
  assume "conforms request_schema v"
  moreover have "request_member m"
    if "list_ex (\<lambda>f. fst f = fst m \<and> conforms (snd f) (snd m)) [(''data'', Items 1 Any_Object),
       (''model'', Choice [''customers'', ''products'', ''orders'', ''employees''])]" for m
    using that by (cases "snd m") (auto simp: request_member_def documented_models_def)
  ultimately show ?thesis using JObj by (auto simp: request_schema_def list_all_iff)
qed (simp_all add: request_schema_def)

text \<open>What the members read so far have set.\<close>

definition read_so_far :: "bool \<Rightarrow> bool \<Rightarrow> sync_request \<Rightarrow> bool" where
  "read_so_far m d r \<longleftrightarrow> (m \<longrightarrow> sr_model r \<in> documented_models)
     \<and> (d \<longrightarrow> (\<exists>xs. sr_data r = Some xs \<and> xs \<noteq> [] \<and> list_all (conforms Any_Object) xs))"

lemma request_fields:
  "unquote ''model'' = ''model''" "unquote ''data'' = ''data''"
  "struct_field [''model'', ''data''] ''model'' = Some ''model''" "struct_field [''model'', ''data''] ''data'' = Some ''data''"
  by code_simp+

lemma put_documented:
  "put_sync_request ''data'' (JArr xs) r = Some (r\<lparr>sr_data := Some xs\<rparr>)"
  "t \<in> documented_models \<Longrightarrow> put_sync_request ''model'' (JStr t) r = Some (r\<lparr>sr_model := t\<rparr>)"
  by (simp_all add: put_sync_request_def dec_string_def models_unquoted del: unquote.simps)

lemma decode_documented:
  "decode_members [''model'', ''data''] put_sync_request r ((''data'', JArr xs) # ms) =
     decode_members [''model'', ''data''] put_sync_request (r\<lparr>sr_data := Some xs\<rparr>) ms"
  "t \<in> documented_models \<Longrightarrow> decode_members [''model'', ''data''] put_sync_request r ((''model'', JStr t) # ms) =
     decode_members [''model'', ''data''] put_sync_request (r\<lparr>sr_model := t\<rparr>) ms"
  by (simp_all only: decode_members.simps request_fields option.case put_documented)

lemma documented_members:
  assumes "list_all request_member ms"
    and "read_so_far m d r"
  shows "\<exists>r'. decode_members [''model'', ''data''] put_sync_request r ms = Some r'
    \<and> read_so_far (m \<or> ''model'' \<in> fst ` set ms) (d \<or> ''data'' \<in> fst ` set ms) r'"
  using assms
proof (induction ms arbitrary: m d r)
  case (Cons x ms)
  obtain k v where x: "x = (k, v)" by fastforce
  consider (data) xs where "k = ''data''" "v = JArr xs" "xs \<noteq> []" "list_all (conforms Any_Object) xs"
    | (model) t where "k = ''model''" "v = JStr t" "t \<in> documented_models"
    using Cons.prems(1) x by (auto simp: request_member_def)
  then show ?case
  proof cases
    case data
    then have "read_so_far m True (r\<lparr>sr_data := Some xs\<rparr>)" using Cons.prems(2) by (simp add: read_so_far_def)
    from Cons.IH [OF _ this] show ?thesis using Cons.prems(1) x data
      by (simp add: decode_documented del: decode_members.simps)
  next
    case model
    then have "read_so_far True d (r\<lparr>sr_model := t\<rparr>)" using Cons.prems(2) by (simp add: read_so_far_def)
    from Cons.IH [OF _ this] show ?thesis using Cons.prems(1) x model
      by (simp add: decode_documented del: decode_members.simps)
  qed
qed simp

text \<open>C13: A request body of the documented type is accepted: where the validator keeps its contract, a JSON value that
  conforms to the schema of \<open>dto.SyncRequest\<close> is decoded and passes validation, with one of the documented
  models and with at least one item.\<close>

theorem documented_requests_are_accepted:
  assumes "struct_validator (validate E)" and "read_schema 20 schema_sync_request = Some s" and "conforms s v"
  shows "\<exists>payload. accepted E (Some v) = Some payload \<and> items_of payload \<noteq> []
    \<and> sr_model payload \<in> documented_models"
proof -
  obtain ms where v: "v = JObj ms" "''data'' \<in> fst ` set ms" "''model'' \<in> fst ` set ms"
    and ms: "list_all request_member ms"
    using conforms_request [of v] assms(2,3) request_read by auto
  have "read_so_far False False zero_sync_request" by (simp add: read_so_far_def)
  from documented_members [OF ms this] v(2,3) obtain payload where
    dec: "decode_sync_request v = Some payload" and ok: "read_so_far True True payload"
    by (auto simp: v(1) decode_sync_request_def decode_struct_def)
  then obtain xs where p: "sr_data payload = Some xs" "xs \<noteq> []"
    "sr_model payload \<in> documented_models" by (auto simp: read_so_far_def)
  have "plainly_holds t w" if "(f, ts, w) \<in> set (sync_request_fields payload)" "t \<in> set ts" for f ts w t
    using that p by (auto simp: sync_request_fields_def Suc_le_eq documented_models_def)
  then have "validate E (sync_request_fields payload) = []"
    by (rule struct_validator.nothing_to_report [OF assms(1)])
  then show ?thesis using dec p by (simp add: accepted_def items_of_def)
qed

theorem documented_requests_are_accepted_witness:
  "\<exists>payload. accepted calm two_customers = Some payload \<and> items_of payload \<noteq> []"
proof -
  obtain v where v: "two_customers = Some v" by (simp add: two_customers_def sync_json_def)
  have "conforms request_schema (the two_customers)" by code_simp
  then have "conforms request_schema v" by (simp only: v option.sel)
  from documented_requests_are_accepted [OF calm_validator request_read this] show ?thesis unfolding v by blast
qed

end
