(* ===== verification/Token_Guard.thy ===== *)
theory Token_Guard
  imports Server Api_Bodies
begin

text \<open>
  What the token guards on the way to the GraphQL endpoint: the middleware looks for words in the text of the
  body, the endpoint reads the document that this text encodes.
\<close>

definition graphql_post :: "string \<Rightarrow> string \<Rightarrow> request" where
  "graphql_post hdr text = \<lparr>rq_method = ''POST'', rq_path = ''/graphql'', rq_token = hdr, rq_query = (\<lambda>k. None),
     rq_text = text, rq_json = None\<rparr>"

text \<open>The JSON object with a document, given the text of its string literal.\<close>

definition graphql_body :: "string \<Rightarrow> string" where
  "graphql_body txt = CHR ''{'' # CHR 0x22 # ''query'' @ CHR 0x22 # CHR '':'' # CHR 0x22 # txt @ CHR 0x22 # ''}''"

text \<open>A literal may give any of its characters as a Unicode escape.\<close>

definition escaped_char :: "char \<Rightarrow> string" where
  "escaped_char c = CHR 0x5C # ''u00'' @ [hex_digit (byte c div 16), hex_digit (byte c mod 16)]"

definition escaped_text :: "string \<Rightarrow> string" where
  "escaped_text doc = concat (map escaped_char doc)"

lemma hex_digits:
  assumes "n < 16"
  shows "hex_value (hex_digit n) = Some n" and "hex_digit n \<noteq> CHR ''t''"
proof -
  have b: "byte (hex_digit n) = (if n < 10 then 48 + n else 87 + n)" using assms by (simp add: hex_digit_def)
  then show "hex_value (hex_digit n) = Some n" using assms by (simp add: hex_value_def is_digit_def)
  have "byte (hex_digit n) < 103" using b assms by simp
  then show "hex_digit n \<noteq> CHR ''t''" by auto
qed

lemma unquote_escaped_char:
  assumes "byte c < 128"
  shows "unquote (escaped_char c @ s) = c # unquote s"
proof -
  have zero: "hex_value CHR ''0'' = Some 0" by code_simp
  have "byte c div 16 < 16" "byte c mod 16 < 16" using assms by simp_all
  then have "getu4 (escaped_char c @ s) = Some (byte c)"
    using hex_digits(1) by (simp add: getu4_def escaped_char_def zero)
  moreover have "encode_rune (byte c) = [c]" using assms by (simp add: encode_rune_def)
  ultimately show ?thesis using assms by (simp add: escaped_char_def is_surrogate_def)
qed

lemma unquote_escaped: "is_ascii doc \<Longrightarrow> unquote (escaped_text doc) = doc"
  by (induction doc) (simp_all add: escaped_text_def is_ascii_def unquote_escaped_char del: unquote.simps(2))

text \<open>None of the words the guard looks for can do without the letter t, and no escape needs it.\<close>

lemma escaped_unguarded:
  assumes "is_ascii doc"
  shows "\<not> guarded_mutation (graphql_body (escaped_text doc))"
proof -
  have "CHR ''t'' \<notin> set (escaped_char c)" if "byte c < 128" for c
  proof -
    have n: "byte c div 16 < 16" "byte c mod 16 < 16" using that by simp_all
    show ?thesis using hex_digits(2) [OF n(1)] hex_digits(2) [OF n(2)] by (auto simp: escaped_char_def)
  qed
  then have "CHR ''t'' \<notin> set (escaped_text doc)" using assms by (auto simp: escaped_text_def is_ascii_def list_all_iff)
  then have "CHR ''t'' \<notin> set (graphql_body (escaped_text doc))" by (simp add: graphql_body_def)
  then have "\<not> contains (graphql_body (escaped_text doc)) w" if "CHR ''t'' \<in> set w" for w
    using that by (auto simp: contains_iff)
  then show ?thesis by (simp add: guarded_mutation_def)
qed

lemma graphql_post_served:
  assumes "token_fails tok hdr"
  shows "serve E tok (graphql_post hdr text) w =
      (if guarded_mutation text then Some (Answer access_denied, w) else Some (Handed_To ''gqlgen'', w))"
proof -
  have "route_of ''POST'' ''/graphql'' = Some R_Graphql" by code_simp
  then show ?thesis using assms by (simp add: serve_def auth_passes_def graphql_post_def handle_def)
qed

text \<open>C25: Without the token a POST to \<open>/graphql\<close> is refused exactly when its text holds the word \<open>createEmployee\<close>, or
  both \<open>mutation\<close> and \<open>create\<close>; so it is not for the mutations that update and delete employees. And the words are
  no obstacle: each document in ASCII, a mutation that creates employees as well, has a JSON text that decodes to it
  and is handed to the endpoint. A GET to the endpoint always is.\<close>

theorem employee_guard_gaps:
  assumes "token_fails tok hdr"
  shows "(serve E tok (graphql_post hdr text) w = Some (Answer access_denied, w) \<longleftrightarrow>
        contains text ''createEmployee'' \<or> contains text ''mutation'' \<and> contains text ''create'')
    \<and> (is_ascii doc \<longrightarrow> (\<exists>txt. unquote txt = doc
        \<and> serve E tok (graphql_post hdr (graphql_body txt)) w = Some (Handed_To ''gqlgen'', w)))
    \<and> serve E tok ((graphql_post hdr text)\<lparr>rq_method := ''GET''\<rparr>) w = Some (Handed_To ''gqlgen'', w)"
proof -
  have "\<exists>txt. unquote txt = doc \<and> serve E tok (graphql_post hdr (graphql_body txt)) w = Some (Handed_To ''gqlgen'', w)" if "is_ascii doc"
    using unquote_escaped [OF that] escaped_unguarded [OF that] graphql_post_served [OF assms] by auto
  moreover have "route_of ''GET'' ''/graphql'' = Some R_Graphql" by code_simp
  then have "serve E tok ((graphql_post hdr text)\<lparr>rq_method := ''GET''\<rparr>) w = Some (Handed_To ''gqlgen'', w)"
    by (simp add: serve_def auth_passes_def graphql_post_def handle_def)
  ultimately show ?thesis by (simp add: graphql_post_served [OF assms] guarded_mutation_def)
qed

theorem employee_guard_gaps_witness:
  "\<exists>txt. unquote txt = ''mutation { createEmployee(data: {id: 1}) { id } }''
    \<and> serve calm ''key'' (graphql_post [] (graphql_body txt)) fresh_world = Some (Handed_To ''gqlgen'', fresh_world)"
proof -
  have "is_ascii ''mutation { createEmployee(data: {id: 1}) { id } }''" by code_simp
  moreover have "token_fails ''key'' []" by (simp add: token_fails_def)
  ultimately show ?thesis using employee_guard_gaps [of "''key''" "[]" calm "[]" fresh_world] by blast
qed

end
