(* ===== verification/Spec2Isabelle.thy ===== *)
theory Spec2Isabelle
  imports Sync_Stored Graphql_Queries Graphql_Nulls Lifecycle Api_Contract Token_Guard
begin

text \<open>
  A verification of \<open>sync-bridge-go\<close>, a service that stores batches of customers, products, orders
  and employees in SQLite (\<open>POST /api/v1/sync\<close>), keeps a history of these batches, and offers the
  employees through GraphQL. All paths below are relative to \<open>src/sync-bridge-go\<close>.

  \<^bold>\<open>The program and its model.\<close> \<open>cmd/server/main.go\<close> opens the database, runs the migrations, and puts
  the request-id and token middleware in front of the REST handlers and the GraphQL endpoint. All
  handlers share one \<open>sql.DB\<close> with a single connection; the GraphQL resolvers also share a broker that
  hands new employees to subscriptions. The model follows the calls:

  \<^item> \<open>Prelude\<close>: 64-bit arithmetic and the rule collections; \<open>Go_Text\<close>, \<open>Json_Values\<close>, \<open>Go_Time\<close>,
    \<open>Float_Pages\<close>: the parts of Go's \<open>strings\<close>, \<open>strconv\<close>, \<open>encoding/json\<close>, \<open>time\<close> and float division that
    the code uses, with \<open>parseTime\<close> and the round trip of its four layouts.
  \<^item> \<open>Validation\<close>, \<open>App_Errors\<close>, \<open>Dto_Types\<close>: the contract of the struct validator,
    \<open>internal/errors/errors.go\<close> and \<open>internal/dto/dto.go\<close>.
  \<^item> \<open>Row_Store\<close>, \<open>Schema_Sql\<close>, \<open>Sql_Integrity\<close>, \<open>Sql_Driver\<close>, \<open>Environment\<close>: the tables of
    \<open>internal/db/migrations/001_init.sql\<close>, each SQL statement of the handlers as a function on the database
    with its constraint errors, the connection (idle, in a transaction, held by open rows) and the
    calls of \<open>database/sql\<close>, \<open>InitDB\<close> of \<open>internal/db/db.go\<close>.
  \<^item> \<open>Sync_Items\<close>, \<open>Sync_Handler\<close>: \<open>internal/handlers/sync.go\<close>, with the counters of
    \<open>internal/metrics/metrics.go\<close>; \<open>Sync_Items_Facts\<close>, \<open>Sync_Props\<close>, \<open>Sync_Correct\<close>, \<open>Sync_Stored\<close>: what it promises.
  \<^item> \<open>History_Handlers\<close>, \<open>Health_Handler\<close>, \<open>Http_Types\<close>: \<open>internal/handlers/history.go\<close> and \<open>health.go\<close>;
    \<open>History_Props\<close>: what they promise.
  \<^item> \<open>Middleware\<close>, \<open>Server\<close>: \<open>internal/middleware\<close>, \<open>internal/config\<close> and the routes of \<open>main\<close>; a
    request passes the middleware and then reaches its handler (\<open>serve\<close>); \<open>Token_Guard\<close>: which requests to the
    GraphQL endpoint need the token, and how the words it looks for can be spelt.
  \<^item> \<open>Employee_Broker\<close>, \<open>Employee_Resolvers\<close>, \<open>Employee_Props\<close>: \<open>graph/resolver.go\<close>,
    \<open>graph/schema.resolvers.go\<close> over \<open>graph/model/models_gen.go\<close>.
  \<^item> \<open>Service\<close>: start-up, and the steps a running service can take in any order, with its invariants.
  \<^item> \<open>Graphql_Runtime\<close>, \<open>Graphql_Input\<close>, \<open>Graphql_Fields\<close>, \<open>Graphql_Exec\<close>, \<open>Graphql_Complexity\<close>:
    \<open>graph/generated.go\<close>, the executor between a GraphQL request and the resolvers; \<open>Graphql_Meta\<close>,
    \<open>Graphql_Meta_Objects\<close>: its introspection; \<open>Graphql_Facts\<close>, \<open>Graphql_Service\<close>, \<open>Graphql_Meta_Facts\<close>,
    \<open>Graphql_Meta_Views\<close>, \<open>Graphql_Sample\<close>: what they share, the references they are compared with and the
    runtime of the witnesses; \<open>Graphql_Props\<close>, \<open>Graphql_Queries\<close>, \<open>Graphql_Nulls\<close>: what they promise.
  \<^item> \<open>Interleaving\<close>: the handlers and resolvers again, cut into the sections in which they hold the connection;
    \<open>Concurrent\<close>: the service with any number of such calls in flight, and that each of them is safe;
    \<open>Concurrent_Runs\<close>, \<open>Concurrent_Effects\<close>, \<open>Concurrent_Sync\<close>: its invariants and that it includes the sequential service,
    updates that overlap, syncs that are overtaken; \<open>Lifecycle\<close>: the process from its start to its exit, and
    the next start on the database it has left behind.
  \<^item> \<open>Api_Document\<close>: \<open>docs/docs.go\<close>, the published description of the REST interface; \<open>Api_Bodies\<close>: the JSON of the
    answers; \<open>Api_Schema\<close>, \<open>Api_Contract\<close>: what the description promises, and that the service keeps to it.

  \<^bold>\<open>State and errors.\<close> The state of the REST side is the record \<open>sync_world\<close>: database, connection,
  whether foreign keys are enforced, the number of database calls made, and the metrics; the service
  (\<open>app\<close>) adds the broker with its open subscriptions. An operation takes the state and returns its
  answer with the new state; an answer is a sum, its left side the Go error. \<open>None\<close> stands for a request
  that never comes back: it waits for the connection it holds itself, or panics where nothing
  recovers. In the executor a panic is a result of its own, as it is recovered there.

  \<^bold>\<open>What is taken from outside\<close> is a parameter. The record \<open>env\<close> holds clocks, UUIDs, case mapping beyond
  ASCII, the validator, SQLite's formatting, and which database calls fail; its numbering of calls
  lets any call of a run fail on its own. The record \<open>runtime\<close> holds the gqlgen functions the generated code
  calls, \<open>introspection\<close> what it reads of gqlgen's description of the schema. Where a property relies on them it names what: \<open>struct_validator\<close>, \<open>names_unique\<close>,
  \<open>no_faults\<close>, \<open>faults_plain\<close>, \<open>commits_clean\<close>, \<open>gqlgen\<close>, \<open>typed\<close>. The witnesses run on \<open>calm\<close> (no fault, the reference
  validator) and \<open>sample_runtime\<close>, which are shown to satisfy these contracts.

  \<^bold>\<open>The interfaces.\<close> \<open>keyed_rows\<close> and \<open>unique_rows\<close> are the tables as the statements use them,
  interpreted on both kinds of tables and on the four UNIQUE columns; \<open>tx_invariant\<close>, \<open>sync_invariant\<close>,
  \<open>service_invariant\<close> and \<open>app_invariant\<close> lift what every statement keeps to items, syncs, requests and
  the running service, with one request at a time or with calls that overlap, interpreted for the
  integrity of the database, for the soundness of the history and for a history entry that waits for a retry; \<open>mailbox\<close> is the channel of a subscription; \<open>gqlgen\<close> is the contract of the runtime, and
  \<open>app_relation\<close>, \<open>service_reads\<close>, \<open>service_writes\<close> lift a relation on services from the resolvers to whole
  operations, interpreted for equality, for reachability and for reading only.

  \<^bold>\<open>What the properties say.\<close> A sync answers every request, stores all of its items or none, keeps keys
  and references sound, and leaves one history row with its outcome; its orders have the checked
  amounts. The history endpoints answer with what the table holds, page by page. No request for
  sync data passes without the token. In every state the service reaches, whatever fails, the
  connection is free, the history is sound, and the database is consistent as long as the
  connection that had foreign keys switched on is alive. All this also holds between the sections of
  overlapping calls, each of which is answered after at most three of its own; a sync among them still
  stores all of its items in one section or none in any. After a signal the calls in flight come to
  an end, three sections each at most; the server exits cleanly once they are answered, or with an error
  when five seconds are over, and however it exits the next start finds a consistent database, as long as
  the pool has not replaced the connection. A sync that is cut off between its commit and its last
  statement keeps its items and an entry that stays PENDING_RETRY in all later lives until it is deleted. Mutations store, return and publish, or
  report and change nothing; subscriptions read in order and the broker never panics. A GraphQL
  operation is a sequence of service steps; a query answers with what the database holds in whatever
  order its fields run, and nulls propagate as the schema says. The generated code can describe the schema,
  which \<open>query_answers\<close> covers for a runtime that does; \<open>main\<close> leaves introspection off, and then such fields are
  refused one by one (\<open>introspection_is_refused\<close>). The REST interface is
  the documented one: its routes, which of them ask for the token, the requests it accepts, and the status and body of each answer. Where the code falls short of its
  comments or of the documentation, the property states what it does (\<open>employee_guard_gaps\<close>,
  \<open>retry_resets_failed\<close>, \<open>recycled_connection_breaks_integrity\<close>, \<open>failed_mutation_keeps_effects\<close>,
  \<open>overlapping_updates_lose_changes\<close>, \<open>introspection_is_refused\<close>, \<open>null_reasons_break_schema\<close>, \<open>interrupted_sync_stays_pending\<close>).

  \<^bold>\<open>Bounds.\<close> Go's \<open>int\<close> and \<open>int64\<close> are integers with the wrap-around written out (\<open>wrap64\<close>); the random id
  of an employee is computed on \<open>64 word\<close>. Loops run over the items of a
  request, the rows of a result or the fields of a selection. Fuel is needed for introspection, as types
  refer to types: \<open>meta_Type\<close> has it for each nested type of a selection, and \<open>query_answers\<close> shows
  that fuel for the nesting is enough and more changes nothing (\<open>n \<le> m\<close>), and the reading of the documented schemas, for which
  twenty steps are shown to be enough (\<open>operations_read\<close>). The page count of the history is exact below
  \<open>2 ^ 53\<close> entries, where float division is.

  \<^bold>\<open>Not modelled.\<close> Marshallers of \<open>graph/generated.go\<close> that no field uses, its embedded schema, and the
  map of deferred fragments, which the generated code never fills. A commit that SQLite refuses because
  another process holds the file, which would leave the transaction open; the file belongs to this
  process. SQLite's error for a search pattern of more than 50000 bytes. Members of a JSON object beyond
  those the API document names, which Swagger allows: \<open>conforms\<close> forbids them, so that requests with them
  are not covered. Logging, the \<open>.env\<close> file, and the transport of GraphQL requests (HTTP, websocket, parsing and
  validation of documents): third-party code. What a handler does in memory between two
  database calls counts to the section before; a client that goes away is a call of the driver that fails.
  The tests and the other languages' services are not part of this program.
\<close>

end
